(* ===== verification/Prelude.thy ===== *)
theory Prelude
  imports Main "HOL-Library.AList" "HOL-Library.Word"
begin

text \<open>
  Shared vocabulary of the development: identifiers, hash maps, machine integers, the Rust
  string functions the sources call, and the generic lemmas about them that the component
  theories use.

  \<^item> A \<^verbatim>\<open>Uuid\<close> is a 128-bit value that the code compares, sorts and prints; \<open>uuid\<close> wraps a
    \<open>128 word\<close> and inherits its order.
  \<^item> A \<^verbatim>\<open>HashMap\<close> or \<^verbatim>\<open>DashMap\<close> is an association list with distinct keys (\<open>hm_wf\<close>). Lookup,
    insertion and removal depend on the keys only; the order of the list stands for the
    iteration order, which Rust leaves unspecified, so no theorem relies on it.
  \<^item> An \<^verbatim>\<open>Instant\<close> is a natural number of milliseconds read from one monotonic clock, passed to
    an operation as the argument \<open>now\<close>.
  \<^item> A Rust string is a list of characters; a HOL character stands for the code point with its
    number (0 to 255), and \<open>str_len\<close> counts UTF-8 bytes as \<^verbatim>\<open>str::len\<close> does.
\<close>

section \<open>Identifiers\<close>

datatype uuid = Uuid (uuid_bits: "128 word")

instantiation uuid :: linorder
begin

definition less_eq_uuid :: "uuid \<Rightarrow> uuid \<Rightarrow> bool" where
  "less_eq_uuid a b \<longleftrightarrow> uuid_bits a \<le> uuid_bits b"

definition less_uuid :: "uuid \<Rightarrow> uuid \<Rightarrow> bool" where
  "less_uuid a b \<longleftrightarrow> uuid_bits a < uuid_bits b"

instance
  by standard (auto simp: less_eq_uuid_def less_uuid_def uuid.expand)

end

type_synonym instant = nat

section \<open>JSON values\<close>

text \<open>
  \<^verbatim>\<open>serde_json::Value\<close>. Numbers are integers: the sources build no others. An object is an
  association list, read with \<open>map_of\<close> as \<^verbatim>\<open>Value::get\<close> does.
\<close>

datatype json =
    JNull
  | JBool bool
  | JNumber int
  | JString string
  | JArray "json list"
  | JObject "(string \<times> json) list"

fun json_get :: "string \<Rightarrow> json \<Rightarrow> json option" where
  "json_get key (JObject fields) = map_of fields key"
| "json_get key _ = None"

fun json_as_str :: "json \<Rightarrow> string option" where
  "json_as_str (JString s) = Some s"
| "json_as_str _ = None"

fun json_as_bool :: "json \<Rightarrow> bool option" where
  "json_as_bool (JBool b) = Some b"
| "json_as_bool _ = None"

section \<open>Named collections\<close>

named_theorems hm_simps "lookup, insertion and removal in hash maps"
named_theorems preserves "operations that keep a component's invariant"

section \<open>Hash maps\<close>

type_synonym ('k, 'v) hm = "('k \<times> 'v) list"

abbreviation hm_get :: "('k, 'v) hm \<Rightarrow> 'k \<Rightarrow> 'v option" where
  "hm_get \<equiv> map_of"

abbreviation hm_insert :: "'k \<Rightarrow> 'v \<Rightarrow> ('k, 'v) hm \<Rightarrow> ('k, 'v) hm" where
  "hm_insert \<equiv> AList.update"

abbreviation hm_remove :: "'k \<Rightarrow> ('k, 'v) hm \<Rightarrow> ('k, 'v) hm" where
  "hm_remove \<equiv> AList.delete"

abbreviation hm_keys :: "('k, 'v) hm \<Rightarrow> 'k list" where
  "hm_keys m \<equiv> map fst m"

abbreviation hm_values :: "('k, 'v) hm \<Rightarrow> 'v list" where
  "hm_values m \<equiv> map snd m"

definition hm_wf :: "('k, 'v) hm \<Rightarrow> bool" where
  "hm_wf m \<longleftrightarrow> distinct (hm_keys m)"

text \<open>
  \<^verbatim>\<open>get_mut\<close> followed by an in-place change, and \<^verbatim>\<open>entry(k).and_modify(f)\<close>: nothing happens
  when the key is absent.
\<close>

definition hm_modify :: "'k \<Rightarrow> ('v \<Rightarrow> 'v) \<Rightarrow> ('k, 'v) hm \<Rightarrow> ('k, 'v) hm" where
  "hm_modify k f m = (case hm_get m k of None \<Rightarrow> m | Some v \<Rightarrow> hm_insert k (f v) m)"

lemma hm_get_insert [simp, hm_simps]: "hm_get (hm_insert k v m) = (hm_get m)(k \<mapsto> v)"
  by (rule AList.update_conv')

lemma hm_get_remove [simp, hm_simps]: "hm_get (hm_remove k m) = (hm_get m)(k := None)"
  by (rule AList.delete_conv')

lemma hm_get_modify [simp, hm_simps]:
  "hm_get (hm_modify k f m) = (hm_get m)(k := map_option f (hm_get m k))"
  by (auto simp: hm_modify_def fun_eq_iff split: option.splits)

lemma hm_wf_Nil [simp]: "hm_wf []"
  by (simp add: hm_wf_def)

lemma hm_wf_insert [simp, intro]: "hm_wf m \<Longrightarrow> hm_wf (hm_insert k v m)"
  by (simp add: hm_wf_def AList.distinct_update)

lemma hm_wf_remove [simp, intro]: "hm_wf m \<Longrightarrow> hm_wf (hm_remove k m)"
  by (simp add: hm_wf_def AList.distinct_delete)

lemma hm_wf_modify [simp, intro]: "hm_wf m \<Longrightarrow> hm_wf (hm_modify k f m)"
  by (simp add: hm_modify_def split: option.splits)

lemma hm_keys_modify [simp]: "set (hm_keys (hm_modify k f m)) = set (hm_keys m)"
  by (auto simp: hm_modify_def dom_map_of_conv_image_fst [symmetric] split: option.splits)

lemma hm_get_iff_mem: "hm_wf m \<Longrightarrow> hm_get m k = Some v \<longleftrightarrow> (k, v) \<in> set m"
  by (auto simp: hm_wf_def dest: map_of_SomeD intro: map_of_is_SomeI)

lemma hm_values_iff: "hm_wf m \<Longrightarrow> v \<in> set (hm_values m) \<longleftrightarrow> (\<exists>k. hm_get m k = Some v)"
  by (force simp: hm_get_iff_mem image_iff)

lemma hm_key_mem_iff: "k \<in> set (hm_keys m) \<longleftrightarrow> hm_get m k \<noteq> None"
  by (auto simp: map_of_eq_None_iff)

text \<open>Removing every key of a list, as the clean-up loops do.\<close>

lemma hm_get_remove_all:
  "hm_get (fold hm_remove ks m) = (\<lambda>k. if k \<in> set ks then None else hm_get m k)"
  by (induction ks arbitrary: m) (auto simp: fun_eq_iff)

lemma hm_wf_remove_all [simp, intro]: "hm_wf m \<Longrightarrow> hm_wf (fold hm_remove ks m)"
  by (induction ks arbitrary: m) auto

section \<open>Machine integers\<close>

text \<open>
  An \<^verbatim>\<open>i64\<close> is an \<open>int\<close>; the operations that can overflow say what happens there.
  \<^verbatim>\<open>AtomicI64::fetch_add\<close> wraps in two's complement.
\<close>

definition i64_max :: int where
  "i64_max = 9223372036854775807"

definition i64_min :: int where
  "i64_min = - 9223372036854775808"

definition wrap_i64 :: "int \<Rightarrow> int" where
  "wrap_i64 x = (x - i64_min) mod 18446744073709551616 + i64_min"

lemma wrap_i64_id [simp]: "i64_min \<le> x \<Longrightarrow> x \<le> i64_max \<Longrightarrow> wrap_i64 x = x"
  by (simp add: wrap_i64_def i64_min_def i64_max_def)

lemma wrap_i64_bounds: "i64_min \<le> wrap_i64 x \<and> wrap_i64 x \<le> i64_max"
proof -
  have "0 \<le> (x - i64_min) mod 18446744073709551616"
    and "(x - i64_min) mod 18446744073709551616 < 18446744073709551616"
    by simp_all
  then show ?thesis by (simp add: wrap_i64_def i64_min_def i64_max_def)
qed

text \<open>Counting up a word that is below another one does not wrap.\<close>

lemma unat_inc:
  assumes "unat (a :: 'a::len word) < unat (b :: 'a word)"
  shows "unat (a + 1) = unat a + 1"
proof -
  have "unat b < 2 ^ LENGTH('a)" using unsigned_less [of b, where ?'a = nat] by simp
  with assms have "Suc (unat a) < 2 ^ LENGTH('a)" by linarith
  then show ?thesis by (simp add: unat_word_ariths)
qed

section \<open>Vectors\<close>

text \<open>\<^verbatim>\<open>Vec::retain(|x| x != v)\<close>.\<close>

abbreviation retain_ne :: "'a \<Rightarrow> 'a list \<Rightarrow> 'a list" where
  "retain_ne v xs \<equiv> filter (\<lambda>x. x \<noteq> v) xs"

text \<open>Push unless already present.\<close>

definition push_new :: "'a \<Rightarrow> 'a list \<Rightarrow> 'a list" where
  "push_new v xs = (if v \<in> set xs then xs else xs @ [v])"

lemma set_push_new [simp]: "set (push_new v xs) = insert v (set xs)"
  by (auto simp: push_new_def)

lemma distinct_push_new [simp]: "distinct (push_new v xs) = distinct xs"
  by (auto simp: push_new_def)

section \<open>Strings\<close>

definition code_point :: "char \<Rightarrow> nat" where
  "code_point c = of_char c"

text \<open>\<^verbatim>\<open>char::is_whitespace\<close> on the code points below 256.\<close>

definition is_whitespace :: "char \<Rightarrow> bool" where
  "is_whitespace c \<longleftrightarrow>
     (9 \<le> code_point c \<and> code_point c \<le> 13) \<or> code_point c = 32 \<or>
     code_point c = 133 \<or> code_point c = 160"

definition trim :: "string \<Rightarrow> string" where
  "trim s = rev (dropWhile is_whitespace (rev (dropWhile is_whitespace s)))"

definition ascii_lower :: "char \<Rightarrow> char" where
  "ascii_lower c = (if 65 \<le> code_point c \<and> code_point c \<le> 90 then char_of (code_point c + 32) else c)"

definition to_ascii_lowercase :: "string \<Rightarrow> string" where
  "to_ascii_lowercase s = map ascii_lower s"

definition eq_ignore_ascii_case :: "string \<Rightarrow> string \<Rightarrow> bool" where
  "eq_ignore_ascii_case a b \<longleftrightarrow> to_ascii_lowercase a = to_ascii_lowercase b"

text \<open>\<^verbatim>\<open>str::split\<close> with a character predicate: always at least one piece.\<close>

fun split_on :: "(char \<Rightarrow> bool) \<Rightarrow> string \<Rightarrow> string list" where
  "split_on p [] = [[]]"
| "split_on p (c # cs) =
     (if p c then [] # split_on p cs
      else (case split_on p cs of [] \<Rightarrow> [[c]] | w # ws \<Rightarrow> (c # w) # ws))"

definition strip_prefix :: "string \<Rightarrow> string \<Rightarrow> string option" where
  "strip_prefix p s = (if take (length p) s = p then Some (drop (length p) s) else None)"

fun contains_str :: "string \<Rightarrow> string \<Rightarrow> bool" where
  "contains_str pat [] = (pat = [])"
| "contains_str pat (c # cs) = (take (length pat) (c # cs) = pat \<or> contains_str pat cs)"

text \<open>\<^verbatim>\<open>str::split_once\<close>: around the first occurrence of the pattern.\<close>

fun split_once :: "string \<Rightarrow> string \<Rightarrow> (string \<times> string) option" where
  "split_once pat [] = (if pat = [] then Some ([], []) else None)"
| "split_once pat (c # cs) =
     (if take (length pat) (c # cs) = pat then Some ([], drop (length pat) (c # cs))
      else map_option (\<lambda>(l, r). (c # l, r)) (split_once pat cs))"

text \<open>\<^verbatim>\<open>str::len\<close>: bytes of the UTF-8 encoding.\<close>

definition str_len :: "string \<Rightarrow> nat" where
  "str_len s = sum_list (map (\<lambda>c. if code_point c < 128 then 1 else 2) s)"

text \<open>\<^verbatim>\<open>str::parse::<i64>\<close>: an optional sign and at least one digit, in range.\<close>

definition digit_value :: "char \<Rightarrow> nat option" where
  "digit_value c = (if 48 \<le> code_point c \<and> code_point c \<le> 57 then Some (code_point c - 48) else None)"

fun parse_digits :: "string \<Rightarrow> nat \<Rightarrow> nat option" where
  "parse_digits [] acc = Some acc"
| "parse_digits (c # cs) acc =
     (case digit_value c of None \<Rightarrow> None | Some d \<Rightarrow> parse_digits cs (10 * acc + d))"

definition parse_i64 :: "string \<Rightarrow> int option" where
  "parse_i64 s =
     (let (neg, digits) = (case s of
          c # cs \<Rightarrow> if c = CHR ''-'' then (True, cs) else if c = CHR ''+'' then (False, cs) else (False, s)
        | [] \<Rightarrow> (False, []))
      in if digits = [] then None
         else (case parse_digits digits 0 of
                 None \<Rightarrow> None
               | Some n \<Rightarrow> (let v = (if neg then - int n else int n)
                           in if i64_min \<le> v \<and> v \<le> i64_max then Some v else None)))"

text \<open>\<^verbatim>\<open>Display\<close> of an unsigned integer: decimal digits.\<close>

fun show_nat :: "nat \<Rightarrow> string" where
  "show_nat n = (if n < 10 then [char_of (48 + n)] else show_nat (n div 10) @ [char_of (48 + n mod 10)])"

declare show_nat.simps [simp del]

lemma trim_Nil [simp]: "trim [] = []"
  by (simp add: trim_def)

lemma split_on_not_Nil [simp]: "split_on p s \<noteq> []"
  by (induction s) (auto split: list.splits)

lemma split_on_none: "\<forall>c \<in> set s. \<not> p c \<Longrightarrow> split_on p s = [s]"
  by (induction s) auto

lemma split_on_append_sep:
  "\<forall>c \<in> set s. \<not> p c \<Longrightarrow> p x \<Longrightarrow> split_on p (s @ x # t) = s # split_on p t"
  by (induction s) auto

lemma split_on_pieces: "w \<in> set (split_on p s) \<Longrightarrow> \<forall>c \<in> set w. \<not> p c"
  by (induction s arbitrary: w) (fastforce split: list.splits if_splits)+

lemma strip_prefix_append [simp]: "strip_prefix p (p @ s) = Some s"
  by (simp add: strip_prefix_def)

lemma strip_prefix_Some: "strip_prefix p s = Some t \<longleftrightarrow> s = p @ t"
  by (auto simp: strip_prefix_def split: if_splits) (metis append_take_drop_id)

lemma trim_append_rest:
  "dropWhile is_whitespace s = trim s @ rev (takeWhile is_whitespace (rev (dropWhile is_whitespace s)))"
  unfolding trim_def by (metis rev_append rev_rev_ident takeWhile_dropWhile_id)

lemma trim_hd: "trim s = c # cs \<Longrightarrow> \<not> is_whitespace c"
  using trim_append_rest [of s] hd_dropWhile [of is_whitespace s]
  by (metis append_Cons dropWhile_eq_Nil_conv list.distinct(1) list.sel(1))

end
