(* ===== verification/Machine.thy ===== *)
theory Machine
  imports Prelude
begin

text \<open>
  State machines. A component's atomic operations are the labels of a step relation; \<open>reach\<close>
  gives the states that some interleaving of them can produce. The locale \<open>safe_machine\<close> is
  the contract every stateful component proves of its model: the invariant holds initially
  and each step keeps it.
\<close>

inductive reach :: "('s \<Rightarrow> bool) \<Rightarrow> ('s \<Rightarrow> 'e \<Rightarrow> 's \<Rightarrow> bool) \<Rightarrow> 's \<Rightarrow> bool"
  for init step where
  reach_init: "init s \<Longrightarrow> reach init step s"
| reach_step: "reach init step s \<Longrightarrow> step s e t \<Longrightarrow> reach init step t"

inductive steps :: "('s \<Rightarrow> 'e \<Rightarrow> 's \<Rightarrow> bool) \<Rightarrow> 's \<Rightarrow> 'e list \<Rightarrow> 's \<Rightarrow> bool"
  for step where
  steps_Nil: "steps step s [] s"
| steps_Cons: "step s e t \<Longrightarrow> steps step t es u \<Longrightarrow> steps step s (e # es) u"

inductive_cases steps_NilE: "steps step s [] t"
inductive_cases steps_ConsE: "steps step s (e # es) t"

lemma reach_steps: "steps step s es t \<Longrightarrow> reach init step s \<Longrightarrow> reach init step t"
  by (induction rule: steps.induct) (auto intro: reach_step)

locale safe_machine =
  fixes init :: "'s \<Rightarrow> bool"
    and step :: "'s \<Rightarrow> 'e \<Rightarrow> 's \<Rightarrow> bool"
    and inv :: "'s \<Rightarrow> bool"
  assumes init_safe: "init s \<Longrightarrow> inv s"
    and step_safe: "inv s \<Longrightarrow> step s e t \<Longrightarrow> inv t"
begin

lemma reach_safe: "reach init step s \<Longrightarrow> inv s"
  by (induction rule: reach.induct) (auto intro: init_safe step_safe)

lemma steps_safe: "steps step s es t \<Longrightarrow> inv s \<Longrightarrow> inv t"
  by (induction rule: steps.induct) (auto intro: step_safe)

lemma reach_weaken:
  assumes "\<And>s. inv s \<Longrightarrow> P s" and "reach init step s"
  shows "P s"
  using assms reach_safe by blast

end

end
