(* ===== verification/Connection_Store.thy ===== *)
theory Connection_Store
  imports Machine
begin

text \<open>
  Session resumption for WebSocket connections: \<^verbatim>\<open>backend/src/realtime/connection_store.rs\<close>.

  A \<open>connection_state\<close> keeps the sequence counter and the ring buffer of the last 128
  messages of one connection; the \<open>connection_store\<close> indexes the states by connection id and
  the ids by user. Each operation takes the time \<open>now\<close> it runs at; the identifier that
  \<^verbatim>\<open>Uuid::new_v4().to_string()\<close> yields is the argument \<open>new_id\<close>. JSON payloads are a type
  parameter, since the store never looks inside them.
\<close>

section \<open>One connection\<close>

definition CONNECTION_TTL :: nat where
  "CONNECTION_TTL = 300000"

definition MESSAGE_BUFFER_SIZE :: nat where
  "MESSAGE_BUFFER_SIZE = 128"

record 'v sequenced_message =
  sm_seq :: int
  sm_message :: 'v
  sm_timestamp :: instant

record 'v connection_state =
  cs_connection_id :: string
  cs_user_id :: uuid
  cs_team_ids :: "uuid list"
  cs_channel_ids :: "uuid list"
  cs_sequence :: int
  cs_message_buffer :: "'v sequenced_message list"
  cs_last_activity :: instant
  cs_is_active :: bool

definition connection_state_new :: "instant \<Rightarrow> string \<Rightarrow> uuid \<Rightarrow> int \<Rightarrow> 'v connection_state" where
  "connection_state_new now connection_id user_id initial_seq =
     \<lparr>cs_connection_id = connection_id, cs_user_id = user_id, cs_team_ids = [], cs_channel_ids = [],
      cs_sequence = initial_seq, cs_message_buffer = [], cs_last_activity = now,
      cs_is_active = True\<rparr>"

definition next_sequence :: "'v connection_state \<Rightarrow> int \<times> 'v connection_state" where
  "next_sequence st = (cs_sequence st, st\<lparr>cs_sequence := wrap_i64 (cs_sequence st + 1)\<rparr>)"

definition current_sequence :: "'v connection_state \<Rightarrow> int" where
  "current_sequence st = cs_sequence st"

definition buffer_message :: "instant \<Rightarrow> int \<Rightarrow> 'v \<Rightarrow> 'v connection_state \<Rightarrow> 'v connection_state" where
  "buffer_message now seq message st =
     (let msg = \<lparr>sm_seq = seq, sm_message = message, sm_timestamp = now\<rparr>;
          buffer = cs_message_buffer st;
          buffer = (if length buffer \<ge> MESSAGE_BUFFER_SIZE then tl buffer else buffer)
      in st\<lparr>cs_message_buffer := buffer @ [msg], cs_last_activity := now\<rparr>)"

definition get_missed_messages :: "int \<Rightarrow> 'v connection_state \<Rightarrow> 'v sequenced_message list" where
  "get_missed_messages since_seq st = filter (\<lambda>msg. sm_seq msg > since_seq) (cs_message_buffer st)"

definition mark_inactive :: "instant \<Rightarrow> 'v connection_state \<Rightarrow> 'v connection_state" where
  "mark_inactive now st = st\<lparr>cs_is_active := False, cs_last_activity := now\<rparr>"

definition mark_active :: "instant \<Rightarrow> 'v connection_state \<Rightarrow> 'v connection_state" where
  "mark_active now st = st\<lparr>cs_is_active := True, cs_last_activity := now\<rparr>"

definition touch :: "instant \<Rightarrow> 'v connection_state \<Rightarrow> 'v connection_state" where
  "touch now st = st\<lparr>cs_last_activity := now\<rparr>"

definition is_expired :: "instant \<Rightarrow> 'v connection_state \<Rightarrow> bool" where
  "is_expired now st \<longleftrightarrow>
     (if cs_is_active st then False else now - cs_last_activity st > CONNECTION_TTL)"

section \<open>The store\<close>

record 'v connection_store =
  connections :: "(string, 'v connection_state) hm"
  user_connections :: "(uuid, string list) hm"

definition store_default :: "'v connection_store" where
  "store_default = \<lparr>connections = [], user_connections = []\<rparr>"

definition resume_or_create ::
  "instant \<Rightarrow> string \<Rightarrow> string option \<Rightarrow> uuid \<Rightarrow> int option \<Rightarrow> 'v connection_store \<Rightarrow>
     'v connection_store \<times> 'v connection_state \<times> bool \<times> 'v sequenced_message list" where
  "resume_or_create now new_id connection_id user_id requested_seq store =
     (let create =
        (let state = connection_state_new now new_id user_id 1;
             conns = hm_insert new_id state (connections store);
             users = hm_insert user_id
               (case hm_get (user_connections store) user_id of
                  Some ids \<Rightarrow> ids @ [new_id] | None \<Rightarrow> [new_id])
               (user_connections store)
         in (store\<lparr>connections := conns, user_connections := users\<rparr>, state, False, []))
      in case connection_id of
           None \<Rightarrow> create
         | Some conn_id \<Rightarrow>
             (case hm_get (connections store) conn_id of
                None \<Rightarrow> create
              | Some existing \<Rightarrow>
                  if cs_user_id existing = user_id then
                    (let state = mark_active now existing;
                         since_seq = (case requested_seq of None \<Rightarrow> - 1 | Some q \<Rightarrow> q)
                     in (store\<lparr>connections := hm_insert conn_id state (connections store)\<rparr>,
                         state, True, get_missed_messages since_seq state))
                  else create))"

definition get_connection :: "string \<Rightarrow> 'v connection_store \<Rightarrow> 'v connection_state option" where
  "get_connection connection_id store = hm_get (connections store) connection_id"

definition drop_from_index :: "uuid \<Rightarrow> string \<Rightarrow> 'v connection_store \<Rightarrow> 'v connection_store" where
  "drop_from_index user_id connection_id store =
     store\<lparr>user_connections :=
       hm_modify user_id (retain_ne connection_id) (user_connections store)\<rparr>"

definition purge_connection :: "string \<Rightarrow> 'v connection_store \<Rightarrow> 'v connection_store" where
  "purge_connection connection_id store =
     (case hm_get (connections store) connection_id of
        None \<Rightarrow> store
      | Some state \<Rightarrow>
          drop_from_index (cs_user_id state) connection_id
            (store\<lparr>connections := hm_remove connection_id (connections store)\<rparr>))"

text \<open>
  \<^verbatim>\<open>remove_connection\<close> also marks the removed state inactive; the state has left the map by
  then, so only holders of the \<^verbatim>\<open>Arc\<close> see the change, and it is returned beside the store.
\<close>

definition remove_connection ::
  "instant \<Rightarrow> string \<Rightarrow> 'v connection_store \<Rightarrow> 'v connection_store \<times> 'v connection_state option" where
  "remove_connection now connection_id store =
     (purge_connection connection_id store,
      map_option (mark_inactive now) (hm_get (connections store) connection_id))"

definition disconnect_connection :: "instant \<Rightarrow> string \<Rightarrow> 'v connection_store \<Rightarrow> 'v connection_store" where
  "disconnect_connection now connection_id store =
     store\<lparr>connections := hm_modify connection_id (mark_inactive now) (connections store)\<rparr>"

definition touch_connection :: "instant \<Rightarrow> string \<Rightarrow> 'v connection_store \<Rightarrow> 'v connection_store" where
  "touch_connection now connection_id store =
     store\<lparr>connections := hm_modify connection_id (touch now) (connections store)\<rparr>"

definition queue_message ::
  "instant \<Rightarrow> string \<Rightarrow> 'v \<Rightarrow> 'v connection_store \<Rightarrow> 'v connection_store \<times> int option" where
  "queue_message now connection_id event store =
     (case hm_get (connections store) connection_id of
        None \<Rightarrow> (store, None)
      | Some state \<Rightarrow>
          (let (seq, state') = next_sequence state;
               state'' = buffer_message now seq event state'
           in (store\<lparr>connections := hm_insert connection_id state'' (connections store)\<rparr>, Some seq)))"

definition get_user_connections :: "uuid \<Rightarrow> 'v connection_store \<Rightarrow> string list" where
  "get_user_connections user_id store =
     (case hm_get (user_connections store) user_id of None \<Rightarrow> [] | Some ids \<Rightarrow> ids)"

definition cleanup_expired :: "instant \<Rightarrow> 'v connection_store \<Rightarrow> 'v connection_store" where
  "cleanup_expired now store =
     (let expired = map fst (filter (\<lambda>(_, st). is_expired now st) (connections store))
      in fold purge_connection expired store)"

record connection_store_stats =
  total_connections :: nat
  active_connections :: nat
  inactive_connections :: nat
  unique_users :: nat

definition stats :: "'v connection_store \<Rightarrow> connection_store_stats" where
  "stats store =
     \<lparr>total_connections = length (connections store),
      active_connections = length (filter (\<lambda>(_, st). cs_is_active st) (connections store)),
      inactive_connections = length (filter (\<lambda>(_, st). \<not> cs_is_active st) (connections store)),
      unique_users = length (user_connections store)\<rparr>"

section \<open>The store as a state machine\<close>

text \<open>
  A label is one call with its arguments. The only guard is that a generated identifier is
  not in use, which is what a version 4 UUID is relied on for.
\<close>

datatype 'v store_op =
    ResumeOrCreate string "string option" uuid "int option"
  | RemoveConnection string
  | DisconnectConnection string
  | TouchConnection string
  | QueueMessage string 'v
  | CleanupExpired

fun store_apply :: "instant \<Rightarrow> 'v store_op \<Rightarrow> 'v connection_store \<Rightarrow> 'v connection_store" where
  "store_apply now (ResumeOrCreate new_id cid u q) s = fst (resume_or_create now new_id cid u q s)"
| "store_apply now (RemoveConnection cid) s = fst (remove_connection now cid s)"
| "store_apply now (DisconnectConnection cid) s = disconnect_connection now cid s"
| "store_apply now (TouchConnection cid) s = touch_connection now cid s"
| "store_apply now (QueueMessage cid m) s = fst (queue_message now cid m s)"
| "store_apply now CleanupExpired s = cleanup_expired now s"

fun fresh_op :: "'v store_op \<Rightarrow> 'v connection_store \<Rightarrow> bool" where
  "fresh_op (ResumeOrCreate new_id cid u q) s = (hm_get (connections s) new_id = None)"
| "fresh_op _ s = True"

inductive store_step :: "'v connection_store \<Rightarrow> instant \<times> 'v store_op \<Rightarrow> 'v connection_store \<Rightarrow> bool" where
  store_step: "fresh_op op s \<Longrightarrow> store_step s (now, op) (store_apply now op s)"

inductive_simps store_step_iff: "store_step s e t"

abbreviation store_init :: "'v connection_store \<Rightarrow> bool" where
  "store_init s \<equiv> s = store_default"

subsection \<open>Invariant: the user index is exact\<close>

definition conn_ok :: "string \<Rightarrow> 'v connection_state \<Rightarrow> bool" where
  "conn_ok cid st \<longleftrightarrow> cs_connection_id st = cid \<and> length (cs_message_buffer st) \<le> MESSAGE_BUFFER_SIZE"

definition store_inv :: "'v connection_store \<Rightarrow> bool" where
  "store_inv s \<longleftrightarrow>
     hm_wf (connections s) \<and> hm_wf (user_connections s) \<and>
     (\<forall>cid st. hm_get (connections s) cid = Some st \<longrightarrow> conn_ok cid st) \<and>
     (\<forall>u. distinct (get_user_connections u s)) \<and>
     (\<forall>u cid. cid \<in> set (get_user_connections u s) \<longleftrightarrow>
        (\<exists>st. hm_get (connections s) cid = Some st \<and> cs_user_id st = u))"

lemmas conn_op_defs = connection_state_new_def next_sequence_def buffer_message_def
  mark_active_def mark_inactive_def touch_def

lemma conn_ok_ops [simp]:
  "conn_ok cid (mark_active now st) = conn_ok cid st"
  "conn_ok cid (mark_inactive now st) = conn_ok cid st"
  "conn_ok cid (touch now st) = conn_ok cid st"
  "conn_ok cid (connection_state_new now cid u q)"
  by (simp_all add: conn_ok_def conn_op_defs)

lemma conn_ok_buffer [intro]:
  "conn_ok cid st \<Longrightarrow> conn_ok cid (buffer_message now q m st)"
  by (auto simp: conn_ok_def buffer_message_def Let_def MESSAGE_BUFFER_SIZE_def)

lemma user_id_ops [simp]:
  "cs_user_id (mark_active now st) = cs_user_id st"
  "cs_user_id (mark_inactive now st) = cs_user_id st"
  "cs_user_id (touch now st) = cs_user_id st"
  "cs_user_id (buffer_message now q m st) = cs_user_id st"
  "cs_user_id (connection_state_new now cid u q) = u"
  by (simp_all add: conn_op_defs Let_def)

text \<open>The two outcomes of \<open>resume_or_create\<close>: a resumed connection, or a created one.\<close>

definition resume_target :: "string option \<Rightarrow> uuid \<Rightarrow> 'v connection_store \<Rightarrow> string option" where
  "resume_target cid u s =
     (case cid of None \<Rightarrow> None
      | Some c \<Rightarrow> (case hm_get (connections s) c of None \<Rightarrow> None
                  | Some st \<Rightarrow> if cs_user_id st = u then Some c else None))"

lemma resume_target_Some:
  "resume_target cid u s = Some c \<longleftrightarrow>
     cid = Some c \<and> (\<exists>st. hm_get (connections s) c = Some st \<and> cs_user_id st = u)"
  by (auto simp: resume_target_def split: option.splits if_splits)

lemma resume_or_create_resumed:
  assumes "resume_target cid u s = Some c" "hm_get (connections s) c = Some st"
  shows "resume_or_create now new_id cid u q s =
     (s\<lparr>connections := hm_insert c (mark_active now st) (connections s)\<rparr>, mark_active now st, True,
      get_missed_messages (case q of None \<Rightarrow> - 1 | Some k \<Rightarrow> k) (mark_active now st))"
  using assms by (auto simp: resume_or_create_def resume_target_Some Let_def)

lemma resume_or_create_created:
  assumes "resume_target cid u s = None"
  shows "resume_or_create now new_id cid u q s =
     (s\<lparr>connections := hm_insert new_id (connection_state_new now new_id u 1) (connections s),
        user_connections := hm_insert u
          (case hm_get (user_connections s) u of Some ids \<Rightarrow> ids @ [new_id] | None \<Rightarrow> [new_id])
          (user_connections s)\<rparr>,
      connection_state_new now new_id u 1, False, [])"
proof (cases cid)
  case None
  then show ?thesis by (simp add: resume_or_create_def Let_def)
next
  case (Some c)
  with assms show ?thesis
    by (cases "hm_get (connections s) c") (auto simp: resume_or_create_def resume_target_def Let_def)
qed

text \<open>How each write shows in the user index.\<close>

lemma user_connections_overwrite [simp]:
  "get_user_connections v (s\<lparr>connections := c\<rparr>) = get_user_connections v s"
  by (simp add: get_user_connections_def)

lemma user_connections_drop [simp]:
  "get_user_connections v (drop_from_index u cid s) =
     (if v = u then retain_ne cid (get_user_connections u s) else get_user_connections v s)"
  by (simp add: get_user_connections_def drop_from_index_def split: option.splits)

lemma user_connections_push [simp]:
  "get_user_connections v (s\<lparr>connections := c, user_connections := hm_insert u
      (case hm_get (user_connections s) u of Some ids \<Rightarrow> ids @ [cid] | None \<Rightarrow> [cid])
      (user_connections s)\<rparr>) =
     (if v = u then get_user_connections u s @ [cid] else get_user_connections v s)"
  by (simp add: get_user_connections_def split: option.splits)

lemma drop_from_index_simps [simp]:
  "connections (drop_from_index u cid s) = connections s"
  "hm_wf (user_connections s) \<Longrightarrow> hm_wf (user_connections (drop_from_index u cid s))"
  by (simp_all add: drop_from_index_def)

text \<open>Overwriting a state with one of the same owner leaves the index exact.\<close>

lemma store_inv_overwrite [preserves]:
  assumes "store_inv s" "hm_get (connections s) cid = Some st" "cs_user_id st' = cs_user_id st"
    "conn_ok cid st'"
  shows "store_inv (s\<lparr>connections := hm_insert cid st' (connections s)\<rparr>)"
  using assms unfolding store_inv_def by auto

lemma store_inv_modify [preserves]:
  assumes "store_inv s" "\<And>st. cs_user_id (f st) = cs_user_id st" "\<And>st. conn_ok cid (f st) = conn_ok cid st"
  shows "store_inv (s\<lparr>connections := hm_modify cid f (connections s)\<rparr>)"
proof (cases "hm_get (connections s) cid")
  case None
  then show ?thesis using assms(1) by (simp add: hm_modify_def)
next
  case (Some st)
  then have "conn_ok cid (f st)" using assms by (simp add: store_inv_def)
  with Some show ?thesis
    using store_inv_overwrite [OF assms(1) Some, of "f st"] assms(2) by (simp add: hm_modify_def)
qed

lemma store_inv_create [preserves]:
  assumes "store_inv s" "hm_get (connections s) new_id = None"
  shows "store_inv (s\<lparr>connections := hm_insert new_id (connection_state_new now new_id u 1) (connections s),
            user_connections := hm_insert u
              (case hm_get (user_connections s) u of Some ids \<Rightarrow> ids @ [new_id] | None \<Rightarrow> [new_id])
              (user_connections s)\<rparr>)"
  using assms unfolding store_inv_def user_connections_push by auto

lemma store_inv_purge [preserves]:
  assumes "store_inv s"
  shows "store_inv (purge_connection cid s)"
  using assms unfolding store_inv_def purge_connection_def
  by (auto split: option.splits)

lemma store_inv_purge_all [preserves]: "store_inv s \<Longrightarrow> store_inv (fold purge_connection cids s)"
  by (induction cids arbitrary: s) (auto intro: store_inv_purge)

lemma store_inv_queue [preserves]: "store_inv s \<Longrightarrow> store_inv (fst (queue_message now cid m s))"
proof (cases "hm_get (connections s) cid")
  case None
  assume "store_inv s"
  with None show ?thesis by (simp add: queue_message_def)
next
  case (Some st)
  assume s: "store_inv s"
  then have "conn_ok cid st" using Some by (simp add: store_inv_def)
  then have "conn_ok cid (snd (next_sequence st))"
    by (simp add: next_sequence_def conn_ok_def)
  then have "conn_ok cid (buffer_message now (cs_sequence st) m (snd (next_sequence st)))"
    by (rule conn_ok_buffer)
  then show ?thesis
    using store_inv_overwrite [OF s Some] Some
    by (simp add: queue_message_def next_sequence_def Let_def)
qed

lemma store_inv_resume [preserves]:
  assumes "store_inv s" "hm_get (connections s) new_id = None"
  shows "store_inv (fst (resume_or_create now new_id cid u q s))"
proof (cases "resume_target cid u s")
  case None
  then show ?thesis
    using store_inv_create [OF assms] by (simp add: resume_or_create_created)
next
  case (Some c)
  then obtain st where st: "hm_get (connections s) c = Some st" "cs_user_id st = u"
    by (auto simp: resume_target_Some)
  then have "conn_ok c st" using assms(1) by (simp add: store_inv_def)
  then show ?thesis
    using store_inv_overwrite [OF assms(1) st(1), of "mark_active now st"]
    by (simp add: resume_or_create_resumed [OF Some st(1)])
qed

lemma store_inv_apply:
  assumes "store_inv s" "fresh_op op s"
  shows "store_inv (store_apply now op s)"
  using assms
  by (cases op)
    (auto simp: remove_connection_def disconnect_connection_def touch_connection_def
      cleanup_expired_def Let_def intro: preserves)

interpretation store: safe_machine store_init store_step store_inv
proof
  show "store_init s \<Longrightarrow> store_inv s" for s :: "'v connection_store"
    by (simp add: store_default_def store_inv_def get_user_connections_def)
  show "store_inv s \<Longrightarrow> store_step s e t \<Longrightarrow> store_inv t" for s t :: "'v connection_store" and e
    by (auto simp: store_step_iff intro: store_inv_apply)
qed

subsection \<open>The buffer is the tail of the connection's log\<close>

text \<open>
  The abstract view of a connection is the list of all messages queued to it. The buffer
  refines it: after \<open>n\<close> messages it holds the last 128 of them, numbered as sent.
\<close>

definition numbered :: "'v list \<Rightarrow> (int \<times> 'v) list" where
  "numbered ms = zip (map (\<lambda>i. int i + 1) [0..<length ms]) ms"

definition buffer_view :: "'v connection_state \<Rightarrow> (int \<times> 'v) list" where
  "buffer_view st = map (\<lambda>m. (sm_seq m, sm_message m)) (cs_message_buffer st)"

definition tail_of :: "'v list \<Rightarrow> (int \<times> 'v) list" where
  "tail_of ms = drop (length ms - MESSAGE_BUFFER_SIZE) (numbered ms)"

definition logged :: "'v list \<Rightarrow> 'v connection_state \<Rightarrow> bool" where
  "logged ms st \<longleftrightarrow> buffer_view st = tail_of ms \<and> cs_sequence st = int (length ms) + 1"

lemma length_numbered [simp]: "length (numbered ms) = length ms"
  by (simp add: numbered_def)

lemma numbered_snoc [simp]: "numbered (ms @ [m]) = numbered ms @ [(int (length ms) + 1, m)]"
  by (simp add: numbered_def)

lemma numbered_nth: "i < length ms \<Longrightarrow> numbered ms ! i = (int i + 1, ms ! i)"
  by (simp add: numbered_def)

lemma map_snd_numbered [simp]: "map snd (numbered ms) = ms"
  by (simp add: numbered_def)

lemma length_tail_of: "length (tail_of ms) = min (length ms) MESSAGE_BUFFER_SIZE"
  by (simp add: tail_of_def)

lemma tail_of_snoc:
  "tail_of (ms @ [m]) =
     (if MESSAGE_BUFFER_SIZE \<le> length (tail_of ms) then tl (tail_of ms) else tail_of ms)
       @ [(int (length ms) + 1, m)]"
proof (cases "MESSAGE_BUFFER_SIZE \<le> length ms")
  case True
  then have "Suc (length ms) - MESSAGE_BUFFER_SIZE = Suc (length ms - MESSAGE_BUFFER_SIZE)"
    by simp
  with True show ?thesis
    by (simp add: tail_of_def drop_Suc tl_drop MESSAGE_BUFFER_SIZE_def)
next
  case False
  then show ?thesis by (simp add: tail_of_def)
qed

lemma buffer_view_ops [simp]:
  "buffer_view (mark_active now st) = buffer_view st"
  "buffer_view (mark_inactive now st) = buffer_view st"
  "buffer_view (touch now st) = buffer_view st"
  "buffer_view (st\<lparr>cs_sequence := q\<rparr>) = buffer_view st"
  "cs_sequence (mark_active now st) = cs_sequence st"
  "cs_sequence (mark_inactive now st) = cs_sequence st"
  "cs_sequence (touch now st) = cs_sequence st"
  "cs_sequence (buffer_message now q m st) = cs_sequence st"
  by (simp_all add: buffer_view_def conn_op_defs Let_def)

lemma buffer_view_buffer:
  "buffer_view (buffer_message now q m st) =
     (if MESSAGE_BUFFER_SIZE \<le> length (buffer_view st) then tl (buffer_view st) else buffer_view st)
       @ [(q, m)]"
  by (simp add: buffer_view_def buffer_message_def Let_def map_tl)

lemma logged_queue:
  assumes "logged ms st" "int (length ms) + 1 < i64_max"
  shows "logged (ms @ [m]) (buffer_message now (cs_sequence st) m (snd (next_sequence st)))"
proof -
  have "wrap_i64 (int (length ms) + 1 + 1) = int (length ms) + 2"
    using assms(2) by (subst wrap_i64_id) (auto simp: i64_min_def)
  with assms show ?thesis
    by (simp add: logged_def next_sequence_def buffer_view_buffer tail_of_snoc)
qed

subsection \<open>Logs of a trace\<close>

fun sent_log :: "string \<Rightarrow> (instant \<times> 'v store_op) list \<Rightarrow> 'v list" where
  "sent_log cid [] = []"
| "sent_log cid ((now, QueueMessage c m) # tr) = (if c = cid then m # sent_log cid tr else sent_log cid tr)"
| "sent_log cid ((now, op) # tr) = sent_log cid tr"

fun assigns :: "string \<Rightarrow> instant \<times> 'v store_op \<Rightarrow> bool" where
  "assigns cid (now, ResumeOrCreate new_id c u q) = (new_id = cid)"
| "assigns cid (now, op) = False"

abbreviation never_assigned :: "string \<Rightarrow> (instant \<times> 'v store_op) list \<Rightarrow> bool" where
  "never_assigned cid tr \<equiv> list_all (\<lambda>e. \<not> assigns cid e) tr"

lemma connections_purge [simp]:
  "hm_get (connections (purge_connection c s)) = (hm_get (connections s))(c := None)"
  by (auto simp: purge_connection_def fun_eq_iff split: option.splits)

lemma connections_purge_all:
  "hm_get (connections (fold purge_connection cs s)) c =
     (if c \<in> set cs then None else hm_get (connections s) c)"
  by (induction cs arbitrary: s) auto

lemma resume_connections:
  "hm_get (connections (fst (resume_or_create now new_id cid u q s))) c =
     (case resume_target cid u s of
        Some d \<Rightarrow> if c = d then map_option (mark_active now) (hm_get (connections s) c)
                  else hm_get (connections s) c
      | None \<Rightarrow> if c = new_id then Some (connection_state_new now new_id u 1)
                else hm_get (connections s) c)"
proof (cases "resume_target cid u s")
  case None
  then show ?thesis by (simp add: resume_or_create_created)
next
  case (Some d)
  then obtain st where "hm_get (connections s) d = Some st"
    by (auto simp: resume_target_Some)
  with Some show ?thesis by (simp add: resume_or_create_resumed)
qed

lemma queue_connections:
  "hm_get (connections (fst (queue_message now cid m s))) c =
     (if c = cid then map_option (\<lambda>st. buffer_message now (cs_sequence st) m (snd (next_sequence st)))
                        (hm_get (connections s) c)
      else hm_get (connections s) c)"
  by (auto simp: queue_message_def next_sequence_def split: option.splits)

lemma remove_connections:
  "hm_get (connections (fst (remove_connection now cid s))) c =
     (if c = cid then None else hm_get (connections s) c)"
  by (simp add: remove_connection_def)

lemma modify_connections:
  "hm_get (connections (disconnect_connection now cid s)) c =
     (if c = cid then map_option (mark_inactive now) (hm_get (connections s) c)
      else hm_get (connections s) c)"
  "hm_get (connections (touch_connection now cid s)) c =
     (if c = cid then map_option (touch now) (hm_get (connections s) c)
      else hm_get (connections s) c)"
  by (simp_all add: disconnect_connection_def touch_connection_def)

lemma cleanup_connections:
  "hm_get (connections (cleanup_expired now s)) c =
     (if c \<in> set (map fst (filter (\<lambda>(_, st). is_expired now st) (connections s))) then None
      else hm_get (connections s) c)"
  unfolding cleanup_expired_def Let_def by (rule connections_purge_all)

lemmas apply_connections = resume_connections queue_connections remove_connections
  modify_connections cleanup_connections

lemma logged_ops [simp]:
  "logged ms (mark_active now st) = logged ms st"
  "logged ms (mark_inactive now st) = logged ms st"
  "logged ms (touch now st) = logged ms st"
  by (simp_all add: logged_def)

text \<open>One step, seen from one connection whose identifier is not handed out again.\<close>

lemma step_absent:
  assumes "store_step s e t" "hm_get (connections s) cid = None" "\<not> assigns cid e"
  shows "hm_get (connections t) cid = None"
proof -
  obtain now op where e: "e = (now, op)" by (cases e)
  then have t: "t = store_apply now op s" using assms(1) by (simp add: store_step_iff)
  show ?thesis
    using assms(2,3) unfolding t e by (cases op) (auto simp: apply_connections split: option.splits)
qed

lemma step_logged:
  assumes "store_step s (now, op) t" "hm_get (connections s) cid = Some st" "logged ms st"
    "\<not> assigns cid (now, op)" "hm_get (connections t) cid = Some st'"
    "int (length ms + length (sent_log cid [(now, op)])) < i64_max"
  shows "logged (ms @ sent_log cid [(now, op)]) st'"
proof -
  have t: "t = store_apply now op s" using assms(1) by (simp add: store_step_iff)
  show ?thesis
  proof (cases op)
    case (QueueMessage c m)
    with assms(2,3,5,6) show ?thesis
      unfolding t by (cases "c = cid") (auto simp: queue_connections intro!: logged_queue)
  qed (use assms(2-5) in \<open>auto simp: t apply_connections split: if_splits option.splits\<close>)
qed

lemma steps_absent:
  "steps store_step s tr t \<Longrightarrow> never_assigned cid tr \<Longrightarrow> hm_get (connections s) cid = None \<Longrightarrow>
     hm_get (connections t) cid = None"
  by (induction rule: steps.induct) (auto dest: step_absent)

lemma sent_log_Cons: "sent_log cid (e # tr) = sent_log cid [e] @ sent_log cid tr"
  by (induction cid "[e]" rule: sent_log.induct) auto

lemma steps_logged:
  "steps store_step s tr t \<Longrightarrow> never_assigned cid tr \<Longrightarrow> hm_get (connections s) cid = Some st \<Longrightarrow>
     logged ms st \<Longrightarrow> hm_get (connections t) cid = Some st' \<Longrightarrow>
     int (length ms + length (sent_log cid tr)) < i64_max \<Longrightarrow> logged (ms @ sent_log cid tr) st'"
proof (induction arbitrary: st ms rule: steps.induct)
  case (steps_Nil s)
  then show ?case by simp
next
  case (steps_Cons s e t es u)
  obtain now op where e: "e = (now, op)" by (cases e)
  obtain st1 where st1: "hm_get (connections t) cid = Some st1"
    using steps_absent [OF steps_Cons.hyps(2)] steps_Cons.prems(1,4) by fastforce
  have log: "sent_log cid (e # es) = sent_log cid [e] @ sent_log cid es"
    by (rule sent_log_Cons)
  have "logged (ms @ sent_log cid [e]) st1"
    using steps_Cons.hyps(1) steps_Cons.prems(1,2,3,5) log unfolding e
    by (intro step_logged [OF _ _ _ _ st1]) simp_all
  then have "logged ((ms @ sent_log cid [e]) @ sent_log cid es) st'"
    using steps_Cons.prems(1,4,5) log by (intro steps_Cons.IH [OF _ st1]) simp_all
  then show ?case using log by simp
qed

subsection \<open>Replay\<close>

lemma filter_tail_of:
  assumes "length ms \<le> MESSAGE_BUFFER_SIZE + k" "k \<le> length ms"
  shows "filter (\<lambda>(q, _). int k < q) (tail_of ms) = drop k (numbered ms)"
proof -
  let ?n = "length ms" and ?d = "length ms - MESSAGE_BUFFER_SIZE"
  have d: "?d \<le> k" using assms by simp
  have split: "tail_of ms = take (k - ?d) (tail_of ms) @ drop k (numbered ms)"
    unfolding tail_of_def using d by (metis append_take_drop_id drop_drop le_add_diff_inverse2)
  have low: "fst x \<le> int k" if "x \<in> set (take (k - ?d) (tail_of ms))" for x
  proof -
    obtain i where i: "i < k - ?d" "x = tail_of ms ! i" "i < length (tail_of ms)"
      using \<open>x \<in> _\<close> by (auto simp: in_set_conv_nth)
    then have "x = numbered ms ! (?d + i)" by (simp add: tail_of_def)
    moreover have "?d + i < ?n" using i(3) by (simp add: tail_of_def)
    ultimately show ?thesis using i(1) by (simp add: numbered_nth)
  qed
  have high: "int k < fst x" if "x \<in> set (drop k (numbered ms))" for x
  proof -
    obtain i where i: "i < ?n - k" "x = drop k (numbered ms) ! i"
      using \<open>x \<in> _\<close> by (auto simp: in_set_conv_nth)
    then have "x = numbered ms ! (k + i)" using assms(2) by simp
    then show ?thesis using i by (simp add: numbered_nth)
  qed
  have "filter (\<lambda>(q, _). int k < q) (take (k - ?d) (tail_of ms)) = []"
    using low by (auto simp: filter_empty_conv split: prod.splits) (metis fst_conv not_le)
  moreover have "filter (\<lambda>(q, _). int k < q) (drop k (numbered ms)) = drop k (numbered ms)"
    using high by (auto simp: filter_id_conv split: prod.splits)
  ultimately show ?thesis by (subst split) simp
qed

lemma missed_view:
  "map (\<lambda>m. (sm_seq m, sm_message m)) (get_missed_messages k st) = filter (\<lambda>(q, _). k < q) (buffer_view st)"
  by (simp add: get_missed_messages_def buffer_view_def filter_map comp_def)

lemma cleanup_removed_iff:
  assumes "hm_wf (connections s)"
  shows "cid \<in> set (map fst (filter (\<lambda>(_, st). is_expired now st) (connections s))) \<longleftrightarrow>
    (\<exists>st. hm_get (connections s) cid = Some st \<and> is_expired now st)"
  by (auto simp: hm_get_iff_mem [OF assms] image_iff)

lemma length_hm_modify [simp]: "length (hm_modify k f m) = length m"
proof (cases "hm_get m k")
  case None
  then show ?thesis by (simp add: hm_modify_def)
next
  case (Some v)
  then have "k \<in> set (hm_keys m)" by (force dest: map_of_SomeD)
  then have "length (hm_keys (hm_insert k (f v) m)) = length (hm_keys m)"
    by (simp add: AList.update_keys)
  with Some show ?thesis by (simp add: hm_modify_def)
qed

lemma unique_users_purge:
  "length (user_connections (purge_connection cid s)) = length (user_connections s)"
  by (simp add: purge_connection_def drop_from_index_def split: option.splits)

section \<open>Properties\<close>


lemma steps_apply:
  "fresh_op op s \<Longrightarrow> steps store_step (store_apply now op s) tr t \<Longrightarrow> steps store_step s ((now, op) # tr) t"
  by (auto intro: steps_Cons store_step)

lemma two_messages_queued:
  "steps store_step (fst (resume_or_create 0 ''a'' None (Uuid 1) None store_default))
     [(1, QueueMessage ''a'' (7::nat)), (2, DisconnectConnection ''a''), (3, QueueMessage ''a'' 8)]
     (store_apply 3 (QueueMessage ''a'' 8) (store_apply 2 (DisconnectConnection ''a'')
       (store_apply 1 (QueueMessage ''a'' 7)
         (fst (resume_or_create 0 ''a'' None (Uuid 1) None store_default)))))"
  by (rule steps_apply, simp, rule steps_apply, simp, rule steps_apply, simp, rule steps_Nil)


text \<open>C25. A connection id is no bearer token: a resume request for another user's connection is refused.
  The caller gets a fresh, empty connection of its own and the owner's state is untouched.\<close>

theorem resume_rejects_foreign_user:
  assumes "hm_get (connections s) cid = Some st" "cs_user_id st \<noteq> u"
    and "hm_get (connections s) new_id = None"
  shows "case resume_or_create now new_id (Some cid) u q s of (s', st', resumed, missed) \<Rightarrow>
    \<not> resumed \<and> missed = [] \<and> cs_connection_id st' = new_id \<and> new_id \<noteq> cid \<and> cs_user_id st' = u \<and>
    get_connection cid s' = Some st"
proof -
  have "resume_target (Some cid) u s = None"
    using assms(1,2) by (simp add: resume_target_def)
  then show ?thesis
    using assms by (auto simp: resume_or_create_created get_connection_def connection_state_new_def)
qed

theorem resume_rejects_foreign_user_witness:
  "case resume_or_create 5 ''b'' (Some ''a'') (Uuid 2) (Some 0)
      (fst (resume_or_create 0 ''a'' None (Uuid 1) None (store_default :: nat connection_store))) of
     (s', st', resumed, missed) \<Rightarrow>
       \<not> resumed \<and> missed = [] \<and> cs_connection_id st' = ''b'' \<and> cs_user_id st' = Uuid 2 \<and>
       get_connection ''a'' s' = Some (connection_state_new 0 ''a'' (Uuid 1) 1)"
  using resume_rejects_foreign_user
    [of "fst (resume_or_create 0 ''a'' None (Uuid 1) None (store_default :: nat connection_store))"
      "''a''" "connection_state_new 0 ''a'' (Uuid 1) 1" "Uuid 2" "''b''" 5 "Some 0"]
  by (simp add: resume_or_create_def store_default_def Let_def connection_state_new_def)

text \<open>C26. In every reachable store the per-user index lists exactly that user's live connection ids, each
  once, and every connection is filed under its own id with at most 128 buffered messages.\<close>

theorem user_index_exact:
  assumes "reach store_init store_step s"
  shows "distinct (get_user_connections u s) \<and>
    (cid \<in> set (get_user_connections u s)) = (\<exists>st. get_connection cid s = Some st \<and> cs_user_id st = u) \<and>
    pred_option (\<lambda>st. cs_connection_id st = cid \<and> length (cs_message_buffer st) \<le> 128)
      (get_connection cid s)"
proof -
  have "store_inv s" using assms by (rule store.reach_safe)
  then show ?thesis
    by (auto simp: store_inv_def conn_ok_def get_connection_def pred_option_def MESSAGE_BUFFER_SIZE_def)
qed

lemma one_connection_reachable:
  "reach store_init store_step
     (fst (resume_or_create 0 ''a'' None (Uuid 1) None (store_default :: nat connection_store)))"
  by (rule reach_step [OF reach_init,
        of _ store_default store_step "(0, ResumeOrCreate ''a'' None (Uuid 1) None)"])
    (simp_all add: store_step_iff store_default_def)

theorem user_index_exact_witness:
  "''a'' \<in> set (get_user_connections (Uuid 1)
     (fst (resume_or_create 0 ''a'' None (Uuid 1) None (store_default :: nat connection_store))))"
  using user_index_exact [OF one_connection_reachable, of "Uuid 1" "''a''"]
  by (simp add: resume_or_create_def store_default_def get_connection_def connection_state_new_def Let_def)

text \<open>The clean-up task removes the connections that are inactive for more than five minutes and no
  others, and leaves every surviving state unchanged.\<close>

theorem cleanup_exact:
  assumes "reach store_init store_step s"
  shows "get_connection cid (cleanup_expired now s) =
    (case get_connection cid s of None \<Rightarrow> None
     | Some st \<Rightarrow> if \<not> cs_is_active st \<and> now - cs_last_activity st > 300000 then None else Some st)"
proof -
  have "store_inv s" using assms by (rule store.reach_safe)
  then have "hm_wf (connections s)" by (simp add: store_inv_def)
  from cleanup_removed_iff [OF this, of cid now] show ?thesis
    by (auto simp: get_connection_def cleanup_connections is_expired_def CONNECTION_TTL_def
        split: option.splits)
qed

theorem cleanup_exact_witness:
  "get_connection ''a'' (cleanup_expired 400000
     (fst (resume_or_create 0 ''a'' None (Uuid 1) None (store_default :: nat connection_store)))) =
   Some (connection_state_new 0 ''a'' (Uuid 1) 1)"
  using cleanup_exact [OF one_connection_reachable, of "''a''" 400000]
  by (simp add: resume_or_create_def store_default_def get_connection_def connection_state_new_def Let_def)

text \<open>Expiry is enforced by the clean-up task only: until it runs, a connection past its five-minute
  retention is still resumed, with its buffered messages.\<close>

theorem resume_ignores_ttl:
  assumes "hm_get (connections s) cid = Some st" "cs_user_id st = u" "is_expired now st"
  shows "case resume_or_create now new_id (Some cid) u (Some k) s of (s', st', resumed, missed) \<Rightarrow>
    resumed \<and> missed = get_missed_messages k st \<and> cs_is_active st'"
proof -
  have "resume_target (Some cid) u s = Some cid"
    using assms(1,2) by (simp add: resume_target_Some)
  then show ?thesis
    by (simp add: resume_or_create_resumed [OF _ assms(1)] mark_active_def get_missed_messages_def)
qed

theorem resume_ignores_ttl_witness:
  "case resume_or_create 1000000 ''b'' (Some ''a'') (Uuid 1) (Some 0)
      (disconnect_connection 0 ''a''
        (fst (resume_or_create 0 ''a'' None (Uuid 1) None (store_default :: nat connection_store)))) of
     (s', st', resumed, missed) \<Rightarrow> resumed \<and> missed = [] \<and> cs_is_active st'"
  using resume_ignores_ttl
    [of "disconnect_connection 0 ''a''
          (fst (resume_or_create 0 ''a'' None (Uuid 1) None (store_default :: nat connection_store)))"
      "''a''" "mark_inactive 0 (connection_state_new 0 ''a'' (Uuid 1) 1)" "Uuid 1" 1000000 0 "''b''"]
  by (simp add: resume_or_create_def store_default_def disconnect_connection_def hm_modify_def Let_def
      conn_op_defs is_expired_def CONNECTION_TTL_def get_missed_messages_def)

text \<open>The reported number of unique users never goes down: removing a connection, or purging every
  expired one, keeps the user's (now possibly empty) index entry, which the statistics count.\<close>

theorem unique_users_never_drops:
  "unique_users (stats (fst (remove_connection now cid s))) = unique_users (stats s) \<and>
   unique_users (stats (cleanup_expired now s)) = unique_users (stats s)"
proof -
  have "length (user_connections (fold purge_connection cs s)) = length (user_connections s)" for cs
    by (induction cs arbitrary: s) (auto simp: unique_users_purge)
  then show ?thesis
    by (simp add: stats_def remove_connection_def unique_users_purge cleanup_expired_def Let_def)
qed

end
