(* ===== verification/Mm_Id.thy ===== *)
theory Mm_Id
  imports Prelude
begin

text \<open>
  Identifiers on the wire: \<^verbatim>\<open>backend/src/mattermost_compat/id.rs\<close> (the 26-character Mattermost
  spelling of a UUID) and the direct-message channel names of
  \<^verbatim>\<open>backend/src/models/channel.rs\<close>.

  The base-32 coder works on a \<^verbatim>\<open>u32\<close> shift register, kept here as a \<open>32 word\<close>, so the bits that
  the repeated left shifts push out are lost as in the code. The bit counter is a \<^verbatim>\<open>u8\<close> that
  stays below 13; it is a natural number. The conversions of the \<^verbatim>\<open>uuid\<close> crate (\<^verbatim>\<open>as_bytes\<close>,
  \<^verbatim>\<open>from_slice\<close>, \<^verbatim>\<open>parse_str\<close>, \<^verbatim>\<open>Display\<close>) are arguments.
\<close>

unbundle bit_operations_syntax

section \<open>Base-32 coder\<close>

definition MM_ID_ALPHABET :: string where
  "MM_ID_ALPHABET = ''ybndrfg8ejkmcpqxot1uwisza345h769''"

fun encode_while :: "32 word \<Rightarrow> nat \<Rightarrow> string \<Rightarrow> nat \<times> string" where
  "encode_while buffer bits output =
     (if bits \<ge> 5 then
        (let index = unat (drop_bit (bits - 5) buffer AND 0x1f)
         in encode_while buffer (bits - 5) (output @ [MM_ID_ALPHABET ! index]))
      else (bits, output))"

declare encode_while.simps [simp del]

fun encode_bytes :: "8 word list \<Rightarrow> 32 word \<Rightarrow> nat \<Rightarrow> string \<Rightarrow> 32 word \<times> nat \<times> string" where
  "encode_bytes [] buffer bits output = (buffer, bits, output)"
| "encode_bytes (byte # rest) buffer bits output =
     (let buffer = push_bit 8 buffer OR ucast byte;
          (bits, output) = encode_while buffer (bits + 8) output
      in encode_bytes rest buffer bits output)"

definition encode_base32 :: "8 word list \<Rightarrow> string" where
  "encode_base32 bytes =
     (let (buffer, bits, output) = encode_bytes bytes 0 0 []
      in if bits > 0 then output @ [MM_ID_ALPHABET ! unat (push_bit (5 - bits) buffer AND 0x1f)]
         else output)"

fun position :: "'a \<Rightarrow> 'a list \<Rightarrow> nat option" where
  "position x [] = None"
| "position x (y # ys) = (if y = x then Some 0 else map_option Suc (position x ys))"

definition decode_char :: "char \<Rightarrow> nat option" where
  "decode_char ch = position (ascii_lower ch) MM_ID_ALPHABET"

fun decode_while :: "32 word \<Rightarrow> nat \<Rightarrow> 8 word list \<Rightarrow> nat \<times> 8 word list" where
  "decode_while buffer bits bytes =
     (if bits \<ge> 8 then
        (let byte = ucast (drop_bit (bits - 8) buffer AND 0xff)
         in decode_while buffer (bits - 8) (bytes @ [byte]))
      else (bits, bytes))"

declare decode_while.simps [simp del]

fun decode_chars :: "string \<Rightarrow> 32 word \<Rightarrow> nat \<Rightarrow> 8 word list \<Rightarrow> 8 word list option" where
  "decode_chars [] buffer bits bytes = Some bytes"
| "decode_chars (ch # rest) buffer bits bytes =
     (case decode_char ch of
        None \<Rightarrow> None
      | Some value \<Rightarrow>
          (let buffer = push_bit 5 buffer OR of_nat value;
               (bits, bytes) = decode_while buffer (bits + 5) bytes
           in decode_chars rest buffer bits bytes))"

definition decode_base32 :: "string \<Rightarrow> 8 word list option" where
  "decode_base32 input =
     (case decode_chars input 0 0 [] of
        None \<Rightarrow> None
      | Some bytes \<Rightarrow> if length bytes < 16 then None else Some (take 16 bytes))"

definition encode_mm_id :: "(uuid \<Rightarrow> 8 word list) \<Rightarrow> uuid \<Rightarrow> string" where
  "encode_mm_id as_bytes u = encode_base32 (as_bytes u)"

definition decode_mm_id :: "(8 word list \<Rightarrow> uuid option) \<Rightarrow> string \<Rightarrow> uuid option" where
  "decode_mm_id from_slice ident =
     (if str_len ident \<noteq> 26 then None
      else (case decode_base32 ident of None \<Rightarrow> None | Some bytes \<Rightarrow> from_slice bytes))"

definition parse_mm_or_uuid ::
  "(string \<Rightarrow> uuid option) \<Rightarrow> (8 word list \<Rightarrow> uuid option) \<Rightarrow> string \<Rightarrow> uuid option" where
  "parse_mm_or_uuid parse_str from_slice ident =
     (case parse_str ident of Some u \<Rightarrow> Some u | None \<Rightarrow> decode_mm_id from_slice ident)"

section \<open>Direct-message channel names\<close>

definition sort_user_ids :: "uuid \<Rightarrow> uuid \<Rightarrow> uuid \<times> uuid" where
  "sort_user_ids user_a user_b = (if user_a \<le> user_b then (user_a, user_b) else (user_b, user_a))"

definition canonical_direct_channel_name :: "(uuid \<Rightarrow> string) \<Rightarrow> uuid \<Rightarrow> uuid \<Rightarrow> string" where
  "canonical_direct_channel_name show user_a user_b =
     (let (first, second) = sort_user_ids user_a user_b in show first @ ''__'' @ show second)"

definition legacy_direct_channel_name :: "(uuid \<Rightarrow> string) \<Rightarrow> uuid \<Rightarrow> uuid \<Rightarrow> string" where
  "legacy_direct_channel_name show user_a user_b =
     (let (first, second) = sort_user_ids user_a user_b
      in ''dm_'' @ show first @ ''_'' @ show second)"

definition parse_pair :: "(string \<Rightarrow> uuid option) \<Rightarrow> string \<Rightarrow> string \<Rightarrow> (uuid \<times> uuid) option" where
  "parse_pair parse_str left right =
     (case parse_str left of
        None \<Rightarrow> None
      | Some left_id \<Rightarrow>
          (case parse_str right of
             None \<Rightarrow> None
           | Some right_id \<Rightarrow> Some (sort_user_ids left_id right_id)))"

definition parse_direct_channel_name :: "(string \<Rightarrow> uuid option) \<Rightarrow> string \<Rightarrow> (uuid \<times> uuid) option" where
  "parse_direct_channel_name parse_str name =
     (case split_once ''__'' name of
        Some (left, right) \<Rightarrow> parse_pair parse_str left right
      | None \<Rightarrow>
          (case strip_prefix ''dm_'' name of
             Some rest \<Rightarrow>
               (case split_once ''_'' rest of
                  None \<Rightarrow> None
                | Some (left, right) \<Rightarrow> parse_pair parse_str left right)
           | None \<Rightarrow> None))"

section \<open>The shift register as a queue of bits\<close>

text \<open>
  \<open>reg n w\<close> reads the low \<open>n\<close> bits of a register, most significant first. Shifting a value in
  appends its bits at the end, and reading the top of the register takes them from the front.
\<close>

definition reg :: "nat \<Rightarrow> 'a::len word \<Rightarrow> bool list" where
  "reg n w = map (bit w) (rev [0..<n])"

lemma length_reg [simp]: "length (reg n w) = n"
  by (simp add: reg_def)

lemma reg_0 [simp]: "reg 0 w = []"
  by (simp add: reg_def)

lemma reg_nth: "i < n \<Longrightarrow> reg n w ! i = bit w (n - 1 - i)"
  by (simp add: reg_def rev_nth)

lemma reg_split:
  assumes "k \<le> n"
  shows "reg n (w :: 'a::len word) = reg (n - k) (drop_bit k w) @ reg k w"
proof (rule nth_equalityI)
  fix i assume "i < length (reg n w)"
  then show "reg n w ! i = (reg (n - k) (drop_bit k w) @ reg k w) ! i"
    using assms by (auto simp: nth_append reg_nth bit_drop_bit_eq intro!: arg_cong [of _ _ "bit w"])
qed (use assms in simp)

lemma reg_shift_in:
  fixes w :: "'a::len word" and v :: "'b::len word"
  assumes "n + k \<le> LENGTH('a)" "\<And>i. k \<le> i \<Longrightarrow> \<not> bit v i"
  shows "reg (n + k) (push_bit k w OR ucast v) = reg n w @ reg k v"
proof (rule nth_equalityI)
  fix i assume "i < length (reg (n + k) (push_bit k w OR ucast v))"
  then have i: "i < n + k" by simp
  show "reg (n + k) (push_bit k w OR ucast v) ! i = (reg n w @ reg k v) ! i"
  proof (cases "i < n")
    case True
    then have "k \<le> n + k - 1 - i" "n + k - 1 - i - k = n - 1 - i" "n + k - Suc i < LENGTH('a)"
      using assms(1) by simp_all
    with True i assms show ?thesis
      by (simp add: nth_append reg_nth bit_or_iff bit_push_bit_iff bit_ucast_iff)
  next
    case False
    then have "n + k - 1 - i < k" "k - 1 - (i - n) = n + k - 1 - i" using i by simp_all
    with False i assms show ?thesis
      by (simp add: nth_append reg_nth bit_or_iff bit_push_bit_iff bit_ucast_iff)
  qed
qed simp

lemma reg_mask: "k \<le> n \<Longrightarrow> reg k (w AND mask n) = reg k w"
  by (intro nth_equalityI) (auto simp: reg_nth bit_and_iff bit_mask_iff dest: bit_imp_le_length)

lemma reg_ucast: "k \<le> LENGTH('b) \<Longrightarrow> reg k (ucast w :: 'b::len word) = reg k (w :: 'a::len word)"
  by (intro nth_equalityI) (simp_all add: reg_nth bit_ucast_iff less_le_trans [of _ k])

lemma reg_inj: "reg LENGTH('a) v = reg LENGTH('a) (w :: 'a::len word) \<Longrightarrow> v = w"
proof (rule bit_word_eqI)
  fix i assume eq: "reg LENGTH('a) v = reg LENGTH('a) w" and "i < LENGTH('a)"
  then show "bit v i = bit w i"
    using reg_nth [of "LENGTH('a) - 1 - i" "LENGTH('a)" v] reg_nth [of "LENGTH('a) - 1 - i" "LENGTH('a)" w]
    by (simp add: eq)
qed

section \<open>The coder moves bits\<close>

abbreviation byte_bits :: "8 word list \<Rightarrow> bool list" where
  "byte_bits bytes \<equiv> concat (map (reg 8) bytes)"

definition char_bits :: "char \<Rightarrow> bool list" where
  "char_bits c = reg 5 (of_nat (the (decode_char c)) :: 32 word)"

abbreviation id_bits :: "string \<Rightarrow> bool list" where
  "id_bits s \<equiv> concat (map char_bits s)"

definition in_alphabet :: "string \<Rightarrow> bool" where
  "in_alphabet s \<longleftrightarrow> (\<forall>c \<in> set s. decode_char c \<noteq> None)"

lemma in_alphabet_simps [simp]:
  "in_alphabet []"
  "in_alphabet (c # s) \<longleftrightarrow> decode_char c \<noteq> None \<and> in_alphabet s"
  "in_alphabet (s @ t) \<longleftrightarrow> in_alphabet s \<and> in_alphabet t"
  by (auto simp: in_alphabet_def)

lemma position_nth: "distinct xs \<Longrightarrow> i < length xs \<Longrightarrow> position (xs ! i) xs = Some i"
proof (induction xs arbitrary: i)
  case (Cons x xs)
  then show ?case by (cases i) auto
qed simp

lemma alphabet_is_lower:
  "length MM_ID_ALPHABET = 32" "distinct MM_ID_ALPHABET" "map ascii_lower MM_ID_ALPHABET = MM_ID_ALPHABET"
  by (simp_all add: MM_ID_ALPHABET_def ascii_lower_def code_point_def)

lemma alphabet_decodes:
  assumes "i < 32"
  shows "decode_char (MM_ID_ALPHABET ! i) = Some i"
proof -
  have "ascii_lower (MM_ID_ALPHABET ! i) = MM_ID_ALPHABET ! i"
    using assms alphabet_is_lower by (metis nth_map)
  then show ?thesis using assms by (simp add: decode_char_def position_nth alphabet_is_lower)
qed

lemma position_bound: "position x xs = Some i \<Longrightarrow> i < length xs \<and> xs ! i = x"
  by (induction x xs arbitrary: i rule: position.induct) (auto split: if_splits)

lemma decode_char_bound: "decode_char c = Some v \<Longrightarrow> v < 32"
  using position_bound [of "ascii_lower c" MM_ID_ALPHABET v]
  by (simp add: decode_char_def MM_ID_ALPHABET_def)

lemma length_byte_bits [simp]: "length (byte_bits bytes) = 8 * length bytes"
  by (induction bytes) auto

lemma length_char_bits [simp]: "length (char_bits c) = 5"
  by (simp add: char_bits_def)

lemma length_id_bits [simp]: "length (id_bits s) = 5 * length s"
  by (induction s) auto

lemma low5: "(w :: 32 word) AND 0x1f = w AND mask 5"
  by (simp add: mask_eq_exp_minus_1)

lemma low8: "(w :: 32 word) AND 0xff = w AND mask 8"
  by (simp add: mask_eq_exp_minus_1)

lemma index_less: "unat ((w :: 32 word) AND 0x1f) < 32"
proof -
  have "w AND 0x1f < 32"
    unfolding low5 using and_mask_less' [of 5 w] by simp
  then show ?thesis by (simp add: word_less_nat_alt)
qed

lemma alphabet_char [simp]:
  "decode_char (MM_ID_ALPHABET ! unat ((w :: 32 word) AND 0x1f)) = Some (unat (w AND 0x1f))"
  "char_bits (MM_ID_ALPHABET ! unat (w AND 0x1f)) = reg 5 w"
  by (simp_all add: alphabet_decodes index_less char_bits_def) (simp add: low5 reg_mask)

lemma encode_while_bits:
  "encode_while buffer bits output = (bits', output') \<Longrightarrow> in_alphabet output \<Longrightarrow>
     bits' < 5 \<and> in_alphabet output' \<and>
     id_bits output' @ reg bits' buffer = id_bits output @ reg bits buffer"
proof (induction buffer bits "output" rule: encode_while.induct)
  case (1 buffer bits out0)
  show ?case
  proof (cases "bits \<ge> 5")
    case True
    have "reg bits buffer = reg 5 (drop_bit (bits - 5) buffer) @ reg (bits - 5) buffer"
      using reg_split [of "bits - 5" bits buffer] True by simp
    with 1 True show ?thesis by (auto simp: encode_while.simps [of buffer bits] Let_def)
  next
    case False
    with 1 show ?thesis by (simp add: encode_while.simps [of buffer bits])
  qed
qed

lemma byte_no_high_bits: "8 \<le> i \<Longrightarrow> \<not> bit (b :: 8 word) i"
  by (auto dest: bit_imp_le_length)

lemma encode_bytes_bits:
  "encode_bytes bytes buffer bits output = (buffer', bits', output') \<Longrightarrow> bits < 5 \<Longrightarrow>
     in_alphabet output \<Longrightarrow>
     bits' < 5 \<and> in_alphabet output' \<and>
     id_bits output' @ reg bits' buffer' = id_bits output @ reg bits buffer @ byte_bits bytes"
proof (induction bytes buffer bits "output" rule: encode_bytes.induct)
  case (2 byte rest buffer bits out0)
  let ?buf = "push_bit 8 buffer OR ucast byte"
  obtain b o1 where w: "encode_while ?buf (bits + 8) out0 = (b, o1)" by fastforce
  have "reg (bits + 8) ?buf = reg bits buffer @ reg 8 byte"
    using 2(3) by (intro reg_shift_in) (simp_all add: byte_no_high_bits)
  with encode_while_bits [OF w 2(4)]
  have s: "b < 5" "in_alphabet o1" "id_bits o1 @ reg b ?buf = id_bits out0 @ reg bits buffer @ reg 8 byte"
    by simp_all
  have "encode_bytes rest ?buf b o1 = (buffer', bits', output')"
    using 2(2) w by (simp add: Let_def)
  from 2(1) [OF refl w [symmetric] refl this s(1,2)] s(3) show ?case
    by (metis append.assoc concat.simps(2) list.simps(9))
qed simp

lemma reg_pad: "n \<le> 5 \<Longrightarrow> reg 5 (push_bit (5 - n) (w :: 32 word)) = reg n w @ replicate (5 - n) False"
  by (intro nth_equalityI) (auto simp: nth_append reg_nth bit_push_bit_iff intro!: arg_cong [of _ _ "bit w"])

lemma encode_base32_bits:
  assumes "length bytes = 16"
  shows "in_alphabet (encode_base32 bytes) \<and> length (encode_base32 bytes) = 26 \<and>
    id_bits (encode_base32 bytes) = byte_bits bytes @ [False, False]"
proof -
  obtain buf b out where e: "encode_bytes bytes 0 0 [] = (buf, b, out)" by (metis prod_cases3)
  have s: "b < 5" "in_alphabet out" "id_bits out @ reg b buf = byte_bits bytes"
    using encode_bytes_bits [OF e] by simp_all
  then have "5 * length out + b = 128"
    using assms by (metis length_append length_byte_bits length_id_bits length_reg mult.commute numeral_times_numeral
        semiring_norm(13,14,15,11,12) mult_2)
  with s(1) have b: "b = 3" "length out = 25" by presburger+
  have "reg 5 (push_bit 2 buf) = reg 3 buf @ [False, False]"
    using reg_pad [of 3 buf] by (simp add: numeral_2_eq_2)
  with e b s show ?thesis by (simp add: encode_base32_def)
qed

lemma decode_while_bits:
  "decode_while buffer bits bytes = (bits', bytes') \<Longrightarrow>
     bits' < 8 \<and> byte_bits bytes' @ reg bits' buffer = byte_bits bytes @ reg bits buffer"
proof (induction buffer bits bytes rule: decode_while.induct)
  case (1 buffer bits bytes)
  show ?case
  proof (cases "bits \<ge> 8")
    case True
    have "reg bits buffer = reg 8 (drop_bit (bits - 8) buffer) @ reg (bits - 8) buffer"
      using reg_split [of "bits - 8" bits buffer] True by simp
    with 1 True show ?thesis
      by (auto simp: decode_while.simps [of buffer bits] Let_def low8 reg_ucast reg_mask)
  next
    case False
    with 1 show ?thesis by (simp add: decode_while.simps [of buffer bits])
  qed
qed

lemma value_no_high_bits: "v < 32 \<Longrightarrow> 5 \<le> i \<Longrightarrow> \<not> bit (of_nat v :: 32 word) i"
proof -
  assume "v < 32" "5 \<le> i"
  then have "v < 2 ^ i" using power_increasing [of 5 i "2::nat"] by simp
  then have "\<not> bit v i" by (simp add: bit_iff_odd)
  then show ?thesis by (simp add: bit_of_nat_iff)
qed

lemma decode_chars_None: "\<not> in_alphabet s \<Longrightarrow> decode_chars s buffer bits bytes = None"
  by (induction s buffer bits bytes rule: decode_chars.induct)
    (auto simp: Let_def split: option.splits prod.splits)

lemma decode_chars_bits:
  "in_alphabet s \<Longrightarrow> bits < 8 \<Longrightarrow>
     \<exists>bytes' rest. decode_chars s buffer bits bytes = Some bytes' \<and> length rest < 8 \<and>
       byte_bits bytes' @ rest = byte_bits bytes @ reg bits buffer @ id_bits s"
proof (induction s buffer bits bytes rule: decode_chars.induct)
  case (1 buffer bits bytes)
  then show ?case by auto
next
  case (2 ch rest buffer bits bytes)
  then obtain v where v: "decode_char ch = Some v" "in_alphabet rest" by auto
  let ?buf = "push_bit 5 buffer OR of_nat v"
  obtain b bs where w: "decode_while ?buf (bits + 5) bytes = (b, bs)" by fastforce
  have "reg (bits + 5) (push_bit 5 buffer OR ucast (of_nat v :: 32 word)) = reg bits buffer @ reg 5 (of_nat v :: 32 word)"
    using 2(3) decode_char_bound [OF v(1)] by (intro reg_shift_in) (simp_all add: value_no_high_bits)
  then have r: "reg (bits + 5) ?buf = reg bits buffer @ char_bits ch"
    by (simp add: char_bits_def v)
  with decode_while_bits [OF w]
  have s: "b < 8" "byte_bits bs @ reg b ?buf = byte_bits bytes @ reg bits buffer @ char_bits ch"
    by simp_all
  from 2(1) [OF v(1) refl w [symmetric] refl v(2) s(1)] obtain bytes' rest' where
    "decode_chars rest ?buf b bs = Some bytes'" "length rest' < 8"
    "byte_bits bytes' @ rest' = byte_bits bs @ reg b ?buf @ id_bits rest"
    by blast
  with s(2) v(1) w show ?case
    by (intro exI [of _ bytes'] exI [of _ rest']) simp
qed

text \<open>Twenty-six characters hold 130 bits: sixteen bytes and two bits that are dropped.\<close>

lemma decode_base32_bits:
  assumes "in_alphabet s" "length s = 26"
  shows "\<exists>bytes pad. decode_base32 s = Some bytes \<and> length bytes = 16 \<and> length pad = 2 \<and>
    id_bits s = byte_bits bytes @ pad"
proof -
  obtain bytes rest where d: "decode_chars s 0 0 [] = Some bytes" "length rest < 8"
      "byte_bits bytes @ rest = id_bits s"
    using decode_chars_bits [of s 0 0 "[]"] assms(1) by auto
  from arg_cong [OF d(3), of length] assms(2) have "8 * length bytes + length rest = 130" by simp
  with d(2) have "length bytes = 16" "length rest = 2" by presburger+
  with d show ?thesis by (intro exI [of _ bytes] exI [of _ rest]) (simp add: decode_base32_def)
qed

lemma chunks_unique:
  assumes "concat (map f xs) @ ps = concat (map f ys) @ qs" "length xs = length ys"
    and "\<And>x. length (f x) = n"
  shows "map f xs = map f ys"
  using assms(2,1)
proof (induction xs ys rule: list_induct2)
  case (Cons x xs y ys)
  then have "f x @ concat (map f xs) @ ps = f y @ concat (map f ys) @ qs" by simp
  then have "f x = f y \<and> concat (map f xs) @ ps = concat (map f ys) @ qs"
    by (subst (asm) append_eq_append_conv) (simp_all add: assms(3))
  then show ?case using Cons.IH by simp
qed simp

lemma byte_bits_inj:
  assumes "byte_bits xs @ ps = byte_bits ys @ qs" "length xs = length ys"
  shows "xs = ys"
proof -
  have "map (reg 8) xs = map (reg 8) ys" using chunks_unique [OF assms, of 8] by simp
  moreover have "inj (reg 8 :: 8 word \<Rightarrow> _)" using reg_inj [where 'a = 8] by (intro injI) simp
  ultimately show ?thesis by (simp add: inj_map_eq_map)
qed

lemma char_bits_eq:
  assumes "char_bits c = char_bits d" "decode_char c \<noteq> None" "decode_char d \<noteq> None"
  shows "ascii_lower c = ascii_lower d"
proof -
  obtain v w where vw: "decode_char c = Some v" "decode_char d = Some w" using assms(2,3) by auto
  have v: "v < 32" "w < 32" using decode_char_bound vw by blast+
  have "(of_nat v :: 32 word) = of_nat w"
  proof (rule bit_word_eqI)
    fix i :: nat
    show "bit (of_nat v :: 32 word) i = bit (of_nat w :: 32 word) i"
    proof (cases "i < 5")
      case True
      then show ?thesis
        using assms(1) reg_nth [of "4 - i" 5 "of_nat v :: 32 word"] reg_nth [of "4 - i" 5 "of_nat w :: 32 word"]
        by (simp add: char_bits_def vw)
    qed (simp add: value_no_high_bits v)
  qed
  from arg_cong [OF this, of unat] v have "v = w"
    by (simp add: unsigned_of_nat take_bit_nat_eq_self)
  then show ?thesis
    using position_bound vw by (metis decode_char_def)
qed

lemma take_id_bits: "take (5 * n) (id_bits s) = id_bits (take n s)"
proof (induction s arbitrary: n)
  case (Cons c s)
  then show ?case by (cases n) simp_all
qed simp

lemma same_bits_same_lower:
  "map char_bits xs = map char_bits ys \<Longrightarrow> in_alphabet xs \<Longrightarrow> in_alphabet ys \<Longrightarrow>
     map ascii_lower xs = map ascii_lower ys"
proof (induction xs arbitrary: ys)
  case (Cons x xs)
  then obtain y ys' where ys: "ys = y # ys'" by (cases ys) auto
  have "ascii_lower x = ascii_lower y"
    by (rule char_bits_eq) (use Cons.prems ys in auto)
  moreover have "map ascii_lower xs = map ascii_lower ys'"
    by (rule Cons.IH) (use Cons.prems ys in auto)
  ultimately show ?case using ys by simp
qed simp

lemma in_alphabet_take [simp]: "in_alphabet s \<Longrightarrow> in_alphabet (take n s)"
  by (auto simp: in_alphabet_def dest: in_set_takeD)

lemma alphabet_lower: "decode_char c \<noteq> None \<Longrightarrow> code_point c < 128"
proof -
  assume "decode_char c \<noteq> None"
  then have "ascii_lower c \<in> set MM_ID_ALPHABET"
    unfolding decode_char_def by (metis nth_mem option.exhaust position_bound)
  moreover have "\<forall>d \<in> set MM_ID_ALPHABET. code_point d < 128" by code_simp
  ultimately have "code_point (ascii_lower c) < 128" by blast
  then show ?thesis by (auto simp: ascii_lower_def split: if_splits)
qed

lemma alphabet_str_len: "in_alphabet s \<Longrightarrow> str_len s = length s"
  by (induction s) (auto simp: str_len_def alphabet_lower)

lemma ascii_lower_idem [simp]: "ascii_lower (ascii_lower c) = ascii_lower c"
  by (auto simp: ascii_lower_def code_point_def)

lemma decode_char_lower [simp]: "decode_char (ascii_lower c) = decode_char c"
  by (simp add: decode_char_def)

section \<open>Splitting at an underscore\<close>

lemma split_once_single:
  "x \<notin> set s \<Longrightarrow> split_once [x] (s @ x # t) = Some (s, t)"
  by (induction s) auto

lemma split_once_double:
  "x \<notin> set s \<Longrightarrow> split_once [x, x] (s @ x # x # t) = Some (s, t)"
proof (induction s)
  case (Cons c s)
  then show ?case by (cases s) auto
qed simp

lemma split_once_double_None:
  "x \<notin> set s \<Longrightarrow> split_once [x, x] s = None"
  by (induction s) auto

lemma split_once_double_skip:
  "x \<notin> set s \<Longrightarrow> t \<noteq> [] \<Longrightarrow> hd t \<noteq> x \<Longrightarrow> split_once [x, x] t = None \<Longrightarrow>
     split_once [x, x] (s @ x # t) = None"
proof (induction s)
  case Nil
  then show ?case by (cases t) auto
next
  case (Cons c s)
  then show ?case by (cases s) auto
qed

section \<open>Properties\<close>

text \<open>C38. Every UUID survives the trip to its 26-character Mattermost spelling and back, for any byte
  conversion of the UUID library that gives sixteen bytes and reads them back.\<close>

theorem mm_id_roundtrip:
  assumes "length (as_bytes u) = 16" "from_slice (as_bytes u) = Some u"
  shows "length (encode_mm_id as_bytes u) = 26 \<and> decode_mm_id from_slice (encode_mm_id as_bytes u) = Some u"
proof -
  let ?s = "encode_base32 (as_bytes u)"
  have e: "in_alphabet ?s" "length ?s = 26" "id_bits ?s = byte_bits (as_bytes u) @ [False, False]"
    using encode_base32_bits [OF assms(1)] by simp_all
  obtain bytes pad where d: "decode_base32 ?s = Some bytes" "length bytes = 16"
      "id_bits ?s = byte_bits bytes @ pad"
    using decode_base32_bits [OF e(1,2)] by blast
  have "bytes = as_bytes u" using byte_bits_inj [of bytes pad "as_bytes u"] d e(3) assms(1) by simp
  with d e assms(2) show ?thesis
    by (simp add: encode_mm_id_def decode_mm_id_def alphabet_str_len)
qed

definition be_bytes :: "uuid \<Rightarrow> 8 word list" where
  "be_bytes u = map (\<lambda>i. ucast (drop_bit (8 * (15 - i)) (uuid_bits u))) [0..<16]"

definition be_uuid :: "8 word list \<Rightarrow> uuid option" where
  "be_uuid bs = (if length bs = 16 then Some (Uuid (fold (\<lambda>b acc. push_bit 8 acc OR ucast b) bs 0)) else None)"

lemma be_bytes_example:
  "length (be_bytes (Uuid 0x0123456789abcdef)) = 16"
  "be_uuid (be_bytes (Uuid 0x0123456789abcdef)) = Some (Uuid 0x0123456789abcdef)"
  by code_simp+

theorem mm_id_roundtrip_witness:
  "decode_mm_id be_uuid (encode_mm_id be_bytes (Uuid 0x0123456789abcdef)) = Some (Uuid 0x0123456789abcdef)"
  using mm_id_roundtrip [of be_bytes "Uuid 0x0123456789abcdef" be_uuid, OF be_bytes_example] by simp

text \<open>Decoding accepts more than one spelling of an id, but never a different id: whatever string
  decodes to a UUID agrees, up to letter case, with that UUID's own spelling on the first 25 of its
  26 characters (the last one carries two unused bits).\<close>

theorem mm_id_spelling:
  assumes "decode_mm_id from_slice s = Some u"
    and "\<And>bs. from_slice bs = Some u \<Longrightarrow> as_bytes u = bs"
  shows "length s = 26 \<and> take 25 (to_ascii_lowercase s) = take 25 (to_ascii_lowercase (encode_mm_id as_bytes u))"
proof -
  obtain bs where bs: "decode_base32 s = Some bs" "from_slice bs = Some u" "str_len s = 26"
    using assms(1) by (auto simp: decode_mm_id_def split: if_splits option.splits)
  have s: "in_alphabet s"
  proof (rule ccontr)
    assume "\<not> in_alphabet s"
    then show False using bs(1) by (simp add: decode_base32_def decode_chars_None)
  qed
  then have len: "length s = 26" using bs(3) alphabet_str_len by simp
  obtain pad where d: "length bs = 16" "id_bits s = byte_bits bs @ pad"
    using decode_base32_bits [OF s len] bs(1) by auto
  let ?t = "encode_base32 bs"
  have e: "in_alphabet ?t" "length ?t = 26" "id_bits ?t = byte_bits bs @ [False, False]"
    using encode_base32_bits [OF d(1)] by simp_all
  have "take (5 * 25) (id_bits s) = take (5 * 25) (id_bits ?t)"
    unfolding d(2) e(3) using d(1) by simp
  then have "id_bits (take 25 s) = id_bits (take 25 ?t)"
    unfolding take_id_bits .
  then have "map char_bits (take 25 s) = map char_bits (take 25 ?t)"
    using chunks_unique [of char_bits "take 25 s" "[]" "take 25 ?t" "[]" 5] len e(2) by simp
  then have "map ascii_lower (take 25 s) = map ascii_lower (take 25 ?t)"
    by (rule same_bits_same_lower) (use s e(1) in simp_all)
  then show ?thesis
    using len assms(2) [OF bs(2)] by (simp add: to_ascii_lowercase_def encode_mm_id_def take_map)
qed

lemma shouted_zero_id:
  "decode_base32 ''YYYYYYYYYYYYYYYYYYYYYYYYYB'' = Some (be_bytes (Uuid 0))"
  "str_len ''YYYYYYYYYYYYYYYYYYYYYYYYYB'' = 26"
  by code_simp+

theorem mm_id_spelling_witness:
  "take 25 (to_ascii_lowercase ''YYYYYYYYYYYYYYYYYYYYYYYYYB'') =
   take 25 (to_ascii_lowercase (encode_mm_id be_bytes (Uuid 0)))"
  by (rule conjunct2, rule mm_id_spelling [of "\<lambda>bs. if bs = be_bytes (Uuid 0) then Some (Uuid 0) else None"
      "''YYYYYYYYYYYYYYYYYYYYYYYYYB''" "Uuid 0" be_bytes])
    (simp_all add: decode_mm_id_def shouted_zero_id split: if_split_asm)

lemma direct_names_parse:
  assumes "\<And>u. parse_str (show u) = Some u" "\<And>u. CHR ''_'' \<notin> set (show u)" "\<And>u. show u \<noteq> []"
  shows "parse_direct_channel_name parse_str (canonical_direct_channel_name show a b) = Some (min a b, max a b) \<and>
    parse_direct_channel_name parse_str (legacy_direct_channel_name show a b) = Some (min a b, max a b) \<and>
    canonical_direct_channel_name show a b = canonical_direct_channel_name show b a"
proof -
  obtain x y where xy: "sort_user_ids a b = (x, y)" "sort_user_ids x y = (x, y)" "min a b = x" "max a b = y"
      "sort_user_ids b a = (x, y)"
    by (cases "a \<le> b"; cases "b \<le> a") (simp_all add: sort_user_ids_def)
  have "split_once ''__'' (show x @ ''__'' @ show y) = Some (show x, show y)"
    using split_once_double [OF assms(2)] by simp
  moreover have "split_once ''__'' (show x @ ''_'' @ show y) = None"
    using split_once_double_skip [OF assms(2), of "show y" x] split_once_double_None [OF assms(2)] assms(2,3)
    by (metis append_Cons append_Nil hd_in_set)
  then have "split_once ''__'' (''dm'' @ CHR ''_'' # show x @ ''_'' @ show y) = None"
    using assms(2,3) by (intro split_once_double_skip) (auto, metis hd_in_set)
  moreover have "split_once ''_'' (show x @ ''_'' @ show y) = Some (show x, show y)"
    using split_once_single [OF assms(2)] by simp
  ultimately show ?thesis
    by (simp add: parse_direct_channel_name_def canonical_direct_channel_name_def
        legacy_direct_channel_name_def xy parse_pair_def assms(1) strip_prefix_def)
qed

text \<open>A direct-message channel name, canonical or legacy, names its two members whichever of them
  opens it: both spellings parse back to the same ordered pair. Needed of the UUID library: a
  printed UUID is not empty, has no underscore and parses back.\<close>

theorem direct_channel_name_roundtrip:
  assumes "\<And>u. parse_str (show u) = Some u" "\<And>u. CHR ''_'' \<notin> set (show u)" "\<And>u. show u \<noteq> []"
  shows "parse_direct_channel_name parse_str (canonical_direct_channel_name show a b) = Some (min a b, max a b) \<and>
    parse_direct_channel_name parse_str (legacy_direct_channel_name show a b) = Some (min a b, max a b) \<and>
    canonical_direct_channel_name show a b = canonical_direct_channel_name show b a"
  using assms by (rule direct_names_parse)

definition unary_show :: "uuid \<Rightarrow> string" where
  "unary_show u = CHR ''u'' # replicate (unat (uuid_bits u)) (CHR ''0'')"

definition unary_parse :: "string \<Rightarrow> uuid option" where
  "unary_parse s = Some (Uuid (of_nat (length s - 1)))"

theorem direct_channel_name_roundtrip_witness:
  "parse_direct_channel_name unary_parse (legacy_direct_channel_name unary_show (Uuid 2) (Uuid 1)) =
     Some (Uuid 1, Uuid 2)"
  using direct_channel_name_roundtrip [of unary_parse unary_show "Uuid 2" "Uuid 1"]
  by (auto simp: unary_parse_def unary_show_def min_def max_def less_eq_uuid_def word_le_nat_alt)

text \<open>Two direct-message channels share a canonical name only if they have the same two members.\<close>

theorem direct_channel_name_injective:
  assumes "\<And>u. parse_str (show u) = Some u" "\<And>u. CHR ''_'' \<notin> set (show u)"
  shows "(canonical_direct_channel_name show a b = canonical_direct_channel_name show c d) = ({a, b} = {c, d})"
proof -
  have p: "sort_user_ids x y = (min x y, max x y)" for x y
    by (auto simp: sort_user_ids_def min_def max_def)
  have s: "split_once ''__'' (canonical_direct_channel_name show x y) = Some (show (min x y), show (max x y))" for x y
    using split_once_double [OF assms(2)] by (simp add: canonical_direct_channel_name_def p)
  have inj: "show x = show y \<longleftrightarrow> x = y" for x y using assms(1) by (metis option.inject)
  have "canonical_direct_channel_name show a b = canonical_direct_channel_name show c d \<longleftrightarrow>
      min a b = min c d \<and> max a b = max c d"
    using s [of a b] s [of c d] by (auto simp: inj) (simp add: canonical_direct_channel_name_def p)
  also have "\<dots> \<longleftrightarrow> {a, b} = {c, d}"
    by (auto simp: min_def max_def doubleton_eq_iff split: if_splits)
  finally show ?thesis .
qed

theorem direct_channel_name_injective_witness:
  "canonical_direct_channel_name unary_show (Uuid 1) (Uuid 2) \<noteq>
   canonical_direct_channel_name unary_show (Uuid 1) (Uuid 3)"
  using direct_channel_name_injective [of unary_parse unary_show "Uuid 1" "Uuid 2" "Uuid 1" "Uuid 3"]
  by (auto simp: unary_parse_def unary_show_def doubleton_eq_iff)

end
