(* ===== verification/Ws_Events.thy ===== *)
theory Ws_Events
  imports Mm_Id
begin

text \<open>
  The messages of the WebSocket API: \<^verbatim>\<open>backend/src/realtime/events.rs\<close>. Envelopes carry their
  payload as a JSON value; the byte and text conversions of the \<^verbatim>\<open>uuid\<close> crate are arguments.
\<close>

section \<open>Envelopes\<close>

record ws_broadcast =
  wb_channel_id :: "uuid option"
  wb_team_id :: "uuid option"
  wb_user_id :: "uuid option"
  wb_exclude_user_id :: "uuid option"

record ws_envelope =
  we_msg_type :: string
  we_event :: string
  we_seq :: "nat option"
  we_channel_id :: "uuid option"
  we_data :: json
  we_broadcast :: "ws_broadcast option"

datatype event_type =
    MessageCreated
  | MessageUpdated
  | MessageDeleted
  | ThreadReplyCreated
  | ThreadReplyUpdated
  | ThreadReplyDeleted
  | ThreadUpdated
  | ReactionAdded
  | ReactionRemoved
  | UserTyping
  | UserTypingStop
  | ChannelCreated
  | ChannelUpdated
  | ChannelDeleted
  | ChannelViewed
  | ChannelUnread
  | PostUnread
  | MemberAdded
  | MemberRemoved
  | UserUpdated
  | UserPresence
  | EphemeralMessage
  | CallSignal
  | ConfigUpdated
  | UnreadCountsUpdated
  | ActivityCreated
  | ActivityRead
  | ChannelSubscribed
  | ChannelUnsubscribed
  | ReceivedGroup
  | ReceivedGroupAssociatedToTeam
  | ReceivedGroupNotAssociatedToTeam
  | ReceivedGroupAssociatedToChannel
  | ReceivedGroupNotAssociatedToChannel
  | GroupMemberAdd
  | GroupMemberDeleted
  | Error
  | Hello

fun as_str :: "event_type \<Rightarrow> string" where
  "as_str MessageCreated = ''posted''"
| "as_str MessageUpdated = ''post_edited''"
| "as_str MessageDeleted = ''post_deleted''"
| "as_str ThreadReplyCreated = ''thread_reply_created''"
| "as_str ThreadReplyUpdated = ''thread_reply_updated''"
| "as_str ThreadReplyDeleted = ''thread_reply_deleted''"
| "as_str ThreadUpdated = ''thread_updated''"
| "as_str ReactionAdded = ''reaction_added''"
| "as_str ReactionRemoved = ''reaction_removed''"
| "as_str UserTyping = ''typing''"
| "as_str UserTypingStop = ''stop_typing''"
| "as_str ActivityCreated = ''activity_created''"
| "as_str ActivityRead = ''activity_read''"
| "as_str ChannelSubscribed = ''channel_subscribed''"
| "as_str ChannelUnsubscribed = ''channel_unsubscribed''"
| "as_str ReceivedGroup = ''received_group''"
| "as_str ReceivedGroupAssociatedToTeam = ''received_group_associated_to_team''"
| "as_str ReceivedGroupNotAssociatedToTeam = ''received_group_not_associated_to_team''"
| "as_str ReceivedGroupAssociatedToChannel = ''received_group_associated_to_channel''"
| "as_str ReceivedGroupNotAssociatedToChannel = ''received_group_not_associated_to_channel''"
| "as_str GroupMemberAdd = ''group_member_add''"
| "as_str GroupMemberDeleted = ''group_member_deleted''"
| "as_str ChannelCreated = ''channel_created''"
| "as_str ChannelUpdated = ''channel_updated''"
| "as_str ChannelDeleted = ''channel_deleted''"
| "as_str ChannelViewed = ''channel_viewed''"
| "as_str ChannelUnread = ''channel_unread''"
| "as_str PostUnread = ''post_unread''"
| "as_str MemberAdded = ''user_added''"
| "as_str MemberRemoved = ''user_removed''"
| "as_str UserUpdated = ''user_updated''"
| "as_str UserPresence = ''status_change''"
| "as_str EphemeralMessage = ''ephemeral_message''"
| "as_str CallSignal = ''call_signal''"
| "as_str ConfigUpdated = ''config_updated''"
| "as_str UnreadCountsUpdated = ''unread_counts_updated''"
| "as_str Error = ''error''"
| "as_str Hello = ''hello''"

record client_envelope =
  ce_event :: string
  ce_data :: json
  ce_channel_id :: "uuid option"
  ce_seq :: "nat option"
  ce_client_msg_id :: "string option"

record typing_command_data =
  tcd_thread_root_id :: "uuid option"

text \<open>
  The field deserializer: the JSON field is absent or null, a string, or of another type (which
  \<^verbatim>\<open>Option::<String>::deserialize\<close> rejects).
\<close>

datatype de_error = InvalidType | InvalidId string

definition deserialize_optional_uuid_compat ::
  "(string \<Rightarrow> uuid option) \<Rightarrow> (8 word list \<Rightarrow> uuid option) \<Rightarrow> json option \<Rightarrow> de_error + uuid option" where
  "deserialize_optional_uuid_compat parse_str from_slice field =
     (case field of
        None \<Rightarrow> Inr None
      | Some JNull \<Rightarrow> Inr None
      | Some (JString ident) \<Rightarrow>
          (case parse_mm_or_uuid parse_str from_slice ident of
             None \<Rightarrow> Inl (InvalidId ident)
           | Some u \<Rightarrow> Inr (Some u))
      | Some _ \<Rightarrow> Inl InvalidType)"

record typing_event =
  te_user_id :: uuid
  te_display_name :: string
  te_thread_root_id :: "uuid option"

record presence_event =
  pe_user_id :: uuid
  pe_status :: string

record call_signal_event =
  cse_sender_id :: uuid
  cse_signal :: json

section \<open>Constructors\<close>

text \<open>\<open>data\<close> is the outcome of \<^verbatim>\<open>serde_json::to_value\<close>; a failure becomes null.\<close>

definition ws_event :: "event_type \<Rightarrow> json option \<Rightarrow> uuid option \<Rightarrow> ws_envelope" where
  "ws_event event data channel_id =
     \<lparr>we_msg_type = ''event'', we_event = as_str event, we_seq = None, we_channel_id = channel_id,
      we_data = (case data of None \<Rightarrow> JNull | Some v \<Rightarrow> v), we_broadcast = None\<rparr>"

definition with_broadcast :: "ws_envelope \<Rightarrow> ws_broadcast \<Rightarrow> ws_envelope" where
  "with_broadcast envelope broadcast = envelope\<lparr>we_broadcast := Some broadcast\<rparr>"

definition ws_error :: "string \<Rightarrow> ws_envelope" where
  "ws_error message =
     \<lparr>we_msg_type = ''event'', we_event = ''error'', we_seq = None, we_channel_id = None,
      we_data = JObject [(''message'', JString message)], we_broadcast = None\<rparr>"

definition pong :: "nat option \<Rightarrow> ws_envelope" where
  "pong seq =
     \<lparr>we_msg_type = ''response'', we_event = ''pong'', we_seq = seq, we_channel_id = None,
      we_data = JObject [(''text'', JString ''pong'')], we_broadcast = None\<rparr>"

definition hello :: "(uuid \<Rightarrow> string) \<Rightarrow> uuid \<Rightarrow> string \<Rightarrow> ws_envelope" where
  "hello show connection_id server_version =
     \<lparr>we_msg_type = ''event'', we_event = ''hello'', we_seq = None, we_channel_id = None,
      we_data = JObject [(''connection_id'', JString (show connection_id)),
                         (''server_version'', JString server_version),
                         (''reliable_websockets'', JBool True)],
      we_broadcast = None\<rparr>"

section \<open>Event names tell event types apart\<close>

definition all_events :: "event_type list" where
  "all_events =
  [MessageCreated, MessageUpdated, MessageDeleted, ThreadReplyCreated, ThreadReplyUpdated,
   ThreadReplyDeleted, ThreadUpdated, ReactionAdded, ReactionRemoved, UserTyping,
   UserTypingStop, ChannelCreated, ChannelUpdated, ChannelDeleted, ChannelViewed,
   ChannelUnread, PostUnread, MemberAdded, MemberRemoved, UserUpdated, UserPresence,
   EphemeralMessage, CallSignal, ConfigUpdated, UnreadCountsUpdated, ActivityCreated,
   ActivityRead, ChannelSubscribed, ChannelUnsubscribed, ReceivedGroup,
   ReceivedGroupAssociatedToTeam, ReceivedGroupNotAssociatedToTeam,
   ReceivedGroupAssociatedToChannel, ReceivedGroupNotAssociatedToChannel, GroupMemberAdd,
   GroupMemberDeleted, Error, Hello]"

lemma event_names_distinct: "distinct (map as_str all_events)"
  by (simp add: all_events_def)

lemma all_events_complete: "e \<in> set all_events"
  by (cases e) (simp_all add: all_events_def)

lemma as_str_inj: "as_str e = as_str f \<longleftrightarrow> e = f"
  using event_names_distinct all_events_complete [of e] all_events_complete [of f]
  by (auto simp: distinct_map inj_on_def)

end
