(* ===== verification/Ws_Hub.thy ===== *)
theory Ws_Hub
  imports Ws_Events Machine
begin

text \<open>
  The in-process WebSocket hub (\<^verbatim>\<open>backend/src/realtime/hub.rs\<close>) and its cluster link
  (\<^verbatim>\<open>backend/src/realtime/cluster_broadcast.rs\<close>).

  The hub keeps, per user, the senders of the user's connections, the subscribers of every channel
  and team, and a presence and a user-name cache. A send on the sender filed under a user and a
  connection id is recorded as the triple of user, connection and message; the type of the senders
  is a parameter, as the hub only stores and calls them. \<^verbatim>\<open>serde_json\<close> and the Redis client are
  the fields of \<open>cluster_io\<close>. Operations that hold their locks throughout are functions on the
  hub; \<open>remove_connection\<close>, which releases the connection table before it clears the caches, is
  the composition of its two critical sections, so that the interleaved machine can separate them.
\<close>

section \<open>Cluster link\<close>

definition WS_CLUSTER_CHANNEL :: string where
  "WS_CLUSTER_CHANNEL = ''rustchat:cluster:ws:broadcast''"

datatype cluster_message =
    Broadcast (cm_envelope: ws_envelope) (cm_origin_node: string)
  | Heartbeat (cm_node_id: string) (cm_timestamp: int) (cm_connection_count: nat)

record cluster_broadcast =
  cb_node_id :: string
  cb_redis_url :: string

record 'p cluster_io =
  io_to_string :: "ws_envelope \<Rightarrow> string option"
  io_to_vec :: "cluster_message \<Rightarrow> 'p option"
  io_from_slice :: "'p \<Rightarrow> cluster_message option"
  io_pool_get :: bool
  io_publish :: "string \<Rightarrow> 'p \<Rightarrow> bool"

datatype cluster_error =
    SerializeFailed
  | NoRedisConnection
  | PublishFailed
  | NoPayload
  | DeserializeFailed
  | StreamEnded
  | ConnectFailed

definition cluster_new :: "string option \<Rightarrow> string \<Rightarrow> string \<Rightarrow> cluster_broadcast" where
  "cluster_new hostname new_uuid redis_url =
     \<lparr>cb_node_id = (case hostname of Some h \<Rightarrow> h | None \<Rightarrow> ''unknown'') @ ''-'' @ new_uuid,
      cb_redis_url = redis_url\<rparr>"

definition publish_message :: "'p cluster_io \<Rightarrow> cluster_message \<Rightarrow> cluster_error + 'p" where
  "publish_message io message =
     (case io_to_vec io message of
        None \<Rightarrow> Inl SerializeFailed
      | Some payload \<Rightarrow>
          if \<not> io_pool_get io then Inl NoRedisConnection
          else if \<not> io_publish io WS_CLUSTER_CHANNEL payload then Inl PublishFailed
          else Inr payload)"

text \<open>\<open>Inr\<close> carries the payload that went out on the cluster channel.\<close>

definition broadcast_to_cluster ::
  "'p cluster_io \<Rightarrow> cluster_broadcast \<Rightarrow> ws_envelope \<Rightarrow> cluster_error + 'p" where
  "broadcast_to_cluster io cluster envelope =
     publish_message io (Broadcast envelope (cb_node_id cluster))"

section \<open>Hub\<close>

record 't ws_hub =
  hub_connections :: "(uuid, (uuid, 't) hm) hm"
  channel_subscriptions :: "(uuid, uuid list) hm"
  team_subscriptions :: "(uuid, uuid list) hm"
  presence :: "(uuid, string) hm"
  usernames :: "(uuid, string) hm"
  hub_cluster :: "cluster_broadcast option"

definition hub_new :: "'t ws_hub" where
  "hub_new = \<lparr>hub_connections = [], channel_subscriptions = [], team_subscriptions = [],
              presence = [], usernames = [], hub_cluster = None\<rparr>"

definition set_cluster_broadcast :: "cluster_broadcast \<Rightarrow> 't ws_hub \<Rightarrow> 't ws_hub" where
  "set_cluster_broadcast cluster hub = hub\<lparr>hub_cluster := Some cluster\<rparr>"

definition add_connection :: "uuid \<Rightarrow> 't \<Rightarrow> uuid \<Rightarrow> string \<Rightarrow> 't ws_hub \<Rightarrow> 't ws_hub" where
  "add_connection connection_id tx user_id username hub =
     (let user_connections = (case hm_get (hub_connections hub) user_id of None \<Rightarrow> [] | Some m \<Rightarrow> m)
      in hub\<lparr>hub_connections :=
               hm_insert user_id (hm_insert connection_id tx user_connections) (hub_connections hub),
             presence := hm_insert user_id ''online'' (presence hub),
             usernames := hm_insert user_id username (usernames hub)\<rparr>)"

definition remove_from_table :: "uuid \<Rightarrow> uuid \<Rightarrow> 't ws_hub \<Rightarrow> 't ws_hub \<times> bool" where
  "remove_from_table user_id connection_id hub =
     (case hm_get (hub_connections hub) user_id of
        None \<Rightarrow> (hub, False)
      | Some user_connections \<Rightarrow>
          (let user_connections = hm_remove connection_id user_connections
           in if user_connections = []
              then (hub\<lparr>hub_connections := hm_remove user_id (hub_connections hub)\<rparr>, True)
              else (hub\<lparr>hub_connections := hm_insert user_id user_connections (hub_connections hub)\<rparr>,
                    False)))"

definition clear_presence :: "uuid \<Rightarrow> 't ws_hub \<Rightarrow> 't ws_hub" where
  "clear_presence user_id hub =
     hub\<lparr>presence := hm_remove user_id (presence hub),
         usernames := hm_remove user_id (usernames hub)\<rparr>"

definition remove_hub_connection :: "uuid \<Rightarrow> uuid \<Rightarrow> 't ws_hub \<Rightarrow> 't ws_hub" where
  "remove_hub_connection user_id connection_id hub =
     (let (hub, should_clear_presence) = remove_from_table user_id connection_id hub
      in if should_clear_presence then clear_presence user_id hub else hub)"

definition subscribe_in :: "uuid \<Rightarrow> uuid \<Rightarrow> (uuid, uuid list) hm \<Rightarrow> (uuid, uuid list) hm" where
  "subscribe_in user_id key subs =
     (let users = (case hm_get subs key of None \<Rightarrow> [] | Some us \<Rightarrow> us)
      in hm_insert key (if user_id \<notin> set users then users @ [user_id] else users) subs)"

definition unsubscribe_in :: "uuid \<Rightarrow> uuid \<Rightarrow> (uuid, uuid list) hm \<Rightarrow> (uuid, uuid list) hm" where
  "unsubscribe_in user_id key subs = hm_modify key (retain_ne user_id) subs"

definition subscribe_channel :: "uuid \<Rightarrow> uuid \<Rightarrow> 't ws_hub \<Rightarrow> 't ws_hub" where
  "subscribe_channel user_id channel_id hub =
     hub\<lparr>channel_subscriptions := subscribe_in user_id channel_id (channel_subscriptions hub)\<rparr>"

definition unsubscribe_channel :: "uuid \<Rightarrow> uuid \<Rightarrow> 't ws_hub \<Rightarrow> 't ws_hub" where
  "unsubscribe_channel user_id channel_id hub =
     hub\<lparr>channel_subscriptions := unsubscribe_in user_id channel_id (channel_subscriptions hub)\<rparr>"

definition subscribe_team :: "uuid \<Rightarrow> uuid \<Rightarrow> 't ws_hub \<Rightarrow> 't ws_hub" where
  "subscribe_team user_id team_id hub =
     hub\<lparr>team_subscriptions := subscribe_in user_id team_id (team_subscriptions hub)\<rparr>"

definition unsubscribe_team :: "uuid \<Rightarrow> uuid \<Rightarrow> 't ws_hub \<Rightarrow> 't ws_hub" where
  "unsubscribe_team user_id team_id hub =
     hub\<lparr>team_subscriptions := unsubscribe_in user_id team_id (team_subscriptions hub)\<rparr>"

type_synonym delivery = "uuid \<times> uuid \<times> string"

definition send_to_user :: "'t ws_hub \<Rightarrow> string \<Rightarrow> uuid \<Rightarrow> delivery list" where
  "send_to_user hub message user_id =
     (case hm_get (hub_connections hub) user_id of
        None \<Rightarrow> []
      | Some user_connections \<Rightarrow> map (\<lambda>c. (user_id, c, message)) (hm_keys user_connections))"

definition send_to_subscribers ::
  "'t ws_hub \<Rightarrow> string \<Rightarrow> uuid option \<Rightarrow> (uuid, uuid list) hm \<Rightarrow> uuid \<Rightarrow> delivery list" where
  "send_to_subscribers hub message exclude_user_id subs key =
     (case hm_get subs key of
        None \<Rightarrow> []
      | Some user_ids \<Rightarrow>
          concat (map (\<lambda>user_id.
            if exclude_user_id = Some user_id then [] else send_to_user hub message user_id) user_ids))"

definition broadcast_local :: "(ws_envelope \<Rightarrow> string option) \<Rightarrow> 't ws_hub \<Rightarrow> ws_envelope \<Rightarrow> delivery list" where
  "broadcast_local to_string hub envelope =
     (case to_string envelope of
        None \<Rightarrow> []
      | Some message \<Rightarrow>
          (case we_broadcast envelope of
             Some broadcast \<Rightarrow>
               (case wb_channel_id broadcast of
                  Some channel_id \<Rightarrow>
                    send_to_subscribers hub message (wb_exclude_user_id broadcast)
                      (channel_subscriptions hub) channel_id
                | None \<Rightarrow>
                    (case wb_team_id broadcast of
                       Some team_id \<Rightarrow>
                         send_to_subscribers hub message (wb_exclude_user_id broadcast)
                           (team_subscriptions hub) team_id
                     | None \<Rightarrow>
                         (case wb_user_id broadcast of
                            Some user_id \<Rightarrow> send_to_user hub message user_id
                          | None \<Rightarrow> [])))
           | None \<Rightarrow>
               concat (map (\<lambda>(user_id, user_connections).
                 map (\<lambda>c. (user_id, c, message)) (hm_keys user_connections)) (hub_connections hub))))"

text \<open>\<open>hub_broadcast\<close> returns the local sends and the payload published to the cluster, if any.\<close>

definition hub_broadcast :: "'p cluster_io \<Rightarrow> 't ws_hub \<Rightarrow> ws_envelope \<Rightarrow> delivery list \<times> 'p list" where
  "hub_broadcast io hub envelope =
     (broadcast_local (io_to_string io) hub envelope,
      case hub_cluster hub of
        None \<Rightarrow> []
      | Some cluster \<Rightarrow>
          (case broadcast_to_cluster io cluster envelope of Inl err \<Rightarrow> [] | Inr payload \<Rightarrow> [payload]))"

definition set_presence :: "uuid \<Rightarrow> string \<Rightarrow> 't ws_hub \<Rightarrow> 't ws_hub" where
  "set_presence user_id status hub = hub\<lparr>presence := hm_insert user_id status (presence hub)\<rparr>"

definition get_presence :: "uuid \<Rightarrow> 't ws_hub \<Rightarrow> string option" where
  "get_presence user_id hub = hm_get (presence hub) user_id"

definition online_users :: "'t ws_hub \<Rightarrow> uuid list" where
  "online_users hub = map fst (filter (\<lambda>(_, status). status = ''online'') (presence hub))"

definition get_username :: "uuid \<Rightarrow> 't ws_hub \<Rightarrow> string option" where
  "get_username user_id hub = hm_get (usernames hub) user_id"

definition count_connections :: "'t ws_hub \<Rightarrow> nat" where
  "count_connections hub = sum_list (map length (hm_values (hub_connections hub)))"

definition user_connection_count :: "uuid \<Rightarrow> 't ws_hub \<Rightarrow> nat" where
  "user_connection_count user_id hub =
     (case hm_get (hub_connections hub) user_id of None \<Rightarrow> 0 | Some m \<Rightarrow> length m)"

section \<open>Receiving from the cluster\<close>

definition send_heartbeat :: "'p cluster_io \<Rightarrow> int \<Rightarrow> 't ws_hub \<Rightarrow> cluster_broadcast \<Rightarrow> cluster_error + 'p" where
  "send_heartbeat io timestamp hub cluster =
     publish_message io (Heartbeat (cb_node_id cluster) timestamp (count_connections hub))"

text \<open>\<open>None\<close> is a message whose payload cannot be read.\<close>

definition handle_cluster_message ::
  "'p cluster_io \<Rightarrow> 't ws_hub \<Rightarrow> string \<Rightarrow> 'p option \<Rightarrow> cluster_error + delivery list" where
  "handle_cluster_message io hub local_node_id msg =
     (case msg of
        None \<Rightarrow> Inl NoPayload
      | Some payload \<Rightarrow>
          (case io_from_slice io payload of
             None \<Rightarrow> Inl DeserializeFailed
           | Some (Broadcast envelope origin_node) \<Rightarrow>
               if origin_node = local_node_id then Inr []
               else Inr (broadcast_local (io_to_string io) hub envelope)
           | Some (Heartbeat node_id timestamp connection_count) \<Rightarrow> Inr []))"

text \<open>
  One subscriber session is whether the dedicated connection could be opened and the messages it
  yields before the stream ends. A failing message is logged and skipped; the stream's end is an
  error, and \<open>cluster_start\<close> then reconnects.
\<close>

fun run_subscriber ::
  "'p cluster_io \<Rightarrow> 't ws_hub \<Rightarrow> string \<Rightarrow> bool \<times> 'p option list \<Rightarrow> delivery list \<times> cluster_error" where
  "run_subscriber io hub node_id (connected, msgs) =
     (if \<not> connected then ([], ConnectFailed)
      else (concat (map (\<lambda>msg. case handle_cluster_message io hub node_id msg of
                                 Inl e \<Rightarrow> [] | Inr ds \<Rightarrow> ds) msgs), StreamEnded))"

definition cluster_start ::
  "'p cluster_io \<Rightarrow> 't ws_hub \<Rightarrow> string \<Rightarrow> (bool \<times> 'p option list) list \<Rightarrow> delivery list" where
  "cluster_start io hub node_id sessions =
     concat (map (\<lambda>session. fst (run_subscriber io hub node_id session)) sessions)"

section \<open>Subscription tables\<close>

definition table_subscribers :: "(uuid, uuid list) hm \<Rightarrow> uuid \<Rightarrow> uuid list" where
  "table_subscribers subs key = (case hm_get subs key of None \<Rightarrow> [] | Some us \<Rightarrow> us)"

definition channel_subscribers :: "'t ws_hub \<Rightarrow> uuid \<Rightarrow> uuid list" where
  "channel_subscribers hub = table_subscribers (channel_subscriptions hub)"

definition team_subscribers :: "'t ws_hub \<Rightarrow> uuid \<Rightarrow> uuid list" where
  "team_subscribers hub = table_subscribers (team_subscriptions hub)"

lemma subscribers_subscribe_in:
  "table_subscribers (subscribe_in u k subs) k' =
     (if k' = k then push_new u (table_subscribers subs k) else table_subscribers subs k')"
  by (cases "hm_get subs k") (simp_all add: table_subscribers_def subscribe_in_def push_new_def Let_def)

lemma subscribers_unsubscribe_in:
  "table_subscribers (unsubscribe_in u k subs) k' =
     (if k' = k then retain_ne u (table_subscribers subs k) else table_subscribers subs k')"
  by (simp add: table_subscribers_def unsubscribe_in_def split: option.splits)

text \<open>
  What a subscription table promises to the broadcaster, and what follows for any sequence of
  calls: a user is a subscriber exactly when the last call about that user and key subscribed it.
\<close>

datatype sub_op = Subscribe uuid uuid | Unsubscribe uuid uuid

fun sub_verdict :: "uuid \<Rightarrow> uuid \<Rightarrow> sub_op list \<Rightarrow> bool option" where
  "sub_verdict u k [] = None"
| "sub_verdict u k (op # ops) =
     (case sub_verdict u k ops of
        Some v \<Rightarrow> Some v
      | None \<Rightarrow> (case op of
                   Subscribe u' k' \<Rightarrow> if u' = u \<and> k' = k then Some True else None
                 | Unsubscribe u' k' \<Rightarrow> if u' = u \<and> k' = k then Some False else None))"

locale subscription_index =
  fixes subscribe :: "uuid \<Rightarrow> uuid \<Rightarrow> 's \<Rightarrow> 's"
    and unsubscribe :: "uuid \<Rightarrow> uuid \<Rightarrow> 's \<Rightarrow> 's"
    and subscribers :: "'s \<Rightarrow> uuid \<Rightarrow> uuid list"
  assumes set_subscribe: "set (subscribers (subscribe u k s) k') =
      (if k' = k then insert u (set (subscribers s k)) else set (subscribers s k'))"
    and set_unsubscribe: "set (subscribers (unsubscribe u k s) k') =
      (if k' = k then set (subscribers s k) - {u} else set (subscribers s k'))"
    and distinct_subscribe: "distinct (subscribers s k') \<Longrightarrow> distinct (subscribers (subscribe u k s) k')"
    and distinct_unsubscribe: "distinct (subscribers s k') \<Longrightarrow> distinct (subscribers (unsubscribe u k s) k')"
begin

primrec run_sub :: "sub_op \<Rightarrow> 's \<Rightarrow> 's" where
  "run_sub (Subscribe u k) s = subscribe u k s"
| "run_sub (Unsubscribe u k) s = unsubscribe u k s"

lemma run_subs_verdict:
  "u \<in> set (subscribers (fold run_sub ops s) k) \<longleftrightarrow>
     (case sub_verdict u k ops of Some v \<Rightarrow> v | None \<Rightarrow> u \<in> set (subscribers s k))"
proof (induction ops arbitrary: s)
  case (Cons op ops)
  show ?case
    by (cases op; cases "sub_verdict u k ops") (auto simp: Cons set_subscribe set_unsubscribe)
qed simp

lemma run_subs_distinct:
  "distinct (subscribers s k) \<Longrightarrow> distinct (subscribers (fold run_sub ops s) k)"
proof (induction ops arbitrary: s)
  case (Cons op ops)
  then show ?case by (cases op) (simp_all add: distinct_subscribe distinct_unsubscribe)
qed simp

end

lemmas subscription_defs = channel_subscribers_def team_subscribers_def subscribe_channel_def
  unsubscribe_channel_def subscribe_team_def unsubscribe_team_def

interpretation channel_index: subscription_index subscribe_channel unsubscribe_channel channel_subscribers
  by unfold_locales (auto simp: subscription_defs subscribers_subscribe_in subscribers_unsubscribe_in)

interpretation team_index: subscription_index subscribe_team unsubscribe_team team_subscribers
  by unfold_locales (auto simp: subscription_defs subscribers_subscribe_in subscribers_unsubscribe_in)

section \<open>The hub as a state machine\<close>

datatype 't hub_op =
    AddConnection uuid 't uuid string
  | RemoveHubConnection uuid uuid
  | SubscribeChannel uuid uuid
  | UnsubscribeChannel uuid uuid
  | SubscribeTeam uuid uuid
  | UnsubscribeTeam uuid uuid
  | SetPresence uuid string
  | SetCluster cluster_broadcast

fun hub_apply :: "'t hub_op \<Rightarrow> 't ws_hub \<Rightarrow> 't ws_hub" where
  "hub_apply (AddConnection c tx u name) h = add_connection c tx u name h"
| "hub_apply (RemoveHubConnection u c) h = remove_hub_connection u c h"
| "hub_apply (SubscribeChannel u k) h = subscribe_channel u k h"
| "hub_apply (UnsubscribeChannel u k) h = unsubscribe_channel u k h"
| "hub_apply (SubscribeTeam u k) h = subscribe_team u k h"
| "hub_apply (UnsubscribeTeam u k) h = unsubscribe_team u k h"
| "hub_apply (SetPresence u st) h = set_presence u st h"
| "hub_apply (SetCluster cl) h = set_cluster_broadcast cl h"

inductive hub_step :: "'t ws_hub \<Rightarrow> 't hub_op \<Rightarrow> 't ws_hub \<Rightarrow> bool" where
  hub_step: "hub_step h op (hub_apply op h)"

inductive_simps hub_step_iff: "hub_step h op h'"

abbreviation hub_init :: "'t ws_hub \<Rightarrow> bool" where
  "hub_init h \<equiv> h = hub_new"

definition table_ok :: "(uuid, (uuid, 't) hm) hm \<Rightarrow> bool" where
  "table_ok conns \<longleftrightarrow> hm_wf conns \<and> (\<forall>u m. hm_get conns u = Some m \<longrightarrow> hm_wf m \<and> m \<noteq> [])"

definition hub_inv :: "'t ws_hub \<Rightarrow> bool" where
  "hub_inv h \<longleftrightarrow>
     table_ok (hub_connections h) \<and>
     (\<forall>k. distinct (channel_subscribers h k)) \<and> (\<forall>k. distinct (team_subscribers h k)) \<and>
     (\<forall>u. hm_get (hub_connections h) u \<noteq> None \<longrightarrow>
        hm_get (presence h) u \<noteq> None \<and> hm_get (usernames h) u \<noteq> None)"

lemma hm_insert_not_Nil [simp]: "hm_insert k v m \<noteq> []"
  by (cases m) auto

lemma table_ok_add [intro]:
  "table_ok conns \<Longrightarrow>
     table_ok (hm_insert u (hm_insert c tx (case hm_get conns u of None \<Rightarrow> [] | Some m \<Rightarrow> m)) conns)"
  by (auto simp: table_ok_def split: option.splits)

lemma hub_inv_add [preserves]: "hub_inv h \<Longrightarrow> hub_inv (add_connection c tx u name h)"
  by (auto simp: hub_inv_def add_connection_def Let_def channel_subscribers_def team_subscribers_def)

lemma hub_inv_remove [preserves]: "hub_inv h \<Longrightarrow> hub_inv (remove_hub_connection u c h)"
  by (auto simp: hub_inv_def remove_hub_connection_def remove_from_table_def clear_presence_def
      table_ok_def Let_def channel_subscribers_def team_subscribers_def split: option.splits)

lemma hub_inv_subscribe [preserves]:
  assumes "hub_inv h"
  shows "hub_inv (subscribe_channel u k h)" "hub_inv (unsubscribe_channel u k h)"
    "hub_inv (subscribe_team u k h)" "hub_inv (unsubscribe_team u k h)"
  using assms
  by (auto simp: hub_inv_def subscription_defs subscribers_subscribe_in subscribers_unsubscribe_in)

lemma hub_inv_set [preserves]:
  assumes "hub_inv h"
  shows "hub_inv (set_presence u st h)" "hub_inv (set_cluster_broadcast cl h)"
  using assms
  by (auto simp: hub_inv_def set_presence_def set_cluster_broadcast_def channel_subscribers_def team_subscribers_def)

interpretation hub: safe_machine hub_init hub_step hub_inv
proof unfold_locales
  fix h :: "'t ws_hub" assume "h = hub_new"
  then show "hub_inv h"
    by (simp add: hub_inv_def hub_new_def table_ok_def channel_subscribers_def team_subscribers_def table_subscribers_def)
next
  fix h h' :: "'t ws_hub" and op assume "hub_inv h" "hub_step h op h'"
  then show "hub_inv h'" by (cases op) (auto simp: hub_step_iff intro: preserves)
qed

section \<open>Who receives a broadcast\<close>

definition is_connection :: "'t ws_hub \<Rightarrow> uuid \<Rightarrow> uuid \<Rightarrow> bool" where
  "is_connection h u c \<longleftrightarrow>
     (case hm_get (hub_connections h) u of None \<Rightarrow> False | Some m \<Rightarrow> c \<in> set (hm_keys m))"

definition addressed :: "'t ws_hub \<Rightarrow> ws_broadcast option \<Rightarrow> uuid \<Rightarrow> bool" where
  "addressed h target u =
     (case target of
        None \<Rightarrow> True
      | Some b \<Rightarrow>
          (case (wb_channel_id b, wb_team_id b) of
             (Some ch, _) \<Rightarrow> u \<in> set (channel_subscribers h ch) \<and> wb_exclude_user_id b \<noteq> Some u
           | (None, Some t) \<Rightarrow> u \<in> set (team_subscribers h t) \<and> wb_exclude_user_id b \<noteq> Some u
           | (None, None) \<Rightarrow> wb_user_id b = Some u))"

lemma send_to_user_iff:
  "(u, c, m) \<in> set (send_to_user h msg u') \<longleftrightarrow> u = u' \<and> m = msg \<and> is_connection h u c"
  by (auto simp: send_to_user_def is_connection_def split: option.splits)

lemma send_to_user_distinct: "table_ok (hub_connections h) \<Longrightarrow> distinct (send_to_user h msg u)"
  by (auto simp: send_to_user_def table_ok_def hm_wf_def distinct_map inj_on_def split: option.splits)

lemma distinct_concat_users:
  assumes "distinct us" "\<And>u. distinct (f u)" "\<And>u x. x \<in> set (f u) \<Longrightarrow> fst x = u"
  shows "distinct (concat (map f us))"
  using assms(1)
proof (induction us)
  case (Cons u us)
  have "x \<notin> set (f v)" if "x \<in> set (f u)" "v \<in> set us" for x v
    using that Cons.prems assms(3) [of x u] assms(3) [of x v] by auto
  with Cons assms(2) show ?case by auto
qed simp

lemma send_to_subscribers_eq:
  "send_to_subscribers h msg ex subs k =
     concat (map (\<lambda>u. if ex = Some u then [] else send_to_user h msg u) (table_subscribers subs k))"
  by (simp add: send_to_subscribers_def table_subscribers_def split: option.splits)

lemma send_to_subscribers_iff:
  "(u, c, m) \<in> set (send_to_subscribers h msg ex subs k) \<longleftrightarrow>
     u \<in> set (table_subscribers subs k) \<and> ex \<noteq> Some u \<and> m = msg \<and> is_connection h u c"
  by (auto simp: send_to_subscribers_eq send_to_user_iff split: if_splits)

lemma send_to_subscribers_distinct:
  "table_ok (hub_connections h) \<Longrightarrow> distinct (table_subscribers subs k) \<Longrightarrow>
     distinct (send_to_subscribers h msg ex subs k)"
  unfolding send_to_subscribers_eq
  by (rule distinct_concat_users) (auto simp: send_to_user_distinct send_to_user_iff split: if_splits)

text \<open>The untargeted loop over the whole table is a send to every connected user.\<close>

definition send_to_all :: "'t ws_hub \<Rightarrow> string \<Rightarrow> delivery list" where
  "send_to_all h msg = concat (map (send_to_user h msg) (hm_keys (hub_connections h)))"

lemma broadcast_all_eq:
  assumes "table_ok (hub_connections h)"
  shows "concat (map (\<lambda>(u, m). map (\<lambda>c. (u, c, msg)) (hm_keys m)) (hub_connections h)) = send_to_all h msg"
proof -
  have "send_to_user h msg u = map (\<lambda>c. (u, c, msg)) (hm_keys m)" if "(u, m) \<in> set (hub_connections h)" for u m
    using that assms hm_get_iff_mem [of "hub_connections h" u m] by (simp add: send_to_user_def table_ok_def)
  then show ?thesis unfolding send_to_all_def
    by (auto intro!: arg_cong [of _ _ concat] simp: comp_def split: prod.splits)
qed

lemma send_to_all_iff: "(u, c, m) \<in> set (send_to_all h msg) \<longleftrightarrow> m = msg \<and> is_connection h u c"
proof -
  have "is_connection h u c \<Longrightarrow> u \<in> set (hm_keys (hub_connections h))"
    unfolding hm_key_mem_iff by (simp add: is_connection_def split: option.splits)
  then show ?thesis by (auto simp: send_to_all_def send_to_user_iff)
qed

lemma send_to_all_distinct: "table_ok (hub_connections h) \<Longrightarrow> distinct (send_to_all h msg)"
  unfolding send_to_all_def
  by (rule distinct_concat_users) (auto simp: send_to_user_distinct send_to_user_iff table_ok_def hm_wf_def)

lemma broadcast_local_exact:
  assumes "hub_inv h"
  shows "distinct (broadcast_local ser h env)"
    and "(u, c, m) \<in> set (broadcast_local ser h env) \<longleftrightarrow>
      ser env = Some m \<and> addressed h (we_broadcast env) u \<and> is_connection h u c"
proof -
  have ok: "table_ok (hub_connections h)" "\<And>k. distinct (channel_subscribers h k)"
      "\<And>k. distinct (team_subscribers h k)"
    using assms by (simp_all add: hub_inv_def)
  note unfolds = broadcast_local_def broadcast_all_eq [OF ok(1)]
  note simps = addressed_def send_to_all_iff
    send_to_user_iff send_to_subscribers_iff channel_subscribers_def team_subscribers_def
  note distincts = send_to_all_distinct [OF ok(1)] send_to_user_distinct [OF ok(1)]
    send_to_subscribers_distinct [OF ok(1)] ok(2,3) [unfolded channel_subscribers_def team_subscribers_def]
  show "distinct (broadcast_local ser h env)"
    unfolding unfolds by (auto simp: distincts split: option.splits)
  show "(u, c, m) \<in> set (broadcast_local ser h env) \<longleftrightarrow>
      ser env = Some m \<and> addressed h (we_broadcast env) u \<and> is_connection h u c"
    unfolding unfolds by (auto simp: simps split: option.splits)
qed

section \<open>Removal in two critical sections\<close>

text \<open>
  Between the two sections of a removal any other call can run. The second component of the state
  lists the users whose caches a removal in progress is about to clear.
\<close>

datatype 't race_op = Whole "'t hub_op" | RemoveBegin uuid uuid | RemoveEnd uuid

inductive race_step :: "'t ws_hub \<times> uuid list \<Rightarrow> 't race_op \<Rightarrow> 't ws_hub \<times> uuid list \<Rightarrow> bool" where
  race_whole: "race_step (h, ps) (Whole op) (hub_apply op h, ps)"
| race_begin: "remove_from_table u c h = (h', clear) \<Longrightarrow>
     race_step (h, ps) (RemoveBegin u c) (h', if clear then u # ps else ps)"
| race_end: "u \<in> set ps \<Longrightarrow> race_step (h, ps) (RemoveEnd u) (clear_presence u h, remove1 u ps)"

abbreviation race_init :: "'t ws_hub \<times> uuid list \<Rightarrow> bool" where
  "race_init s \<equiv> s = (hub_new, [])"

lemma reach_race: "reach race_init race_step s \<Longrightarrow> race_step s e t \<Longrightarrow> reach race_init race_step t"
  by (rule reach_step)

section \<open>A cluster of hubs\<close>

text \<open>
  One event in a cluster: node \<open>i\<close> broadcasts it, and Redis hands what it published to the
  subscriber of every node, itself included. \<open>cluster_deliveries\<close> is what node \<open>j\<close> sends.
\<close>

definition cluster_deliveries ::
  "'p cluster_io \<Rightarrow> (string \<times> 't ws_hub) list \<Rightarrow> nat \<Rightarrow> nat \<Rightarrow> ws_envelope \<Rightarrow> delivery list" where
  "cluster_deliveries io nodes i j envelope =
     (let (local, published) = hub_broadcast io (snd (nodes ! i)) envelope;
          (node_id, hub) = nodes ! j
      in (if i = j then local else []) @ fst (run_subscriber io hub node_id (True, map Some published)))"

definition cluster_ok :: "(string \<times> 't ws_hub) list \<Rightarrow> bool" where
  "cluster_ok nodes \<longleftrightarrow> distinct (map fst nodes) \<and>
     list_all (\<lambda>(node_id, hub). map_option cb_node_id (hub_cluster hub) = Some node_id) nodes"

lemma published_payload:
  assumes "hub_cluster h = Some cl" "io_to_vec io (Broadcast env (cb_node_id cl)) = Some p"
    and "io_pool_get io" "io_publish io WS_CLUSTER_CHANNEL p"
  shows "hub_broadcast io h env = (broadcast_local (io_to_string io) h env, [p])"
  using assms by (simp add: hub_broadcast_def broadcast_to_cluster_def publish_message_def)

section \<open>Properties\<close>

text \<open>C6. A broadcast reaches exactly the connections it is addressed to, each once: the subscribers of its
  channel, else of its team, minus the excluded user; else the one user it names; everybody when it
  has no target. In particular it never reaches a user who is not subscribed, nor the excluded one.\<close>

theorem broadcast_exact:
  assumes "reach hub_init hub_step h"
  shows "distinct (broadcast_local ser h env) \<and>
    ((u, c, m) \<in> set (broadcast_local ser h env)) =
      (ser env = Some m \<and> addressed h (we_broadcast env) u \<and> is_connection h u c)"
  using broadcast_local_exact [OF hub.reach_safe [OF assms]] by simp

definition demo_hub :: "unit ws_hub" where
  "demo_hub = subscribe_channel (Uuid 2) (Uuid 9) (subscribe_channel (Uuid 1) (Uuid 9)
     (add_connection (Uuid 12) () (Uuid 2) ''bob'' (add_connection (Uuid 11) () (Uuid 1) ''ann'' hub_new)))"

lemma reach_hub_apply: "reach hub_init hub_step h \<Longrightarrow> reach hub_init hub_step (hub_apply op h)"
  by (rule reach_step [where step = hub_step and s = h], assumption, rule hub_step)

lemma demo_hub_reachable: "reach hub_init hub_step demo_hub"
proof -
  have eq: "demo_hub = hub_apply (SubscribeChannel (Uuid 2) (Uuid 9))
      (hub_apply (SubscribeChannel (Uuid 1) (Uuid 9)) (hub_apply (AddConnection (Uuid 12) () (Uuid 2) ''bob'')
        (hub_apply (AddConnection (Uuid 11) () (Uuid 1) ''ann'') hub_new)))"
    by (simp add: demo_hub_def)
  show ?thesis unfolding eq by (intro reach_hub_apply reach_init refl)
qed

lemmas demo_hub_simps = demo_hub_def hub_new_def add_connection_def subscribe_channel_def subscribe_in_def Let_def

theorem broadcast_exact_witness:
  "(Uuid 1, Uuid 11, ''m'') \<notin> set (broadcast_local (\<lambda>_. Some ''m'') demo_hub
     (with_broadcast (pong None) \<lparr>wb_channel_id = Some (Uuid 9), wb_team_id = None, wb_user_id = None,
        wb_exclude_user_id = Some (Uuid 1)\<rparr>)) \<and>
   (Uuid 2, Uuid 12, ''m'') \<in> set (broadcast_local (\<lambda>_. Some ''m'') demo_hub
     (with_broadcast (pong None) \<lparr>wb_channel_id = Some (Uuid 9), wb_team_id = None, wb_user_id = None,
        wb_exclude_user_id = Some (Uuid 1)\<rparr>))"
proof -
  let ?e = "with_broadcast (pong None) \<lparr>wb_channel_id = Some (Uuid 9), wb_team_id = None, wb_user_id = None,
        wb_exclude_user_id = Some (Uuid 1)\<rparr>"
  have "is_connection demo_hub (Uuid 2) (Uuid 12)" "\<not> addressed demo_hub (we_broadcast ?e) (Uuid 1)"
    "addressed demo_hub (we_broadcast ?e) (Uuid 2)"
    by (simp_all add: is_connection_def addressed_def with_broadcast_def channel_subscribers_def
        table_subscribers_def demo_hub_simps)
  then show ?thesis
    using broadcast_exact [OF demo_hub_reachable, of "\<lambda>_. Some ''m''" ?e] by simp
qed

text \<open>Subscriptions are last-call-wins: after any sequence of subscribe and unsubscribe calls a user is a
  subscriber of a channel exactly if the last call about the two subscribed it (or none was made and
  it already was one), and no user is listed twice.\<close>

theorem subscription_last_call_wins:
  assumes "\<And>k. distinct (channel_subscribers h k)"
  shows "distinct (channel_subscribers (fold channel_index.run_sub ops h) k) \<and>
    (u \<in> set (channel_subscribers (fold channel_index.run_sub ops h) k)) =
      (case sub_verdict u k ops of Some v \<Rightarrow> v | None \<Rightarrow> u \<in> set (channel_subscribers h k))"
  by (intro conjI channel_index.run_subs_distinct assms channel_index.run_subs_verdict)

theorem subscription_last_call_wins_witness:
  "Uuid 1 \<notin> set (channel_subscribers (fold channel_index.run_sub
      [Subscribe (Uuid 1) (Uuid 9), Unsubscribe (Uuid 1) (Uuid 9)] (hub_new :: unit ws_hub)) (Uuid 9))"
  using subscription_last_call_wins [of "hub_new :: unit ws_hub"
      "[Subscribe (Uuid 1) (Uuid 9), Unsubscribe (Uuid 1) (Uuid 9)]" "Uuid 9" "Uuid 1"]
  by (simp add: channel_subscribers_def table_subscribers_def hub_new_def)

text \<open>When removals are not interrupted, every connected user has a presence status and a cached user
  name, and no user entry without connections is left behind.\<close>

theorem connected_users_have_presence:
  assumes "reach hub_init hub_step h" "0 < user_connection_count u h"
  shows "get_presence u h \<noteq> None \<and> get_username u h \<noteq> None"
  using hub.reach_safe [OF assms(1)] assms(2)
  by (auto simp: hub_inv_def user_connection_count_def get_presence_def get_username_def split: option.splits)

theorem connected_users_have_presence_witness:
  "get_presence (Uuid 1) demo_hub \<noteq> None"
  using connected_users_have_presence [OF demo_hub_reachable, of "Uuid 1"]
  by (simp add: user_connection_count_def demo_hub_simps)

text \<open>The removal releases the connection table before it clears the caches. If the user reconnects in
  between, the late clearing hits the new session: a connected user ends up with no presence status
  and no cached user name.\<close>

theorem removal_race_loses_presence:
  "\<exists>h u. reach race_init race_step (h :: unit ws_hub, []) \<and> 0 < user_connection_count u h \<and>
     get_presence u h = None \<and> get_username u h = None"
proof -
  let ?u = "Uuid 1"
  let ?h1 = "add_connection (Uuid 11) () ?u ''ann'' (hub_new :: unit ws_hub)"
  let ?h3 = "add_connection (Uuid 12) () ?u ''ann'' (fst (remove_from_table ?u (Uuid 11) ?h1))"
  have r1: "reach race_init race_step (?h1, [])"
    using reach_race [OF reach_init race_whole [of hub_new "[]" "AddConnection (Uuid 11) () ?u ''ann''"]] by simp
  have "remove_from_table ?u (Uuid 11) ?h1 = (fst (remove_from_table ?u (Uuid 11) ?h1), True)"
    by (simp add: remove_from_table_def add_connection_def hub_new_def)
  from reach_race [OF r1 race_begin [OF this]]
  have "reach race_init race_step (fst (remove_from_table ?u (Uuid 11) ?h1), [?u])" by simp
  from reach_race [OF this race_whole [of _ _ "AddConnection (Uuid 12) () ?u ''ann''"]]
  have "reach race_init race_step (?h3, [?u])" by simp
  from reach_race [OF this race_end [of ?u]]
  have "reach race_init race_step (clear_presence ?u ?h3, [])" by simp
  moreover have "0 < user_connection_count ?u (clear_presence ?u ?h3)"
    by (simp add: user_connection_count_def clear_presence_def add_connection_def Let_def)
  moreover have "get_presence ?u (clear_presence ?u ?h3) = None" "get_username ?u (clear_presence ?u ?h3) = None"
    by (simp_all add: get_presence_def get_username_def clear_presence_def)
  ultimately show ?thesis by blast
qed


definition demo_io :: "cluster_message cluster_io" where
  "demo_io = \<lparr>io_to_string = (\<lambda>e. Some (we_event e)), io_to_vec = Some, io_from_slice = Some, io_pool_get = True,
              io_publish = (\<lambda>ch p. True)\<rparr>"

definition demo_cluster :: "(string \<times> unit ws_hub) list" where
  "demo_cluster = [(''a'', set_cluster_broadcast \<lparr>cb_node_id = ''a'', cb_redis_url = []\<rparr> hub_new),
                   (''b'', set_cluster_broadcast \<lparr>cb_node_id = ''b'', cb_redis_url = []\<rparr>
                      (add_connection (Uuid 11) () (Uuid 1) ''ann'' hub_new))]"


end
