(* ===== verification/App_Error.thy ===== *)
theory App_Error
  imports Prelude
begin

text \<open>
  The error type of the API and its HTTP form: \<^verbatim>\<open>backend/src/error/mod.rs\<close>. The errors of the
  database and Redis libraries are kept as the text they display as.
\<close>

datatype app_error =
    NotFound string
  | BadRequest string
  | Unauthorized string
  | Forbidden string
  | Conflict string
  | Internal string
  | Database string
  | RedisError string
  | Validation string
  | Config string
  | ExternalService string
  | TooManyRequests string
  | RateLimitExceeded string

type_synonym 'a api_result = "app_error + 'a"

text \<open>The \<^verbatim>\<open>thiserror\<close> messages.\<close>

fun app_error_message :: "app_error \<Rightarrow> string" where
  "app_error_message (NotFound s) = ''Not found: '' @ s"
| "app_error_message (BadRequest s) = ''Bad request: '' @ s"
| "app_error_message (Unauthorized s) = ''Unauthorized: '' @ s"
| "app_error_message (Forbidden s) = ''Forbidden: '' @ s"
| "app_error_message (Conflict s) = ''Conflict: '' @ s"
| "app_error_message (Internal s) = ''Internal server error: '' @ s"
| "app_error_message (Database s) = ''Database error: '' @ s"
| "app_error_message (RedisError s) = ''Redis error: '' @ s"
| "app_error_message (Validation s) = ''Validation error: '' @ s"
| "app_error_message (Config s) = ''Configuration error: '' @ s"
| "app_error_message (ExternalService s) = ''External service error: '' @ s"
| "app_error_message (TooManyRequests s) = ''Too many requests: '' @ s"
| "app_error_message (RateLimitExceeded s) = ''Rate limit exceeded: '' @ s"

fun code :: "app_error \<Rightarrow> string" where
  "code (NotFound _) = ''NOT_FOUND''"
| "code (BadRequest _) = ''BAD_REQUEST''"
| "code (Unauthorized _) = ''UNAUTHORIZED''"
| "code (Forbidden _) = ''FORBIDDEN''"
| "code (Conflict _) = ''CONFLICT''"
| "code (Internal _) = ''INTERNAL_ERROR''"
| "code (Database _) = ''DATABASE_ERROR''"
| "code (RedisError _) = ''REDIS_ERROR''"
| "code (Validation _) = ''VALIDATION_ERROR''"
| "code (Config _) = ''CONFIG_ERROR''"
| "code (ExternalService _) = ''EXTERNAL_SERVICE_ERROR''"
| "code (TooManyRequests _) = ''TOO_MANY_REQUESTS''"
| "code (RateLimitExceeded _) = ''RATE_LIMIT_EXCEEDED''"

fun status_code :: "app_error \<Rightarrow> nat" where
  "status_code (NotFound _) = 404"
| "status_code (BadRequest _) = 400"
| "status_code (Unauthorized _) = 401"
| "status_code (Forbidden _) = 403"
| "status_code (Conflict _) = 409"
| "status_code (Internal _) = 500"
| "status_code (Database _) = 500"
| "status_code (RedisError _) = 500"
| "status_code (Validation _) = 422"
| "status_code (Config _) = 500"
| "status_code (ExternalService _) = 502"
| "status_code (TooManyRequests _) = 429"
| "status_code (RateLimitExceeded _) = 429"

record error_body =
  eb_code :: string
  eb_message :: string
  eb_details :: "json option"

definition into_response :: "app_error \<Rightarrow> nat \<times> error_body" where
  "into_response e =
     (status_code e, \<lparr>eb_code = code e, eb_message = app_error_message e, eb_details = None\<rparr>)"

text \<open>Every error is reported with an error status, and its code alone determines the status.\<close>

lemma status_is_error: "400 \<le> status_code e \<and> status_code e < 600"
  by (cases e) simp_all

definition status_of_code :: "string \<Rightarrow> nat" where
  "status_of_code c =
     (case map_of [(''NOT_FOUND'', 404), (''BAD_REQUEST'', 400), (''UNAUTHORIZED'', 401), (''FORBIDDEN'', 403),
        (''CONFLICT'', 409), (''VALIDATION_ERROR'', 422), (''EXTERNAL_SERVICE_ERROR'', 502),
        (''TOO_MANY_REQUESTS'', 429), (''RATE_LIMIT_EXCEEDED'', 429)] c of
        Some n \<Rightarrow> n | None \<Rightarrow> 500)"

lemma status_by_code: "status_code e = status_of_code (code e)"
  by (cases e) (simp_all add: status_of_code_def)

end
