(* ===== verification/Authz_Policy.thy ===== *)
theory Authz_Policy
  imports App_Error
begin

text \<open>
  The authorization policy engine: \<^verbatim>\<open>backend/src/auth/policy.rs\<close>. A role is its name and the set of
  its permissions, built by the same insertions as the code.
\<close>

datatype resource = User | Team | Channel | Post | File | System | Admin

datatype action = Create | Read | Update | Delete | List | Manage

datatype permission = Permission (resource: resource) (action: action)

section \<open>Predefined permissions\<close>

definition USER_READ :: permission where "USER_READ = Permission User Read"
definition USER_UPDATE :: permission where "USER_UPDATE = Permission User Update"
definition USER_DELETE :: permission where "USER_DELETE = Permission User Delete"
definition USER_MANAGE :: permission where "USER_MANAGE = Permission User Manage"
definition TEAM_CREATE :: permission where "TEAM_CREATE = Permission Team Create"
definition TEAM_READ :: permission where "TEAM_READ = Permission Team Read"
definition TEAM_UPDATE :: permission where "TEAM_UPDATE = Permission Team Update"
definition TEAM_DELETE :: permission where "TEAM_DELETE = Permission Team Delete"
definition TEAM_MANAGE :: permission where "TEAM_MANAGE = Permission Team Manage"
definition CHANNEL_CREATE :: permission where "CHANNEL_CREATE = Permission Channel Create"
definition CHANNEL_READ :: permission where "CHANNEL_READ = Permission Channel Read"
definition CHANNEL_UPDATE :: permission where "CHANNEL_UPDATE = Permission Channel Update"
definition CHANNEL_DELETE :: permission where "CHANNEL_DELETE = Permission Channel Delete"
definition CHANNEL_MANAGE :: permission where "CHANNEL_MANAGE = Permission Channel Manage"
definition POST_CREATE :: permission where "POST_CREATE = Permission Post Create"
definition POST_READ :: permission where "POST_READ = Permission Post Read"
definition POST_UPDATE :: permission where "POST_UPDATE = Permission Post Update"
definition POST_DELETE :: permission where "POST_DELETE = Permission Post Delete"
definition FILE_CREATE :: permission where "FILE_CREATE = Permission File Create"
definition FILE_READ :: permission where "FILE_READ = Permission File Read"
definition FILE_DELETE :: permission where "FILE_DELETE = Permission File Delete"
definition SYSTEM_READ :: permission where "SYSTEM_READ = Permission System Read"
definition SYSTEM_MANAGE :: permission where "SYSTEM_MANAGE = Permission System Manage"
definition ADMIN_FULL :: permission where "ADMIN_FULL = Permission Admin Manage"

lemmas permission_defs = USER_READ_def USER_UPDATE_def USER_DELETE_def USER_MANAGE_def TEAM_CREATE_def
  TEAM_READ_def TEAM_UPDATE_def TEAM_DELETE_def TEAM_MANAGE_def CHANNEL_CREATE_def CHANNEL_READ_def
  CHANNEL_UPDATE_def CHANNEL_DELETE_def CHANNEL_MANAGE_def POST_CREATE_def POST_READ_def POST_UPDATE_def
  POST_DELETE_def FILE_CREATE_def FILE_READ_def FILE_DELETE_def SYSTEM_READ_def SYSTEM_MANAGE_def
  ADMIN_FULL_def

section \<open>Roles\<close>

record role =
  role_name :: string
  role_permissions :: "permission set"

definition system_admin :: role where
  "system_admin = \<lparr>role_name = ''system_admin'',
     role_permissions = {ADMIN_FULL, USER_MANAGE, TEAM_MANAGE, CHANNEL_MANAGE, SYSTEM_MANAGE, POST_DELETE}\<rparr>"

definition team_admin :: role where
  "team_admin = \<lparr>role_name = ''team_admin'',
     role_permissions = {TEAM_CREATE, TEAM_MANAGE, CHANNEL_MANAGE, USER_READ, POST_DELETE}\<rparr>"

definition org_admin :: role where
  "org_admin = \<lparr>role_name = ''org_admin'',
     role_permissions = {TEAM_CREATE, TEAM_MANAGE, CHANNEL_MANAGE, USER_MANAGE, POST_DELETE}\<rparr>"

definition member :: role where
  "member = \<lparr>role_name = ''member'',
     role_permissions = {USER_READ, USER_UPDATE, TEAM_READ, CHANNEL_READ, CHANNEL_CREATE, POST_CREATE, POST_READ,
       POST_UPDATE, FILE_CREATE, FILE_READ, SYSTEM_READ}\<rparr>"

definition guest :: role where
  "guest = \<lparr>role_name = ''guest'',
     role_permissions = {USER_READ, TEAM_READ, CHANNEL_READ, POST_READ, FILE_READ}\<rparr>"

lemmas role_defs = system_admin_def team_admin_def org_admin_def member_def guest_def

definition has_permission :: "role \<Rightarrow> permission \<Rightarrow> bool" where
  "has_permission r permission \<longleftrightarrow> permission \<in> role_permissions r"

definition from_name :: "string \<Rightarrow> role option" where
  "from_name name =
     (if name = ''system_admin'' then Some system_admin
      else if name = ''team_admin'' then Some team_admin
      else if name = ''org_admin'' then Some org_admin
      else if name = ''admin'' then Some org_admin
      else if name = ''member'' then Some member
      else if name = ''guest'' then Some guest
      else None)"

section \<open>Decisions\<close>

datatype authz_result = Allow | Deny string

definition parse_roles :: "string \<Rightarrow> string list" where
  "parse_roles role =
     filter (\<lambda>r. r \<noteq> []) (map trim (split_on (\<lambda>c. is_whitespace c \<or> c = CHR '','') role))"

fun check_roles :: "permission \<Rightarrow> bool \<Rightarrow> string list \<Rightarrow> authz_result" where
  "check_roles permission has_known_role [] =
     (if has_known_role then Deny ''Permission denied'' else Deny ''Unknown role'')"
| "check_roles permission has_known_role (name # rest) =
     (case from_name name of
        None \<Rightarrow> check_roles permission has_known_role rest
      | Some role_def \<Rightarrow>
          if has_permission role_def ADMIN_FULL then Allow
          else if has_permission role_def permission then Allow
          else check_roles permission True rest)"

definition check_permission :: "string \<Rightarrow> permission \<Rightarrow> authz_result" where
  "check_permission role permission = check_roles permission False (parse_roles role)"

definition check_ownership :: "string \<Rightarrow> permission \<Rightarrow> uuid \<Rightarrow> uuid \<Rightarrow> authz_result" where
  "check_ownership role permission user_id resource_owner_id =
     (if user_id = resource_owner_id then Allow else check_permission role permission)"

text \<open>The two macros, as the early return they expand to.\<close>

definition require_permission :: "string \<Rightarrow> permission \<Rightarrow> unit api_result" where
  "require_permission role permission =
     (case check_permission role permission of Allow \<Rightarrow> Inr () | Deny reason \<Rightarrow> Inl (Forbidden reason))"

definition require_admin :: "string \<Rightarrow> unit api_result" where
  "require_admin role =
     (if role = ''system_admin'' \<or> role = ''admin'' then Inr () else Inl (Forbidden ''Admin access required''))"

section \<open>What a list of roles grants\<close>

definition grants :: "string \<Rightarrow> permission \<Rightarrow> bool" where
  "grants name p \<longleftrightarrow>
     (case from_name name of
        None \<Rightarrow> False
      | Some r \<Rightarrow> ADMIN_FULL \<in> role_permissions r \<or> p \<in> role_permissions r)"

lemma check_roles_eq:
  "check_roles p known names =
     (if \<exists>name \<in> set names. grants name p then Allow
      else if known \<or> (\<exists>name \<in> set names. from_name name \<noteq> None) then Deny ''Permission denied''
      else Deny ''Unknown role'')"
proof (induction names arbitrary: known)
  case (Cons name names)
  show ?case
  proof (cases "from_name name")
    case None
    then show ?thesis using Cons by (simp add: grants_def)
  next
    case (Some r)
    then have "grants name p \<longleftrightarrow> ADMIN_FULL \<in> role_permissions r \<or> p \<in> role_permissions r"
      by (simp add: grants_def)
    with Some show ?thesis using Cons by (auto simp: has_permission_def)
  qed
qed simp

lemma grants_admin: "grants name ADMIN_FULL \<longleftrightarrow> name = ''system_admin''"
  by (auto simp: grants_def from_name_def role_defs permission_defs)

lemma grants_system_manage: "grants name SYSTEM_MANAGE \<longleftrightarrow> name = ''system_admin''"
  by (auto simp: grants_def from_name_def role_defs permission_defs)

lemma dropWhile_none: "\<forall>c \<in> set s. \<not> P c \<Longrightarrow> dropWhile P s = s"
  by (cases s) auto

lemma trim_none: "\<forall>c \<in> set s. \<not> is_whitespace c \<Longrightarrow> trim s = s"
  by (simp add: trim_def dropWhile_none)

text \<open>A name without separators is a role list of its own; joining two lists joins their names.\<close>

lemma parse_roles_name:
  "name \<noteq> [] \<Longrightarrow> \<forall>c \<in> set name. \<not> is_whitespace c \<and> c \<noteq> CHR '','' \<Longrightarrow> parse_roles name = [name]"
  by (simp add: parse_roles_def split_on_none trim_none)

lemma split_on_join:
  "p x \<Longrightarrow> split_on p (s @ x # t) = split_on p s @ split_on p t"
  by (induction s) (auto split: list.splits simp: Cons_eq_append_conv append_eq_Cons_conv)

lemma parse_roles_join:
  "is_whitespace x \<or> x = CHR '','' \<Longrightarrow> parse_roles (s @ x # t) = parse_roles s @ parse_roles t"
  by (simp add: parse_roles_def split_on_join)

section \<open>Properties\<close>

text \<open>C36. Access control decides exactly by the union of the roles in the role string: allowed if one of the
  known roles holds the permission or full administration, otherwise denied, and the reason says
  whether any role was known. Order, repetition and unknown names do not matter.\<close>

theorem check_permission_exact:
  "check_permission role p =
    (if \<exists>name \<in> set (parse_roles role). grants name p then Allow
     else if \<exists>name \<in> set (parse_roles role). from_name name \<noteq> None then Deny ''Permission denied''
     else Deny ''Unknown role'')"
  unfolding check_permission_def check_roles_eq by simp

text \<open>No privilege escalation: full administration and system management are granted to the role strings
  that name \<open>system_admin\<close>, and to no others.\<close>

theorem only_system_admin_manages:
  "(check_permission role ADMIN_FULL = Allow) = (''system_admin'' \<in> set (parse_roles role)) \<and>
   (check_permission role SYSTEM_MANAGE = Allow) = (''system_admin'' \<in> set (parse_roles role))"
  unfolding check_permission_def check_roles_eq by (auto simp: grants_admin grants_system_manage)

text \<open>Adding roles never takes a permission away, whether they are separated by a blank or a comma.\<close>

theorem roles_monotone:
  assumes "check_permission r1 p = Allow" "is_whitespace x \<or> x = CHR '',''"
  shows "check_permission (r1 @ x # r2) p = Allow \<and> check_permission (r2 @ x # r1) p = Allow"
proof -
  have "\<exists>name \<in> set (parse_roles r1). grants name p"
    using assms(1) unfolding check_permission_def check_roles_eq by (auto split: if_splits)
  then show ?thesis
    unfolding check_permission_def check_roles_eq parse_roles_join [OF assms(2)] by auto
qed

theorem roles_monotone_witness:
  "check_permission (''guest'' @ CHR '','' # ''nobody'') POST_READ = Allow"
proof -
  have "parse_roles ''guest'' = [''guest'']"
    by (rule parse_roles_name) (simp_all add: is_whitespace_def code_point_def)
  then have "check_permission ''guest'' POST_READ = Allow"
    by (simp add: check_permission_def from_name_def has_permission_def guest_def)
  from roles_monotone [OF this, of "CHR '',''" "''nobody''"] show ?thesis by simp
qed

text \<open>The policy and the admin macro disagree: a user whose role is the word \<open>admin\<close> passes the macro but
  is denied full administration by the policy, and a system administrator with a second role is
  granted it by the policy but refused by the macro.\<close>

theorem require_admin_disagrees:
  "require_admin ''admin'' = Inr () \<and> check_permission ''admin'' ADMIN_FULL \<noteq> Allow \<and>
   require_admin ''system_admin member'' \<noteq> Inr () \<and> check_permission ''system_admin member'' ADMIN_FULL = Allow"
proof -
  have a: "parse_roles ''admin'' = [''admin'']"
    by (rule parse_roles_name) (simp_all add: is_whitespace_def code_point_def)
  have "parse_roles (''system_admin'' @ CHR '' '' # ''member'') = [''system_admin'', ''member'']"
    by (subst parse_roles_join)
      (simp_all add: is_whitespace_def code_point_def parse_roles_name)
  then have b: "parse_roles ''system_admin member'' = [''system_admin'', ''member'']" by simp
  show ?thesis
    by (simp add: require_admin_def check_permission_def check_roles_eq grants_admin a b)
qed

text \<open>The member role may update anybody's posts and profile: the ownership check falls back to the role
  permission, which does not know the owner.\<close>

theorem members_update_foreign_posts:
  "check_ownership ''member'' POST_UPDATE u v = Allow \<and> check_ownership ''member'' USER_UPDATE u v = Allow"
proof -
  have "parse_roles ''member'' = [''member'']"
    by (rule parse_roles_name) (simp_all add: is_whitespace_def code_point_def)
  then show ?thesis
    by (simp add: check_ownership_def check_permission_def from_name_def has_permission_def member_def)
qed

end
