(* ===== verification/Rate_Limit.thy ===== *)
theory Rate_Limit
  imports App_Error
begin

text \<open>
  Entity types and their request limits: \<^verbatim>\<open>backend/src/models/entity.rs\<close> and
  \<^verbatim>\<open>backend/src/services/rate_limit.rs\<close>. The Lua script is translated command by command; the Redis
  commands it calls, and those of the status and reset operations, are the fields of \<open>rate_redis\<close>
  on an abstract Redis state. A counter is a \<^verbatim>\<open>u64\<close>, kept as a natural number: the limit comparison
  is the only arithmetic.
\<close>

section \<open>Entities\<close>

datatype entity_type = Human | Agent | Service | CI

datatype rate_limit_tier = HumanStandard | AgentHigh | ServiceUnlimited | CIStandard

definition is_non_human :: "entity_type \<Rightarrow> bool" where
  "is_non_human e \<longleftrightarrow> e \<noteq> Human"

fun default_rate_limit :: "entity_type \<Rightarrow> rate_limit_tier" where
  "default_rate_limit Human = HumanStandard"
| "default_rate_limit Agent = AgentHigh"
| "default_rate_limit Service = ServiceUnlimited"
| "default_rate_limit CI = CIStandard"

section \<open>Limits\<close>

definition u64_max :: nat where
  "u64_max = 18446744073709551615"

record rate_limit_config =
  rl_limit :: nat
  rl_window_secs :: nat

fun for_tier :: "rate_limit_tier \<Rightarrow> rate_limit_config" where
  "for_tier HumanStandard = \<lparr>rl_limit = 1000, rl_window_secs = 3600\<rparr>"
| "for_tier AgentHigh = \<lparr>rl_limit = 10000, rl_window_secs = 3600\<rparr>"
| "for_tier ServiceUnlimited = \<lparr>rl_limit = u64_max, rl_window_secs = 3600\<rparr>"
| "for_tier CIStandard = \<lparr>rl_limit = 5000, rl_window_secs = 3600\<rparr>"

definition is_unlimited :: "rate_limit_config \<Rightarrow> bool" where
  "is_unlimited config \<longleftrightarrow> rl_limit config = u64_max"

definition RATE_LIMIT_KEY_PREFIX :: string where
  "RATE_LIMIT_KEY_PREFIX = ''ratelimit''"

fun tier_str :: "rate_limit_tier \<Rightarrow> string" where
  "tier_str HumanStandard = ''human_standard''"
| "tier_str AgentHigh = ''agent_high''"
| "tier_str ServiceUnlimited = ''service_unlimited''"
| "tier_str CIStandard = ''ci_standard''"

definition build_key :: "(uuid \<Rightarrow> string) \<Rightarrow> uuid \<Rightarrow> rate_limit_tier \<Rightarrow> string" where
  "build_key show entity_id tier = RATE_LIMIT_KEY_PREFIX @ '':'' @ tier_str tier @ '':'' @ show entity_id"

record 'r rate_redis =
  rr_pool_get :: "'r \<Rightarrow> string + unit"
  rr_incr :: "string \<Rightarrow> 'r \<Rightarrow> string + nat \<times> 'r"
  rr_expire :: "string \<Rightarrow> nat \<Rightarrow> 'r \<Rightarrow> 'r"
  rr_read :: "string \<Rightarrow> 'r \<Rightarrow> string + nat option"
  rr_ttl :: "string \<Rightarrow> 'r \<Rightarrow> string + int"
  rr_del :: "string \<Rightarrow> 'r \<Rightarrow> string + 'r"

text \<open>
  The Lua script; \<open>Inl\<close> carries the text of a failing \<^verbatim>\<open>INCR\<close>. The script is given the limit and
  does not use it.
\<close>

definition rate_limit_script :: "'r rate_redis \<Rightarrow> string \<Rightarrow> nat \<Rightarrow> nat \<Rightarrow> 'r \<Rightarrow> string + nat \<times> 'r" where
  "rate_limit_script rr key limit ttl r =
     (case rr_incr rr key r of
        Inl e \<Rightarrow> Inl e
      | Inr (count, r) \<Rightarrow> Inr (count, if count = 1 then rr_expire rr key ttl r else r))"

definition limit_message :: "nat \<Rightarrow> rate_limit_config \<Rightarrow> string" where
  "limit_message count config =
     ''Rate limit exceeded: '' @ show_nat count @ '' requests in '' @ show_nat (rl_window_secs config) @
     ''s window (limit: '' @ show_nat (rl_limit config) @ '')''"

definition check_rate_limit ::
  "'r rate_redis \<Rightarrow> (uuid \<Rightarrow> string) \<Rightarrow> uuid \<Rightarrow> rate_limit_tier \<Rightarrow> 'r \<Rightarrow> unit api_result \<times> 'r" where
  "check_rate_limit rr show entity_id tier r =
     (let config = for_tier tier
      in if is_unlimited config then (Inr (), r)
         else
           (let key = build_key show entity_id tier
            in case rr_pool_get rr r of
                 Inl e \<Rightarrow> (Inl (Internal (''Redis connection error: '' @ e)), r)
               | Inr _ \<Rightarrow>
                   (case rate_limit_script rr key (rl_limit config) (rl_window_secs config) r of
                      Inl e \<Rightarrow> (Inl (RedisError e), r)
                    | Inr (count, r) \<Rightarrow>
                        (if count > rl_limit config then Inl (RateLimitExceeded (limit_message count config))
                         else Inr (), r))))"

record rate_limit_status =
  rls_current_count :: nat
  rls_limit :: nat
  rls_window_secs :: nat
  rls_remaining :: nat
  rls_reset_at :: "int option"

definition get_rate_limit_status ::
  "'r rate_redis \<Rightarrow> (uuid \<Rightarrow> string) \<Rightarrow> int \<Rightarrow> uuid \<Rightarrow> rate_limit_tier \<Rightarrow> 'r \<Rightarrow> rate_limit_status api_result" where
  "get_rate_limit_status rr show now_secs entity_id tier r =
     (let config = for_tier tier
      in if is_unlimited config then
           Inr \<lparr>rls_current_count = 0, rls_limit = u64_max, rls_window_secs = rl_window_secs config,
                rls_remaining = u64_max, rls_reset_at = None\<rparr>
         else
           (let key = build_key show entity_id tier
            in case rr_pool_get rr r of
                 Inl e \<Rightarrow> Inl (Internal (''Redis connection error: '' @ e))
               | Inr _ \<Rightarrow>
                    (case rr_read rr key r of
                       Inl e \<Rightarrow> Inl (RedisError e)
                     | Inr count \<Rightarrow>
                         (case rr_ttl rr key r of
                            Inl e \<Rightarrow> Inl (RedisError e)
                          | Inr ttl \<Rightarrow>
                              (let current_count = (case count of None \<Rightarrow> 0 | Some c \<Rightarrow> c)
                               in Inr \<lparr>rls_current_count = current_count, rls_limit = rl_limit config,
                                       rls_window_secs = rl_window_secs config,
                                       rls_remaining = rl_limit config - current_count,
                                       rls_reset_at = (if ttl > 0 then Some (now_secs + ttl) else None)\<rparr>)))))"

definition reset_rate_limit ::
  "'r rate_redis \<Rightarrow> (uuid \<Rightarrow> string) \<Rightarrow> uuid \<Rightarrow> rate_limit_tier \<Rightarrow> 'r \<Rightarrow> unit api_result \<times> 'r" where
  "reset_rate_limit rr show entity_id tier r =
     (let key = build_key show entity_id tier
      in case rr_pool_get rr r of
           Inl e \<Rightarrow> (Inl (Internal (''Redis connection error: '' @ e)), r)
         | Inr _ \<Rightarrow>
             (case rr_del rr key r of Inl e \<Rightarrow> (Inl (RedisError e), r) | Inr r \<Rightarrow> (Inr (), r)))"

section \<open>Counting requests in one window\<close>

text \<open>
  \<open>within_window rr key\<close>: Redis answers and counts the key; setting the expiry of a key does not
  change its counter. (The window ends when Redis drops the key, outside this run.)
\<close>

definition within_window :: "'r rate_redis \<Rightarrow> (string \<Rightarrow> 'r \<Rightarrow> nat) \<Rightarrow> bool" where
  "within_window rr count_of \<longleftrightarrow>
     (\<forall>r. rr_pool_get rr r = Inr ()) \<and>
     (\<forall>key r. \<exists>r'. rr_incr rr key r = Inr (Suc (count_of key r), r') \<and>
        count_of key r' = Suc (count_of key r)) \<and>
     (\<forall>key ttl r. count_of key (rr_expire rr key ttl r) = count_of key r)"

fun checks ::
  "'r rate_redis \<Rightarrow> (uuid \<Rightarrow> string) \<Rightarrow> uuid \<Rightarrow> rate_limit_tier \<Rightarrow> nat \<Rightarrow> 'r \<Rightarrow> unit api_result list" where
  "checks rr show u tier 0 r = []"
| "checks rr show u tier (Suc n) r =
     (let (res, r) = check_rate_limit rr show u tier r in res # checks rr show u tier n r)"

lemma check_counts:
  assumes "within_window rr count_of" "\<not> is_unlimited (for_tier tier)"
  shows "\<exists>r'. check_rate_limit rr show u tier r =
      (if Suc (count_of (build_key show u tier) r) > rl_limit (for_tier tier)
       then Inl (RateLimitExceeded (limit_message (Suc (count_of (build_key show u tier) r)) (for_tier tier)))
       else Inr (), r') \<and>
    count_of (build_key show u tier) r' = Suc (count_of (build_key show u tier) r)"
proof -
  let ?k = "build_key show u tier"
  obtain r1 where r1: "rr_incr rr ?k r = Inr (Suc (count_of ?k r), r1)" "count_of ?k r1 = Suc (count_of ?k r)"
    using assms(1) unfolding within_window_def by blast
  define r' where "r' = (if Suc (count_of ?k r) = 1 then rr_expire rr ?k (rl_window_secs (for_tier tier)) r1 else r1)"
  have "count_of ?k r' = Suc (count_of ?k r)"
    using r1 assms(1) by (simp add: r'_def within_window_def)
  moreover have "check_rate_limit rr show u tier r =
      (if Suc (count_of ?k r) > rl_limit (for_tier tier)
       then Inl (RateLimitExceeded (limit_message (Suc (count_of (build_key show u tier) r)) (for_tier tier)))
       else Inr (), r')"
    using assms r1 by (simp add: check_rate_limit_def rate_limit_script_def r'_def within_window_def Let_def)
  ultimately show ?thesis by blast
qed

lemma checks_nth:
  assumes "within_window rr count_of" "\<not> is_unlimited (for_tier tier)"
  shows "i < n \<Longrightarrow> checks rr show u tier n r ! i =
    (if count_of (build_key show u tier) r + Suc i > rl_limit (for_tier tier)
     then Inl (RateLimitExceeded (limit_message (count_of (build_key show u tier) r + Suc i) (for_tier tier)))
     else Inr ())"
proof (induction n arbitrary: i r)
  case (Suc n)
  obtain r' where r': "check_rate_limit rr show u tier r =
      (if Suc (count_of (build_key show u tier) r) > rl_limit (for_tier tier)
       then Inl (RateLimitExceeded (limit_message (Suc (count_of (build_key show u tier) r)) (for_tier tier)))
       else Inr (), r')"
      "count_of (build_key show u tier) r' = Suc (count_of (build_key show u tier) r)"
    using check_counts [OF assms] by blast
  show ?case
  proof (cases i)
    case 0
    then show ?thesis by (simp add: r')
  next
    case (Suc j)
    then show ?thesis using Suc.prems Suc.IH [of j r'] by (simp add: r' \<open>i = Suc j\<close>)
  qed
qed simp

section \<open>Properties\<close>

text \<open>C37. In one window an entity of a limited tier gets exactly its limit: of the requests made since the
  counter was absent the first \<open>limit\<close> are let through and every later one is refused with a
  rate-limit error. Needed of Redis: it answers, counts by one, and an expiry does not change a counter.\<close>

theorem rate_limit_exact:
  assumes "within_window rr count_of" "tier \<noteq> ServiceUnlimited"
    and "count_of (build_key show u tier) r = 0" "i < n"
  shows "checks rr show u tier n r ! i =
    (if i < rl_limit (for_tier tier) then Inr ()
     else Inl (RateLimitExceeded (limit_message (Suc i) (for_tier tier))))"
proof -
  have "\<not> is_unlimited (for_tier tier)"
    using assms(2) by (cases tier) (simp_all add: is_unlimited_def u64_max_def)
  from checks_nth [OF assms(1) this assms(4)] assms(3) show ?thesis by simp
qed

definition demo_counters :: "(string \<Rightarrow> nat) rate_redis" where
  "demo_counters =
     \<lparr>rr_pool_get = (\<lambda>r. Inr ()), rr_incr = (\<lambda>k r. Inr (Suc (r k), r(k := Suc (r k)))),
      rr_expire = (\<lambda>k ttl r. r), rr_read = (\<lambda>k r. Inr (Some (r k))), rr_ttl = (\<lambda>k r. Inr 1),
      rr_del = (\<lambda>k r. Inr (r(k := 0)))\<rparr>"

theorem rate_limit_exact_witness:
  "checks demo_counters (\<lambda>u. ''u'') (Uuid 1) CIStandard 6000 (\<lambda>k. 0) ! 5000 =
     Inl (RateLimitExceeded (limit_message 5001 \<lparr>rl_limit = 5000, rl_window_secs = 3600\<rparr>))"
  using rate_limit_exact [of demo_counters "\<lambda>k r. r k" CIStandard "\<lambda>u. ''u''" "Uuid 1" "\<lambda>k. 0" 5000 6000]
  by (simp add: within_window_def demo_counters_def)

end
