(* ===== verification/Auth.thy ===== *)
theory Auth
  imports Authz_Policy Rate_Limit
begin

text \<open>
  Who is calling: JWTs (\<^verbatim>\<open>backend/src/auth/jwt.rs\<close>), API keys (\<^verbatim>\<open>auth/api_key.rs\<close>), and the request
  extractors of \<^verbatim>\<open>auth/middleware.rs\<close>, \<^verbatim>\<open>auth/extractors.rs\<close> and \<^verbatim>\<open>api/v4/extractors.rs\<close>.

  The JWT and bcrypt libraries are fields of \<open>auth_env\<close>, with the error text they fail with. The
  users table is the list \<open>au_users\<close>; the SQL of the extractors is translated as filters on it, and
  \<open>au_db\<close> says whether the database answers. The Redis state of the rate limiter is threaded through.
  A header value is absent, not text, or text.
\<close>

section \<open>JWT\<close>

record claims =
  cl_sub :: uuid
  cl_email :: string
  cl_role :: string
  cl_org_id :: "uuid option"
  cl_iss :: "string option"
  cl_aud :: "string option"
  cl_iat :: int
  cl_exp :: int

text \<open>Times are seconds; the number of hours is within the range of \<^verbatim>\<open>chrono::Duration\<close>.\<close>

definition claims_new ::
  "int \<Rightarrow> uuid \<Rightarrow> string \<Rightarrow> string \<Rightarrow> uuid option \<Rightarrow> string option \<Rightarrow> string option \<Rightarrow> nat \<Rightarrow> claims" where
  "claims_new now user_id email role org_id issuer audience expiry_hours =
     \<lparr>cl_sub = user_id, cl_email = email, cl_role = role, cl_org_id = org_id, cl_iss = issuer, cl_aud = audience,
      cl_iat = now, cl_exp = now + int expiry_hours * 3600\<rparr>"

record user_record =
  us_id :: uuid
  us_email :: string
  us_entity_type :: entity_type
  us_org_id :: "uuid option"
  us_role :: string
  us_api_key_hash :: string
  us_api_key_prefix :: "string option"
  us_is_active :: bool
  us_deleted_at :: "int option"

record 'r auth_env =
  au_jwt_secret :: string
  au_jwt_issuer :: "string option"
  au_jwt_audience :: "string option"
  au_encode :: "claims \<Rightarrow> string \<Rightarrow> string + string"
  au_decode :: "string \<Rightarrow> string \<Rightarrow> string option \<Rightarrow> string option \<Rightarrow> string + claims"
  au_bcrypt_verify :: "string \<Rightarrow> string \<Rightarrow> string + bool"
  au_db :: "string + unit"
  au_users :: "user_record list"
  au_rate :: "'r rate_redis"
  au_show :: "uuid \<Rightarrow> string"

definition create_token_with_policy ::
  "'r auth_env \<Rightarrow> int \<Rightarrow> uuid \<Rightarrow> string \<Rightarrow> string \<Rightarrow> uuid option \<Rightarrow> string \<Rightarrow> string option \<Rightarrow> string option \<Rightarrow> nat \<Rightarrow>
     string api_result" where
  "create_token_with_policy env now user_id email role org_id secret issuer audience expiry_hours =
     (case au_encode env (claims_new now user_id email role org_id issuer audience expiry_hours) secret of
        Inl e \<Rightarrow> Inl (Internal (''Failed to create token: '' @ e))
      | Inr token \<Rightarrow> Inr token)"

definition create_token ::
  "'r auth_env \<Rightarrow> int \<Rightarrow> uuid \<Rightarrow> string \<Rightarrow> string \<Rightarrow> uuid option \<Rightarrow> string \<Rightarrow> nat \<Rightarrow> string api_result" where
  "create_token env now user_id email role org_id secret expiry_hours =
     create_token_with_policy env now user_id email role org_id secret None None expiry_hours"

definition validate_token_with_policy ::
  "'r auth_env \<Rightarrow> string \<Rightarrow> string \<Rightarrow> string option \<Rightarrow> string option \<Rightarrow> claims api_result" where
  "validate_token_with_policy env token secret issuer audience =
     (case au_decode env token secret issuer audience of
        Inl e \<Rightarrow> Inl (Unauthorized (''Invalid token: '' @ e))
      | Inr claims \<Rightarrow> Inr claims)"

definition validate_token :: "'r auth_env \<Rightarrow> string \<Rightarrow> string \<Rightarrow> claims api_result" where
  "validate_token env token secret = validate_token_with_policy env token secret None None"

section \<open>API keys\<close>

definition generate_api_key :: "(8 word list \<Rightarrow> string) \<Rightarrow> 8 word list \<Rightarrow> string" where
  "generate_api_key hex_encode bytes = ''rck_'' @ hex_encode bytes"

text \<open>\<^verbatim>\<open>&key[..n]\<close>: the characters of the first \<open>n\<close> bytes, or a panic (\<open>None\<close>) inside a character.\<close>

fun byte_prefix :: "nat \<Rightarrow> string \<Rightarrow> string option" where
  "byte_prefix 0 s = Some []"
| "byte_prefix (Suc n) [] = None"
| "byte_prefix (Suc n) (c # cs) =
     (if code_point c < 128 then map_option (Cons c) (byte_prefix n cs)
      else (case n of 0 \<Rightarrow> None | Suc m \<Rightarrow> map_option (Cons c) (byte_prefix m cs)))"

text \<open>\<open>None\<close> is a panic.\<close>

definition extract_prefix :: "string \<Rightarrow> string api_result option" where
  "extract_prefix key =
     (if str_len key \<noteq> 68
      then Some (Inl (Validation (''Invalid key length: expected 68, got '' @ show_nat (str_len key))))
      else if take 4 key \<noteq> ''rck_''
      then Some (Inl (Validation ''Invalid key format: must start with rck_''))
      else map_option Inr (byte_prefix 16 key))"

definition validate_api_key :: "'r auth_env \<Rightarrow> string \<Rightarrow> string \<Rightarrow> string + bool" where
  "validate_api_key env api_key hash = au_bcrypt_verify env api_key hash"

section \<open>JWT extractors\<close>

type_synonym headers = "string \<Rightarrow> string option option"

record auth_user =
  auth_user_id :: uuid
  auth_email :: string
  auth_role :: string
  auth_org_id :: "uuid option"

definition auth_user_of :: "claims \<Rightarrow> auth_user" where
  "auth_user_of claims =
     \<lparr>auth_user_id = cl_sub claims, auth_email = cl_email claims, auth_role = cl_role claims,
      auth_org_id = cl_org_id claims\<rparr>"

definition has_role :: "auth_user \<Rightarrow> string \<Rightarrow> bool" where
  "has_role user role \<longleftrightarrow> role \<in> set (filter (\<lambda>w. w \<noteq> []) (split_on is_whitespace (auth_role user)))"

definition user_has_permission :: "auth_user \<Rightarrow> permission \<Rightarrow> bool" where
  "user_has_permission user permission \<longleftrightarrow> check_permission (auth_role user) permission = Allow"

definition can_access_owned :: "auth_user \<Rightarrow> uuid \<Rightarrow> permission \<Rightarrow> bool" where
  "can_access_owned user owner_id permission \<longleftrightarrow>
     check_ownership (auth_role user) permission (auth_user_id user) owner_id = Allow"

definition ensure_user_access_active :: "'r auth_env \<Rightarrow> uuid \<Rightarrow> unit api_result" where
  "ensure_user_access_active env user_id =
     (case au_db env of
        Inl e \<Rightarrow> Inl (Database e)
      | Inr _ \<Rightarrow>
          (case find (\<lambda>u. us_id u = user_id) (au_users env) of
             Some u \<Rightarrow>
               if us_is_active u \<and> us_deleted_at u = None then Inr ()
               else if \<not> us_is_active u then Inl (Unauthorized ''Account is inactive'')
               else Inl (Unauthorized ''Account has been deleted'')
           | None \<Rightarrow> Inl (Unauthorized ''User not found'')))"

definition authenticate_jwt :: "'r auth_env \<Rightarrow> string \<Rightarrow> auth_user api_result" where
  "authenticate_jwt env token =
     (case validate_token_with_policy env token (au_jwt_secret env) (au_jwt_issuer env) (au_jwt_audience env) of
        Inl e \<Rightarrow> Inl e
      | Inr claims \<Rightarrow>
          (case ensure_user_access_active env (cl_sub claims) of
             Inl e \<Rightarrow> Inl e
           | Inr _ \<Rightarrow> Inr (auth_user_of claims)))"

definition auth_user_from_request :: "'r auth_env \<Rightarrow> headers \<Rightarrow> auth_user api_result" where
  "auth_user_from_request env headers =
     (case headers ''authorization'' of
        Some (Some auth_header) \<Rightarrow>
          (case strip_prefix ''Bearer '' auth_header of
             None \<Rightarrow> Inl (Unauthorized ''Invalid authorization format'')
           | Some token \<Rightarrow> authenticate_jwt env token)
      | _ \<Rightarrow> Inl (Unauthorized ''Missing authorization header''))"

definition cookie_token :: "string \<Rightarrow> string option" where
  "cookie_token cookies =
     (case List.map_filter (strip_prefix ''MMAUTHTOKEN='') (map trim (split_on (\<lambda>c. c = CHR '';'') cookies)) of
        [] \<Rightarrow> None | t # _ \<Rightarrow> Some t)"

text \<open>The token, and whether it came as a bearer token; \<open>no_cookie\<close> is the message for a missing cookie.\<close>

definition request_token :: "string \<Rightarrow> headers \<Rightarrow> (string \<times> bool) api_result" where
  "request_token no_cookie headers =
     (case headers ''authorization'' of
        Some None \<Rightarrow> Inl (Unauthorized ''Invalid authorization header'')
      | Some (Some auth_str) \<Rightarrow>
          (case strip_prefix ''Bearer '' auth_str of
             Some stripped \<Rightarrow> Inr (trim stripped, True)
           | None \<Rightarrow>
               (case strip_prefix ''Token '' auth_str of
                  Some stripped \<Rightarrow> Inr (trim stripped, False)
                | None \<Rightarrow> Inr (trim auth_str, False)))
      | None \<Rightarrow>
          (case headers ''token'' of
             Some None \<Rightarrow> Inl (Unauthorized ''Invalid token header'')
           | Some (Some t) \<Rightarrow> Inr (trim t, False)
           | None \<Rightarrow>
               (case headers ''cookie'' of
                  Some None \<Rightarrow> Inl (Unauthorized ''Invalid cookie header'')
                | Some (Some cookies) \<Rightarrow>
                    (case cookie_token cookies of
                       None \<Rightarrow> Inl (Unauthorized no_cookie)
                     | Some t \<Rightarrow> Inr (t, False))
                | None \<Rightarrow> Inl (Unauthorized ''Missing authorization header''))))"

definition mm_auth_user_from_request :: "'r auth_env \<Rightarrow> headers \<Rightarrow> auth_user api_result" where
  "mm_auth_user_from_request env headers =
     (case request_token ''Missing MMAUTHTOKEN cookie'' headers of
        Inl e \<Rightarrow> Inl e
      | Inr (token, _) \<Rightarrow> authenticate_jwt env token)"

section \<open>API key extractors\<close>

definition find_entity :: "'r auth_env \<Rightarrow> string \<Rightarrow> user_record option" where
  "find_entity env prefix =
     find (\<lambda>u. us_api_key_prefix u = Some prefix \<and> us_entity_type u \<in> {Agent, Service, CI} \<and>
       us_is_active u \<and> us_deleted_at u = None) (au_users env)"

record api_key_auth =
  aka_user_id :: uuid
  aka_email :: string
  aka_entity_type :: entity_type
  aka_org_id :: "uuid option"
  aka_role :: string

text \<open>Results are paired with the Redis state; \<open>None\<close> is a panic of \<open>extract_prefix\<close>.\<close>

definition api_key_auth_from_request ::
  "'r auth_env \<Rightarrow> headers \<Rightarrow> 'r \<Rightarrow> (api_key_auth api_result \<times> 'r) option" where
  "api_key_auth_from_request env headers r =
     (case headers ''authorization'' of
        Some (Some auth_header) \<Rightarrow>
          (case strip_prefix ''Bearer '' auth_header of
             None \<Rightarrow> Some (Inl (Unauthorized ''Invalid authorization format''), r)
           | Some api_key \<Rightarrow>
               (case extract_prefix api_key of
                  None \<Rightarrow> None
                | Some (Inl e) \<Rightarrow>
                    Some (Inl (Unauthorized (''Invalid API key format: '' @ app_error_message e)), r)
                | Some (Inr prefix) \<Rightarrow>
                    (case au_db env of
                       Inl e \<Rightarrow> Some (Inl (Database e), r)
                     | Inr _ \<Rightarrow>
                         (case find_entity env prefix of
                            None \<Rightarrow> Some (Inl (Unauthorized ''Invalid API key''), r)
                          | Some entity \<Rightarrow>
                              if validate_api_key env api_key (us_api_key_hash entity) = Inr True then
                                (case check_rate_limit (au_rate env) (au_show env) (us_id entity)
                                        (default_rate_limit (us_entity_type entity)) r of
                                   (Inl e, r) \<Rightarrow> Some (Inl e, r)
                                 | (Inr _, r) \<Rightarrow>
                                     Some (Inr \<lparr>aka_user_id = us_id entity, aka_email = us_email entity,
                                       aka_entity_type = us_entity_type entity, aka_org_id = us_org_id entity,
                                       aka_role = us_role entity\<rparr>, r))
                              else Some (Inl (Unauthorized ''Invalid API key''), r)))))
      | _ \<Rightarrow> Some (Inl (Unauthorized ''Missing authorization header''), r))"

record polymorphic_auth =
  pa_user_id :: uuid
  pa_email :: string
  pa_role :: string
  pa_org_id :: "uuid option"
  pa_is_api_key :: bool

definition auth_type :: "polymorphic_auth \<Rightarrow> string" where
  "auth_type auth = (if pa_is_api_key auth then ''api_key'' else ''jwt'')"

definition polymorphic_api_key ::
  "'r auth_env \<Rightarrow> string \<Rightarrow> 'r \<Rightarrow> (polymorphic_auth api_result option \<times> 'r) option" where
  "polymorphic_api_key env token r =
     (case extract_prefix token of
        None \<Rightarrow> None
      | Some (Inl e) \<Rightarrow> Some (None, r)
      | Some (Inr prefix) \<Rightarrow>
          (case au_db env of
             Inl e \<Rightarrow> Some (Some (Inl (Database e)), r)
           | Inr _ \<Rightarrow>
               (case find_entity env prefix of
                  None \<Rightarrow> Some (None, r)
                | Some entity \<Rightarrow>
                    if validate_api_key env token (us_api_key_hash entity) = Inr True then
                      (case check_rate_limit (au_rate env) (au_show env) (us_id entity)
                              (default_rate_limit (us_entity_type entity)) r of
                         (Inl e, r) \<Rightarrow> Some (Some (Inl e), r)
                       | (Inr _, r) \<Rightarrow>
                           Some (Some (Inr \<lparr>pa_user_id = us_id entity, pa_email = us_email entity,
                             pa_role = us_role entity, pa_org_id = us_org_id entity, pa_is_api_key = True\<rparr>), r))
                    else Some (None, r))))"

definition polymorphic_from_request ::
  "'r auth_env \<Rightarrow> headers \<Rightarrow> 'r \<Rightarrow> (polymorphic_auth api_result \<times> 'r) option" where
  "polymorphic_from_request env headers r =
     (case request_token ''Missing authorization header'' headers of
        Inl e \<Rightarrow> Some (Inl e, r)
      | Inr (token, is_bearer) \<Rightarrow>
          (case authenticate_jwt env token of
             Inr user \<Rightarrow>
               Some (Inr \<lparr>pa_user_id = auth_user_id user, pa_email = auth_email user, pa_role = auth_role user,
                          pa_org_id = auth_org_id user, pa_is_api_key = False\<rparr>, r)
           | Inl _ \<Rightarrow>
               (let refused = Inl (Unauthorized ''Invalid or missing authentication credentials'')
                in if \<not> is_bearer then Some (refused, r)
                   else (case polymorphic_api_key env token r of
                           None \<Rightarrow> None
                         | Some (None, r) \<Rightarrow> Some (refused, r)
                         | Some (Some res, r) \<Rightarrow> Some (res, r)))))"

definition mcp_auth_from_request :: "headers \<Rightarrow> unit api_result" where
  "mcp_auth_from_request headers = Inl (Unauthorized ''MCP authentication not yet implemented'')"

section \<open>What authentication establishes\<close>

definition account_active :: "'r auth_env \<Rightarrow> uuid \<Rightarrow> bool" where
  "account_active env u \<longleftrightarrow>
     (case find (\<lambda>row. us_id row = u) (au_users env) of
        None \<Rightarrow> False | Some row \<Rightarrow> us_is_active row \<and> us_deleted_at row = None)"

definition token_accepted :: "'r auth_env \<Rightarrow> string \<Rightarrow> auth_user \<Rightarrow> bool" where
  "token_accepted env token user \<longleftrightarrow>
     (\<exists>claims. au_decode env token (au_jwt_secret env) (au_jwt_issuer env) (au_jwt_audience env) = Inr claims \<and>
        user = auth_user_of claims)"

lemma ensure_active_iff: "ensure_user_access_active env u = Inr () \<longleftrightarrow> au_db env = Inr () \<and> account_active env u"
  by (cases "au_db env"; cases "find (\<lambda>row. us_id row = u) (au_users env)")
    (auto simp: ensure_user_access_active_def account_active_def)

lemma authenticate_jwt_iff:
  "authenticate_jwt env token = Inr user \<longleftrightarrow>
     token_accepted env token user \<and> au_db env = Inr () \<and> account_active env (auth_user_id user)"
proof (cases "au_decode env token (au_jwt_secret env) (au_jwt_issuer env) (au_jwt_audience env)")
  case (Inl e)
  then show ?thesis by (simp add: authenticate_jwt_def validate_token_with_policy_def token_accepted_def)
next
  case (Inr claims)
  then have t: "token_accepted env token user \<longleftrightarrow> user = auth_user_of claims"
    by (simp add: token_accepted_def)
  show ?thesis
  proof (cases "ensure_user_access_active env (cl_sub claims)")
    case (Inl e)
    then have "\<not> (au_db env = Inr () \<and> account_active env (cl_sub claims))"
      using ensure_active_iff [of env "cl_sub claims"] by simp
    with Inl Inr show ?thesis
      by (auto simp: authenticate_jwt_def validate_token_with_policy_def t auth_user_of_def)
  next
    case Inr': (Inr x)
    then have "au_db env = Inr () \<and> account_active env (cl_sub claims)"
      using ensure_active_iff [of env "cl_sub claims"] by simp
    with Inr Inr' show ?thesis
      by (auto simp: authenticate_jwt_def validate_token_with_policy_def t auth_user_of_def)
  qed
qed

definition entity_accepted :: "'r auth_env \<Rightarrow> string \<Rightarrow> user_record \<Rightarrow> bool" where
  "entity_accepted env key row \<longleftrightarrow>
     row \<in> set (au_users env) \<and> extract_prefix key = map_option Inr (us_api_key_prefix row) \<and>
     us_entity_type row \<noteq> Human \<and> us_is_active row \<and> us_deleted_at row = None \<and>
     au_bcrypt_verify env key (us_api_key_hash row) = Inr True"

lemma find_entity_Some:
  "find_entity env prefix = Some row \<Longrightarrow>
     row \<in> set (au_users env) \<and> us_api_key_prefix row = Some prefix \<and> us_entity_type row \<noteq> Human \<and>
     us_is_active row \<and> us_deleted_at row = None"
  by (auto simp: find_entity_def find_Some_iff in_set_conv_nth)

text \<open>A successful key check, with what it did to the rate limiter.\<close>

lemma polymorphic_api_key_Some:
  assumes "polymorphic_api_key env token r = Some (Some (Inr auth), r')"
  shows "\<exists>row. entity_accepted env token row \<and> pa_is_api_key auth \<and> pa_user_id auth = us_id row \<and>
    pa_role auth = us_role row \<and>
    check_rate_limit (au_rate env) (au_show env) (us_id row) (default_rate_limit (us_entity_type row)) r = (Inr (), r')"
proof -
  obtain prefix where p: "extract_prefix token = Some (Inr prefix)"
    using assms by (auto simp: polymorphic_api_key_def split: option.splits sum.splits)
  obtain row where row: "find_entity env prefix = Some row"
    using assms p by (auto simp: polymorphic_api_key_def split: option.splits sum.splits)
  have db: "au_db env = Inr ()" using assms p by (auto simp: polymorphic_api_key_def split: sum.splits)
  have v: "validate_api_key env token (us_api_key_hash row) = Inr True"
    using assms p row db by (auto simp: polymorphic_api_key_def split: if_splits)
  show ?thesis
    using assms p row db v find_entity_Some [OF row]
    by (intro exI [of _ row])
      (auto simp: polymorphic_api_key_def entity_accepted_def validate_api_key_def
        split: prod.splits sum.splits)
qed

lemma byte_prefix_ascii:
  "\<forall>c \<in> set s. code_point c < 128 \<Longrightarrow> n \<le> length s \<Longrightarrow> byte_prefix n s = Some (take n s)"
  by (induction n s rule: byte_prefix.induct) auto

lemma str_len_ascii: "\<forall>c \<in> set s. code_point c < 128 \<Longrightarrow> str_len s = length s"
  by (induction s) (auto simp: str_len_def)

section \<open>Properties\<close>

text \<open>C7. A JWT is not enough: both JWT extractors accept a request only if the token library accepts its token
  under the configured secret, issuer and audience, the database answers, and the account the token
  names exists, is active and is not deleted.\<close>

theorem jwt_requires_active_account:
  assumes "auth_user_from_request env h = Inr user \<or> mm_auth_user_from_request env h = Inr user"
  shows "\<exists>token. token_accepted env token user \<and> au_db env = Inr () \<and> account_active env (auth_user_id user)"
proof -
  have "\<exists>token. authenticate_jwt env token = Inr user"
    using assms
    by (auto simp: auth_user_from_request_def mm_auth_user_from_request_def split: option.splits sum.splits)
  then show ?thesis by (auto simp: authenticate_jwt_iff)
qed

definition demo_user :: user_record where
  "demo_user = \<lparr>us_id = Uuid 1, us_email = ''a@b'', us_entity_type = Human, us_org_id = None, us_role = ''member'',
     us_api_key_hash = [], us_api_key_prefix = None, us_is_active = True, us_deleted_at = None\<rparr>"

definition demo_auth :: "(string \<Rightarrow> nat) auth_env" where
  "demo_auth = \<lparr>au_jwt_secret = ''s'', au_jwt_issuer = None, au_jwt_audience = None,
     au_encode = (\<lambda>c s. Inr ''t''),
     au_decode = (\<lambda>t s i a. if t = ''good''
        then Inr (claims_new 0 (Uuid 1) ''a@b'' ''member'' None None None 1) else Inl ''bad''),
     au_bcrypt_verify = (\<lambda>k h. Inr (k = h)), au_db = Inr (), au_users = [demo_user], au_rate = demo_counters,
     au_show = (\<lambda>u. ''u'')\<rparr>"

lemma demo_request_accepted:
  "auth_user_from_request demo_auth (\<lambda>h. if h = ''authorization'' then Some (Some ''Bearer good'') else None) =
     Inr (auth_user_of (claims_new 0 (Uuid 1) ''a@b'' ''member'' None None None 1))"
  by (simp add: auth_user_from_request_def strip_prefix_def authenticate_jwt_def validate_token_with_policy_def
      ensure_user_access_active_def demo_auth_def demo_user_def claims_new_def auth_user_of_def)

theorem jwt_requires_active_account_witness:
  "account_active demo_auth (Uuid 1)"
  using jwt_requires_active_account [OF disjI1, OF demo_request_accepted]
  by (simp add: auth_user_of_def claims_new_def)

text \<open>C8. Endpoints open to people and programs let in nobody else: a request is accepted either with a JWT of
  an active account or with a bearer API key whose prefix belongs to an active, non-human account, whose
  hash verifies, and which is within its request limit.\<close>

theorem polymorphic_auth_sound:
  assumes "polymorphic_from_request env h r = Some (Inr auth, r')"
  shows "(if pa_is_api_key auth
     then \<exists>key row. entity_accepted env key row \<and> pa_user_id auth = us_id row \<and> pa_role auth = us_role row \<and>
       check_rate_limit (au_rate env) (au_show env) (us_id row) (default_rate_limit (us_entity_type row)) r = (Inr (), r')
     else \<exists>token user. token_accepted env token user \<and> account_active env (auth_user_id user) \<and>
       pa_user_id auth = auth_user_id user \<and> pa_role auth = auth_role user \<and> r' = r)"
proof -
  obtain token bearer where t: "request_token ''Missing authorization header'' h = Inr (token, bearer)"
    using assms by (auto simp: polymorphic_from_request_def split: sum.splits)
  show ?thesis
  proof (cases "authenticate_jwt env token")
    case (Inr user)
    then have "token_accepted env token user \<and> account_active env (auth_user_id user)"
      by (simp add: authenticate_jwt_iff)
    moreover have "auth = \<lparr>pa_user_id = auth_user_id user, pa_email = auth_email user, pa_role = auth_role user,
        pa_org_id = auth_org_id user, pa_is_api_key = False\<rparr>" "r' = r"
      using assms t Inr by (auto simp: polymorphic_from_request_def)
    ultimately show ?thesis by auto
  next
    case (Inl e)
    then have "polymorphic_api_key env token r = Some (Some (Inr auth), r')"
      using assms t by (auto simp: polymorphic_from_request_def Let_def split: if_splits option.splits)
    from polymorphic_api_key_Some [OF this] show ?thesis by auto
  qed
qed

theorem polymorphic_auth_sound_witness:
  "\<exists>token user. token_accepted demo_auth token user \<and> account_active demo_auth (auth_user_id user)"
proof -
  have "polymorphic_from_request demo_auth
      (\<lambda>h. if h = ''authorization'' then Some (Some ''Token good'') else None) (\<lambda>k. 0) =
    Some (Inr \<lparr>pa_user_id = Uuid 1, pa_email = ''a@b'', pa_role = ''member'', pa_org_id = None,
       pa_is_api_key = False\<rparr>, \<lambda>k. 0)"
    by (simp add: polymorphic_from_request_def request_token_def strip_prefix_def authenticate_jwt_def
        validate_token_with_policy_def ensure_user_access_active_def demo_auth_def demo_user_def claims_new_def
        auth_user_of_def trim_def is_whitespace_def code_point_def)
  from polymorphic_auth_sound [OF this] show ?thesis by auto
qed

text \<open>The indexed prefix of an API key: for a key of ASCII characters (all a header can carry) the byte slice
  never panics, and a generated key yields the constant marker and its first twelve hex digits.\<close>

lemma api_key_prefix_total:
  assumes "\<forall>c \<in> set key. code_point c < 128"
  shows "extract_prefix key \<noteq> None \<and>
    (length key = 68 \<and> take 4 key = ''rck_'' \<longrightarrow> extract_prefix key = Some (Inr (''rck_'' @ take 12 (drop 4 key))))"
proof -
  have "byte_prefix 16 key = Some (take 16 key)" if "length key = 68"
    using byte_prefix_ascii [OF assms, of 16] that by simp
  moreover have "take 16 key = take 4 key @ take 12 (drop 4 key)"
    using take_add [of 4 12 key] by simp
  ultimately show ?thesis by (auto simp: extract_prefix_def str_len_ascii [OF assms])
qed

text \<open>Role names and permissions are read differently: with a comma-separated role string, which the policy
  accepts, the permission is granted but the role test fails.\<close>

theorem comma_roles_disagree:
  "user_has_permission \<lparr>auth_user_id = u, auth_email = e, auth_role = ''member,system_admin'', auth_org_id = o1\<rparr> ADMIN_FULL \<and>
   \<not> has_role \<lparr>auth_user_id = u, auth_email = e, auth_role = ''member,system_admin'', auth_org_id = o1\<rparr> ''system_admin''"
proof -
  have "parse_roles (''member'' @ CHR '','' # ''system_admin'') = [''member'', ''system_admin'']"
    by (subst parse_roles_join) (simp_all add: is_whitespace_def code_point_def parse_roles_name)
  then have "parse_roles ''member,system_admin'' = [''member'', ''system_admin'']" by simp
  then have "check_permission ''member,system_admin'' ADMIN_FULL = Allow"
    by (simp add: check_permission_def check_roles_eq grants_admin)
  moreover have "split_on is_whitespace ''member,system_admin'' = [''member,system_admin'']"
    by (rule split_on_none) (simp add: is_whitespace_def code_point_def)
  ultimately show ?thesis by (simp add: user_has_permission_def has_role_def)
qed

end
