(* ===== verification/Ws_Core.thy ===== *)
theory Ws_Core
  imports Ws_Hub Auth
begin

text \<open>
  The connection life cycle both WebSocket endpoints share: \<^verbatim>\<open>backend/src/api/websocket_core.rs\<close>
  and the cluster-wide connection count of \<^verbatim>\<open>backend/src/realtime/cluster_limits.rs\<close>.

  The state \<open>ws_app\<close> holds what these functions change: the hub, the Redis state, the presence
  columns of the users table, and two logs, the sends to connections and the payloads published to
  the cluster. What answers them from outside is a field of \<open>ws_env\<close>: the Redis commands (on an
  abstract state, each of which may fail), the database answers, the serde library, the JWT settings, and
  \<open>create_post\<close>, the posting service. Logging is left out.
\<close>

section \<open>Environment and state\<close>

record 'r redis_ops =
  rd_get :: "'r \<Rightarrow> bool"
  rd_sadd :: "string \<Rightarrow> string \<Rightarrow> 'r \<Rightarrow> bool \<times> 'r"
  rd_srem :: "string \<Rightarrow> string list \<Rightarrow> 'r \<Rightarrow> bool \<times> 'r"
  rd_set_ex :: "string \<Rightarrow> int \<Rightarrow> nat \<Rightarrow> 'r \<Rightarrow> bool \<times> 'r"
  rd_expire :: "string \<Rightarrow> nat \<Rightarrow> 'r \<Rightarrow> bool \<times> 'r"
  rd_del :: "string \<Rightarrow> 'r \<Rightarrow> bool \<times> 'r"
  rd_scard :: "string \<Rightarrow> 'r \<Rightarrow> nat option"
  rd_smembers :: "string \<Rightarrow> 'r \<Rightarrow> string list option"
  rd_exists :: "string \<Rightarrow> 'r \<Rightarrow> bool option"

record user_row =
  ur_username :: string
  ur_presence :: string
  ur_presence_manual :: "bool option"
  ur_last_login_at :: int

text \<open>\<open>env_auth\<close> holds the JWT settings; its rate limiter is not used here.\<close>

record ('r, 'p, 'post) ws_env =
  env_redis :: "'r redis_ops"
  env_cluster :: "'p cluster_io"
  env_show :: "uuid \<Rightarrow> string"
  env_now_ms :: int
  env_db_ok :: bool
  env_max_connections :: "string option"
  env_teams :: "uuid \<Rightarrow> uuid list option"
  env_channels :: "uuid \<Rightarrow> uuid list option"
  env_auth :: "unit auth_env"
  env_timestamp_opt :: "int \<Rightarrow> int option"
  env_from_str :: "string \<Rightarrow> client_envelope option"
  env_typing_data :: "json \<Rightarrow> typing_command_data option"
  env_create_post_input :: "json \<Rightarrow> 'post option"
  env_create_post :: "uuid \<Rightarrow> uuid \<Rightarrow> 'post \<Rightarrow> string option \<Rightarrow> string option"

record ('r, 'p, 't) ws_app =
  app_hub :: "'t ws_hub"
  app_redis :: 'r
  app_users :: "(uuid, user_row) hm"
  app_sent :: "delivery list"
  app_published :: "'p list"

record connection_limit_exceeded =
  cle_current :: nat
  cle_max :: nat

record envelope_command_options =
  allow_send_message :: bool
  emit_unknown_error :: bool
  acknowledge_unsubscribe :: bool

record websocket_auth =
  wa_user_id :: uuid
  wa_expires_at :: int

definition V1 :: envelope_command_options where
  "V1 = \<lparr>allow_send_message = True, emit_unknown_error = True, acknowledge_unsubscribe = True\<rparr>"

definition V4 :: envelope_command_options where
  "V4 = \<lparr>allow_send_message = False, emit_unknown_error = False, acknowledge_unsubscribe = False\<rparr>"

definition get_max_simultaneous_connections :: "('r, 'p, 'post) ws_env \<Rightarrow> nat" where
  "get_max_simultaneous_connections env =
     (case Option.bind (if env_db_ok env then env_max_connections env else None) parse_i64 of
        Some limit \<Rightarrow> if limit > 0 then nat limit else 20
      | None \<Rightarrow> 20)"

definition is_manual_presence :: "('r, 'p, 'post) ws_env \<Rightarrow> ('r, 'p, 't) ws_app \<Rightarrow> uuid \<Rightarrow> bool" where
  "is_manual_presence env app user_id =
     (if \<not> env_db_ok env then False
      else (case hm_get (app_users app) user_id of
              None \<Rightarrow> False
            | Some row \<Rightarrow> (case ur_presence_manual row of None \<Rightarrow> False | Some b \<Rightarrow> b)))"

section \<open>Presence registry in Redis\<close>

definition presence_connection_key :: "(uuid \<Rightarrow> string) \<Rightarrow> uuid \<Rightarrow> string" where
  "presence_connection_key show user_id = ''rustchat:presence:user:'' @ show user_id @ '':connections''"

definition presence_heartbeat_key :: "(uuid \<Rightarrow> string) \<Rightarrow> uuid \<Rightarrow> string \<Rightarrow> string" where
  "presence_heartbeat_key show user_id connection_id =
     ''rustchat:presence:user:'' @ show user_id @ '':connection:'' @ connection_id @ '':heartbeat''"

definition PRESENCE_HEARTBEAT_TTL_SECONDS :: nat where
  "PRESENCE_HEARTBEAT_TTL_SECONDS = 90"

text \<open>
  Registering and heartbeating send the same commands; they differ in what a failed \<^verbatim>\<open>set_ex\<close>
  does: registering goes on to refresh the key's expiry, heartbeating returns.
\<close>

definition register_presence_connection ::
  "('r, 'p, 'post) ws_env \<Rightarrow> uuid \<Rightarrow> string \<Rightarrow> 'r \<Rightarrow> 'r" where
  "register_presence_connection env user_id connection_id r =
     (let rd = env_redis env; connection_id = trim connection_id
      in if connection_id = [] then r
         else if \<not> rd_get rd r then r
         else
           (let key = presence_connection_key (env_show env) user_id;
                heartbeat_key = presence_heartbeat_key (env_show env) user_id connection_id;
                (ok, r) = rd_sadd rd key connection_id r
            in if \<not> ok then r
               else
                 (let (_, r) = rd_set_ex rd heartbeat_key (env_now_ms env div 1000)
                                 PRESENCE_HEARTBEAT_TTL_SECONDS r;
                      (_, r) = rd_expire rd key (PRESENCE_HEARTBEAT_TTL_SECONDS * 2) r
                  in r)))"

definition unregister_presence_connection ::
  "('r, 'p, 'post) ws_env \<Rightarrow> uuid \<Rightarrow> string \<Rightarrow> 'r \<Rightarrow> 'r" where
  "unregister_presence_connection env user_id connection_id r =
     (let rd = env_redis env; connection_id = trim connection_id
      in if connection_id = [] then r
         else if \<not> rd_get rd r then r
         else
           (let key = presence_connection_key (env_show env) user_id;
                heartbeat_key = presence_heartbeat_key (env_show env) user_id connection_id;
                (_, r) = rd_srem rd key [connection_id] r;
                (_, r) = rd_del rd heartbeat_key r
            in case rd_scard rd key r of
                 Some 0 \<Rightarrow> snd (rd_del rd key r)
               | Some _ \<Rightarrow> snd (rd_expire rd key (PRESENCE_HEARTBEAT_TTL_SECONDS * 2) r)
               | None \<Rightarrow> r))"

definition heartbeat_presence_connection ::
  "('r, 'p, 'post) ws_env \<Rightarrow> uuid \<Rightarrow> string \<Rightarrow> 'r \<Rightarrow> 'r" where
  "heartbeat_presence_connection env user_id connection_id r =
     (let rd = env_redis env; connection_id = trim connection_id
      in if connection_id = [] then r
         else if \<not> rd_get rd r then r
         else
           (let key = presence_connection_key (env_show env) user_id;
                heartbeat_key = presence_heartbeat_key (env_show env) user_id connection_id;
                (ok, r) = rd_sadd rd key connection_id r
            in if \<not> ok then r
               else
                 (let (ok, r) = rd_set_ex rd heartbeat_key (env_now_ms env div 1000)
                                  PRESENCE_HEARTBEAT_TTL_SECONDS r
                  in if \<not> ok then r
                     else snd (rd_expire rd key (PRESENCE_HEARTBEAT_TTL_SECONDS * 2) r))))"

text \<open>The loop over the members: the count of live ids and the stale ids, or a failed command.\<close>

fun split_live :: "'r redis_ops \<Rightarrow> (string \<Rightarrow> string) \<Rightarrow> 'r \<Rightarrow> string list \<Rightarrow> (nat \<times> string list) option" where
  "split_live rd heartbeat_key r [] = Some (0, [])"
| "split_live rd heartbeat_key r (connection_id # rest) =
     (case rd_exists rd (heartbeat_key connection_id) r of
        None \<Rightarrow> None
      | Some is_alive \<Rightarrow>
          (case split_live rd heartbeat_key r rest of
             None \<Rightarrow> None
           | Some (n, stale) \<Rightarrow> Some (if is_alive then (Suc n, stale) else (n, connection_id # stale))))"

definition get_global_connection_count ::
  "('r, 'p, 'post) ws_env \<Rightarrow> uuid \<Rightarrow> 'r \<Rightarrow> nat option \<times> 'r" where
  "get_global_connection_count env user_id r =
     (let rd = env_redis env; key = presence_connection_key (env_show env) user_id
      in if \<not> rd_get rd r then (None, r)
         else (case rd_smembers rd key r of
                 None \<Rightarrow> (None, r)
               | Some connections \<Rightarrow>
                   if connections = [] then (Some 0, r)
                   else (case split_live rd (presence_heartbeat_key (env_show env) user_id) r connections of
                           None \<Rightarrow> (None, r)
                         | Some (active_count, stale) \<Rightarrow>
                             (let (ok, r) = (if stale \<noteq> [] then rd_srem rd key stale r else (True, r))
                              in if \<not> ok then (None, r)
                                 else
                                   (let (ok, r) =
                                      (if active_count > 0
                                       then rd_expire rd key (PRESENCE_HEARTBEAT_TTL_SECONDS * 2) r
                                       else rd_del rd key r)
                                    in (if ok then Some active_count else None, r))))))"

definition enforce_connection_limit ::
  "('r, 'p, 'post) ws_env \<Rightarrow> uuid \<Rightarrow> 'r \<Rightarrow> (connection_limit_exceeded + unit) \<times> 'r" where
  "enforce_connection_limit env user_id r =
     (let limit = get_max_simultaneous_connections env;
          (count, r) = get_global_connection_count env user_id r
      in (case count of
            None \<Rightarrow> Inl \<lparr>cle_current = limit, cle_max = limit\<rparr>
          | Some current \<Rightarrow>
              if current \<ge> limit then Inl \<lparr>cle_current = current, cle_max = limit\<rparr> else Inr (), r))"

section \<open>Authentication of the upgrade request\<close>

text \<open>A header map is the function from a header's name to its first value when that is text.\<close>

type_synonym header_map = "string \<Rightarrow> string option"

definition requested_protocol :: "header_map \<Rightarrow> string option" where
  "requested_protocol headers =
     map_option (\<lambda>s. trim (hd (split_on (\<lambda>c. c = CHR '','') s))) (headers ''Sec-WebSocket-Protocol'')"

definition normalize_auth_token :: "string \<Rightarrow> string option" where
  "normalize_auth_token raw =
     (let trimmed = trim raw
      in if trimmed = [] \<or> eq_ignore_ascii_case trimmed ''undefined'' then None
         else
           (let stripped = trim (case strip_prefix ''Bearer '' trimmed of
                  Some s \<Rightarrow> s
                | None \<Rightarrow> (case strip_prefix ''Token '' trimmed of Some s \<Rightarrow> s | None \<Rightarrow> trimmed))
            in if stripped = [] \<or> eq_ignore_ascii_case stripped ''undefined'' then None
               else Some stripped))"

definition resolve_auth_token_secure :: "header_map \<Rightarrow> string option \<Rightarrow> string option" where
  "resolve_auth_token_secure headers protocol_token =
     (case Option.bind (headers ''Authorization'') normalize_auth_token of
        Some token \<Rightarrow> Some token
      | None \<Rightarrow>
          (case Option.bind protocol_token normalize_auth_token of
             Some protocol \<Rightarrow>
               if str_len protocol > 20 \<and> CHR ''.'' \<in> set protocol then Some protocol else None
           | None \<Rightarrow> None))"

definition claims_to_websocket_auth :: "('r, 'p, 'post) ws_env \<Rightarrow> claims \<Rightarrow> websocket_auth option" where
  "claims_to_websocket_auth env claims =
     map_option (\<lambda>expires_at. \<lparr>wa_user_id = cl_sub claims, wa_expires_at = expires_at\<rparr>)
       (env_timestamp_opt env (cl_exp claims))"

definition validate_auth_token :: "('r, 'p, 'post) ws_env \<Rightarrow> string \<Rightarrow> websocket_auth option" where
  "validate_auth_token env token =
     (case validate_token_with_policy (env_auth env) token (au_jwt_secret (env_auth env))
             (au_jwt_issuer (env_auth env)) (au_jwt_audience (env_auth env)) of
        Inl _ \<Rightarrow> None
      | Inr claims \<Rightarrow> claims_to_websocket_auth env claims)"

definition validate_auth_context :: "('r, 'p, 'post) ws_env \<Rightarrow> string option \<Rightarrow> websocket_auth option" where
  "validate_auth_context env token = Option.bind token (validate_auth_token env)"

section \<open>Life cycle and commands\<close>

type_synonym ('r, 'p, 't) app_op = "('r, 'p, 't) ws_app \<Rightarrow> ('r, 'p, 't) ws_app"

definition app_broadcast :: "('r, 'p, 'post) ws_env \<Rightarrow> ws_envelope \<Rightarrow> ('r, 'p, 't) app_op" where
  "app_broadcast env envelope app =
     (let (sent, published) = hub_broadcast (env_cluster env) (app_hub app) envelope
      in app\<lparr>app_sent := app_sent app @ sent, app_published := app_published app @ published\<rparr>)"

definition send_direct :: "('r, 'p, 'post) ws_env \<Rightarrow> uuid \<Rightarrow> ws_envelope \<Rightarrow> ('r, 'p, 't) app_op" where
  "send_direct env user_id envelope =
     app_broadcast env (with_broadcast envelope
       \<lparr>wb_channel_id = None, wb_team_id = None, wb_user_id = Some user_id, wb_exclude_user_id = None\<rparr>)"

definition status_is_manual :: "string \<Rightarrow> bool" where
  "status_is_manual status \<longleftrightarrow> \<not> eq_ignore_ascii_case status ''online''"

definition persist_presence_and_broadcast ::
  "('r, 'p, 'post) ws_env \<Rightarrow> uuid \<Rightarrow> string \<Rightarrow> bool \<Rightarrow> ('r, 'p, 't) app_op" where
  "persist_presence_and_broadcast env user_id status manual app =
     (let app = (if env_db_ok env
                 then app\<lparr>app_users := hm_modify user_id (\<lambda>row. row\<lparr>ur_presence := status,
                        ur_presence_manual := Some manual, ur_last_login_at := env_now_ms env\<rparr>) (app_users app)\<rparr>
                 else app);
          app = app\<lparr>app_hub := set_presence user_id status (app_hub app)\<rparr>;
          evt = ws_event UserPresence
            (Some (JObject [(''user_id'', JString (env_show env user_id)), (''status'', JString status),
                            (''manual'', JBool manual), (''last_activity_at'', JNumber (env_now_ms env))]))
            None
      in app_broadcast env evt app)"

definition subscribe_default_scopes :: "('r, 'p, 'post) ws_env \<Rightarrow> uuid \<Rightarrow> bool \<Rightarrow> ('r, 'p, 't) app_op" where
  "subscribe_default_scopes env user_id subscribe_channels app =
     (let teams = (case env_teams env user_id of None \<Rightarrow> [] | Some ts \<Rightarrow> ts);
          app = app\<lparr>app_hub := fold (subscribe_team user_id) teams (app_hub app)\<rparr>
      in if \<not> subscribe_channels then app
         else
           (let channels = (case env_channels env user_id of None \<Rightarrow> [] | Some cs \<Rightarrow> cs)
            in app\<lparr>app_hub := fold (subscribe_channel user_id) channels (app_hub app)\<rparr>))"

definition initialize_connection_state :: "('r, 'p, 'post) ws_env \<Rightarrow> uuid \<Rightarrow> bool \<Rightarrow> ('r, 'p, 't) app_op" where
  "initialize_connection_state env user_id subscribe_channels app =
     (let app = subscribe_default_scopes env user_id subscribe_channels app
      in if is_manual_presence env app user_id then app
         else persist_presence_and_broadcast env user_id ''online'' False app)"

definition handle_disconnect :: "('r, 'p, 'post) ws_env \<Rightarrow> uuid \<Rightarrow> string \<Rightarrow> ('r, 'p, 't) app_op" where
  "handle_disconnect env user_id connection_id app =
     (let app = app\<lparr>app_redis := unregister_presence_connection env user_id connection_id (app_redis app)\<rparr>
      in if user_connection_count user_id (app_hub app) > 0 then app
         else if is_manual_presence env app user_id then app
         else
           (let (count, r) = get_global_connection_count env user_id (app_redis app);
                app = app\<lparr>app_redis := r\<rparr>
            in case count of
                 None \<Rightarrow> app
               | Some global_count \<Rightarrow>
                   if global_count = 0
                   then persist_presence_and_broadcast env user_id ''offline'' False app
                   else app))"

definition typing_payload :: "('r, 'p, 'post) ws_env \<Rightarrow> typing_event \<Rightarrow> json" where
  "typing_payload env ev =
     JObject ([(''user_id'', JString (env_show env (te_user_id ev))),
               (''display_name'', JString (te_display_name ev))] @
              (case te_thread_root_id ev of
                 None \<Rightarrow> [] | Some root \<Rightarrow> [(''thread_root_id'', JString (env_show env root))]))"

definition broadcast_typing ::
  "('r, 'p, 'post) ws_env \<Rightarrow> event_type \<Rightarrow> uuid \<Rightarrow> string \<Rightarrow> json \<Rightarrow> uuid \<Rightarrow> ('r, 'p, 't) app_op" where
  "broadcast_typing env kind user_id username data channel_id =
     (let thread_root_id = Option.bind (env_typing_data env data) tcd_thread_root_id;
          event = with_broadcast
            (ws_event kind (Some (typing_payload env \<lparr>te_user_id = user_id, te_display_name = username,
                te_thread_root_id = thread_root_id\<rparr>)) (Some channel_id))
            \<lparr>wb_channel_id = Some channel_id, wb_team_id = None, wb_user_id = None,
             wb_exclude_user_id = Some user_id\<rparr>
      in app_broadcast env event)"

definition channel_ack :: "('r, 'p, 'post) ws_env \<Rightarrow> event_type \<Rightarrow> uuid \<Rightarrow> ws_envelope" where
  "channel_ack env kind channel_id =
     ws_event kind (Some (JObject [(''channel_id'', JString (env_show env channel_id))])) None"

definition handle_client_envelope ::
  "('r, 'p, 'post) ws_env \<Rightarrow> uuid \<Rightarrow> string \<Rightarrow> client_envelope \<Rightarrow> envelope_command_options \<Rightarrow>
     ('r, 'p, 't) app_op" where
  "handle_client_envelope env user_id username envelope options app =
     (let event = ce_event envelope in
      if event = ''send_message'' \<and> allow_send_message options then
        (case ce_channel_id envelope of
           None \<Rightarrow> app
         | Some channel_id \<Rightarrow>
             (case env_create_post_input env (ce_data envelope) of
                None \<Rightarrow> app
              | Some input \<Rightarrow>
                  (case env_create_post env user_id channel_id input (ce_client_msg_id envelope) of
                     None \<Rightarrow> app
                   | Some e \<Rightarrow> send_direct env user_id (ws_error (''Failed to send message: '' @ e)) app)))
      else if event = ''subscribe_channel'' then
        (case ce_channel_id envelope of
           None \<Rightarrow> app
         | Some channel_id \<Rightarrow>
             send_direct env user_id (channel_ack env ChannelSubscribed channel_id)
               (app\<lparr>app_hub := subscribe_channel user_id channel_id (app_hub app)\<rparr>))
      else if event = ''unsubscribe_channel'' then
        (case ce_channel_id envelope of
           None \<Rightarrow> app
         | Some channel_id \<Rightarrow>
             (let app = app\<lparr>app_hub := unsubscribe_channel user_id channel_id (app_hub app)\<rparr>
              in if acknowledge_unsubscribe options
                 then send_direct env user_id (channel_ack env ChannelUnsubscribed channel_id) app
                 else app))
      else if event = ''typing'' \<or> event = ''typing_start'' then
        (case ce_channel_id envelope of
           None \<Rightarrow> app
         | Some channel_id \<Rightarrow>
             broadcast_typing env UserTyping user_id username (ce_data envelope) channel_id app)
      else if event = ''typing_stop'' then
        (case ce_channel_id envelope of
           None \<Rightarrow> app
         | Some channel_id \<Rightarrow>
             broadcast_typing env UserTypingStop user_id username (ce_data envelope) channel_id app)
      else if event = ''presence'' then
        (case Option.bind (json_get ''status'' (ce_data envelope)) json_as_str of
           None \<Rightarrow> app
         | Some status \<Rightarrow>
             persist_presence_and_broadcast env user_id status (status_is_manual status) app)
      else if event = ''ping'' then send_direct env user_id (pong (ce_seq envelope)) app
      else if emit_unknown_error options then send_direct env user_id (ws_error ''Unknown command'') app
      else app)"

definition handle_client_envelope_message ::
  "('r, 'p, 'post) ws_env \<Rightarrow> uuid \<Rightarrow> string \<Rightarrow> string \<Rightarrow> envelope_command_options \<Rightarrow>
     ('r, 'p, 't) ws_app \<Rightarrow> ('r, 'p, 't) ws_app \<times> bool" where
  "handle_client_envelope_message env user_id username text options app =
     (case env_from_str env text of
        None \<Rightarrow> (app, False)
      | Some envelope \<Rightarrow> (handle_client_envelope env user_id username envelope options app, True))"

section \<open>Live connections of a user\<close>

text \<open>The registered connections of a user whose heartbeat key Redis still has.\<close>

definition live_connections :: "('r, 'p, 'post) ws_env \<Rightarrow> uuid \<Rightarrow> 'r \<Rightarrow> string list" where
  "live_connections env u r =
     (case rd_smembers (env_redis env) (presence_connection_key (env_show env) u) r of
        None \<Rightarrow> []
      | Some cs \<Rightarrow> filter (\<lambda>c. rd_exists (env_redis env) (presence_heartbeat_key (env_show env) u c) r = Some True) cs)"

definition registry_answers :: "('r, 'p, 'post) ws_env \<Rightarrow> uuid \<Rightarrow> 'r \<Rightarrow> bool" where
  "registry_answers env u r \<longleftrightarrow>
     rd_get (env_redis env) r \<and>
     (case rd_smembers (env_redis env) (presence_connection_key (env_show env) u) r of
        None \<Rightarrow> False
      | Some cs \<Rightarrow> list_all (\<lambda>c. rd_exists (env_redis env) (presence_heartbeat_key (env_show env) u c) r \<noteq> None) cs)"

lemma split_live_Some:
  "split_live rd hb r cs = Some (n, stale) \<Longrightarrow>
     n = length (filter (\<lambda>c. rd_exists rd (hb c) r = Some True) cs) \<and>
     list_all (\<lambda>c. rd_exists rd (hb c) r \<noteq> None) cs"
  by (induction cs arbitrary: n stale) (auto split: option.splits if_splits)

lemma global_count_Some:
  assumes "fst (get_global_connection_count env u r) = Some n"
  shows "registry_answers env u r \<and> n = length (live_connections env u r)"
proof -
  let ?key = "presence_connection_key (env_show env) u"
  have "rd_get (env_redis env) r"
    using assms by (cases "rd_get (env_redis env) r") (simp_all add: get_global_connection_count_def Let_def)
  moreover from this obtain cs where cs: "rd_smembers (env_redis env) ?key r = Some cs"
    using assms by (cases "rd_smembers (env_redis env) ?key r") (simp_all add: get_global_connection_count_def Let_def)
  moreover have "list_all (\<lambda>c. rd_exists (env_redis env) (presence_heartbeat_key (env_show env) u c) r \<noteq> None) cs \<and>
      n = length (live_connections env u r)"
  proof (cases "cs = []")
    case True
    with assms cs \<open>rd_get _ r\<close> show ?thesis
      by (simp add: get_global_connection_count_def live_connections_def Let_def)
  next
    case False
    then obtain k stale where
      sp: "split_live (env_redis env) (presence_heartbeat_key (env_show env) u) r cs = Some (k, stale)"
      using assms cs \<open>rd_get _ r\<close>
      by (cases "split_live (env_redis env) (presence_heartbeat_key (env_show env) u) r cs")
        (auto simp: get_global_connection_count_def Let_def)
    then have "n = k" using assms cs \<open>rd_get _ r\<close> False
      by (auto simp: get_global_connection_count_def Let_def split: if_splits prod.splits)
    then show ?thesis using split_live_Some [OF sp] cs by (simp add: live_connections_def)
  qed
  ultimately show ?thesis by (simp add: registry_answers_def)
qed

lemma broadcast_keeps [simp]:
  "app_hub (app_broadcast env e app) = app_hub app"
  "app_redis (app_broadcast env e app) = app_redis app"
  "app_users (app_broadcast env e app) = app_users app"
  "app_hub (send_direct env u e app) = app_hub app"
  by (simp_all add: app_broadcast_def send_direct_def split: prod.splits)

lemma app_sent_broadcast:
  "app_sent (app_broadcast env e app) =
     app_sent app @ broadcast_local (io_to_string (env_cluster env)) (app_hub app) e"
  by (simp add: app_broadcast_def hub_broadcast_def)

lemma trim_idem [simp]: "trim (trim s) = trim s"
proof -
  have last: "dropWhile is_whitespace (rev (trim s)) = rev (trim s)"
    by (simp add: trim_def dropWhile_idem)
  have "dropWhile is_whitespace (trim s) = trim s"
    using trim_hd [of s] by (cases "trim s") auto
  then show ?thesis using last unfolding trim_def [of "trim s"] by simp
qed

section \<open>Properties\<close>

text \<open>C24. The connection limit is cluster-wide and fails closed: a connection is admitted only if Redis
  answered every query of the count and the user's live connections, over all nodes, are below the
  configured limit.\<close>

theorem connection_limit_sound:
  assumes "fst (enforce_connection_limit env u r) = Inr ()"
  shows "registry_answers env u r \<and> length (live_connections env u r) < get_max_simultaneous_connections env"
proof -
  obtain n where n: "fst (get_global_connection_count env u r) = Some n" "n < get_max_simultaneous_connections env"
    using assms by (auto simp: enforce_connection_limit_def Let_def split: prod.splits option.splits if_splits)
  then show ?thesis using global_count_Some [OF n(1)] by simp
qed

text \<open>A Redis with sets and keys, none of which expires while it is looked at.\<close>

definition demo_redis :: "((string, string list) hm \<times> string list) redis_ops" where
  "demo_redis =
     \<lparr>rd_get = (\<lambda>r. True),
      rd_sadd = (\<lambda>k v (sets, ks). (True, hm_insert k (push_new v (case hm_get sets k of None \<Rightarrow> [] | Some vs \<Rightarrow> vs)) sets, ks)),
      rd_srem = (\<lambda>k vs (sets, ks). (True, hm_modify k (filter (\<lambda>x. x \<notin> set vs)) sets, ks)),
      rd_set_ex = (\<lambda>k v ttl (sets, ks). (True, sets, push_new k ks)),
      rd_expire = (\<lambda>k ttl r. (True, r)),
      rd_del = (\<lambda>k (sets, ks). (True, hm_remove k sets, retain_ne k ks)),
      rd_scard = (\<lambda>k (sets, ks). Some (case hm_get sets k of None \<Rightarrow> 0 | Some vs \<Rightarrow> length vs)),
      rd_smembers = (\<lambda>k (sets, ks). Some (case hm_get sets k of None \<Rightarrow> [] | Some vs \<Rightarrow> vs)),
      rd_exists = (\<lambda>k (sets, ks). Some (k \<in> set ks))\<rparr>"

definition demo_jwt :: "unit auth_env" where
  "demo_jwt = \<lparr>au_jwt_secret = [], au_jwt_issuer = None, au_jwt_audience = None, au_encode = (\<lambda>c s. Inl []),
     au_decode = (\<lambda>t s i a. Inl []), au_bcrypt_verify = (\<lambda>k h. Inl []), au_db = Inr (), au_users = [],
     au_rate = \<lparr>rr_pool_get = (\<lambda>r. Inl []), rr_incr = (\<lambda>k r. Inl []), rr_expire = (\<lambda>k t r. r), rr_read = (\<lambda>k r. Inl []),
       rr_ttl = (\<lambda>k r. Inl []), rr_del = (\<lambda>k r. Inl [])\<rparr>,
     au_show = (\<lambda>u. [])\<rparr>"

definition demo_env :: "((string, string list) hm \<times> string list, cluster_message, unit) ws_env" where
  "demo_env =
     \<lparr>env_redis = demo_redis, env_cluster = demo_io, env_show = unary_show, env_now_ms = 0, env_db_ok = True,
      env_max_connections = Some ''2'', env_teams = (\<lambda>_. Some []), env_channels = (\<lambda>_. Some []),
      env_auth = demo_jwt, env_timestamp_opt = Some, env_from_str = (\<lambda>_. None),
      env_typing_data = (\<lambda>_. None), env_create_post_input = (\<lambda>_. None),
      env_create_post = (\<lambda>_ _ _ _. None)\<rparr>"

definition demo_app :: "((string, string list) hm \<times> string list, cluster_message, unit) ws_app" where
  "demo_app = \<lparr>app_hub = demo_hub, app_redis = ([], []), app_users = [], app_sent = [], app_published = []\<rparr>"

lemma demo_limit: "get_max_simultaneous_connections demo_env = 2"
  by (simp add: get_max_simultaneous_connections_def demo_env_def parse_i64_def digit_value_def code_point_def
      i64_min_def i64_max_def)

lemma demo_admits: "fst (enforce_connection_limit demo_env (Uuid 1) ([], [])) = Inr ()"
  by (simp add: enforce_connection_limit_def demo_limit)
    (simp add: get_global_connection_count_def demo_env_def demo_redis_def)

theorem connection_limit_sound_witness:
  "length (live_connections demo_env (Uuid 1) ([], [])) < get_max_simultaneous_connections demo_env"
  using connection_limit_sound [OF demo_admits] by simp


lemma demo_goes_offline:
  "get_presence (Uuid 3) (app_hub (handle_disconnect demo_env (Uuid 3) ''c'' demo_app)) \<noteq>
   get_presence (Uuid 3) (app_hub demo_app)"
  by (simp add: handle_disconnect_def unregister_presence_connection_def is_manual_presence_def
      get_global_connection_count_def persist_presence_and_broadcast_def user_connection_count_def
      get_presence_def set_presence_def demo_app_def demo_hub_simps demo_env_def demo_redis_def hm_modify_def
      split: if_splits)


text \<open>A client may subscribe to any channel: the command consults no membership, so a user that belongs
  to no channel becomes a subscriber and receives what is broadcast to the channel.\<close>

theorem subscribe_skips_membership:
  assumes "ce_event e = ''subscribe_channel''" "ce_channel_id e = Some ch" "env_channels env u = Some []"
  shows "u \<in> set (channel_subscribers (app_hub (handle_client_envelope env u name e opts app)) ch) \<and>
    addressed (app_hub (handle_client_envelope env u name e opts app))
      (Some \<lparr>wb_channel_id = Some ch, wb_team_id = None, wb_user_id = None, wb_exclude_user_id = None\<rparr>) u"
  using assms channel_index.set_subscribe [of u ch "app_hub app" ch]
  by (simp add: handle_client_envelope_def Let_def addressed_def)

theorem subscribe_skips_membership_witness:
  "Uuid 3 \<in> set (channel_subscribers (app_hub (handle_client_envelope demo_env (Uuid 3) ''eve''
     \<lparr>ce_event = ''subscribe_channel'', ce_data = JNull, ce_channel_id = Some (Uuid 9), ce_seq = None,
      ce_client_msg_id = None\<rparr> V4 demo_app)) (Uuid 9))"
  using subscribe_skips_membership [of "\<lparr>ce_event = ''subscribe_channel'', ce_data = JNull,
      ce_channel_id = Some (Uuid 9), ce_seq = None, ce_client_msg_id = None\<rparr>" "Uuid 9" demo_env "Uuid 3"
      "''eve''" V4 demo_app]
  by (simp add: demo_env_def)

text \<open>Typing indicators go to the other subscribers of the channel only: every send that a typing command
  adds is to a connected subscriber that is not the typist.\<close>

theorem typing_not_echoed:
  assumes "ce_event e \<in> {''typing'', ''typing_start'', ''typing_stop''}" "ce_channel_id e = Some ch"
  shows "\<exists>ds. app_sent (handle_client_envelope env u name e opts app) = app_sent app @ ds \<and>
    list_all (\<lambda>(v, c, m). v \<noteq> u \<and> v \<in> set (channel_subscribers (app_hub app) ch) \<and>
      is_connection (app_hub app) v c) ds"
proof -
  obtain kind where k: "handle_client_envelope env u name e opts app =
      broadcast_typing env kind u name (ce_data e) ch app"
    using assms by (auto simp: handle_client_envelope_def Let_def)
  show ?thesis unfolding k
    by (auto simp: broadcast_typing_def Let_def app_sent_broadcast list_all_iff broadcast_local_def
        with_broadcast_def send_to_subscribers_iff channel_subscribers_def split: option.splits)
qed

theorem typing_not_echoed_witness:
  "\<exists>ds. app_sent (handle_client_envelope demo_env (Uuid 1) ''ann''
       \<lparr>ce_event = ''typing'', ce_data = JNull, ce_channel_id = Some (Uuid 9), ce_seq = None,
        ce_client_msg_id = None\<rparr> V4 demo_app) = ds \<and>
     list_all (\<lambda>(v, c, m). v \<noteq> Uuid 1 \<and> v \<in> set (channel_subscribers (app_hub demo_app) (Uuid 9)) \<and>
       is_connection (app_hub demo_app) v c) ds"
  using typing_not_echoed [of "\<lparr>ce_event = ''typing'', ce_data = JNull, ce_channel_id = Some (Uuid 9),
      ce_seq = None, ce_client_msg_id = None\<rparr>" "Uuid 9" demo_env "Uuid 1" "''ann''" V4 demo_app]
  by (simp add: demo_app_def)

text \<open>What an upgrade request authenticates with is a cleaned token: not empty, with no surrounding
  blanks, not the word undefined that clients send by mistake; and one taken from the subprotocol header
  has a dot and more than twenty bytes.\<close>

theorem resolve_token_sound:
  assumes "resolve_auth_token_secure headers protocol = Some t"
  shows "t \<noteq> [] \<and> trim t = t \<and> \<not> eq_ignore_ascii_case t ''undefined'' \<and>
    (Option.bind (headers ''Authorization'') normalize_auth_token = Some t \<or>
     Option.bind protocol normalize_auth_token = Some t \<and> 20 < str_len t \<and> CHR ''.'' \<in> set t)"
proof -
  have n: "normalize_auth_token raw = Some t \<Longrightarrow>
      t \<noteq> [] \<and> trim t = t \<and> \<not> eq_ignore_ascii_case t ''undefined''" for raw
    by (auto simp: normalize_auth_token_def Let_def split: if_splits)
  have src: "Option.bind (headers ''Authorization'') normalize_auth_token = Some t \<or>
     Option.bind protocol normalize_auth_token = Some t \<and> 20 < str_len t \<and> CHR ''.'' \<in> set t"
    using assms by (auto simp: resolve_auth_token_secure_def split: option.splits if_splits)
  then show ?thesis using n by (auto simp: bind_eq_Some_conv)
qed

theorem resolve_token_sound_witness:
  "trim ''abc'' = ''abc'' \<and> resolve_auth_token_secure (\<lambda>h. if h = ''Authorization'' then Some ''Bearer abc '' else None) None = Some ''abc''"
proof -
  have r: "resolve_auth_token_secure (\<lambda>h. if h = ''Authorization'' then Some ''Bearer abc '' else None) None = Some ''abc''"
    by (simp add: resolve_auth_token_secure_def normalize_auth_token_def trim_def is_whitespace_def code_point_def
        strip_prefix_def eq_ignore_ascii_case_def to_ascii_lowercase_def ascii_lower_def)
  show ?thesis using resolve_token_sound [OF r] r by simp
qed

end
