(* ===== verification/Reliability.thy ===== *)
theory Reliability
  imports Machine
begin

text \<open>
  Protection of calls to external services: \<^verbatim>\<open>backend/src/middleware/reliability.rs\<close>.

  A protected call is a function on the state of the outside world, \<open>'s \<Rightarrow> ('e + 'a) \<times> 's\<close>,
  so that a theorem can say how often it ran. The counters are \<^verbatim>\<open>u32\<close> and kept as \<open>32 word\<close>.
  The floating-point multiplication of the back-off is the argument \<open>scale\<close> of the retry
  configuration; no theorem depends on what it computes. The three critical sections of a breaker
  (check, success, failure) are separate operations, which concurrent calls interleave.
\<close>

section \<open>Circuit breaker\<close>

datatype circuit_state = Closed | Open | HalfOpen

record circuit_breaker_config =
  failure_threshold :: "32 word"
  recovery_timeout :: nat
  success_threshold :: "32 word"

definition circuit_breaker_config_default :: circuit_breaker_config where
  "circuit_breaker_config_default =
     \<lparr>failure_threshold = 5, recovery_timeout = 30000, success_threshold = 2\<rparr>"

record circuit_breaker =
  cb_config :: circuit_breaker_config
  cb_state :: circuit_state
  cb_failures :: "32 word"
  cb_successes :: "32 word"
  cb_last_failure :: "instant option"
  cb_name :: string

definition circuit_breaker_new :: "string \<Rightarrow> circuit_breaker_config \<Rightarrow> circuit_breaker" where
  "circuit_breaker_new name config =
     \<lparr>cb_config = config, cb_state = Closed, cb_failures = 0, cb_successes = 0,
      cb_last_failure = None, cb_name = name\<rparr>"

definition default_config :: "string \<Rightarrow> circuit_breaker" where
  "default_config name = circuit_breaker_new name circuit_breaker_config_default"

datatype 'e circuit_error = CircuitOpen | Inner 'e

definition check_state :: "instant \<Rightarrow> circuit_breaker \<Rightarrow> (unit circuit_error + unit) \<times> circuit_breaker" where
  "check_state now cb =
     (case cb_state cb of
        Closed \<Rightarrow> (Inr (), cb)
      | Open \<Rightarrow>
          (let should_attempt =
             (case cb_last_failure cb of
                None \<Rightarrow> True
              | Some t \<Rightarrow> now - t \<ge> recovery_timeout (cb_config cb))
           in if should_attempt then (Inr (), cb\<lparr>cb_state := HalfOpen, cb_successes := 0\<rparr>)
              else (Inl CircuitOpen, cb))
      | HalfOpen \<Rightarrow> (Inr (), cb))"

definition on_success :: "circuit_breaker \<Rightarrow> circuit_breaker" where
  "on_success cb =
     (case cb_state cb of
        HalfOpen \<Rightarrow>
          (let cb = cb\<lparr>cb_successes := cb_successes cb + 1\<rparr>
           in if cb_successes cb \<ge> success_threshold (cb_config cb)
              then cb\<lparr>cb_state := Closed, cb_failures := 0\<rparr> else cb)
      | Closed \<Rightarrow> if cb_failures cb > 0 then cb\<lparr>cb_failures := 0\<rparr> else cb
      | Open \<Rightarrow> cb)"

definition on_failure :: "instant \<Rightarrow> circuit_breaker \<Rightarrow> circuit_breaker" where
  "on_failure now cb =
     (let cb = cb\<lparr>cb_failures := cb_failures cb + 1, cb_last_failure := Some now\<rparr>
      in case cb_state cb of
           Closed \<Rightarrow>
             if cb_failures cb \<ge> failure_threshold (cb_config cb) then cb\<lparr>cb_state := Open\<rparr> else cb
         | HalfOpen \<Rightarrow> cb\<lparr>cb_state := Open\<rparr>
         | Open \<Rightarrow> cb)"

text \<open>\<open>now\<close> is the time of the check, \<open>later\<close> the time the call returns.\<close>

definition execute ::
  "instant \<Rightarrow> instant \<Rightarrow> ('s \<Rightarrow> ('e + 'a) \<times> 's) \<Rightarrow> circuit_breaker \<Rightarrow> 's \<Rightarrow>
     ('e circuit_error + 'a) \<times> circuit_breaker \<times> 's" where
  "execute now later f cb w =
     (case check_state now cb of
        (Inl _, cb) \<Rightarrow> (Inl CircuitOpen, cb, w)
      | (Inr _, cb) \<Rightarrow>
          (case f w of
             (Inr result, w) \<Rightarrow> (Inr result, on_success cb, w)
           | (Inl err, w) \<Rightarrow> (Inl (Inner err), on_failure later cb, w)))"

definition circuit_state_of :: "circuit_breaker \<Rightarrow> circuit_state" where
  "circuit_state_of cb = cb_state cb"

definition show_circuit_error :: "('e \<Rightarrow> string) \<Rightarrow> 'e circuit_error \<Rightarrow> string" where
  "show_circuit_error display err =
     (case err of CircuitOpen \<Rightarrow> ''Circuit breaker is open'' | Inner e \<Rightarrow> ''Inner error: '' @ display e)"

section \<open>Retry\<close>

datatype retry_condition = RetryAlways | RetryNever | RetryDefault

record retry_config =
  max_attempts :: nat
  initial_delay :: nat
  max_delay :: nat
  scale :: "nat \<Rightarrow> nat"
  retry_if :: retry_condition

definition retry_config_default :: retry_config where
  "retry_config_default =
     \<lparr>max_attempts = 3, initial_delay = 100, max_delay = 5000, scale = (\<lambda>ms. 2 * ms), retry_if = RetryDefault\<rparr>"

fun should_retry :: "retry_condition \<Rightarrow> 'e \<Rightarrow> bool" where
  "should_retry RetryAlways err = True"
| "should_retry RetryNever err = False"
| "should_retry RetryDefault err = True"

text \<open>The loop; the last component of its result lists the delays slept.\<close>

function retry_loop ::
  "retry_config \<Rightarrow> ('s \<Rightarrow> ('e + 'a) \<times> 's) \<Rightarrow> nat \<Rightarrow> nat \<Rightarrow> 's \<Rightarrow> ('e + 'a) \<times> 's \<times> nat list" where
  "retry_loop config f attempts delay w =
     (let attempts = attempts + 1
      in case f w of
           (Inr result, w) \<Rightarrow> (Inr result, w, [])
         | (Inl err, w) \<Rightarrow>
             if attempts \<ge> max_attempts config then (Inl err, w, [])
             else if \<not> should_retry (retry_if config) err then (Inl err, w, [])
             else
               (let (res, w, slept) =
                  retry_loop config f attempts (min (scale config delay) (max_delay config)) w
                in (res, w, delay # slept)))"
  by pat_completeness auto
termination
  by (relation "measure (\<lambda>(config, f, attempts, delay, w). max_attempts config - attempts)") auto

declare retry_loop.simps [simp del]

definition with_retry ::
  "retry_config \<Rightarrow> ('s \<Rightarrow> ('e + 'a) \<times> 's) \<Rightarrow> 's \<Rightarrow> ('e + 'a) \<times> 's \<times> nat list" where
  "with_retry config f w = retry_loop config f 0 (initial_delay config) w"

text \<open>
  The request builder of the HTTP client: \<open>try_clone\<close> and \<open>send\<close> are its operations, \<open>map_error\<close>
  and \<open>clone_error\<close> the caller's.
\<close>

definition send_reqwest_with_retry ::
  "('q \<Rightarrow> 'q option) \<Rightarrow> ('q \<Rightarrow> 's \<Rightarrow> ('x + 'a) \<times> 's) \<Rightarrow> 'q \<Rightarrow> retry_config \<Rightarrow> ('x \<Rightarrow> 'e) \<Rightarrow> 'e \<Rightarrow> 's \<Rightarrow>
     ('e + 'a) \<times> 's" where
  "send_reqwest_with_retry try_clone send request config map_error clone_error w =
     (let mapped = (\<lambda>(res, w). (map_sum map_error id res, w))
      in case try_clone request of
           Some template \<Rightarrow>
             (let attempt = (\<lambda>w. case try_clone template of
                    None \<Rightarrow> (Inl clone_error, w)
                  | Some request \<Rightarrow> mapped (send request w));
                  (res, w, _) = with_retry config attempt w
              in (res, w))
         | None \<Rightarrow> mapped (send request w))"

definition with_resilience ::
  "instant \<Rightarrow> instant \<Rightarrow> circuit_breaker \<Rightarrow> retry_config \<Rightarrow> ('s \<Rightarrow> ('e + 'a) \<times> 's) \<Rightarrow> 's \<Rightarrow>
     ('e circuit_error + 'a) \<times> circuit_breaker \<times> 's" where
  "with_resilience now later circuit retry_config f w =
     (case check_state now circuit of
        (Inl _, circuit) \<Rightarrow> (Inl CircuitOpen, circuit, w)
      | (Inr _, circuit) \<Rightarrow>
          (case with_retry retry_config f w of
             (Inr result, w, _) \<Rightarrow> (Inr result, on_success circuit, w)
           | (Inl err, w, _) \<Rightarrow> (Inl (Inner err), on_failure later circuit, w)))"

record service_circuit_breakers =
  scb_oidc :: circuit_breaker
  scb_s3 :: circuit_breaker
  scb_email :: circuit_breaker
  scb_turnstile :: circuit_breaker

definition service_breakers_new :: service_circuit_breakers where
  "service_breakers_new =
     \<lparr>scb_oidc = default_config ''oidc'', scb_s3 = default_config ''s3'',
      scb_email = default_config ''email'', scb_turnstile = default_config ''turnstile''\<rparr>"

definition service_breakers_with_config :: "circuit_breaker_config \<Rightarrow> service_circuit_breakers" where
  "service_breakers_with_config config =
     \<lparr>scb_oidc = circuit_breaker_new ''oidc'' config, scb_s3 = circuit_breaker_new ''s3'' config,
      scb_email = circuit_breaker_new ''email'' config, scb_turnstile = circuit_breaker_new ''turnstile'' config\<rparr>"

section \<open>The breaker under concurrent calls\<close>

datatype breaker_op = CheckState instant | OnSuccess | OnFailure instant

fun breaker_apply :: "breaker_op \<Rightarrow> circuit_breaker \<Rightarrow> circuit_breaker" where
  "breaker_apply (CheckState now) cb = snd (check_state now cb)"
| "breaker_apply OnSuccess cb = on_success cb"
| "breaker_apply (OnFailure now) cb = on_failure now cb"

inductive breaker_step :: "circuit_breaker \<Rightarrow> breaker_op \<Rightarrow> circuit_breaker \<Rightarrow> bool" where
  breaker_step: "breaker_step cb op (breaker_apply op cb)"

inductive_simps breaker_step_iff: "breaker_step cb op cb'"

definition breaker_init :: "circuit_breaker \<Rightarrow> bool" where
  "breaker_init cb \<longleftrightarrow> (\<exists>name config. cb = circuit_breaker_new name config)"

text \<open>
  Closed means below the failure threshold, half-open means below the success threshold; an open
  breaker knows when it last failed.
\<close>

definition breaker_inv :: "circuit_breaker \<Rightarrow> bool" where
  "breaker_inv cb \<longleftrightarrow>
     (cb_state cb = Closed \<longrightarrow> cb_failures cb = 0 \<or> cb_failures cb < failure_threshold (cb_config cb)) \<and>
     (cb_state cb = HalfOpen \<longrightarrow> cb_successes cb = 0 \<or> cb_successes cb < success_threshold (cb_config cb)) \<and>
     (cb_state cb = Open \<longrightarrow> cb_last_failure cb \<noteq> None)"

lemma breaker_inv_check [preserves]: "breaker_inv cb \<Longrightarrow> breaker_inv (snd (check_state now cb))"
  by (auto simp: breaker_inv_def check_state_def Let_def split: circuit_state.splits option.splits)

lemma breaker_inv_success [preserves]: "breaker_inv cb \<Longrightarrow> breaker_inv (on_success cb)"
  by (auto simp: breaker_inv_def on_success_def Let_def split: circuit_state.splits)

lemma breaker_inv_failure [preserves]: "breaker_inv cb \<Longrightarrow> breaker_inv (on_failure now cb)"
  by (auto simp: breaker_inv_def on_failure_def Let_def split: circuit_state.splits)

interpretation breaker: safe_machine breaker_init breaker_step breaker_inv
proof unfold_locales
  fix cb assume "breaker_init cb"
  then show "breaker_inv cb"
    by (auto simp: breaker_init_def breaker_inv_def circuit_breaker_new_def)
next
  fix cb op cb' assume "breaker_inv cb" "breaker_step cb op cb'"
  then show "breaker_inv cb'" by (cases op) (auto simp: breaker_step_iff intro: preserves)
qed

section \<open>Attempts of a retried call\<close>

text \<open>\<open>world_at f w i\<close> is the world after \<open>i\<close> calls, \<open>call_at f w i\<close> what the next call returns.\<close>

definition world_at :: "('s \<Rightarrow> ('e + 'a) \<times> 's) \<Rightarrow> 's \<Rightarrow> nat \<Rightarrow> 's" where
  "world_at f w i = ((\<lambda>w. snd (f w)) ^^ i) w"

definition call_at :: "('s \<Rightarrow> ('e + 'a) \<times> 's) \<Rightarrow> 's \<Rightarrow> nat \<Rightarrow> 'e + 'a" where
  "call_at f w i = fst (f (world_at f w i))"

lemma world_at_simps [simp]:
  "world_at f w 0 = w" "world_at f w (Suc i) = world_at f (snd (f w)) i"
  by (simp_all add: world_at_def funpow_Suc_right del: funpow.simps(2))

lemma call_at_simps [simp]:
  "call_at f w 0 = fst (f w)" "call_at f w (Suc i) = call_at f (snd (f w)) i"
  by (simp_all add: call_at_def)

text \<open>Outcome of a loop with \<open>n\<close> attempts left: it stops at the first success, else after the last.\<close>

definition retry_outcome ::
  "('s \<Rightarrow> ('e + 'a) \<times> 's) \<Rightarrow> 's \<Rightarrow> nat \<Rightarrow> ('e + 'a) \<times> 's \<times> nat list \<Rightarrow> bool" where
  "retry_outcome f w n out \<longleftrightarrow>
     (\<exists>k < n. (\<forall>i < k. isl (call_at f w i)) \<and> (\<not> isl (call_at f w k) \<or> Suc k = n) \<and>
        fst out = call_at f w k \<and> fst (snd out) = world_at f w (Suc k) \<and> length (snd (snd out)) = k)"

lemma retry_outcome_stop:
  "\<not> isl (fst (f w)) \<or> n = 1 \<Longrightarrow> 0 < n \<Longrightarrow> retry_outcome f w n (fst (f w), snd (f w), [])"
  unfolding retry_outcome_def by (rule exI [of _ 0]) auto

lemma retry_outcome_again:
  assumes "isl (fst (f w))" "retry_outcome f (snd (f w)) n (res, w', slept)"
  shows "retry_outcome f w (Suc n) (res, w', d # slept)"
proof -
  obtain k where k: "k < n" "\<forall>i < k. isl (call_at f (snd (f w)) i)" "\<not> isl (call_at f (snd (f w)) k) \<or> Suc k = n"
      "res = call_at f (snd (f w)) k" "w' = world_at f (snd (f w)) (Suc k)" "length slept = k"
    using assms(2) by (auto simp: retry_outcome_def)
  have "isl (call_at f w i)" if "i < Suc k" for i
    using that k(2) assms(1) by (cases i) auto
  with k show ?thesis unfolding retry_outcome_def by (intro exI [of _ "Suc k"]) auto
qed

lemma retry_loop_outcome:
  fixes f :: "'s \<Rightarrow> ('e + 'a) \<times> 's"
  assumes "retry_if config \<noteq> RetryNever" "attempts < max 1 (max_attempts config)"
  shows "retry_outcome f w (max 1 (max_attempts config) - attempts) (retry_loop config f attempts delay w)"
  using assms(2)
proof (induction "max_attempts config - attempts" arbitrary: attempts delay w rule: less_induct)
  case less
  have again: "should_retry (retry_if config) err" for err :: 'e
    using assms(1) by (cases "retry_if config") auto
  let ?n = "max 1 (max_attempts config) - attempts"
  show ?case
  proof (cases "\<not> isl (fst (f w)) \<or> attempts + 1 \<ge> max_attempts config")
    case True
    then have "retry_loop config f attempts delay w = (fst (f w), snd (f w), [])"
      by (auto simp: retry_loop.simps [of config f attempts] split: prod.splits sum.splits)
    moreover have "\<not> isl (fst (f w)) \<or> ?n = 1" using True less.prems by auto
    ultimately show ?thesis using retry_outcome_stop [of f w ?n] less.prems by simp
  next
    case False
    let ?rec = "retry_loop config f (attempts + 1) (min (scale config delay) (max_delay config)) (snd (f w))"
    have unf: "retry_loop config f attempts delay w = (fst ?rec, fst (snd ?rec), delay # snd (snd ?rec))"
      using False again
      by (auto simp: retry_loop.simps [of config f attempts] split: prod.splits sum.splits)
    have "retry_outcome f (snd (f w)) (max 1 (max_attempts config) - (attempts + 1)) ?rec"
      using False by (intro less.hyps) auto
    moreover have "?n = Suc (max 1 (max_attempts config) - (attempts + 1))" using less.prems by simp
    ultimately show ?thesis using False retry_outcome_again [of f w] by (simp add: unf)
  qed
qed

lemma retry_loop_delays:
  "delay \<le> b \<Longrightarrow> max_delay config \<le> b \<Longrightarrow>
     list_all (\<lambda>d. d \<le> b) (snd (snd (retry_loop config f attempts delay w)))"
proof (induction "max_attempts config - attempts" arbitrary: attempts delay w rule: less_induct)
  case less
  show ?case
  proof (cases "\<not> isl (fst (f w)) \<or> attempts + 1 \<ge> max_attempts config \<or>
      \<not> should_retry (retry_if config) (projl (fst (f w)))")
    case True
    then show ?thesis by (auto simp: retry_loop.simps [of config f attempts] split: prod.splits sum.splits)
  next
    case False
    then have "list_all (\<lambda>d. d \<le> b)
        (snd (snd (retry_loop config f (attempts + 1) (min (scale config delay) (max_delay config)) (snd (f w)))))"
      using less.prems by (intro less.hyps) auto
    then show ?thesis using False less.prems
      by (auto simp: retry_loop.simps [of config f attempts] split: prod.splits sum.splits)
  qed
qed

section \<open>Runs of failures and successes\<close>

abbreviation breaker_after :: "instant list \<Rightarrow> ('s \<Rightarrow> ('e + 'a) \<times> 's) \<Rightarrow> 's \<Rightarrow> circuit_breaker \<Rightarrow> circuit_breaker" where
  "breaker_after ts f w cb \<equiv> fold (\<lambda>t cb. fst (snd (execute t t f cb w))) ts cb"

lemma execute_closed_failure:
  "cb_state cb = Closed \<Longrightarrow> isl (fst (f w)) \<Longrightarrow> fst (snd (execute now later f cb w)) = on_failure later cb"
  by (auto simp: execute_def check_state_def split: prod.splits sum.splits)

lemma execute_success:
  "cb_state cb \<noteq> Open \<Longrightarrow> \<not> isl (fst (f w)) \<Longrightarrow> fst (snd (execute now later f cb w)) = on_success cb"
  by (cases "cb_state cb") (auto simp: execute_def check_state_def split: prod.splits sum.splits)

lemma failures_open:
  assumes "isl (fst (f w))"
  shows "cb_state cb = Closed \<Longrightarrow> 0 < length ts \<Longrightarrow>
    unat (cb_failures cb) + length ts \<le> unat (failure_threshold (cb_config cb)) \<Longrightarrow>
    cb_state (breaker_after ts f w cb) =
      (if unat (cb_failures cb) + length ts = unat (failure_threshold (cb_config cb)) then Open else Closed)"
proof (induction ts arbitrary: cb)
  case (Cons t ts)
  let ?th = "failure_threshold (cb_config cb)"
  have lt: "unat (cb_failures cb) < unat ?th" using Cons.prems(3) by simp
  then have u: "unat (cb_failures cb + 1) = unat (cb_failures cb) + 1"
    by (rule unat_inc)
  show ?case
  proof (cases "ts = []")
    case True
    then show ?thesis using Cons.prems u assms
      by (simp add: execute_closed_failure on_failure_def Let_def word_le_nat_alt)
  next
    case False
    then have "unat (cb_failures cb) + 1 < unat ?th" using Cons.prems(3) by (cases ts) auto
    then have f: "on_failure t cb = cb\<lparr>cb_failures := cb_failures cb + 1, cb_last_failure := Some t\<rparr>"
      using Cons.prems(1) u by (simp add: on_failure_def Let_def word_le_nat_alt)
    have "cb_state (breaker_after ts f w (on_failure t cb)) =
        (if unat (cb_failures cb + 1) + length ts = unat ?th then Open else Closed)"
      using Cons.IH [of "on_failure t cb"] Cons.prems False u by (simp add: f)
    then show ?thesis using Cons.prems assms u by (simp add: execute_closed_failure)
  qed
qed simp

lemma successes_stay_closed:
  assumes "\<not> isl (fst (f w))"
  shows "cb_state cb = Closed \<Longrightarrow> cb_state (breaker_after ts f w cb) = Closed"
proof (induction ts arbitrary: cb)
  case (Cons t ts)
  then have "cb_state (on_success cb) = Closed" by (simp add: on_success_def)
  with Cons assms show ?case by (simp add: execute_success)
qed simp

lemma successes_close:
  assumes "\<not> isl (fst (f w))"
  shows "cb_state cb = HalfOpen \<Longrightarrow> unat (cb_successes cb) < unat (success_threshold (cb_config cb)) \<Longrightarrow>
    cb_state (breaker_after ts f w cb) =
      (if unat (cb_successes cb) + length ts \<ge> unat (success_threshold (cb_config cb)) then Closed else HalfOpen)"
proof (induction ts arbitrary: cb)
  case (Cons t ts)
  let ?th = "success_threshold (cb_config cb)"
  have u: "unat (cb_successes cb + 1) = unat (cb_successes cb) + 1"
    using Cons.prems(2) by (rule unat_inc)
  show ?case
  proof (cases "unat (cb_successes cb) + 1 \<ge> unat ?th")
    case True
    then have "cb_state (on_success cb) = Closed"
      using Cons.prems(1) u by (simp add: on_success_def Let_def word_le_nat_alt)
    then show ?thesis using True Cons.prems assms by (simp add: execute_success successes_stay_closed)
  next
    case False
    then have f: "on_success cb = cb\<lparr>cb_successes := cb_successes cb + 1\<rparr>"
      using Cons.prems(1) u by (simp add: on_success_def Let_def word_le_nat_alt)
    then show ?thesis
      using False Cons.IH [of "on_success cb"] Cons.prems assms u by (simp add: execute_success)
  qed
qed simp

section \<open>Properties\<close>



text \<open>While a breaker is open and its recovery time has not passed, a call fails at once: the protected
  function is not run (the world is untouched), with or without retries, and the breaker is unchanged.\<close>

theorem open_fails_fast:
  assumes "cb_state cb = Open" "cb_last_failure cb = Some t" "now - t < recovery_timeout (cb_config cb)"
  shows "execute now later f cb w = (Inl CircuitOpen, cb, w) \<and>
    with_resilience now later cb rc f w = (Inl CircuitOpen, cb, w)"
  using assms by (simp add: execute_def with_resilience_def check_state_def)

theorem open_fails_fast_witness:
  "execute 100 100 (\<lambda>w :: nat. (Inr () :: unit + unit, Suc w))
     ((default_config ''s3'')\<lparr>cb_state := Open, cb_last_failure := Some 50\<rparr>) 0 =
   (Inl CircuitOpen, (default_config ''s3'')\<lparr>cb_state := Open, cb_last_failure := Some 50\<rparr>, 0)"
  using open_fails_fast [of "(default_config ''s3'')\<lparr>cb_state := Open, cb_last_failure := Some 50\<rparr>" 50 100 100
      "\<lambda>w :: nat. (Inr () :: unit + unit, Suc w)" 0]
  by (simp add: default_config_def circuit_breaker_new_def circuit_breaker_config_default_def)

text \<open>Once the recovery time has passed, an open breaker lets calls through and closes after exactly the
  configured number of consecutive successes.\<close>

theorem breaker_recovers:
  assumes "\<And>w. \<not> isl (fst (f w))" "cb_state cb = Open" "cb_last_failure cb = Some t0"
    and "recovery_timeout (cb_config cb) \<le> t - t0" "0 < success_threshold (cb_config cb)"
  shows "cb_state (breaker_after (t # ts) f w cb) =
    (if Suc (length ts) \<ge> unat (success_threshold (cb_config cb)) then Closed else HalfOpen)"
proof -
  let ?cb = "cb\<lparr>cb_state := HalfOpen, cb_successes := 0\<rparr>"
  have check: "check_state t cb = (Inr (), ?cb)" using assms(2-4) by (simp add: check_state_def)
  have "execute t t f cb w = execute t t f ?cb w"
    unfolding execute_def check by (simp add: check_state_def)
  then have "breaker_after (t # ts) f w cb = breaker_after (t # ts) f w ?cb" by simp
  then show ?thesis
    using successes_close [of f w ?cb "t # ts"] assms(1,5) by (simp add: word_less_nat_alt)
qed

theorem breaker_recovers_witness:
  "cb_state (breaker_after [40000, 40001] (\<lambda>w :: nat. (Inr () :: unit + unit, w)) 0
     ((default_config ''s3'')\<lparr>cb_state := Open, cb_last_failure := Some 50\<rparr>)) = Closed"
  using breaker_recovers [of "\<lambda>w :: nat. (Inr () :: unit + unit, w)"
      "(default_config ''s3'')\<lparr>cb_state := Open, cb_last_failure := Some 50\<rparr>" 50 40000 0 "[40001]"]
  by (simp add: default_config_def circuit_breaker_new_def circuit_breaker_config_default_def)

text \<open>However the checks and outcomes of concurrent calls interleave, a closed breaker is below its failure
  threshold, a half-open one below its success threshold, and an open one knows when it last failed, so
  the test of the recovery time never takes its default branch.\<close>

theorem breaker_invariant:
  assumes "reach breaker_init breaker_step cb"
  shows "(case cb_state cb of
      Closed \<Rightarrow> cb_failures cb = 0 \<or> cb_failures cb < failure_threshold (cb_config cb)
    | HalfOpen \<Rightarrow> cb_successes cb = 0 \<or> cb_successes cb < success_threshold (cb_config cb)
    | Open \<Rightarrow> cb_last_failure cb \<noteq> None)"
  using breaker.reach_safe [OF assms] by (cases "cb_state cb") (auto simp: breaker_inv_def)

lemma one_failure_reachable: "reach breaker_init breaker_step (on_failure 7 (default_config ''s3''))"
proof -
  have "reach breaker_init breaker_step (default_config ''s3'')"
    by (rule reach_init) (auto simp: breaker_init_def default_config_def)
  from reach_step [OF this, of "OnFailure 7"] show ?thesis by (simp add: breaker_step_iff)
qed

theorem breaker_invariant_witness:
  "cb_state (on_failure 7 (default_config ''s3'')) = Closed \<and>
   (cb_failures (on_failure 7 (default_config ''s3'')) = 0 \<or> cb_failures (on_failure 7 (default_config ''s3'')) < 5)"
  using breaker_invariant [OF one_failure_reachable]
  by (simp add: default_config_def circuit_breaker_new_def circuit_breaker_config_default_def on_failure_def Let_def
      word_le_nat_alt)

text \<open>C28. A retried call terminates and makes no call too many: it stops at the first success, or gives up with
  the last error after \<open>max_attempts\<close> calls (one, if that is zero), sleeping once before every further
  call and never longer than the larger of the initial and the maximal delay.\<close>

theorem retry_exact:
  assumes "retry_if config \<noteq> RetryNever" "with_retry config f w = (res, w', slept)"
  shows "\<exists>k < max 1 (max_attempts config).
    (\<forall>i < k. isl (call_at f w i)) \<and> (isl (call_at f w k) \<longrightarrow> Suc k = max 1 (max_attempts config)) \<and>
    res = call_at f w k \<and> w' = world_at f w (Suc k) \<and> length slept = k \<and>
    list_all (\<lambda>d. d \<le> max (initial_delay config) (max_delay config)) slept"
proof -
  have "retry_outcome f w (max 1 (max_attempts config)) (res, w', slept)"
    using retry_loop_outcome [OF assms(1), of 0 f w "initial_delay config"] assms(2)
    by (simp add: with_retry_def)
  moreover have "list_all (\<lambda>d. d \<le> max (initial_delay config) (max_delay config)) slept"
    using retry_loop_delays [of "initial_delay config" "max (initial_delay config) (max_delay config)" config f 0 w]
      assms(2) by (simp add: with_retry_def)
  ultimately show ?thesis unfolding retry_outcome_def by auto
qed

definition flaky :: "nat \<Rightarrow> (nat + nat) \<times> nat" where
  "flaky n = (if n < 2 then Inl n else Inr n, Suc n)"

theorem retry_exact_witness:
  "\<exists>k < 3. (\<forall>i < k. isl (call_at flaky 0 i)) \<and> Inr 2 = call_at flaky 0 k"
proof -
  have w: "with_retry retry_config_default flaky 0 = (Inr 2, 3, [100, 200])"
    by code_simp
  have c: "retry_if retry_config_default \<noteq> RetryNever" "max 1 (max_attempts retry_config_default) = 3"
    by (simp_all add: retry_config_default_def)
  from retry_exact [OF c(1) w, unfolded c(2)] show ?thesis by blast
qed

end
