(* ===== verification/Call_State.thy ===== *)
theory Call_State
  imports Machine
begin

text \<open>
  State of the calls plugin: \<^verbatim>\<open>backend/src/api/v4/calls_plugin/state.rs\<close>.

  The manager keeps the calls by id and an index from channels to calls in memory, and mirrors
  them to Redis when that is configured. The Redis commands (on an abstract state, each of which may
  fail with a text), the JSON conversion of a call and the text form of a UUID are the fields of
  \<open>call_env\<close>. Sets and maps inside a call are lists without repetition and association lists.
  An operation that reads and then writes a call (\<open>mutate_call\<close>) holds no lock in between; the
  interleaved machine below separates the two.
\<close>

section \<open>Calls\<close>

record participant =
  p_user_id :: uuid
  p_session_id :: uuid
  p_joined_at :: int
  p_muted :: bool
  p_screen_sharing :: bool
  p_hand_raised :: bool

record call_state =
  call_id :: uuid
  call_channel_id :: uuid
  owner_id :: uuid
  host_id :: uuid
  started_at :: int
  participants :: "(uuid, participant) hm"
  screen_sharer :: "uuid option"
  thread_id :: "uuid option"
  dismissed_users :: "uuid list"

datatype call_state_backend = MemoryBackend | RedisBackend | AutoBackend

definition parse_backend :: "string \<Rightarrow> call_state_backend" where
  "parse_backend raw =
     (let s = to_ascii_lowercase (trim raw)
      in if s = ''memory'' \<or> s = ''in-memory'' \<or> s = ''single-node'' then MemoryBackend
         else if s = ''redis'' \<or> s = ''multi-node'' then RedisBackend
         else AutoBackend)"

record 'r call_env =
  ce_pool_get :: "'r \<Rightarrow> bool"
  ce_get :: "string \<Rightarrow> 'r \<Rightarrow> string + string option"
  ce_set :: "string \<Rightarrow> string \<Rightarrow> 'r \<Rightarrow> string option \<times> 'r"
  ce_sadd :: "string \<Rightarrow> string \<Rightarrow> 'r \<Rightarrow> string option \<times> 'r"
  ce_srem :: "string \<Rightarrow> string \<Rightarrow> 'r \<Rightarrow> 'r"
  ce_del :: "string \<Rightarrow> 'r \<Rightarrow> 'r"
  ce_smembers :: "string \<Rightarrow> 'r \<Rightarrow> string + string list"
  ce_to_string :: "call_state \<Rightarrow> string + string"
  ce_from_str :: "string \<Rightarrow> string + call_state"
  ce_show :: "uuid \<Rightarrow> string"
  ce_parse :: "string \<Rightarrow> string + uuid"

record 'r call_manager =
  cm_calls :: "(uuid, call_state) hm"
  cm_channel_index :: "(uuid, uuid) hm"
  cm_redis_present :: bool
  cm_backend :: call_state_backend
  cm_store :: 'r

definition manager_new :: "'r \<Rightarrow> 'r call_manager" where
  "manager_new r = \<lparr>cm_calls = [], cm_channel_index = [], cm_redis_present = False,
                    cm_backend = MemoryBackend, cm_store = r\<rparr>"

definition with_backend :: "bool \<Rightarrow> call_state_backend \<Rightarrow> 'r \<Rightarrow> 'r call_manager" where
  "with_backend redis_present backend r =
     \<lparr>cm_calls = [], cm_channel_index = [], cm_redis_present = redis_present, cm_backend = backend, cm_store = r\<rparr>"

definition should_use_redis :: "'r call_manager \<Rightarrow> bool" where
  "should_use_redis m =
     (case cm_backend m of MemoryBackend \<Rightarrow> False | RedisBackend \<Rightarrow> cm_redis_present m | AutoBackend \<Rightarrow> cm_redis_present m)"

definition active_backend :: "'r call_manager \<Rightarrow> call_state_backend" where
  "active_backend m = (if should_use_redis m then RedisBackend else MemoryBackend)"

definition redis_conn :: "'r call_env \<Rightarrow> 'r call_manager \<Rightarrow> bool" where
  "redis_conn env m \<longleftrightarrow> should_use_redis m \<and> cm_redis_present m \<and> ce_pool_get env (cm_store m)"

section \<open>Redis representation\<close>

definition redis_call_key :: "'r call_env \<Rightarrow> uuid \<Rightarrow> string" where
  "redis_call_key env c = ''rustchat:calls:state:'' @ ce_show env c"

definition redis_channel_key :: "'r call_env \<Rightarrow> uuid \<Rightarrow> string" where
  "redis_channel_key env ch = ''rustchat:calls:channel:'' @ ce_show env ch"

definition redis_active_calls_key :: string where
  "redis_active_calls_key = ''rustchat:calls:active''"

definition redis_get_call :: "'r call_env \<Rightarrow> uuid \<Rightarrow> 'r \<Rightarrow> string + call_state option" where
  "redis_get_call env c r =
     (case ce_get env (redis_call_key env c) r of
        Inl e \<Rightarrow> Inl e
      | Inr None \<Rightarrow> Inr None
      | Inr (Some value) \<Rightarrow> (case ce_from_str env value of Inl e \<Rightarrow> Inl e | Inr call \<Rightarrow> Inr (Some call)))"

definition redis_get_call_by_channel :: "'r call_env \<Rightarrow> uuid \<Rightarrow> 'r \<Rightarrow> string + call_state option" where
  "redis_get_call_by_channel env ch r =
     (case ce_get env (redis_channel_key env ch) r of
        Inl e \<Rightarrow> Inl e
      | Inr None \<Rightarrow> Inr None
      | Inr (Some value) \<Rightarrow> (case ce_parse env value of Inl e \<Rightarrow> Inl e | Inr c \<Rightarrow> redis_get_call env c r))"

fun collect_calls :: "'r call_env \<Rightarrow> 'r \<Rightarrow> string list \<Rightarrow> string + call_state list" where
  "collect_calls env r [] = Inr []"
| "collect_calls env r (ident # rest) =
     (case ce_parse env ident of
        Inl _ \<Rightarrow> collect_calls env r rest
      | Inr c \<Rightarrow>
          (case redis_get_call env c r of
             Inl e \<Rightarrow> Inl e
           | Inr found \<Rightarrow>
               (case collect_calls env r rest of
                  Inl e \<Rightarrow> Inl e
                | Inr calls \<Rightarrow> Inr (case found of None \<Rightarrow> calls | Some call \<Rightarrow> call # calls))))"

definition redis_get_all_calls :: "'r call_env \<Rightarrow> 'r \<Rightarrow> string + call_state list" where
  "redis_get_all_calls env r =
     (case ce_smembers env redis_active_calls_key r of Inl e \<Rightarrow> Inl e | Inr ids \<Rightarrow> collect_calls env r ids)"

text \<open>Stops at the first failing command; what the earlier ones wrote stays.\<close>

definition redis_set_call :: "'r call_env \<Rightarrow> call_state \<Rightarrow> 'r \<Rightarrow> string option \<times> 'r" where
  "redis_set_call env call r =
     (case ce_to_string env call of
        Inl e \<Rightarrow> (Some e, r)
      | Inr payload \<Rightarrow>
          (case ce_set env (redis_call_key env (call_id call)) payload r of
             (Some e, r) \<Rightarrow> (Some e, r)
           | (None, r) \<Rightarrow>
               (case ce_set env (redis_channel_key env (call_channel_id call)) (ce_show env (call_id call)) r of
                  (Some e, r) \<Rightarrow> (Some e, r)
                | (None, r) \<Rightarrow> ce_sadd env redis_active_calls_key (ce_show env (call_id call)) r)))"

section \<open>Operations\<close>

type_synonym 'r manager_op = "'r call_manager \<Rightarrow> 'r call_manager"

definition upsert_call_local :: "call_state \<Rightarrow> 'r manager_op" where
  "upsert_call_local call m =
     m\<lparr>cm_channel_index := hm_insert (call_channel_id call) (call_id call) (cm_channel_index m),
       cm_calls := hm_insert (call_id call) call (cm_calls m)\<rparr>"

definition remove_call_local :: "uuid \<Rightarrow> 'r call_manager \<Rightarrow> call_state option \<times> 'r call_manager" where
  "remove_call_local c m =
     (case hm_get (cm_calls m) c of
        None \<Rightarrow> (None, m)
      | Some call \<Rightarrow>
          (Some call, m\<lparr>cm_calls := hm_remove c (cm_calls m),
                        cm_channel_index := hm_remove (call_channel_id call) (cm_channel_index m)\<rparr>))"

definition persist_call :: "'r call_env \<Rightarrow> call_state \<Rightarrow> 'r manager_op" where
  "persist_call env call m =
     (let m = upsert_call_local call m
      in if \<not> redis_conn env m then m
         else m\<lparr>cm_store := snd (redis_set_call env call (cm_store m))\<rparr>)"

definition add_call :: "'r call_env \<Rightarrow> call_state \<Rightarrow> 'r manager_op" where
  "add_call env call = persist_call env call"

definition remove_call :: "'r call_env \<Rightarrow> uuid \<Rightarrow> 'r manager_op" where
  "remove_call env c m =
     (let (removed_call, m) = remove_call_local c m
      in if \<not> redis_conn env m then m
         else
           (let r = cm_store m;
                channel_id = (case removed_call of
                    Some call \<Rightarrow> Some (call_channel_id call)
                  | None \<Rightarrow> (case redis_get_call env c r of
                                Inr (Some call) \<Rightarrow> Some (call_channel_id call) | _ \<Rightarrow> None));
                r = (case channel_id of None \<Rightarrow> r | Some ch \<Rightarrow> ce_del env (redis_channel_key env ch) r);
                r = ce_del env (redis_call_key env c) r;
                r = ce_srem env redis_active_calls_key (ce_show env c) r
            in m\<lparr>cm_store := r\<rparr>))"

definition get_call :: "'r call_env \<Rightarrow> uuid \<Rightarrow> 'r call_manager \<Rightarrow> call_state option \<times> 'r call_manager" where
  "get_call env c m =
     (case (if redis_conn env m then redis_get_call env c (cm_store m) else Inr None) of
        Inr (Some call) \<Rightarrow> (Some call, upsert_call_local call m)
      | _ \<Rightarrow> (hm_get (cm_calls m) c, m))"

definition get_call_by_channel ::
  "'r call_env \<Rightarrow> uuid \<Rightarrow> 'r call_manager \<Rightarrow> call_state option \<times> 'r call_manager" where
  "get_call_by_channel env ch m =
     (case (if redis_conn env m then redis_get_call_by_channel env ch (cm_store m) else Inr None) of
        Inr (Some call) \<Rightarrow> (Some call, upsert_call_local call m)
      | _ \<Rightarrow> (Option.bind (hm_get (cm_channel_index m) ch) (hm_get (cm_calls m)), m))"

definition mutate_call :: "'r call_env \<Rightarrow> uuid \<Rightarrow> (call_state \<Rightarrow> call_state) \<Rightarrow> 'r manager_op" where
  "mutate_call env c mutator m =
     (case get_call env c m of
        (None, m) \<Rightarrow> m
      | (Some call, m) \<Rightarrow> persist_call env (mutator call) m)"

definition insert_participant :: "participant \<Rightarrow> call_state \<Rightarrow> call_state" where
  "insert_participant p call = call\<lparr>participants := hm_insert (p_user_id p) p (participants call)\<rparr>"

definition add_participant :: "'r call_env \<Rightarrow> uuid \<Rightarrow> participant \<Rightarrow> 'r manager_op" where
  "add_participant env c p = mutate_call env c (insert_participant p)"

definition drop_participant :: "uuid \<Rightarrow> call_state \<Rightarrow> call_state" where
  "drop_participant user_id call =
     (let call = call\<lparr>participants := hm_remove user_id (participants call)\<rparr>
      in if screen_sharer call = Some user_id then call\<lparr>screen_sharer := None\<rparr> else call)"

definition remove_participant :: "'r call_env \<Rightarrow> uuid \<Rightarrow> uuid \<Rightarrow> 'r manager_op" where
  "remove_participant env c user_id = mutate_call env c (drop_participant user_id)"

definition update_participant :: "uuid \<Rightarrow> (participant \<Rightarrow> participant) \<Rightarrow> call_state \<Rightarrow> call_state" where
  "update_participant user_id f call = call\<lparr>participants := hm_modify user_id f (participants call)\<rparr>"

definition set_muted :: "'r call_env \<Rightarrow> uuid \<Rightarrow> uuid \<Rightarrow> bool \<Rightarrow> 'r manager_op" where
  "set_muted env c user_id muted =
     mutate_call env c (update_participant user_id (\<lambda>p. p\<lparr>p_muted := muted\<rparr>))"

definition set_screen_sharing :: "'r call_env \<Rightarrow> uuid \<Rightarrow> uuid \<Rightarrow> bool \<Rightarrow> 'r manager_op" where
  "set_screen_sharing env c user_id sharing =
     mutate_call env c (update_participant user_id (\<lambda>p. p\<lparr>p_screen_sharing := sharing\<rparr>))"

definition set_screen_sharer :: "'r call_env \<Rightarrow> uuid \<Rightarrow> uuid option \<Rightarrow> 'r manager_op" where
  "set_screen_sharer env c user_id = mutate_call env c (\<lambda>call. call\<lparr>screen_sharer := user_id\<rparr>)"

definition set_hand_raised :: "'r call_env \<Rightarrow> uuid \<Rightarrow> uuid \<Rightarrow> bool \<Rightarrow> 'r manager_op" where
  "set_hand_raised env c user_id raised =
     mutate_call env c (update_participant user_id (\<lambda>p. p\<lparr>p_hand_raised := raised\<rparr>))"

definition set_host :: "'r call_env \<Rightarrow> uuid \<Rightarrow> uuid \<Rightarrow> 'r manager_op" where
  "set_host env c new_host = mutate_call env c (\<lambda>call. call\<lparr>host_id := new_host\<rparr>)"

definition set_thread_id :: "'r call_env \<Rightarrow> uuid \<Rightarrow> uuid option \<Rightarrow> 'r manager_op" where
  "set_thread_id env c t = mutate_call env c (\<lambda>call. call\<lparr>thread_id := t\<rparr>)"

definition dismiss_user_notification :: "'r call_env \<Rightarrow> uuid \<Rightarrow> uuid \<Rightarrow> 'r manager_op" where
  "dismiss_user_notification env c user_id =
     mutate_call env c (\<lambda>call. call\<lparr>dismissed_users := push_new user_id (dismissed_users call)\<rparr>)"

definition get_participant ::
  "'r call_env \<Rightarrow> uuid \<Rightarrow> uuid \<Rightarrow> 'r call_manager \<Rightarrow> participant option \<times> 'r call_manager" where
  "get_participant env c user_id m =
     (let (call, m) = get_call env c m
      in (Option.bind call (\<lambda>call. hm_get (participants call) user_id), m))"

definition get_participants ::
  "'r call_env \<Rightarrow> uuid \<Rightarrow> 'r call_manager \<Rightarrow> participant list \<times> 'r call_manager" where
  "get_participants env c m =
     (let (call, m) = get_call env c m
      in (case call of None \<Rightarrow> [] | Some call \<Rightarrow> hm_values (participants call), m))"

definition get_thread_id :: "'r call_env \<Rightarrow> uuid \<Rightarrow> 'r call_manager \<Rightarrow> uuid option \<times> 'r call_manager" where
  "get_thread_id env c m = (let (call, m) = get_call env c m in (Option.bind call thread_id, m))"

definition is_notification_dismissed :: "uuid \<Rightarrow> uuid \<Rightarrow> 'r call_manager \<Rightarrow> bool" where
  "is_notification_dismissed c user_id m \<longleftrightarrow>
     (case hm_get (cm_calls m) c of None \<Rightarrow> False | Some call \<Rightarrow> user_id \<in> set (dismissed_users call))"

definition get_participant_count :: "uuid \<Rightarrow> 'r call_manager \<Rightarrow> nat" where
  "get_participant_count c m =
     (case hm_get (cm_calls m) c of None \<Rightarrow> 0 | Some call \<Rightarrow> length (participants call))"

definition get_all_calls :: "'r call_env \<Rightarrow> 'r call_manager \<Rightarrow> call_state list \<times> 'r call_manager" where
  "get_all_calls env m =
     (case (if redis_conn env m then redis_get_all_calls env (cm_store m) else Inr []) of
        Inl _ \<Rightarrow> (hm_values (cm_calls m), m)
      | Inr calls \<Rightarrow>
          (let m = fold upsert_call_local calls m
           in if calls \<noteq> [] then (calls, m) else (hm_values (cm_calls m), m)))"

definition drop_redis_call :: "'r call_env \<Rightarrow> string \<Rightarrow> 'r \<Rightarrow> 'r" where
  "drop_redis_call env ident r =
     (case ce_parse env ident of
        Inl _ \<Rightarrow> r
      | Inr c \<Rightarrow>
          (let r = (case redis_get_call env c r of
                      Inr (Some call) \<Rightarrow> ce_del env (redis_channel_key env (call_channel_id call)) r
                    | _ \<Rightarrow> r)
           in ce_del env (redis_call_key env c) r))"

definition end_all_calls :: "'r call_env \<Rightarrow> 'r manager_op" where
  "end_all_calls env m =
     (let m = m\<lparr>cm_calls := [], cm_channel_index := []\<rparr>
      in if \<not> redis_conn env m then m
         else
           (let r = cm_store m;
                r = (case ce_smembers env redis_active_calls_key r of
                       Inl _ \<Rightarrow> r | Inr ids \<Rightarrow> fold (drop_redis_call env) ids r)
            in m\<lparr>cm_store := ce_del env redis_active_calls_key r\<rparr>))"

section \<open>Calls in memory\<close>

text \<open>Without a Redis connection every operation works on the two local maps.\<close>

lemma should_use_redis_iff:
  "should_use_redis m \<longleftrightarrow> cm_backend m \<noteq> MemoryBackend \<and> cm_redis_present m"
  by (cases "cm_backend m") (simp_all add: should_use_redis_def)

lemma get_call_local: "\<not> redis_conn env m \<Longrightarrow> get_call env c m = (hm_get (cm_calls m) c, m)"
  by (simp add: get_call_def)

lemma get_call_by_channel_local:
  "\<not> redis_conn env m \<Longrightarrow>
     get_call_by_channel env ch m = (Option.bind (hm_get (cm_channel_index m) ch) (hm_get (cm_calls m)), m)"
  by (simp add: get_call_by_channel_def)

lemma redis_conn_upsert [simp]:
  "redis_conn env (upsert_call_local call m) = redis_conn env m"
  by (simp add: redis_conn_def should_use_redis_iff upsert_call_local_def)

lemma persist_call_local: "\<not> redis_conn env m \<Longrightarrow> persist_call env call m = upsert_call_local call m"
  by (simp add: persist_call_def)

lemma mutate_call_local:
  "\<not> redis_conn env m \<Longrightarrow>
     mutate_call env c f m =
       (case hm_get (cm_calls m) c of None \<Rightarrow> m | Some call \<Rightarrow> upsert_call_local (f call) m)"
  by (simp add: mutate_call_def get_call_local persist_call_local split: option.splits)

lemma remove_call_local_mode:
  assumes "\<not> redis_conn env m"
  shows "remove_call env c m = snd (remove_call_local c m)"
proof -
  have "\<not> redis_conn env (snd (remove_call_local c m))"
    using assms by (auto simp: remove_call_local_def redis_conn_def should_use_redis_iff split: option.splits)
  then show ?thesis by (cases "remove_call_local c m") (simp add: remove_call_def)
qed

text \<open>What the code changes in a call, one constructor per operation that goes through \<open>mutate_call\<close>.\<close>

datatype call_mutation =
    Join participant
  | Leave uuid
  | Muted uuid bool
  | ScreenSharing uuid bool
  | ScreenSharer "uuid option"
  | HandRaised uuid bool
  | Host uuid
  | Thread "uuid option"
  | Dismiss uuid

fun mutation_fun :: "call_mutation \<Rightarrow> call_state \<Rightarrow> call_state" where
  "mutation_fun (Join p) = insert_participant p"
| "mutation_fun (Leave u) = drop_participant u"
| "mutation_fun (Muted u b) = update_participant u (\<lambda>p. p\<lparr>p_muted := b\<rparr>)"
| "mutation_fun (ScreenSharing u b) = update_participant u (\<lambda>p. p\<lparr>p_screen_sharing := b\<rparr>)"
| "mutation_fun (ScreenSharer u) = (\<lambda>call. call\<lparr>screen_sharer := u\<rparr>)"
| "mutation_fun (HandRaised u b) = update_participant u (\<lambda>p. p\<lparr>p_hand_raised := b\<rparr>)"
| "mutation_fun (Host u) = (\<lambda>call. call\<lparr>host_id := u\<rparr>)"
| "mutation_fun (Thread t) = (\<lambda>call. call\<lparr>thread_id := t\<rparr>)"
| "mutation_fun (Dismiss u) = (\<lambda>call. call\<lparr>dismissed_users := push_new u (dismissed_users call)\<rparr>)"

lemma mutation_keeps_identity:
  "call_id (mutation_fun mu call) = call_id call \<and> call_channel_id (mutation_fun mu call) = call_channel_id call"
  by (cases mu) (simp_all add: insert_participant_def drop_participant_def update_participant_def Let_def)

text \<open>Participants are filed under their own user id.\<close>

definition call_ok :: "call_state \<Rightarrow> bool" where
  "call_ok call \<longleftrightarrow>
     hm_wf (participants call) \<and> (\<forall>u p. hm_get (participants call) u = Some p \<longrightarrow> p_user_id p = u)"

lemma call_ok_mutation: "call_ok call \<Longrightarrow> call_ok (mutation_fun mu call)"
  by (cases mu) (auto simp: call_ok_def insert_participant_def drop_participant_def update_participant_def Let_def)

section \<open>The local manager as a state machine\<close>

datatype call_op = AddCall call_state | RemoveCall uuid | Mutate uuid call_mutation

inductive call_step :: "'r call_env \<Rightarrow> 'r call_manager \<Rightarrow> call_op \<Rightarrow> 'r call_manager \<Rightarrow> bool" for env where
  step_add: "hm_get (cm_calls m) (call_id call) = None \<Longrightarrow> call_ok call \<Longrightarrow>
     call_step env m (AddCall call) (add_call env call m)"
| step_remove: "call_step env m (RemoveCall c) (remove_call env c m)"
| step_mutate: "call_step env m (Mutate c mu) (mutate_call env c (mutation_fun mu) m)"

definition call_init :: "'r call_manager \<Rightarrow> bool" where
  "call_init m \<longleftrightarrow> cm_calls m = [] \<and> cm_channel_index m = [] \<and> \<not> should_use_redis m"

definition calls_inv :: "'r call_manager \<Rightarrow> bool" where
  "calls_inv m \<longleftrightarrow>
     \<not> should_use_redis m \<and>
     (\<forall>ch c. hm_get (cm_channel_index m) ch = Some c \<longrightarrow>
        (\<exists>call. hm_get (cm_calls m) c = Some call \<and> call_channel_id call = ch)) \<and>
     (\<forall>c call. hm_get (cm_calls m) c = Some call \<longrightarrow> call_id call = c \<and> call_ok call)"

lemma calls_inv_conn: "calls_inv m \<Longrightarrow> \<not> redis_conn env m"
  by (simp add: calls_inv_def redis_conn_def)

lemma calls_inv_upsert:
  assumes "calls_inv m" "call_ok call"
    and "\<forall>old. hm_get (cm_calls m) (call_id call) = Some old \<longrightarrow> call_channel_id old = call_channel_id call"
  shows "calls_inv (upsert_call_local call m)"
  using assms by (fastforce simp: calls_inv_def upsert_call_local_def should_use_redis_iff)

lemma calls_inv_remove: "calls_inv m \<Longrightarrow> calls_inv (snd (remove_call_local c m))"
  by (auto simp: calls_inv_def remove_call_local_def should_use_redis_iff split: option.splits) fastforce+

interpretation calls: safe_machine call_init "call_step (env :: 'r call_env)" calls_inv
proof unfold_locales
  fix m :: "'r call_manager" assume "call_init m"
  then show "calls_inv m" by (simp add: call_init_def calls_inv_def)
next
  fix m m' :: "'r call_manager" and op assume inv: "calls_inv m" and step: "call_step env m op m'"
  note local = calls_inv_conn [OF inv]
  from step show "calls_inv m'"
  proof cases
    case (step_add call)
    then show ?thesis using inv local
      by (simp add: add_call_def persist_call_local calls_inv_upsert)
  next
    case (step_remove c)
    then show ?thesis using inv local by (simp add: remove_call_local_mode calls_inv_remove)
  next
    case (step_mutate c mu)
    show ?thesis
    proof (cases "hm_get (cm_calls m) c")
      case None
      with step_mutate inv local show ?thesis by (simp add: mutate_call_local)
    next
      case (Some call)
      then have "call_id call = c" "call_ok call" using inv by (auto simp: calls_inv_def)
      with Some step_mutate inv local mutation_keeps_identity [of mu call] show ?thesis
        by (simp add: mutate_call_local calls_inv_upsert call_ok_mutation)
    qed
  qed
qed

section \<open>Reading and writing without a lock\<close>

text \<open>
  A task \<open>t\<close> that changes a call reads it (\<open>TaskRead\<close>) and later writes its changed copy back
  (\<open>TaskWrite\<close>); other tasks run in between. The second component of the state holds the copies.
\<close>

datatype task_op = TaskRead nat uuid call_mutation | TaskWrite nat | TaskWhole call_op

inductive task_step ::
  "'r call_env \<Rightarrow> 'r call_manager \<times> (nat, call_state) hm \<Rightarrow> task_op \<Rightarrow> 'r call_manager \<times> (nat, call_state) hm \<Rightarrow> bool"
  for env where
  task_read: "get_call env c m = (Some call, m') \<Longrightarrow>
     task_step env (m, ts) (TaskRead t c mu) (m', hm_insert t (mutation_fun mu call) ts)"
| task_write: "hm_get ts t = Some call \<Longrightarrow>
     task_step env (m, ts) (TaskWrite t) (persist_call env call m, hm_remove t ts)"
| task_whole: "call_step env m op m' \<Longrightarrow> task_step env (m, ts) (TaskWhole op) (m', ts)"

text \<open>An undisturbed read and write is the atomic operation.\<close>

lemma task_read_write:
  assumes "get_call env c m = (Some call, m')"
  shows "persist_call env (mutation_fun mu call) m' = mutate_call env c (mutation_fun mu) m"
  using assms by (simp add: mutate_call_def)

section \<open>Properties\<close>


definition demo_call :: "128 word \<Rightarrow> call_state" where
  "demo_call n = \<lparr>call_id = Uuid n, call_channel_id = Uuid 50, owner_id = Uuid 7, host_id = Uuid 7,
     started_at = 0, participants = [], screen_sharer = None, thread_id = None, dismissed_users = []\<rparr>"

definition demo_call_env :: "unit call_env" where
  "demo_call_env = \<lparr>ce_pool_get = (\<lambda>r. False), ce_get = (\<lambda>k r. Inl []), ce_set = (\<lambda>k v r. (None, r)),
     ce_sadd = (\<lambda>k v r. (None, r)), ce_srem = (\<lambda>k v r. r), ce_del = (\<lambda>k r. r), ce_smembers = (\<lambda>k r. Inl []),
     ce_to_string = (\<lambda>c. Inl []), ce_from_str = (\<lambda>s. Inl []), ce_show = (\<lambda>u. []), ce_parse = (\<lambda>s. Inl [])\<rparr>"

abbreviation one_call :: "unit call_manager" where
  "one_call \<equiv> add_call demo_call_env (demo_call 1) (manager_new ())"

lemma one_call_reachable: "reach call_init (call_step demo_call_env) one_call"
proof -
  have "reach call_init (call_step demo_call_env) (manager_new ())"
    by (rule reach_init) (simp add: call_init_def manager_new_def should_use_redis_def)
  moreover have "call_step demo_call_env (manager_new ()) (AddCall (demo_call 1)) one_call"
    by (rule step_add) (simp_all add: manager_new_def call_ok_def demo_call_def)
  ultimately show ?thesis by (rule reach_step)
qed

lemma not_conn [simp]: "\<not> redis_conn demo_call_env m"
  by (simp add: redis_conn_def demo_call_env_def)

lemma one_call_eq:
  "one_call = \<lparr>cm_calls = [(Uuid 1, demo_call 1)], cm_channel_index = [(Uuid 50, Uuid 1)],
     cm_redis_present = False, cm_backend = MemoryBackend, cm_store = ()\<rparr>"
  by (simp add: add_call_def persist_call_local manager_new_def upsert_call_local_def demo_call_def)

lemma demo_call_simps [simp]:
  "call_id (demo_call n) = Uuid n" "call_channel_id (demo_call n) = Uuid 50" "participants (demo_call n) = []"
  "hm_get (cm_calls one_call) (Uuid 1) = Some (demo_call 1)"
  by (simp_all add: one_call_eq) (simp_all add: demo_call_def)


text \<open>A participant who leaves is gone from the call and, if it shared its screen, no longer the sharer;
  the other participants and all other calls are untouched.\<close>

theorem leave_exact:
  assumes "\<not> redis_conn env m" "hm_get (cm_calls m) c = Some call" "call_id call = c"
  shows "fst (get_participant env c v (remove_participant env c u m)) =
      (if v = u then None else hm_get (participants call) v) \<and>
    fst (get_call env d (remove_participant env c u m)) =
      (if d = c then Some (call\<lparr>participants := hm_remove u (participants call),
           screen_sharer := (if screen_sharer call = Some u then None else screen_sharer call)\<rparr>)
       else fst (get_call env d m))"
proof -
  let ?new = "drop_participant u call"
  have m': "remove_participant env c u m = upsert_call_local ?new m"
    using assms by (simp add: remove_participant_def mutate_call_local)
  have "call_id ?new = c"
    using assms(3) by (simp add: drop_participant_def Let_def)
  then have get: "get_call env d (upsert_call_local ?new m) =
      (if d = c then Some ?new else hm_get (cm_calls m) d, upsert_call_local ?new m)" for d
    using assms(1) by (simp add: get_call_local) (simp add: upsert_call_local_def)
  show ?thesis
    unfolding m' get_participant_def get
    using assms(1) by (simp add: drop_participant_def Let_def get_call_local)
qed

theorem leave_exact_witness:
  "fst (get_call demo_call_env (Uuid 1) (remove_participant demo_call_env (Uuid 1) (Uuid 7) one_call)) =
     Some (demo_call 1)"
  using leave_exact [of demo_call_env one_call "Uuid 1" "demo_call 1" "Uuid 7" "Uuid 7" "Uuid 1"]
  by (simp add: one_call_eq) (simp add: demo_call_def)

text \<open>Concurrent changes of one call lose updates: the read and the write of a change are not one step, so
  when two people join at the same time both requests succeed and the first of them is not in the call.\<close>

theorem concurrent_joins_lose_one:
  assumes "\<not> redis_conn env m" "hm_get (cm_calls m) c = Some call" "call_id call = c"
    and "p_user_id a \<noteq> p_user_id b" "hm_get (participants call) (p_user_id a) = None"
  shows "\<exists>m'. steps (task_step env) (m, [])
      [TaskRead 1 c (Join a), TaskRead 2 c (Join b), TaskWrite 1, TaskWrite 2] (m', []) \<and>
    fst (get_participant env c (p_user_id a) m') = None \<and> fst (get_participant env c (p_user_id b) m') = Some b"
proof -
  let ?ca = "insert_participant a call" and ?cb = "insert_participant b call"
  let ?m1 = "persist_call env ?ca m" let ?m2 = "persist_call env ?cb ?m1"
  have get: "get_call env c m = (Some call, m)" using assms(1,2) by (simp add: get_call_local)
  have local1: "\<not> redis_conn env ?m1" using assms(1) by (simp add: persist_call_local)
  have m2: "?m2 = upsert_call_local ?cb ?m1" using local1 by (rule persist_call_local)
  have "steps (task_step env) (m, [])
      [TaskRead 1 c (Join a), TaskRead 2 c (Join b), TaskWrite 1, TaskWrite 2] (?m2, [])"
    using task_read [OF get, of "[]" 1 "Join a"] task_read [OF get, of "[(1, ?ca)]" 2 "Join b"]
      task_write [of "[(1, ?ca), (2, ?cb)]" 1 ?ca env m] task_write [of "[(2, ?cb)]" 2 ?cb env ?m1]
    by (auto intro!: steps_Cons steps_Nil)
  moreover have "hm_get (cm_calls ?m2) c = Some ?cb"
    unfolding m2 using assms(3) by (simp add: upsert_call_local_def insert_participant_def)
  moreover have "\<not> redis_conn env ?m2" unfolding m2 using local1 by simp
  ultimately show ?thesis
    using assms(4,5)
    by (intro exI [of _ ?m2]) (simp add: get_participant_def get_call_local insert_participant_def)
qed

definition demo_participant :: "128 word \<Rightarrow> participant" where
  "demo_participant n = \<lparr>p_user_id = Uuid n, p_session_id = Uuid 0, p_joined_at = 0, p_muted = True,
     p_screen_sharing = False, p_hand_raised = False\<rparr>"

lemma demo_participant_user [simp]: "p_user_id (demo_participant n) = Uuid n"
  by (simp add: demo_participant_def)

theorem concurrent_joins_lose_one_witness:
  "\<exists>m'. steps (task_step demo_call_env) (one_call, [])
       [TaskRead 1 (Uuid 1) (Join (demo_participant 2)), TaskRead 2 (Uuid 1) (Join (demo_participant 3)),
        TaskWrite 1, TaskWrite 2] (m', []) \<and>
     fst (get_participant demo_call_env (Uuid 1) (Uuid 2) m') = None \<and>
     fst (get_participant demo_call_env (Uuid 1) (Uuid 3) m') = Some (demo_participant 3)"
  using concurrent_joins_lose_one [of demo_call_env one_call "Uuid 1" "demo_call 1" "demo_participant 2" "demo_participant 3"]
  by simp

text \<open>Ending a call can hide another one: with two calls in a channel, removing the older one also drops the
  channel's index entry, so the newer call, still active, is no longer found by its channel.\<close>

theorem removal_orphans_newer_call:
  assumes "\<not> redis_conn env m" "call_id old \<noteq> call_id new" "call_channel_id old = ch" "call_channel_id new = ch"
  shows "fst (get_call_by_channel env ch (remove_call env (call_id old) (add_call env new (add_call env old m)))) = None \<and>
    fst (get_call env (call_id new) (remove_call env (call_id old) (add_call env new (add_call env old m)))) = Some new"
proof -
  let ?m = "upsert_call_local new (upsert_call_local old m)"
  have m: "add_call env new (add_call env old m) = ?m"
    using assms(1) by (simp add: add_call_def persist_call_local)
  have local: "\<not> redis_conn env ?m" using assms(1) by simp
  define m' where "m' = snd (remove_call_local (call_id old) ?m)"
  have r: "cm_calls m' = hm_remove (call_id old) (cm_calls ?m)"
      "cm_channel_index m' = hm_remove ch (cm_channel_index ?m)"
    using assms(2,3) by (simp_all add: m'_def remove_call_local_def upsert_call_local_def)
  have "\<not> redis_conn env m'"
    using local unfolding m'_def remove_call_local_def
    by (auto simp: redis_conn_def should_use_redis_iff split: option.splits)
  then show ?thesis
    unfolding m remove_call_local_mode [OF local] m'_def [symmetric]
    using assms(2) by (simp add: get_call_by_channel_local get_call_local r upsert_call_local_def)
qed

theorem removal_orphans_newer_call_witness:
  "fst (get_call_by_channel demo_call_env (Uuid 50)
     (remove_call demo_call_env (Uuid 1) (add_call demo_call_env (demo_call 2) one_call))) = None"
  using removal_orphans_newer_call [of demo_call_env "manager_new ()" "demo_call 1" "demo_call 2" "Uuid 50"]
  by (simp add: demo_call_def)

text \<open>With the Redis backend a node that still holds a copy of a call returns it although Redis says the
  call does not exist, for instance because another node ended it.\<close>

theorem ended_call_lingers:
  assumes "redis_conn env m" "ce_get env (redis_call_key env c) (cm_store m) = Inr None"
    and "hm_get (cm_calls m) c = Some call"
  shows "get_call env c m = (Some call, m)"
  using assms by (simp add: get_call_def redis_get_call_def)

theorem ended_call_lingers_witness:
  "fst (get_call (demo_call_env\<lparr>ce_pool_get := \<lambda>r. True, ce_get := \<lambda>k r. Inr None\<rparr>) (Uuid 1)
     (one_call\<lparr>cm_backend := RedisBackend, cm_redis_present := True\<rparr>)) = Some (demo_call 1)"
  using ended_call_lingers [of "demo_call_env\<lparr>ce_pool_get := \<lambda>r. True, ce_get := \<lambda>k r. Inr None\<rparr>"
      "one_call\<lparr>cm_backend := RedisBackend, cm_redis_present := True\<rparr>" "Uuid 1" "demo_call 1"]
  by (simp add: one_call_eq redis_conn_def should_use_redis_def)

end
