(* ===== verification/Sfu.thy ===== *)
theory Sfu
  imports Machine
begin

text \<open>
  The selective forwarding unit of a call: \<^verbatim>\<open>calls_plugin/sfu/tracks.rs\<close>, \<^verbatim>\<open>signaling.rs\<close>,
  \<^verbatim>\<open>manager.rs\<close> and \<^verbatim>\<open>mod.rs\<close> under \<^verbatim>\<open>backend/src/api/v4/\<close>.

  Peer connections, the WebRTC engine, name resolution and JSON parsing belong to crates outside the
  repository; they are the fields of \<open>sfu_env\<close>, and a peer connection is a value of the type
  variable \<open>'pc\<close>. An operation on a peer connection returns the error text, if any, and the changed
  connection. The bounded channels of the code are modelled here: a sender is the number of its
  channel. The forwarding loop of a track reads a list of packets; each carries the two readings of
  the clock the loop makes and the participants at that moment.
\<close>

section \<open>Tracks\<close>

datatype codec_type = CodecUnspecified | CodecAudio | CodecVideo

record track_remote =
  tr_id :: string
  tr_stream_id :: string
  tr_kind :: codec_type

datatype track_kind = AudioKind | VideoKind | ScreenKind

fun track_kind_from :: "codec_type \<Rightarrow> track_kind" where
  "track_kind_from CodecAudio = AudioKind"
| "track_kind_from CodecVideo = VideoKind"
| "track_kind_from CodecUnspecified = VideoKind"

record track_info =
  ti_track_id :: string
  ti_session_id :: uuid
  ti_user_id :: uuid
  ti_kind :: track_kind
  ti_track :: track_remote

record track_manager =
  tm_tracks :: "(string, track_info) hm"
  tm_session_tracks :: "(uuid, string list) hm"

definition track_manager_new :: track_manager where
  "track_manager_new = \<lparr>tm_tracks = [], tm_session_tracks = []\<rparr>"

definition register_track :: "uuid \<Rightarrow> track_remote \<Rightarrow> track_manager \<Rightarrow> track_manager" where
  "register_track session_id track m =
     (let track_id = tr_id track;
          kind = (if contains_str ''screen'' (tr_stream_id track) then ScreenKind
                  else track_kind_from (tr_kind track));
          info = \<lparr>ti_track_id = track_id, ti_session_id = session_id, ti_user_id = session_id,
                  ti_kind = kind, ti_track = track\<rparr>
      in m\<lparr>tm_tracks := hm_insert track_id info (tm_tracks m),
           tm_session_tracks := hm_insert session_id
             (case hm_get (tm_session_tracks m) session_id of None \<Rightarrow> [track_id] | Some ids \<Rightarrow> ids @ [track_id])
             (tm_session_tracks m)\<rparr>)"

definition unregister_track :: "uuid \<Rightarrow> string \<Rightarrow> track_manager \<Rightarrow> track_manager" where
  "unregister_track session_id track_id m =
     m\<lparr>tm_tracks := hm_remove track_id (tm_tracks m),
       tm_session_tracks := hm_modify session_id (retain_ne track_id) (tm_session_tracks m)\<rparr>"

definition session_track_ids :: "uuid \<Rightarrow> track_manager \<Rightarrow> string list" where
  "session_track_ids session_id m =
     (case hm_get (tm_session_tracks m) session_id of None \<Rightarrow> [] | Some ids \<Rightarrow> ids)"

definition remove_participant_tracks :: "uuid \<Rightarrow> track_manager \<Rightarrow> track_manager" where
  "remove_participant_tracks session_id m =
     m\<lparr>tm_tracks := fold hm_remove (session_track_ids session_id m) (tm_tracks m),
       tm_session_tracks := hm_remove session_id (tm_session_tracks m)\<rparr>"

definition get_all_tracks :: "track_manager \<Rightarrow> track_info list" where
  "get_all_tracks m = hm_values (tm_tracks m)"

definition get_tracks_by_session :: "uuid \<Rightarrow> track_manager \<Rightarrow> track_info list" where
  "get_tracks_by_session session_id m =
     List.map_filter (hm_get (tm_tracks m)) (session_track_ids session_id m)"

definition get_tracks_excluding_session :: "uuid \<Rightarrow> track_manager \<Rightarrow> track_info list" where
  "get_tracks_excluding_session session_id m =
     filter (\<lambda>t. ti_session_id t \<noteq> session_id) (hm_values (tm_tracks m))"

definition get_track_count :: "track_manager \<Rightarrow> nat" where
  "get_track_count m = length (tm_tracks m)"

definition track_participant_count :: "track_manager \<Rightarrow> nat" where
  "track_participant_count m = length (tm_session_tracks m)"

section \<open>Signaling\<close>

datatype signaling_message =
    SigOffer string
  | SigAnswer string
  | SigIceCandidate string "string option" "nat option" "string option"
  | SigIceConnectionState string
  | SigConnectionState string
  | SigError string

definition SIGNALING_CHANNEL_CAPACITY :: nat where
  "SIGNALING_CHANNEL_CAPACITY = 256"

definition VOICE_EVENT_CHANNEL_CAPACITY :: nat where
  "VOICE_EVENT_CHANNEL_CAPACITY = 1024"

text \<open>A bounded channel: the messages waiting in it, and whether its receiver is still there.\<close>

record signal_chan =
  sc_queue :: "signaling_message list"
  sc_open :: bool

datatype try_send_error = ChannelFull | ChannelClosed

definition try_send :: "signaling_message \<Rightarrow> signal_chan \<Rightarrow> try_send_error option \<times> signal_chan" where
  "try_send msg ch =
     (if \<not> sc_open ch then (Some ChannelClosed, ch)
      else if length (sc_queue ch) \<ge> SIGNALING_CHANNEL_CAPACITY then (Some ChannelFull, ch)
      else (None, ch\<lparr>sc_queue := sc_queue ch @ [msg]\<rparr>))"

type_synonym chans = "(nat, signal_chan) hm"

text \<open>A sender whose channel is not in the table stands for a channel that was never opened.\<close>

definition try_send_to :: "nat \<Rightarrow> signaling_message \<Rightarrow> chans \<Rightarrow> try_send_error option \<times> chans" where
  "try_send_to tx msg chs =
     (case hm_get chs tx of
        None \<Rightarrow> (Some ChannelClosed, chs)
      | Some ch \<Rightarrow> (let (e, ch) = try_send msg ch in (e, hm_insert tx ch chs)))"

type_synonym signaling_server = "(uuid, nat) hm"

definition register_channel :: "uuid \<Rightarrow> nat \<Rightarrow> signaling_server \<Rightarrow> signaling_server" where
  "register_channel session_id tx channels = hm_insert session_id tx channels"

definition unregister_channel :: "uuid \<Rightarrow> signaling_server \<Rightarrow> signaling_server" where
  "unregister_channel session_id channels = hm_remove session_id channels"

definition signaling_send_message ::
  "uuid \<Rightarrow> signaling_message \<Rightarrow> signaling_server \<Rightarrow> chans \<Rightarrow> (string + unit) \<times> chans" where
  "signaling_send_message session_id message channels chs =
     (case hm_get channels session_id of
        None \<Rightarrow> (Inl ''Participant not found'', chs)
      | Some tx \<Rightarrow>
          (case try_send_to tx message chs of
             (None, chs) \<Rightarrow> (Inr (), chs)
           | (Some ChannelFull, chs) \<Rightarrow> (Inl ''Signaling channel is full; message dropped'', chs)
           | (Some ChannelClosed, chs) \<Rightarrow> (Inl ''Signaling channel is closed'', chs)))"

definition signaling_broadcast_message ::
  "uuid \<Rightarrow> signaling_message \<Rightarrow> signaling_server \<Rightarrow> chans \<Rightarrow> chans" where
  "signaling_broadcast_message sender_session_id message channels chs =
     fold (\<lambda>(session_id, tx) chs.
       if session_id = sender_session_id then chs else snd (try_send_to tx message chs)) channels chs"

definition try_send_signaling :: "nat \<Rightarrow> signaling_message \<Rightarrow> chans \<Rightarrow> chans" where
  "try_send_signaling tx message chs = snd (try_send_to tx message chs)"

section \<open>Configuration and environment\<close>

record calls_config =
  cc_enabled :: bool
  cc_udp_port :: nat
  cc_tcp_port :: nat
  cc_ice_host_override :: "string option"
  cc_turn_server_enabled :: bool
  cc_turn_server_url :: string
  cc_turn_server_username :: string
  cc_turn_server_credential :: string
  cc_turn_ttl_minutes :: nat
  cc_turn_static_auth_secret :: string
  cc_stun_servers :: "string list"
  cc_state_backend :: string

record rtc_ice_server =
  ri_urls :: "string list"
  ri_username :: string
  ri_credential :: string

text \<open>The settings the code gives the WebRTC engine.\<close>

record webrtc_api =
  wa_muxed :: bool
  wa_nat_ip :: "string option"

record ice_candidate =
  ic_candidate :: string
  ic_sdp_mid :: "string option"
  ic_sdp_mline_index :: "nat option"
  ic_username_fragment :: "string option"

type_synonym 'pc pc_op = "'pc \<Rightarrow> string option \<times> 'pc"

record 'pc sfu_env =
  se_show :: "uuid \<Rightarrow> string"
  se_parse_ip :: "string \<Rightarrow> string option"
  se_lookup_host :: "string \<Rightarrow> (string \<times> bool) list option"
  se_engine_error :: "string option"
  se_bind_mux :: "nat \<Rightarrow> bool"
  se_parse_candidate :: "string \<Rightarrow> string + ice_candidate"
  pe_new :: "webrtc_api \<Rightarrow> rtc_ice_server list \<Rightarrow> string + 'pc"
  pe_add_track :: "string \<Rightarrow> string \<Rightarrow> string \<Rightarrow> 'pc pc_op"
  pe_set_remote :: "string \<Rightarrow> 'pc pc_op"
  pe_has_remote :: "'pc \<Rightarrow> bool"
  pe_add_ice :: "ice_candidate \<Rightarrow> 'pc pc_op"
  pe_create_answer :: "'pc \<Rightarrow> string + string"
  pe_set_local :: "string \<Rightarrow> 'pc pc_op"
  pe_local :: "'pc \<Rightarrow> string option"
  pe_close :: "'pc \<Rightarrow> string option"

section \<open>The unit of one call\<close>

record 'pc sfu_participant =
  sp_user_id :: uuid
  sp_session_id :: uuid
  sp_peer_connection :: 'pc
  sp_audio_track :: "string option"
  sp_video_track :: "string option"
  sp_screen_track :: "string option"
  sp_signaling_tx :: nat
  sp_is_screen_sharing :: bool

text \<open>\<open>sfu_chans\<close> and \<open>sfu_next_chan\<close> are the channels opened so far.\<close>

record 'pc sfu =
  sfu_call_id :: uuid
  sfu_config :: calls_config
  sfu_participants :: "(uuid, 'pc sfu_participant) hm"
  sfu_track_manager :: track_manager
  sfu_signaling :: signaling_server
  sfu_pending :: "(uuid, ice_candidate list) hm"
  sfu_api :: webrtc_api
  sfu_api_fallback :: webrtc_api
  sfu_chans :: chans
  sfu_next_chan :: nat

definition media_stream_id :: "'pc sfu_env \<Rightarrow> uuid \<Rightarrow> string" where
  "media_stream_id env session_id = ''stream-'' @ se_show env session_id"

definition screen_stream_id :: "'pc sfu_env \<Rightarrow> uuid \<Rightarrow> string" where
  "screen_stream_id env session_id = ''screen-stream-'' @ se_show env session_id"

definition resolve_ice_host_override :: "'pc sfu_env \<Rightarrow> string \<Rightarrow> string option" where
  "resolve_ice_host_override env host =
     (case se_parse_ip env host of
        Some ip \<Rightarrow> Some ip
      | None \<Rightarrow>
          (case se_lookup_host env host of
             None \<Rightarrow> None
           | Some addrs \<Rightarrow>
               (case find snd addrs of
                  Some (ip, _) \<Rightarrow> Some ip
                | None \<Rightarrow> (case addrs of [] \<Rightarrow> None | (ip, _) # _ \<Rightarrow> Some ip))))"

definition build_webrtc_api :: "'pc sfu_env \<Rightarrow> calls_config \<Rightarrow> bool \<Rightarrow> bool \<Rightarrow> string + webrtc_api" where
  "build_webrtc_api env config shared_udp_mux use_nat_override =
     (case se_engine_error env of
        Some e \<Rightarrow> Inl e
      | None \<Rightarrow>
          Inr \<lparr>wa_muxed = shared_udp_mux,
               wa_nat_ip =
                 (if use_nat_override then
                    (case map_option trim (cc_ice_host_override config) of
                       None \<Rightarrow> None
                     | Some host \<Rightarrow> if host = [] then None else resolve_ice_host_override env host)
                  else None)\<rparr>)"

definition sfu_new :: "'pc sfu_env \<Rightarrow> uuid \<Rightarrow> calls_config \<Rightarrow> bool \<Rightarrow> string + 'pc sfu" where
  "sfu_new env c config shared_udp_mux =
     (case build_webrtc_api env config shared_udp_mux True of
        Inl e \<Rightarrow> Inl e
      | Inr api \<Rightarrow>
          (case build_webrtc_api env config shared_udp_mux False of
             Inl e \<Rightarrow> Inl e
           | Inr fallback \<Rightarrow>
               Inr \<lparr>sfu_call_id = c, sfu_config = config, sfu_participants = [],
                    sfu_track_manager = track_manager_new, sfu_signaling = [], sfu_pending = [],
                    sfu_api = api, sfu_api_fallback = fallback, sfu_chans = [], sfu_next_chan = 0\<rparr>))"

definition build_ice_servers :: "calls_config \<Rightarrow> rtc_ice_server list" where
  "build_ice_servers config =
     (let plain = (\<lambda>url. \<lparr>ri_urls = [url], ri_username = [], ri_credential = []\<rparr>);
          stun = (if cc_stun_servers config \<noteq> []
                  then map plain (filter (\<lambda>url. trim url \<noteq> []) (cc_stun_servers config))
                  else [plain ''stun:stun.l.google.com:19302'', plain ''stun:stun1.l.google.com:19302''])
      in if cc_turn_server_enabled config \<and> trim (cc_turn_server_url config) \<noteq> [] \<and>
            trim (cc_turn_server_username config) \<noteq> [] \<and> trim (cc_turn_server_credential config) \<noteq> []
         then stun @ [\<lparr>ri_urls = [cc_turn_server_url config], ri_username = cc_turn_server_username config,
                       ri_credential = cc_turn_server_credential config\<rparr>]
         else stun)"

definition new_peer_connection :: "'pc sfu_env \<Rightarrow> 'pc sfu \<Rightarrow> string + 'pc" where
  "new_peer_connection env s =
     (let servers = build_ice_servers (sfu_config s)
      in case pe_new env (sfu_api s) servers of
           Inr pc \<Rightarrow> Inr pc
         | Inl err \<Rightarrow>
             if contains_str ''1:1 nat ip mapping'' (to_ascii_lowercase err)
             then pe_new env (sfu_api_fallback s) servers else Inl err)"

definition audio_track_id :: "'pc sfu_env \<Rightarrow> uuid \<Rightarrow> string" where
  "audio_track_id env session_id = ''audio-'' @ se_show env session_id"

definition video_track_id :: "'pc sfu_env \<Rightarrow> uuid \<Rightarrow> string" where
  "video_track_id env session_id = ''video-'' @ se_show env session_id"

definition screen_track_id :: "'pc sfu_env \<Rightarrow> uuid \<Rightarrow> string" where
  "screen_track_id env session_id = ''screen-'' @ se_show env session_id"

definition add_tracks :: "'pc sfu_env \<Rightarrow> uuid \<Rightarrow> 'pc \<Rightarrow> string + 'pc" where
  "add_tracks env sid pc =
     (case pe_add_track env ''audio/opus'' (audio_track_id env sid) (media_stream_id env sid) pc of
        (Some e, pc) \<Rightarrow> Inl e
      | (None, pc) \<Rightarrow>
          (case pe_add_track env ''video/vp8'' (video_track_id env sid) (media_stream_id env sid) pc of
             (Some e, pc) \<Rightarrow> Inl e
           | (None, pc) \<Rightarrow>
               (case pe_add_track env ''video/vp8'' (screen_track_id env sid) (screen_stream_id env sid) pc of
                  (Some e, pc) \<Rightarrow> Inl e
                | (None, pc) \<Rightarrow> Inr pc)))"

text \<open>Returns the number of the channel whose receiver the caller gets.\<close>

definition sfu_add_participant ::
  "'pc sfu_env \<Rightarrow> uuid \<Rightarrow> uuid \<Rightarrow> 'pc sfu \<Rightarrow> (string + nat) \<times> 'pc sfu" where
  "sfu_add_participant env user_id session_id s =
     (case new_peer_connection env s of
        Inl e \<Rightarrow> (Inl e, s)
      | Inr pc \<Rightarrow>
          (case add_tracks env session_id pc of
             Inl e \<Rightarrow> (Inl e, s)
           | Inr pc \<Rightarrow>
               (let tx = sfu_next_chan s;
                    participant = \<lparr>sp_user_id = user_id, sp_session_id = session_id, sp_peer_connection = pc,
                      sp_audio_track = Some (audio_track_id env session_id),
                      sp_video_track = Some (video_track_id env session_id),
                      sp_screen_track = Some (screen_track_id env session_id),
                      sp_signaling_tx = tx, sp_is_screen_sharing = False\<rparr>
                in (Inr tx,
                    s\<lparr>sfu_participants := hm_insert session_id participant (sfu_participants s),
                      sfu_signaling := register_channel session_id tx (sfu_signaling s),
                      sfu_chans := hm_insert tx \<lparr>sc_queue = [], sc_open = True\<rparr> (sfu_chans s),
                      sfu_next_chan := tx + 1\<rparr>))))"

text \<open>The handlers \<^verbatim>\<open>setup_ice_handlers\<close> installs on a peer connection own a clone of the sender created
  with it. The receiver side closes a channel when it is dropped.\<close>

definition on_peer_signal :: "uuid \<Rightarrow> signaling_message \<Rightarrow> 'pc sfu \<Rightarrow> 'pc sfu" where
  "on_peer_signal session_id msg s =
     (case hm_get (sfu_participants s) session_id of
        None \<Rightarrow> s
      | Some p \<Rightarrow> s\<lparr>sfu_chans := try_send_signaling (sp_signaling_tx p) msg (sfu_chans s)\<rparr>)"

definition drop_receiver :: "nat \<Rightarrow> 'pc sfu \<Rightarrow> 'pc sfu" where
  "drop_receiver rx s = s\<lparr>sfu_chans := hm_modify rx (\<lambda>ch. ch\<lparr>sc_open := False\<rparr>) (sfu_chans s)\<rparr>"

text \<open>An error from closing the peer connection returns early: the participant is out of the map, the
  rest stays.\<close>

definition sfu_remove_participant :: "'pc sfu_env \<Rightarrow> uuid \<Rightarrow> 'pc sfu \<Rightarrow> string option \<times> 'pc sfu" where
  "sfu_remove_participant env session_id s =
     (let finish = (\<lambda>s. (None, s\<lparr>sfu_signaling := unregister_channel session_id (sfu_signaling s),
                                 sfu_pending := hm_remove session_id (sfu_pending s)\<rparr>))
      in case hm_get (sfu_participants s) session_id of
           None \<Rightarrow> finish s
         | Some participant \<Rightarrow>
             (let s = s\<lparr>sfu_participants := hm_remove session_id (sfu_participants s)\<rparr>
              in case pe_close env (sp_peer_connection participant) of
                   Some e \<Rightarrow> (Some e, s)
                 | None \<Rightarrow>
                     finish (s\<lparr>sfu_track_manager :=
                       remove_participant_tracks session_id (sfu_track_manager s)\<rparr>)))"

definition recreate_participant ::
  "'pc sfu_env \<Rightarrow> uuid \<Rightarrow> uuid \<Rightarrow> 'pc sfu \<Rightarrow> (string + nat) \<times> 'pc sfu" where
  "recreate_participant env user_id session_id s =
     sfu_add_participant env user_id session_id
       (s\<lparr>sfu_participants := hm_remove session_id (sfu_participants s),
          sfu_signaling := unregister_channel session_id (sfu_signaling s),
          sfu_track_manager := remove_participant_tracks session_id (sfu_track_manager s),
          sfu_pending := hm_remove session_id (sfu_pending s)\<rparr>)"

definition has_participant :: "uuid \<Rightarrow> 'pc sfu \<Rightarrow> bool" where
  "has_participant session_id s \<longleftrightarrow> hm_get (sfu_participants s) session_id \<noteq> None"

section \<open>Offers and candidates\<close>

definition set_peer :: "uuid \<Rightarrow> 'pc \<Rightarrow> 'pc sfu \<Rightarrow> 'pc sfu" where
  "set_peer session_id pc s =
     s\<lparr>sfu_participants := hm_modify session_id (\<lambda>p. p\<lparr>sp_peer_connection := pc\<rparr>) (sfu_participants s)\<rparr>"

text \<open>Stops at the first candidate the peer connection refuses.\<close>

fun add_candidates :: "'pc sfu_env \<Rightarrow> ice_candidate list \<Rightarrow> 'pc pc_op" where
  "add_candidates env [] pc = (None, pc)"
| "add_candidates env (c # cs) pc =
     (case pe_add_ice env c pc of
        (Some e, pc) \<Rightarrow> (Some e, pc)
      | (None, pc) \<Rightarrow> add_candidates env cs pc)"

definition flush_pending_ice_candidates ::
  "'pc sfu_env \<Rightarrow> uuid \<Rightarrow> 'pc \<Rightarrow> 'pc sfu \<Rightarrow> string option \<times> 'pc \<times> 'pc sfu" where
  "flush_pending_ice_candidates env session_id pc s =
     (let pending = hm_get (sfu_pending s) session_id;
          s = s\<lparr>sfu_pending := hm_remove session_id (sfu_pending s)\<rparr>
      in case pending of
           None \<Rightarrow> (None, pc, s)
         | Some candidates \<Rightarrow> (case add_candidates env candidates pc of (e, pc) \<Rightarrow> (e, pc, s)))"

definition sfu_handle_offer :: "'pc sfu_env \<Rightarrow> uuid \<Rightarrow> string \<Rightarrow> 'pc sfu \<Rightarrow> (string + string) \<times> 'pc sfu" where
  "sfu_handle_offer env session_id offer s =
     (case hm_get (sfu_participants s) session_id of
        None \<Rightarrow> (Inl ''Participant not found'', s)
      | Some participant \<Rightarrow>
          (case pe_set_remote env offer (sp_peer_connection participant) of
             (Some e, pc) \<Rightarrow> (Inl e, set_peer session_id pc s)
           | (None, pc) \<Rightarrow>
               (case flush_pending_ice_candidates env session_id pc s of
                  (Some e, pc, s) \<Rightarrow> (Inl e, set_peer session_id pc s)
                | (None, pc, s) \<Rightarrow>
                    (case pe_create_answer env pc of
                       Inl e \<Rightarrow> (Inl e, set_peer session_id pc s)
                     | Inr answer \<Rightarrow>
                         (case pe_set_local env answer pc of
                            (Some e, pc) \<Rightarrow> (Inl e, set_peer session_id pc s)
                          | (None, pc) \<Rightarrow>
                              (case pe_local env pc of
                                 None \<Rightarrow> (Inl ''No local description'', set_peer session_id pc s)
                               | Some final_answer \<Rightarrow> (Inr final_answer, set_peer session_id pc s)))))))"

definition parse_client_ice_candidate ::
  "'pc sfu_env \<Rightarrow> string \<Rightarrow> string option \<Rightarrow> nat option \<Rightarrow> string + ice_candidate" where
  "parse_client_ice_candidate env candidate sdp_mid sdp_mline_index =
     (let trimmed = trim candidate
      in case trimmed of
           [] \<Rightarrow> Inl ''ICE candidate cannot be empty''
         | c # _ \<Rightarrow>
             if c = CHR ''{'' then se_parse_candidate env trimmed
             else Inr \<lparr>ic_candidate = trimmed, ic_sdp_mid = sdp_mid,
                       ic_sdp_mline_index = sdp_mline_index, ic_username_fragment = None\<rparr>)"

definition sfu_handle_ice_candidate ::
  "'pc sfu_env \<Rightarrow> uuid \<Rightarrow> string \<Rightarrow> string option \<Rightarrow> nat option \<Rightarrow> 'pc sfu \<Rightarrow> string option \<times> 'pc sfu" where
  "sfu_handle_ice_candidate env session_id candidate sdp_mid sdp_mline_index s =
     (case parse_client_ice_candidate env candidate sdp_mid sdp_mline_index of
        Inl e \<Rightarrow> (Some e, s)
      | Inr init \<Rightarrow>
          (case hm_get (sfu_participants s) session_id of
             None \<Rightarrow> (Some ''Participant not found'', s)
           | Some participant \<Rightarrow>
               if \<not> pe_has_remote env (sp_peer_connection participant) then
                 (None, s\<lparr>sfu_pending := hm_insert session_id
                    (case hm_get (sfu_pending s) session_id of None \<Rightarrow> [init] | Some cs \<Rightarrow> cs @ [init])
                    (sfu_pending s)\<rparr>)
               else
                 (case pe_add_ice env init (sp_peer_connection participant) of
                    (e, pc) \<Rightarrow> (e, set_peer session_id pc s))))"

section \<open>Screen sharing, receivers and counts\<close>

definition get_participant_sessions :: "'pc sfu \<Rightarrow> uuid list" where
  "get_participant_sessions s = hm_keys (sfu_participants s)"

definition sfu_participant_count :: "'pc sfu \<Rightarrow> nat" where
  "sfu_participant_count s = length (sfu_participants s)"

definition sfu_set_screen_sharing :: "uuid \<Rightarrow> bool \<Rightarrow> 'pc sfu \<Rightarrow> 'pc sfu" where
  "sfu_set_screen_sharing session_id is_sharing s =
     s\<lparr>sfu_participants := hm_modify session_id (\<lambda>p. p\<lparr>sp_is_screen_sharing := is_sharing\<rparr>) (sfu_participants s)\<rparr>"

definition is_screen_sharing :: "uuid \<Rightarrow> 'pc sfu \<Rightarrow> bool" where
  "is_screen_sharing session_id s \<longleftrightarrow>
     (case hm_get (sfu_participants s) session_id of None \<Rightarrow> False | Some p \<Rightarrow> sp_is_screen_sharing p)"

definition get_signaling_receiver :: "uuid \<Rightarrow> 'pc sfu \<Rightarrow> nat option \<times> 'pc sfu" where
  "get_signaling_receiver session_id s =
     (case hm_get (sfu_participants s) session_id of
        None \<Rightarrow> (None, s)
      | Some _ \<Rightarrow>
          (let tx = sfu_next_chan s
           in (Some tx,
               s\<lparr>sfu_signaling := register_channel session_id tx (sfu_signaling s),
                 sfu_chans := hm_insert tx \<lparr>sc_queue = [], sc_open = True\<rparr> (sfu_chans s),
                 sfu_next_chan := tx + 1\<rparr>)))"

section \<open>Forwarding a track\<close>

datatype voice_event = VoiceOn uuid uuid | VoiceOff uuid uuid

text \<open>One packet: the length of its payload, the time it was read, the time the loop reaches the check
  for silence, and the participants at that moment.\<close>

record 'pc rtp_read =
  rr_payload_len :: nat
  rr_read_at :: instant
  rr_check_at :: instant
  rr_participants :: "(uuid, 'pc sfu_participant) hm"

definition SILENCE_MILLIS :: nat where
  "SILENCE_MILLIS = 500"

definition forward_packet :: "codec_type \<Rightarrow> uuid \<Rightarrow> (uuid, 'pc sfu_participant) hm \<Rightarrow> (uuid \<times> string) list" where
  "forward_packet kind sender parts =
     (if length parts - 1 = 0 then []
      else concat (map (\<lambda>(session_id, p).
        if session_id = sender then []
        else
          (let dest = (\<lambda>t. case t of None \<Rightarrow> [] | Some i \<Rightarrow> [(session_id, i)])
           in case kind of
                CodecAudio \<Rightarrow> dest (sp_audio_track p)
              | CodecVideo \<Rightarrow> dest (sp_video_track p) @ dest (sp_screen_track p)
              | CodecUnspecified \<Rightarrow> [])) parts))"

text \<open>The result lists the voice events and the writes of the loop, in order.\<close>

fun forward_loop ::
  "uuid \<Rightarrow> uuid \<Rightarrow> codec_type \<Rightarrow> bool \<Rightarrow> instant \<Rightarrow> 'pc rtp_read list \<Rightarrow>
     voice_event list \<times> (uuid \<times> string) list" where
  "forward_loop c sender kind voice_on last_packet_at [] = ([], [])"
| "forward_loop c sender kind voice_on last_packet_at (r # rest) =
     (let (voice_on', last', ev1) =
            (if kind = CodecAudio then (True, rr_read_at r, if voice_on then [] else [VoiceOn c sender])
             else (voice_on, last_packet_at, []))
      in if rr_payload_len r = 0 then
           (let (evs, ws) = forward_loop c sender kind voice_on' last' rest in (ev1 @ evs, ws))
         else
           (let writes = forward_packet kind sender (rr_participants r);
                silent = (voice_on' \<and> kind = CodecAudio \<and> rr_check_at r - last' > SILENCE_MILLIS);
                ev2 = (if silent then [VoiceOff c sender] else []);
                (evs, ws) = forward_loop c sender kind (voice_on' \<and> \<not> silent) last' rest
            in (ev1 @ ev2 @ evs, writes @ ws)))"

definition forward_track ::
  "uuid \<Rightarrow> track_remote \<Rightarrow> uuid \<Rightarrow> instant \<Rightarrow> 'pc rtp_read list \<Rightarrow> track_manager \<Rightarrow>
     (voice_event list \<times> (uuid \<times> string) list) \<times> track_manager" where
  "forward_track c track sender now reads m =
     (forward_loop c sender (tr_kind track) False now reads, unregister_track sender (tr_id track) m)"

text \<open>The handler \<^verbatim>\<open>setup_track_handlers\<close> installs: register the track, then forward it until it ends.\<close>

definition on_track ::
  "track_remote \<Rightarrow> uuid \<Rightarrow> instant \<Rightarrow> 'pc rtp_read list \<Rightarrow> 'pc sfu \<Rightarrow> (voice_event list \<times> (uuid \<times> string) list) \<times> 'pc sfu" where
  "on_track track session_id now reads s =
     (let m = register_track session_id track (sfu_track_manager s);
          (out, m) = forward_track (sfu_call_id s) track session_id now reads m
      in (out, s\<lparr>sfu_track_manager := m\<rparr>))"

section \<open>The units of all calls\<close>

record 'pc sfu_manager =
  sm_sfus :: "(uuid, 'pc sfu) hm"
  sm_config :: calls_config
  sm_shared_udp_mux :: bool

definition sfu_manager_new :: "calls_config \<Rightarrow> 'pc sfu_manager" where
  "sfu_manager_new config = \<lparr>sm_sfus = [], sm_config = config, sm_shared_udp_mux = False\<rparr>"

text \<open>Returns whether there is a shared UDP multiplexer; a port that cannot be bound is no error.\<close>

definition get_or_create_shared_udp_mux :: "'pc sfu_env \<Rightarrow> 'pc sfu_manager \<Rightarrow> bool \<times> 'pc sfu_manager" where
  "get_or_create_shared_udp_mux env m =
     (if cc_udp_port (sm_config m) = 0 then (False, m)
      else if sm_shared_udp_mux m then (True, m)
      else if se_bind_mux env (cc_udp_port (sm_config m)) then (True, m\<lparr>sm_shared_udp_mux := True\<rparr>)
      else (False, m))"

definition get_or_create_sfu ::
  "'pc sfu_env \<Rightarrow> uuid \<Rightarrow> 'pc sfu_manager \<Rightarrow> (string + 'pc sfu) \<times> 'pc sfu_manager" where
  "get_or_create_sfu env c m =
     (case hm_get (sm_sfus m) c of
        Some s \<Rightarrow> (Inr s, m)
      | None \<Rightarrow>
          (let (mux, m) = get_or_create_shared_udp_mux env m
           in case sfu_new env c (sm_config m) mux of
                Inl e \<Rightarrow> (Inl e, m)
              | Inr s \<Rightarrow> (Inr s, m\<lparr>sm_sfus := hm_insert c s (sm_sfus m)\<rparr>)))"

definition get_sfu :: "uuid \<Rightarrow> 'pc sfu_manager \<Rightarrow> 'pc sfu option" where
  "get_sfu c m = hm_get (sm_sfus m) c"

definition remove_sfu :: "uuid \<Rightarrow> 'pc sfu_manager \<Rightarrow> 'pc sfu_manager" where
  "remove_sfu c m = m\<lparr>sm_sfus := hm_remove c (sm_sfus m)\<rparr>"

definition has_sfu :: "uuid \<Rightarrow> 'pc sfu_manager \<Rightarrow> bool" where
  "has_sfu c m \<longleftrightarrow> hm_get (sm_sfus m) c \<noteq> None"

definition active_sfu_count :: "'pc sfu_manager \<Rightarrow> nat" where
  "active_sfu_count m = length (sm_sfus m)"

definition active_call_ids :: "'pc sfu_manager \<Rightarrow> uuid list" where
  "active_call_ids m = hm_keys (sm_sfus m)"

definition cleanup_all :: "'pc sfu_manager \<Rightarrow> 'pc sfu_manager" where
  "cleanup_all m = m\<lparr>sm_sfus := []\<rparr>"

section \<open>Interleavings\<close>

text \<open>The operations of one unit, in any order: requests of the clients, callbacks of the peer
  connections, and receivers going away.\<close>

datatype sfu_op =
    AddParticipant uuid uuid
  | RemoveParticipant uuid
  | RecreateParticipant uuid uuid
  | Offer uuid string
  | Candidate uuid string "string option" "nat option"
  | ShareScreen uuid bool
  | NewReceiver uuid
  | PeerSignal uuid signaling_message
  | DropReceiver nat
  | TrackStarts uuid track_remote
  | TrackEnds uuid string

fun sfu_apply :: "'pc sfu_env \<Rightarrow> sfu_op \<Rightarrow> 'pc sfu \<Rightarrow> 'pc sfu" where
  "sfu_apply env (AddParticipant u sid) s = snd (sfu_add_participant env u sid s)"
| "sfu_apply env (RemoveParticipant sid) s = snd (sfu_remove_participant env sid s)"
| "sfu_apply env (RecreateParticipant u sid) s = snd (recreate_participant env u sid s)"
| "sfu_apply env (Offer sid sdp) s = snd (sfu_handle_offer env sid sdp s)"
| "sfu_apply env (Candidate sid c mid idx) s = snd (sfu_handle_ice_candidate env sid c mid idx s)"
| "sfu_apply env (ShareScreen sid b) s = sfu_set_screen_sharing sid b s"
| "sfu_apply env (NewReceiver sid) s = snd (get_signaling_receiver sid s)"
| "sfu_apply env (PeerSignal sid msg) s = on_peer_signal sid msg s"
| "sfu_apply env (DropReceiver rx) s = drop_receiver rx s"
| "sfu_apply env (TrackStarts sid track) s =
     s\<lparr>sfu_track_manager := register_track sid track (sfu_track_manager s)\<rparr>"
| "sfu_apply env (TrackEnds sid tid) s =
     s\<lparr>sfu_track_manager := unregister_track sid tid (sfu_track_manager s)\<rparr>"

definition sfu_init :: "'pc sfu_env \<Rightarrow> 'pc sfu \<Rightarrow> bool" where
  "sfu_init env s \<longleftrightarrow> (\<exists>c config mux. sfu_new env c config mux = Inr s)"

definition sfu_step :: "'pc sfu_env \<Rightarrow> 'pc sfu \<Rightarrow> sfu_op \<Rightarrow> 'pc sfu \<Rightarrow> bool" where
  "sfu_step env s op t \<longleftrightarrow> t = sfu_apply env op s"

section \<open>Well-formedness\<close>

definition tracks_ok :: "track_manager \<Rightarrow> bool" where
  "tracks_ok m \<longleftrightarrow> hm_wf (tm_tracks m) \<and>
     (\<forall>i info. hm_get (tm_tracks m) i = Some info \<longrightarrow>
        ti_track_id info = i \<and> i \<in> set (session_track_ids (ti_session_id info) m))"

definition peers_ok :: "'pc sfu \<Rightarrow> bool" where
  "peers_ok s \<longleftrightarrow>
     hm_wf (sfu_participants s) \<and>
     (\<forall>sid p. hm_get (sfu_participants s) sid = Some p \<longrightarrow>
        sp_session_id p = sid \<and> hm_get (sfu_signaling s) sid \<noteq> None \<and>
        sp_signaling_tx p < sfu_next_chan s) \<and>
     (\<forall>sid sid' p p'. hm_get (sfu_participants s) sid = Some p \<longrightarrow>
        hm_get (sfu_participants s) sid' = Some p' \<longrightarrow> sp_signaling_tx p = sp_signaling_tx p' \<longrightarrow> sid = sid')"

definition chans_ok :: "'pc sfu \<Rightarrow> bool" where
  "chans_ok s \<longleftrightarrow>
     (\<forall>n ch. hm_get (sfu_chans s) n = Some ch \<longrightarrow>
        n < sfu_next_chan s \<and> length (sc_queue ch) \<le> SIGNALING_CHANNEL_CAPACITY)"

definition sfu_wf :: "'pc sfu \<Rightarrow> bool" where
  "sfu_wf s \<longleftrightarrow> tracks_ok (sfu_track_manager s) \<and> peers_ok s \<and> chans_ok s"

text \<open>Tracks.\<close>

lemma tracks_okD:
  "tracks_ok m \<Longrightarrow> hm_get (tm_tracks m) i = Some info \<Longrightarrow>
     ti_track_id info = i \<and> i \<in> set (session_track_ids (ti_session_id info) m)"
  by (auto simp: tracks_ok_def)

lemma tracks_ok_new [simp]: "tracks_ok track_manager_new"
  by (simp add: tracks_ok_def track_manager_new_def)

lemma session_ids_register:
  "session_track_ids k (register_track sid t m) = session_track_ids k m @ (if k = sid then [tr_id t] else [])"
  by (simp add: session_track_ids_def register_track_def Let_def split: option.splits)

lemma session_ids_unregister:
  "session_track_ids k (unregister_track sid tid m) =
     (if k = sid then retain_ne tid (session_track_ids k m) else session_track_ids k m)"
  by (simp add: session_track_ids_def unregister_track_def split: option.splits)

lemma session_ids_remove:
  "session_track_ids k (remove_participant_tracks sid m) = (if k = sid then [] else session_track_ids k m)"
  by (simp add: session_track_ids_def remove_participant_tracks_def)

lemma tracks_ok_register [preserves]: "tracks_ok m \<Longrightarrow> tracks_ok (register_track sid t m)"
  unfolding tracks_ok_def session_ids_register by (auto simp: register_track_def Let_def)

lemma tracks_ok_unregister [preserves]: "tracks_ok m \<Longrightarrow> tracks_ok (unregister_track sid tid m)"
  unfolding tracks_ok_def session_ids_unregister by (auto simp: unregister_track_def)

lemma tracks_ok_remove [preserves]: "tracks_ok m \<Longrightarrow> tracks_ok (remove_participant_tracks sid m)"
  unfolding tracks_ok_def session_ids_remove
  by (auto simp: remove_participant_tracks_def hm_get_remove_all split: if_splits)

lemma removed_session_has_no_track:
  assumes "tracks_ok m" "hm_get (tm_tracks (remove_participant_tracks sid m)) i = Some info"
  shows "ti_session_id info \<noteq> sid"
  using assms tracks_okD [OF assms(1), of i info]
  by (auto simp: remove_participant_tracks_def hm_get_remove_all split: if_splits)

text \<open>Channels.\<close>

lemma try_send_bound:
  "length (sc_queue ch) \<le> SIGNALING_CHANNEL_CAPACITY \<Longrightarrow>
     length (sc_queue (snd (try_send msg ch))) \<le> SIGNALING_CHANNEL_CAPACITY"
  by (auto simp: try_send_def)

lemma hm_get_try_send_to:
  "hm_get (snd (try_send_to tx msg chs)) =
     (hm_get chs)(tx := map_option (\<lambda>ch. snd (try_send msg ch)) (hm_get chs tx))"
  by (auto simp: try_send_to_def Let_def fun_eq_iff split: option.splits prod.splits)

text \<open>Changes that touch neither the participants' sessions and senders nor the channels.\<close>

lemma peers_ok_modify:
  assumes "peers_ok s" "\<And>p. sp_session_id (f p) = sp_session_id p \<and> sp_signaling_tx (f p) = sp_signaling_tx p"
  shows "peers_ok (s\<lparr>sfu_participants := hm_modify sid f (sfu_participants s)\<rparr>)"
proof -
  have *: "\<exists>q. hm_get (sfu_participants s) k = Some q \<and> sp_session_id p = sp_session_id q \<and> sp_signaling_tx p = sp_signaling_tx q"
    if "hm_get (hm_modify sid f (sfu_participants s)) k = Some p" for k p
    using that assms(2) by (auto split: if_splits)
  show ?thesis using assms(1) unfolding peers_ok_def by (auto dest!: * simp del: hm_get_modify)
qed

lemma sfu_wf_set_peer [preserves]: "sfu_wf s \<Longrightarrow> sfu_wf (set_peer sid pc s)"
  by (auto simp: sfu_wf_def set_peer_def chans_ok_def intro: peers_ok_modify)

lemma sfu_wf_share [preserves]: "sfu_wf s \<Longrightarrow> sfu_wf (sfu_set_screen_sharing sid b s)"
  by (auto simp: sfu_wf_def sfu_set_screen_sharing_def chans_ok_def intro: peers_ok_modify)

lemma sfu_wf_pending [simp]: "sfu_wf (s\<lparr>sfu_pending := x\<rparr>) = sfu_wf s"
  by (simp add: sfu_wf_def peers_ok_def chans_ok_def)

lemma sfu_wf_tracks [preserves]:
  "sfu_wf s \<Longrightarrow> tracks_ok m \<Longrightarrow> sfu_wf (s\<lparr>sfu_track_manager := m\<rparr>)"
  by (simp add: sfu_wf_def peers_ok_def chans_ok_def)

lemma sfu_wf_forget:
  "sfu_wf s \<Longrightarrow> sfu_wf (s\<lparr>sfu_participants := hm_remove sid (sfu_participants s)\<rparr>)"
  "sfu_wf s \<Longrightarrow> hm_get (sfu_participants s) sid = None \<Longrightarrow>
     sfu_wf (s\<lparr>sfu_signaling := unregister_channel sid (sfu_signaling s)\<rparr>)"
  by (auto simp: sfu_wf_def peers_ok_def chans_ok_def unregister_channel_def)

lemma sfu_wf_add [preserves]: "sfu_wf s \<Longrightarrow> sfu_wf (snd (sfu_add_participant env u sid s))"
proof -
  assume wf: "sfu_wf s"
  let ?tx = "sfu_next_chan s"
  have "sfu_wf (s\<lparr>sfu_participants := hm_insert sid p (sfu_participants s),
      sfu_signaling := register_channel sid ?tx (sfu_signaling s),
      sfu_chans := hm_insert ?tx \<lparr>sc_queue = [], sc_open = True\<rparr> (sfu_chans s), sfu_next_chan := ?tx + 1\<rparr>)"
    if "sp_session_id p = sid" "sp_signaling_tx p = ?tx" for p
    using wf that
    by (auto simp: sfu_wf_def peers_ok_def chans_ok_def register_channel_def less_Suc_eq split: if_splits)
       (metis less_irrefl)+
  then show ?thesis using wf
    by (auto simp: sfu_add_participant_def Let_def split: sum.splits)
qed

lemma sfu_wf_remove [preserves]: "sfu_wf s \<Longrightarrow> sfu_wf (snd (sfu_remove_participant env sid s))"
  by (auto simp: sfu_remove_participant_def Let_def sfu_wf_def peers_ok_def chans_ok_def unregister_channel_def
      tracks_ok_remove split: option.splits)

lemma sfu_wf_recreate [preserves]: "sfu_wf s \<Longrightarrow> sfu_wf (snd (recreate_participant env u sid s))"
  unfolding recreate_participant_def
  by (rule sfu_wf_add) (auto simp: sfu_wf_def peers_ok_def chans_ok_def unregister_channel_def tracks_ok_remove)

lemma sfu_wf_flush:
  "sfu_wf s \<Longrightarrow> flush_pending_ice_candidates env sid pc s = (e, pc', t) \<Longrightarrow> sfu_wf t"
  by (auto simp: flush_pending_ice_candidates_def Let_def split: option.splits prod.splits)

lemma sfu_wf_offer [preserves]: "sfu_wf s \<Longrightarrow> sfu_wf (snd (sfu_handle_offer env sid sdp s))"
  by (auto simp: sfu_handle_offer_def sfu_wf_set_peer dest: sfu_wf_flush split: option.splits prod.splits sum.splits)

lemma sfu_wf_candidate [preserves]: "sfu_wf s \<Longrightarrow> sfu_wf (snd (sfu_handle_ice_candidate env sid c mid idx s))"
  by (auto simp: sfu_handle_ice_candidate_def sfu_wf_set_peer split: option.splits prod.splits sum.splits)

lemma sfu_wf_receiver [preserves]: "sfu_wf s \<Longrightarrow> sfu_wf (snd (get_signaling_receiver sid s))"
  by (auto simp: get_signaling_receiver_def Let_def sfu_wf_def peers_ok_def chans_ok_def register_channel_def
      less_Suc_eq split: option.splits)

lemma sfu_wf_chans:
  assumes "sfu_wf s"
    and "\<And>n ch. hm_get chs n = Some ch \<Longrightarrow> n < sfu_next_chan s \<and> length (sc_queue ch) \<le> SIGNALING_CHANNEL_CAPACITY"
  shows "sfu_wf (s\<lparr>sfu_chans := chs\<rparr>)"
  using assms by (auto simp: sfu_wf_def peers_ok_def chans_ok_def)

lemma sfu_wf_chanD:
  "sfu_wf s \<Longrightarrow> hm_get (sfu_chans s) n = Some ch \<Longrightarrow>
     n < sfu_next_chan s \<and> length (sc_queue ch) \<le> SIGNALING_CHANNEL_CAPACITY"
  by (auto simp: sfu_wf_def chans_ok_def)

lemma sfu_wf_signal [preserves]:
  assumes "sfu_wf s" shows "sfu_wf (on_peer_signal sid msg s)"
proof (cases "hm_get (sfu_participants s) sid")
  case (Some p)
  have "sfu_wf (s\<lparr>sfu_chans := try_send_signaling (sp_signaling_tx p) msg (sfu_chans s)\<rparr>)"
    by (rule sfu_wf_chans [OF assms])
       (auto simp: try_send_signaling_def hm_get_try_send_to try_send_bound dest: sfu_wf_chanD [OF assms]
         split: if_splits)
  then show ?thesis by (simp add: on_peer_signal_def Some)
qed (simp add: on_peer_signal_def assms)

lemma sfu_wf_drop [preserves]:
  assumes "sfu_wf s" shows "sfu_wf (drop_receiver rx s)"
  unfolding drop_receiver_def
  by (rule sfu_wf_chans [OF assms]) (auto dest: sfu_wf_chanD [OF assms] split: if_splits)

lemma sfu_wf_trackD: "sfu_wf s \<Longrightarrow> tracks_ok (sfu_track_manager s)"
  by (simp add: sfu_wf_def)

lemma sfu_wf_apply: "sfu_wf s \<Longrightarrow> sfu_wf (sfu_apply env op s)"
  by (cases op) (auto intro!: preserves simp: sfu_wf_trackD)

lemma sfu_new_empty:
  "sfu_new env c config mux = Inr s \<Longrightarrow> sfu_participants s = [] \<and> sfu_signaling s = [] \<and> sfu_pending s = [] \<and>
     sfu_chans s = [] \<and> sfu_next_chan s = 0 \<and> sfu_track_manager s = track_manager_new"
  by (cases "build_webrtc_api env config mux True"; cases "build_webrtc_api env config mux False")
     (auto simp: sfu_new_def)

interpretation sfu: safe_machine "sfu_init env" "sfu_step env" sfu_wf
proof
  show "sfu_wf s" if "sfu_init env s" for s
    using that by (auto simp: sfu_init_def sfu_wf_def peers_ok_def chans_ok_def dest!: sfu_new_empty)
  show "sfu_wf t" if "sfu_wf s" "sfu_step env s op t" for s op t
    using that by (simp add: sfu_step_def sfu_wf_apply)
qed

section \<open>A receiver nobody writes to\<close>

text \<open>A channel that is not the one of any participant stays as it is.\<close>

definition unheard :: "nat \<Rightarrow> 'pc sfu \<Rightarrow> bool" where
  "unheard rx s \<longleftrightarrow> rx < sfu_next_chan s \<and>
     (\<forall>sid p. hm_get (sfu_participants s) sid = Some p \<longrightarrow> sp_signaling_tx p \<noteq> rx) \<and>
     (\<exists>ch. hm_get (sfu_chans s) rx = Some ch \<and> sc_queue ch = [])"

lemma unheard_cong:
  assumes "unheard rx s" "sfu_next_chan t = sfu_next_chan s" "hm_get (sfu_chans t) rx = hm_get (sfu_chans s) rx"
    and "\<And>sid p. hm_get (sfu_participants t) sid = Some p \<Longrightarrow>
      \<exists>sid q. hm_get (sfu_participants s) sid = Some q \<and> sp_signaling_tx p = sp_signaling_tx q"
  shows "unheard rx t"
  using assms unfolding unheard_def by metis

lemma unheard_add: "unheard rx s \<Longrightarrow> unheard rx (snd (sfu_add_participant env u sid s))"
  by (auto simp: sfu_add_participant_def Let_def unheard_def split: sum.splits)

lemma flush_keeps:
  assumes "flush_pending_ice_candidates env sid pc s = (e, pc', t)"
  shows "sfu_participants t = sfu_participants s \<and> sfu_chans t = sfu_chans s \<and> sfu_next_chan t = sfu_next_chan s"
  using assms by (auto simp: flush_pending_ice_candidates_def Let_def split: option.splits prod.splits)

lemma unheard_set_peer: "unheard rx s \<Longrightarrow> unheard rx (set_peer sid pc s)"
  by (erule unheard_cong) (force simp: set_peer_def split: if_splits)+

lemma unheard_offer: "unheard rx s \<Longrightarrow> unheard rx (snd (sfu_handle_offer env sid sdp s))"
proof -
  assume s: "unheard rx s"
  have "unheard rx t" if "flush_pending_ice_candidates env sid pc s = (e, pc', t)" for pc e pc' t
    by (rule unheard_cong [OF s]) (use flush_keeps [OF that] in auto)
  with s show ?thesis
    by (auto simp: sfu_handle_offer_def intro!: unheard_set_peer split: option.splits prod.splits sum.splits)
qed

lemma unheard_apply: "unheard rx s \<Longrightarrow> unheard rx (sfu_apply env op s)"
proof (induction op)
  case (RecreateParticipant u sid)
  have "unheard rx (s\<lparr>sfu_participants := hm_remove sid (sfu_participants s),
      sfu_signaling := unregister_channel sid (sfu_signaling s),
      sfu_track_manager := remove_participant_tracks sid (sfu_track_manager s),
      sfu_pending := hm_remove sid (sfu_pending s)\<rparr>)"
    by (rule unheard_cong [OF RecreateParticipant]) (auto split: if_splits)
  then show ?case unfolding sfu_apply.simps recreate_participant_def by (rule unheard_add)
next
  case (RemoveParticipant sid)
  then show ?case
    by (auto simp: sfu_remove_participant_def Let_def unheard_def split: option.splits if_splits)
next
  case (Candidate sid c mid idx)
  then show ?case
    by (auto simp: sfu_handle_ice_candidate_def intro: unheard_set_peer
        simp: unheard_def [of _ "sfu_pending_update _ _"] unheard_def [of _ s] split: option.splits prod.splits sum.splits)
next
  case (PeerSignal sid msg)
  then show ?case
    by (auto simp: on_peer_signal_def unheard_def try_send_signaling_def hm_get_try_send_to split: option.splits)
next
  case (ShareScreen sid b)
  show ?case by (rule unheard_cong [OF ShareScreen]) (force simp: sfu_set_screen_sharing_def split: if_splits)+
qed (auto simp: unheard_add unheard_offer,
     auto simp: unheard_def get_signaling_receiver_def drop_receiver_def Let_def split: option.splits)

lemma unheard_steps: "steps (sfu_step env) s es t \<Longrightarrow> unheard rx s \<Longrightarrow> unheard rx t"
  by (induction rule: steps.induct) (auto simp: sfu_step_def unheard_apply)

lemma new_receiver_unheard:
  assumes "sfu_wf s" "get_signaling_receiver sid s = (Some rx, t)"
  shows "unheard rx t"
proof -
  have "rx = sfu_next_chan s \<and> sfu_participants t = sfu_participants s \<and> sfu_next_chan t = rx + 1 \<and>
      hm_get (sfu_chans t) rx = Some \<lparr>sc_queue = [], sc_open = True\<rparr>"
    using assms(2) by (auto simp: get_signaling_receiver_def Let_def split: option.splits)
  then show ?thesis using assms(1) by (fastforce simp: unheard_def sfu_wf_def peers_ok_def)
qed

section \<open>The forwarding loop\<close>

lemma voice_events:
  assumes "\<forall>r \<in> set reads. rr_check_at r - rr_read_at r \<le> SILENCE_MILLIS"
  shows "fst (forward_loop c sender kind voice_on lp reads) =
    (if kind = CodecAudio \<and> \<not> voice_on \<and> reads \<noteq> [] then [VoiceOn c sender] else [])"
  using assms
proof (induction reads arbitrary: voice_on lp)
  case (Cons r rest)
  then show ?case by (auto simp: Let_def case_prod_unfold)
qed simp

lemma forward_packet_iff:
  assumes "hm_wf parts" "hm_get parts sender \<noteq> None"
  shows "(q, i) \<in> set (forward_packet kind sender parts) \<longleftrightarrow>
    q \<noteq> sender \<and> (\<exists>p. hm_get parts q = Some p \<and>
      (kind = CodecAudio \<and> sp_audio_track p = Some i \<or>
       kind = CodecVideo \<and> (sp_video_track p = Some i \<or> sp_screen_track p = Some i)))"
    (is "_ \<longleftrightarrow> ?R")
proof (cases "length parts - 1 = 0")
  case True
  then obtain x where "parts = [x] \<or> parts = []"
    by (metis One_nat_def Suc_pred length_0_conv length_Suc_conv not_gr_zero)
  with assms(2) have "parts = [(sender, snd x)]" by (cases x) (auto split: if_splits)
  then show ?thesis by (auto simp: forward_packet_def)
next
  case False
  then show ?thesis
    using hm_get_iff_mem [OF assms(1), of q]
    by (cases kind) (force simp: forward_packet_def Let_def split: option.splits if_splits)+
qed

lemma forward_loop_writes:
  "snd (forward_loop c sender kind voice_on lp reads) =
     concat (map (\<lambda>r. forward_packet kind sender (rr_participants r)) (filter (\<lambda>r. rr_payload_len r \<noteq> 0) reads))"
  by (induction reads arbitrary: voice_on lp) (simp_all add: Let_def case_prod_unfold)

section \<open>Early candidates\<close>

lemma early_candidate:
  assumes "hm_get (sfu_participants s) sid = Some p" "\<not> pe_has_remote env (sp_peer_connection p)"
    and "parse_client_ice_candidate env c mid idx = Inr init"
  shows "sfu_handle_ice_candidate env sid c mid idx s =
    (None, s\<lparr>sfu_pending := hm_insert sid
       (case hm_get (sfu_pending s) sid of None \<Rightarrow> [init] | Some cs \<Rightarrow> cs @ [init]) (sfu_pending s)\<rparr>)"
  using assms by (simp add: sfu_handle_ice_candidate_def)

definition pending_of :: "uuid \<Rightarrow> 'pc sfu \<Rightarrow> ice_candidate list" where
  "pending_of sid s = (case hm_get (sfu_pending s) sid of None \<Rightarrow> [] | Some cs \<Rightarrow> cs)"

lemma early_candidates:
  assumes "hm_get (sfu_participants s) sid = Some p" "\<not> pe_has_remote env (sp_peer_connection p)"
    and "map (\<lambda>c. parse_client_ice_candidate env c None None) cs = map Inr inits"
  shows "\<exists>t. fold (\<lambda>c s. snd (sfu_handle_ice_candidate env sid c None None s)) cs s = t \<and>
    sfu_participants t = sfu_participants s \<and> pending_of sid t = pending_of sid s @ inits"
  using assms
proof (induction cs arbitrary: s inits)
  case (Cons c cs)
  from Cons.prems(3) obtain init rest where inits: "inits = init # rest"
    and init: "parse_client_ice_candidate env c None None = Inr init"
    and rest: "map (\<lambda>c. parse_client_ice_candidate env c None None) cs = map Inr rest"
    by (cases inits) auto
  let ?t = "snd (sfu_handle_ice_candidate env sid c None None s)"
  have t: "sfu_participants ?t = sfu_participants s" "pending_of sid ?t = pending_of sid s @ [init]"
    using early_candidate [OF Cons.prems(1,2) init] by (auto simp: pending_of_def split: option.splits)
  show ?case using Cons.IH [of ?t rest] Cons.prems(1,2) rest t inits by simp
qed simp

lemma flush_applies:
  assumes "add_candidates env (pending_of sid s) pc = (None, pc')"
  shows "flush_pending_ice_candidates env sid pc s = (None, pc', s\<lparr>sfu_pending := hm_remove sid (sfu_pending s)\<rparr>)"
  using assms by (auto simp: flush_pending_ice_candidates_def pending_of_def Let_def split: option.splits)

section \<open>A concrete environment\<close>

text \<open>A peer connection that records what it is told.\<close>

definition demo_sfu_env :: "string list sfu_env" where
  "demo_sfu_env = \<lparr>se_show = (\<lambda>u. if u = Uuid 1 then ''1'' else ''2''), se_parse_ip = (\<lambda>s. None), se_lookup_host = (\<lambda>s. None),
     se_engine_error = None, se_bind_mux = (\<lambda>p. True),
     se_parse_candidate = (\<lambda>s. Inl ''no JSON''),
     pe_new = (\<lambda>api servers. Inr []), pe_add_track = (\<lambda>mime tid stream pc. (None, pc)),
     pe_set_remote = (\<lambda>sdp pc. (None, pc @ [sdp])), pe_has_remote = (\<lambda>pc. pc \<noteq> []),
     pe_add_ice = (\<lambda>c pc. (None, pc @ [ic_candidate c])),
     pe_create_answer = (\<lambda>pc. Inr ''answer''), pe_set_local = (\<lambda>sdp pc. (None, pc @ [sdp])),
     pe_local = (\<lambda>pc. Some ''answer''), pe_close = (\<lambda>pc. None)\<rparr>"

definition demo_config :: calls_config where
  "demo_config = \<lparr>cc_enabled = True, cc_udp_port = 8443, cc_tcp_port = 8443, cc_ice_host_override = None,
     cc_turn_server_enabled = False, cc_turn_server_url = [], cc_turn_server_username = [],
     cc_turn_server_credential = [], cc_turn_ttl_minutes = 60, cc_turn_static_auth_secret = [],
     cc_stun_servers = [], cc_state_backend = ''auto''\<rparr>"

definition empty_sfu :: "string list sfu" where
  "empty_sfu = \<lparr>sfu_call_id = Uuid 9, sfu_config = demo_config, sfu_participants = [],
     sfu_track_manager = track_manager_new, sfu_signaling = [], sfu_pending = [],
     sfu_api = \<lparr>wa_muxed = True, wa_nat_ip = None\<rparr>, sfu_api_fallback = \<lparr>wa_muxed = True, wa_nat_ip = None\<rparr>,
     sfu_chans = [], sfu_next_chan = 0\<rparr>"

definition demo_sfu :: "string list sfu" where
  "demo_sfu = snd (sfu_add_participant demo_sfu_env (Uuid 7) (Uuid 1) empty_sfu)"

definition demo_peer :: "string list sfu_participant" where
  "demo_peer = \<lparr>sp_user_id = Uuid 7, sp_session_id = Uuid 1, sp_peer_connection = [],
     sp_audio_track = Some ''audio-1'', sp_video_track = Some ''video-1'', sp_screen_track = Some ''screen-1'',
     sp_signaling_tx = 0, sp_is_screen_sharing = False\<rparr>"

lemma empty_sfu_initial: "sfu_init demo_sfu_env empty_sfu"
proof -
  have "sfu_new demo_sfu_env (Uuid 9) demo_config True = Inr empty_sfu"
    by (simp add: sfu_new_def build_webrtc_api_def demo_sfu_env_def empty_sfu_def demo_config_def)
  then show ?thesis unfolding sfu_init_def by blast
qed

lemma demo_sfu_reachable: "reach (sfu_init demo_sfu_env) (sfu_step demo_sfu_env) demo_sfu"
proof (rule reach_step)
  show "reach (sfu_init demo_sfu_env) (sfu_step demo_sfu_env) empty_sfu"
    by (rule reach_init) (rule empty_sfu_initial)
  show "sfu_step demo_sfu_env empty_sfu (AddParticipant (Uuid 7) (Uuid 1)) demo_sfu"
    by (simp add: sfu_step_def demo_sfu_def)
qed

lemma demo_sfu_participants: "sfu_participants demo_sfu = [(Uuid 1, demo_peer)]"
  by (simp add: demo_sfu_def sfu_add_participant_def new_peer_connection_def add_tracks_def demo_sfu_env_def
      demo_peer_def empty_sfu_def Let_def audio_track_id_def video_track_id_def screen_track_id_def)

section \<open>Properties\<close>

text \<open>Every state a call's forwarding unit can reach is well formed: a participant is filed under its own
  session and has a registered signaling channel, no two participants write to the same channel, every
  track is listed under the session it belongs to, and no channel holds more messages than its
  capacity.\<close>

theorem sfu_well_formed:
  assumes "reach (sfu_init env) (sfu_step env) s"
  shows "sfu_wf s"
  using assms by (rule sfu.reach_safe)

theorem sfu_well_formed_witness: "sfu_wf demo_sfu"
  by (rule sfu_well_formed [OF demo_sfu_reachable])

text \<open>C34. Removing a participant whose peer connection closes without an error leaves nothing of its session in
  the unit: no participant, no track, no signaling channel, no waiting candidate. The other
  participants are untouched.\<close>

theorem sfu_removal_complete:
  assumes "reach (sfu_init env) (sfu_step env) s"
    and "hm_get (sfu_participants s) sid = Some p" "pe_close env (sp_peer_connection p) = None"
  shows "\<exists>t. sfu_remove_participant env sid s = (None, t) \<and>
    hm_get (sfu_participants t) = (hm_get (sfu_participants s))(sid := None) \<and>
    hm_get (sfu_signaling t) sid = None \<and> hm_get (sfu_pending t) sid = None \<and>
    get_tracks_by_session sid (sfu_track_manager t) = [] \<and>
    get_tracks_excluding_session sid (sfu_track_manager t) = get_all_tracks (sfu_track_manager t)"
proof -
  let ?m = "remove_participant_tracks sid (sfu_track_manager s)"
  have ok: "tracks_ok (sfu_track_manager s)" by (rule sfu_wf_trackD [OF sfu.reach_safe [OF assms(1)]])
  then have wf: "hm_wf (tm_tracks ?m)" using tracks_ok_remove tracks_ok_def by blast
  have "ti_session_id info \<noteq> sid" if "info \<in> set (hm_values (tm_tracks ?m))" for info
    using that removed_session_has_no_track [OF ok] hm_values_iff [OF wf] by blast
  then have "get_tracks_excluding_session sid ?m = get_all_tracks ?m"
    unfolding get_tracks_excluding_session_def get_all_tracks_def by (simp add: filter_True)
  moreover have "get_tracks_by_session sid ?m = []"
    by (simp add: get_tracks_by_session_def session_ids_remove)
  ultimately show ?thesis
    using assms(2,3) by (simp add: sfu_remove_participant_def Let_def unregister_channel_def)
qed

theorem sfu_removal_complete_witness:
  "\<exists>t. sfu_remove_participant demo_sfu_env (Uuid 1) demo_sfu = (None, t) \<and> hm_get (sfu_participants t) (Uuid 1) = None"
proof -
  have "pe_close demo_sfu_env (sp_peer_connection demo_peer) = None" by (simp add: demo_sfu_env_def)
  then show ?thesis
    using sfu_removal_complete [OF demo_sfu_reachable, of "Uuid 1" demo_peer] by (auto simp: demo_sfu_participants)
qed

text \<open>The receiver that a reconnecting client is given for an existing participant never gets a message:
  the callbacks of the peer connection keep writing to the channel made when the participant was added,
  so whatever happens afterwards, the new channel stays empty.\<close>

theorem reconnect_receiver_silent:
  assumes "reach (sfu_init env) (sfu_step env) s" "get_signaling_receiver sid s = (Some rx, t)"
    and "steps (sfu_step env) t ops u"
  shows "\<exists>ch. hm_get (sfu_chans u) rx = Some ch \<and> sc_queue ch = []"
  using unheard_steps [OF assms(3) new_receiver_unheard [OF sfu.reach_safe [OF assms(1)] assms(2)]]
  by (simp add: unheard_def)

theorem reconnect_receiver_silent_witness:
  "\<exists>ch. hm_get (sfu_chans (sfu_apply demo_sfu_env (PeerSignal (Uuid 1) (SigError ''x''))
     (snd (get_signaling_receiver (Uuid 1) demo_sfu)))) 1 = Some ch \<and> sc_queue ch = []"
proof -
  have rx: "get_signaling_receiver (Uuid 1) demo_sfu = (Some 1, snd (get_signaling_receiver (Uuid 1) demo_sfu))"
    by (simp add: get_signaling_receiver_def demo_sfu_participants Let_def)
       (simp add: demo_sfu_def sfu_add_participant_def new_peer_connection_def add_tracks_def demo_sfu_env_def
          empty_sfu_def Let_def)
  show ?thesis
    by (rule reconnect_receiver_silent [OF demo_sfu_reachable rx, where ops = "[PeerSignal (Uuid 1) (SigError ''x'')]"])
       (auto intro!: steps.intros simp: sfu_step_def)
qed

text \<open>A speaker who stops talking is never reported silent: as long as handling one packet takes at most half
  a second, forwarding a track reports voice-on once for an audio track and nothing else, however long
  the pauses between its packets are, and nothing when the track ends.\<close>

theorem voice_off_never_sent:
  assumes "\<forall>r \<in> set reads. rr_check_at r - rr_read_at r \<le> SILENCE_MILLIS"
  shows "fst (fst (forward_track c track sid now reads m)) =
    (if tr_kind track = CodecAudio \<and> reads \<noteq> [] then [VoiceOn c sid] else [])"
  using voice_events [OF assms] by (simp add: forward_track_def)

theorem voice_off_never_sent_witness:
  "fst (fst (forward_track (Uuid 9) \<lparr>tr_id = ''a'', tr_stream_id = ''s'', tr_kind = CodecAudio\<rparr> (Uuid 1) 0
     [\<lparr>rr_payload_len = 80, rr_read_at = 20, rr_check_at = 21, rr_participants = [(Uuid 1, demo_peer)]\<rparr>,
      \<lparr>rr_payload_len = 80, rr_read_at = 90000, rr_check_at = 90001, rr_participants = [(Uuid 1, demo_peer)]\<rparr>]
     track_manager_new)) = [VoiceOn (Uuid 9) (Uuid 1)]"
  by (subst voice_off_never_sent) (simp_all add: SILENCE_MILLIS_def)

text \<open>Packets are forwarded to everybody else exactly: with the sender still in the unit, a packet with a
  payload is written to the audio track of every other participant, or to the video and the screen track
  when the track is a video track, and never to a track of the sender.\<close>

theorem forwarding_exact:
  assumes "\<forall>r \<in> set reads. hm_wf (rr_participants r) \<and> hm_get (rr_participants r) sid \<noteq> None"
  shows "((q, i) \<in> set (snd (fst (forward_track c track sid now reads m)))) =
    (\<exists>r \<in> set reads. rr_payload_len r \<noteq> 0 \<and> q \<noteq> sid \<and>
       (\<exists>p. hm_get (rr_participants r) q = Some p \<and>
         (tr_kind track = CodecAudio \<and> sp_audio_track p = Some i \<or>
          tr_kind track = CodecVideo \<and> (sp_video_track p = Some i \<or> sp_screen_track p = Some i))))"
  using assms forward_packet_iff [where kind = "tr_kind track" and sender = sid and q = q and i = i]
  by (auto simp: forward_track_def forward_loop_writes)

theorem forwarding_exact_witness:
  "(Uuid 2, ''audio-1'') \<in> set (snd (fst (forward_track (Uuid 9) \<lparr>tr_id = ''a'', tr_stream_id = ''s'', tr_kind = CodecAudio\<rparr>
     (Uuid 1) 0 [\<lparr>rr_payload_len = 80, rr_read_at = 20, rr_check_at = 21,
       rr_participants = [(Uuid 1, demo_peer), (Uuid 2, demo_peer)]\<rparr>] track_manager_new)))"
  by (subst forwarding_exact) (simp_all add: hm_wf_def demo_peer_def)

text \<open>Candidates that arrive before the offer are not lost: they are kept, and when the offer comes they are
  added to the peer connection in the order of their arrival, after the remote description and before
  the answer is created; nothing stays waiting.\<close>

theorem early_candidates_applied:
  assumes "hm_get (sfu_participants s) sid = Some p" "\<not> pe_has_remote env (sp_peer_connection p)"
    and "hm_get (sfu_pending s) sid = None"
    and "map (\<lambda>c. parse_client_ice_candidate env c None None) cs = map Inr inits"
    and "pe_set_remote env sdp (sp_peer_connection p) = (None, pc1)" "add_candidates env inits pc1 = (None, pc2)"
    and "pe_create_answer env pc2 = Inr a" "pe_set_local env a pc2 = (None, pc3)" "pe_local env pc3 = Some answer"
  shows "\<exists>t. sfu_handle_offer env sid sdp (fold (\<lambda>c s. snd (sfu_handle_ice_candidate env sid c None None s)) cs s) = (Inr answer, t) \<and>
    hm_get (sfu_participants t) sid = Some (p\<lparr>sp_peer_connection := pc3\<rparr>) \<and> hm_get (sfu_pending t) sid = None"
proof -
  let ?q = "fold (\<lambda>c s. snd (sfu_handle_ice_candidate env sid c None None s)) cs s"
  have q: "sfu_participants ?q = sfu_participants s" "pending_of sid ?q = inits"
    using early_candidates [OF assms(1,2,4)] assms(3) by (auto simp: pending_of_def)
  have "flush_pending_ice_candidates env sid pc1 ?q = (None, pc2, ?q\<lparr>sfu_pending := hm_remove sid (sfu_pending ?q)\<rparr>)"
    using assms(6) by (intro flush_applies) (simp add: q)
  then show ?thesis
    using assms(1,5,7-9) q(1) by (simp add: sfu_handle_offer_def set_peer_def)
qed

theorem early_candidates_applied_witness:
  "\<exists>t. sfu_handle_offer demo_sfu_env (Uuid 1) ''offer''
      (fold (\<lambda>c s. snd (sfu_handle_ice_candidate demo_sfu_env (Uuid 1) c None None s)) [''c1'', ''c2''] demo_sfu) = (Inr ''answer'', t) \<and>
    hm_get (sfu_participants t) (Uuid 1) =
      Some (demo_peer\<lparr>sp_peer_connection := [''offer'', ''c1'', ''c2'', ''answer'']\<rparr>)"
proof -
  have pending: "hm_get (sfu_pending demo_sfu) (Uuid 1) = None"
    by (simp add: demo_sfu_def sfu_add_participant_def new_peer_connection_def add_tracks_def demo_sfu_env_def
        empty_sfu_def Let_def)
  have parse: "parse_client_ice_candidate demo_sfu_env [CHR ''c'', d] None None =
      Inr \<lparr>ic_candidate = [CHR ''c'', d], ic_sdp_mid = None, ic_sdp_mline_index = None, ic_username_fragment = None\<rparr>"
    if "d = CHR ''1'' \<or> d = CHR ''2''" for d
    using that by (auto simp: parse_client_ice_candidate_def trim_def is_whitespace_def code_point_def Let_def)
  have "\<exists>t. sfu_handle_offer demo_sfu_env (Uuid 1) ''offer''
      (fold (\<lambda>c s. snd (sfu_handle_ice_candidate demo_sfu_env (Uuid 1) c None None s)) [''c1'', ''c2''] demo_sfu) = (Inr ''answer'', t) \<and>
    hm_get (sfu_participants t) (Uuid 1) =
      Some (demo_peer\<lparr>sp_peer_connection := [''offer'', ''c1'', ''c2'', ''answer'']\<rparr>) \<and> hm_get (sfu_pending t) (Uuid 1) = None"
    by (rule early_candidates_applied [where a = "''answer''" and ?pc1.0 = "[''offer'']" and ?pc2.0 = "[''offer'', ''c1'', ''c2'']"
          and inits = "map (\<lambda>c. \<lparr>ic_candidate = c, ic_sdp_mid = None, ic_sdp_mline_index = None,
            ic_username_fragment = None\<rparr>) [''c1'', ''c2'']"])
       (simp_all add: demo_sfu_participants pending parse, simp_all add: demo_sfu_env_def demo_peer_def)
  then show ?thesis by blast
qed

end
