(* ===== verification/Calls_Lifecycle.thy ===== *)
theory Calls_Lifecycle
  imports Call_State Sfu Ws_Events Auth "HOL-Library.Product_Lexorder"
begin

text \<open>
  Events, host succession, leaving and ending of calls: the functions of
  \<^verbatim>\<open>backend/src/api/v4/calls_plugin/mod.rs\<close> that the handlers of the REST and of the WebSocket
  interface share.

  The state holds the call manager, the forwarding units, the switch that enables calls per channel,
  and what leaves the plugin: the envelopes handed to the hub, the push notifications requested, the
  timers and signaling forwarders started. \<open>ca_now\<close> is the wall clock in milliseconds. The
  environment \<open>calls_env\<close> gives the answers of the database (memberships, user names, inserted and
  updated posts), the text and byte forms of UUIDs, the JSON text of values and the server's
  configuration; a forwarder is recorded as call, channel, user, session and channel number. Arguments named
  \<open>new_\<dots>\<close> are freshly generated UUIDs. Log output, and the reason strings that only reach it, are
  left out, as are the unread counters that a new thread post bumps.
\<close>

section \<open>State and environment\<close>

record call_session_response =
  csr_session_id :: string
  csr_session_id_raw :: string
  csr_user_id :: string
  csr_user_id_raw :: string
  csr_username :: string
  csr_display_name :: string
  csr_unmuted :: bool
  csr_raised_hand :: int

record call_state_response =
  cr_id :: string
  cr_id_raw :: string
  cr_channel_id :: string
  cr_channel_id_raw :: string
  cr_start_at :: int
  cr_owner_id :: string
  cr_owner_id_raw :: string
  cr_host_id :: string
  cr_host_id_raw :: string
  cr_participants :: "string list"
  cr_participants_raw :: "string list"
  cr_sessions :: "(string, call_session_response) hm"
  cr_screen_sharing_id :: "string option"
  cr_screen_sharing_id_raw :: "string option"
  cr_screen_sharing_session_id :: "string option"
  cr_screen_sharing_session_id_raw :: "string option"
  cr_thread_id :: "string option"
  cr_dismissed_notification :: "(string, bool) hm"

record ('r, 'pc) calls_env =
  cx_env :: "'r call_env"
  cx_sfu :: "'pc sfu_env"
  cx_as_bytes :: "uuid \<Rightarrow> 8 word list"
  cx_from_slice :: "8 word list \<Rightarrow> uuid option"
  cx_parse_str :: "string \<Rightarrow> uuid option"
  cx_is_member :: "uuid \<Rightarrow> uuid \<Rightarrow> string + bool"
  cx_members :: "uuid \<Rightarrow> uuid list"
  cx_user :: "uuid \<Rightarrow> (string \<times> string) option"
  cx_channel_by_name :: "string \<Rightarrow> string + uuid option"
  cx_insert_post :: "uuid \<Rightarrow> uuid \<Rightarrow> json \<Rightarrow> string + uuid \<times> int"
  cx_mark_ended :: "uuid \<Rightarrow> int \<Rightarrow> string + json option"
  cx_response_json :: "call_state_response \<Rightarrow> string option"
  cx_json_text :: "json \<Rightarrow> string"
  cx_json_parse :: "string \<Rightarrow> string + json"
  cx_utf8 :: "8 word list \<Rightarrow> string option"
  cx_inflate :: "8 word list \<Rightarrow> string + string"
  cx_emojis :: "(string \<times> string) list"
  cx_config :: calls_config
  cx_encryption_key :: string
  cx_db_config :: "json option"
  cx_mac :: "string \<Rightarrow> string \<Rightarrow> string"

record ('r, 'pc) calls_app =
  ca_manager :: "'r call_manager"
  ca_sfu :: "'pc sfu_manager"
  ca_enabled :: "(uuid, bool) hm"
  ca_broadcast :: "ws_envelope list"
  ca_pushes :: "(uuid \<times> uuid \<times> uuid \<times> string) list"
  ca_timers :: "(uuid \<times> nat) list"
  ca_forwarders :: "(uuid \<times> uuid \<times> uuid \<times> uuid \<times> nat) list"
  ca_now :: int

type_synonym ('r, 'pc) calls_op = "('r, 'pc) calls_app \<Rightarrow> ('r, 'pc) calls_app"

definition UNANSWERED_CALL_TIMEOUT_SECS :: nat where
  "UNANSWERED_CALL_TIMEOUT_SECS = 20"

definition EMPTY_CALL_TIMEOUT_SECS :: nat where
  "EMPTY_CALL_TIMEOUT_SECS = 10"

abbreviation mm :: "('r, 'pc) calls_env \<Rightarrow> uuid \<Rightarrow> string" where
  "mm env u \<equiv> encode_mm_id (cx_as_bytes env) u"

abbreviation raw :: "('r, 'pc) calls_env \<Rightarrow> uuid \<Rightarrow> string" where
  "raw env u \<equiv> ce_show (cx_env env) u"

abbreviation parse_id :: "('r, 'pc) calls_env \<Rightarrow> string \<Rightarrow> uuid option" where
  "parse_id env s \<equiv> parse_mm_or_uuid (cx_parse_str env) (cx_from_slice env) s"

text \<open>The operations of the call manager, on the whole state.\<close>

definition on_manager :: "('r manager_op) \<Rightarrow> ('r, 'pc) calls_op" where
  "on_manager f app = app\<lparr>ca_manager := f (ca_manager app)\<rparr>"

definition app_get_call ::
  "('r, 'pc) calls_env \<Rightarrow> uuid \<Rightarrow> ('r, 'pc) calls_app \<Rightarrow> call_state option \<times> ('r, 'pc) calls_app" where
  "app_get_call env c app =
     (let (call, m) = get_call (cx_env env) c (ca_manager app) in (call, app\<lparr>ca_manager := m\<rparr>))"

definition app_get_call_by_channel ::
  "('r, 'pc) calls_env \<Rightarrow> uuid \<Rightarrow> ('r, 'pc) calls_app \<Rightarrow> call_state option \<times> ('r, 'pc) calls_app" where
  "app_get_call_by_channel env ch app =
     (let (call, m) = get_call_by_channel (cx_env env) ch (ca_manager app) in (call, app\<lparr>ca_manager := m\<rparr>))"

definition app_get_participant ::
  "('r, 'pc) calls_env \<Rightarrow> uuid \<Rightarrow> uuid \<Rightarrow> ('r, 'pc) calls_app \<Rightarrow> participant option \<times> ('r, 'pc) calls_app" where
  "app_get_participant env c u app =
     (let (p, m) = get_participant (cx_env env) c u (ca_manager app) in (p, app\<lparr>ca_manager := m\<rparr>))"

text \<open>An operation on the forwarding unit of a call, if there is one.\<close>

definition on_sfu :: "uuid \<Rightarrow> ('pc sfu \<Rightarrow> 'a \<times> 'pc sfu) \<Rightarrow> ('r, 'pc) calls_app \<Rightarrow> 'a option \<times> ('r, 'pc) calls_app" where
  "on_sfu c f app =
     (case get_sfu c (ca_sfu app) of
        None \<Rightarrow> (None, app)
      | Some s \<Rightarrow>
          (let (x, s) = f s
           in (Some x, app\<lparr>ca_sfu := (ca_sfu app)\<lparr>sm_sfus := hm_insert c s (sm_sfus (ca_sfu app))\<rparr>\<rparr>)))"

definition sfu_forget :: "('r, 'pc) calls_env \<Rightarrow> uuid \<Rightarrow> uuid \<Rightarrow> ('r, 'pc) calls_op" where
  "sfu_forget env c session_id app = snd (on_sfu c (sfu_remove_participant (cx_sfu env) session_id) app)"

section \<open>Hosts\<close>

definition can_manage_call :: "auth_user \<Rightarrow> call_state \<Rightarrow> bool" where
  "can_manage_call auth call \<longleftrightarrow> host_id call = auth_user_id auth \<or> user_has_permission auth ADMIN_FULL"

definition is_host_session_active :: "call_state \<Rightarrow> bool" where
  "is_host_session_active call \<longleftrightarrow> hm_get (participants call) (host_id call) \<noteq> None"

text \<open>\<^verbatim>\<open>Iterator::min_by_key\<close>: the first of the minimal elements.\<close>

fun min_by_key :: "('a \<Rightarrow> 'k::linorder) \<Rightarrow> 'a list \<Rightarrow> 'a option" where
  "min_by_key key [] = None"
| "min_by_key key (x # xs) =
     (case min_by_key key xs of None \<Rightarrow> Some x | Some y \<Rightarrow> if key x \<le> key y then Some x else Some y)"

definition select_next_host :: "(uuid, participant) hm \<Rightarrow> uuid option" where
  "select_next_host ps =
     map_option p_user_id (min_by_key (\<lambda>p. (p_joined_at p, p_user_id p)) (hm_values ps))"

section \<open>Events\<close>

definition entry_or_insert :: "string \<Rightarrow> json \<Rightarrow> json \<Rightarrow> json" where
  "entry_or_insert key v data =
     (case data of
        JObject entries \<Rightarrow> JObject (if map_of entries key = None then AList.update key v entries else entries)
      | _ \<Rightarrow> data)"

definition broadcast_call_event ::
  "('r, 'pc) calls_env \<Rightarrow> string \<Rightarrow> uuid \<Rightarrow> json \<Rightarrow> uuid option \<Rightarrow> ('r, 'pc) calls_op" where
  "broadcast_call_event env event_name channel_id data exclude_user_id app =
     (let data = entry_or_insert ''channelID'' (JString (mm env channel_id)) data;
          data = entry_or_insert ''channel_id'' (JString (mm env channel_id)) data;
          data = entry_or_insert ''channel_id_raw'' (JString (raw env channel_id)) data
      in app\<lparr>ca_broadcast := ca_broadcast app @
           [\<lparr>we_msg_type = ''event'', we_event = event_name, we_seq = None, we_channel_id = Some channel_id,
             we_data = data,
             we_broadcast = Some \<lparr>wb_channel_id = Some channel_id, wb_team_id = None, wb_user_id = None,
               wb_exclude_user_id = exclude_user_id\<rparr>\<rparr>]\<rparr>)"

definition broadcast_host_changed_event :: "('r, 'pc) calls_env \<Rightarrow> uuid \<Rightarrow> uuid \<Rightarrow> ('r, 'pc) calls_op" where
  "broadcast_host_changed_event env channel_id new_host_id app =
     (let payload = JObject [(''hostID'', JString (mm env new_host_id)), (''host_id'', JString (mm env new_host_id))];
          app = broadcast_call_event env ''custom_com.mattermost.calls_call_host_changed'' channel_id payload None app
      in broadcast_call_event env ''custom_com.mattermost.calls_host_changed'' channel_id payload None app)"

section \<open>Thread posts\<close>

definition channel_broadcast :: "uuid \<Rightarrow> ws_broadcast" where
  "channel_broadcast channel_id =
     \<lparr>wb_channel_id = Some channel_id, wb_team_id = None, wb_user_id = None, wb_exclude_user_id = None\<rparr>"

definition push_broadcast :: "ws_envelope \<Rightarrow> ('r, 'pc) calls_op" where
  "push_broadcast envelope app = app\<lparr>ca_broadcast := ca_broadcast app @ [envelope]\<rparr>"

definition create_call_thread_post ::
  "('r, 'pc) calls_env \<Rightarrow> uuid \<Rightarrow> uuid \<Rightarrow> uuid \<Rightarrow> int \<Rightarrow> ('r, 'pc) calls_app \<Rightarrow> (string + uuid) \<times> ('r, 'pc) calls_app" where
  "create_call_thread_post env c channel_id owner start_at app =
     (let props = JObject [(''type'', JString ''custom_calls''), (''call_id'', JString (mm env c)),
            (''start_at'', JNumber start_at), (''end_at'', JNumber 0),
            (''participants'', JArray [JString (mm env owner)])]
      in case cx_insert_post env channel_id owner props of
           Inl e \<Rightarrow> (Inl e, app)
         | Inr (post_id, created_at) \<Rightarrow>
             (let mm_post = JObject [(''id'', JString (mm env post_id)), (''create_at'', JNumber created_at),
                    (''update_at'', JNumber created_at), (''delete_at'', JNumber 0), (''edit_at'', JNumber 0),
                    (''user_id'', JString (mm env owner)), (''channel_id'', JString (mm env channel_id)),
                    (''root_id'', JString []), (''original_id'', JString []), (''message'', JString []),
                    (''type'', JString ''custom_calls''), (''props'', props), (''hashtags'', JString []),
                    (''file_ids'', JArray []), (''pending_post_id'', JString [])]
              in (Inr post_id,
                  push_broadcast (with_broadcast (ws_event MessageCreated (Some mm_post) (Some channel_id))
                    (channel_broadcast channel_id)) app)))"

definition ensure_call_thread_id ::
  "('r, 'pc) calls_env \<Rightarrow> call_state \<Rightarrow> ('r, 'pc) calls_app \<Rightarrow> uuid option \<times> ('r, 'pc) calls_app" where
  "ensure_call_thread_id env call app =
     (case thread_id call of
        Some t \<Rightarrow> (Some t, app)
      | None \<Rightarrow>
          (case create_call_thread_post env (call_id call) (call_channel_id call) (owner_id call) (started_at call) app of
             (Inl _, app) \<Rightarrow> (None, app)
           | (Inr t, app) \<Rightarrow> (Some t, on_manager (set_thread_id (cx_env env) (call_id call) (Some t)) app)))"

section \<open>The public state of a call\<close>

definition session_response :: "('r, 'pc) calls_env \<Rightarrow> participant \<Rightarrow> call_session_response" where
  "session_response env p =
     (let (username, display_name) = (case cx_user env (p_user_id p) of
            Some names \<Rightarrow> names | None \<Rightarrow> (raw env (p_user_id p), []))
      in \<lparr>csr_session_id = raw env (p_session_id p), csr_session_id_raw = raw env (p_session_id p),
          csr_user_id = mm env (p_user_id p), csr_user_id_raw = raw env (p_user_id p),
          csr_username = username, csr_display_name = display_name, csr_unmuted = (\<not> p_muted p),
          csr_raised_hand = (if p_hand_raised p then 1 else 0)\<rparr>)"

definition build_call_state_response ::
  "('r, 'pc) calls_env \<Rightarrow> call_state \<Rightarrow> string \<Rightarrow> uuid \<Rightarrow> ('r, 'pc) calls_app \<Rightarrow>
     call_state_response api_result \<times> ('r, 'pc) calls_app" where
  "build_call_state_response env call channel_id_for_response channel_uuid app =
     (let (thread, app) = ensure_call_thread_id env call app;
          (ps, m) = get_participants (cx_env env) (call_id call) (ca_manager app);
          app = app\<lparr>ca_manager := m\<rparr>;
          sharing = map_option (raw env \<circ> p_session_id)
            (Option.bind (screen_sharer call) (\<lambda>u. find (\<lambda>p. p_user_id p = u) ps))
      in (Inr \<lparr>cr_id = mm env (call_id call), cr_id_raw = raw env (call_id call),
               cr_channel_id = channel_id_for_response, cr_channel_id_raw = raw env channel_uuid,
               cr_start_at = started_at call,
               cr_owner_id = mm env (owner_id call), cr_owner_id_raw = raw env (owner_id call),
               cr_host_id = mm env (host_id call), cr_host_id_raw = raw env (host_id call),
               cr_participants = map (mm env \<circ> p_user_id) ps, cr_participants_raw = map (raw env \<circ> p_user_id) ps,
               cr_sessions = fold (\<lambda>p. hm_insert (raw env (p_session_id p)) (session_response env p)) ps [],
               cr_screen_sharing_id = map_option (\<lambda>u. mm env u) (screen_sharer call),
               cr_screen_sharing_id_raw = map_option (raw env) (screen_sharer call),
               cr_screen_sharing_session_id = sharing, cr_screen_sharing_session_id_raw = sharing,
               cr_thread_id = map_option (\<lambda>u. mm env u) thread,
               cr_dismissed_notification = fold (\<lambda>u. hm_insert (mm env u) True) (dismissed_users call) []\<rparr>,
          app))"

definition broadcast_call_state_event :: "('r, 'pc) calls_env \<Rightarrow> uuid \<Rightarrow> uuid option \<Rightarrow> ('r, 'pc) calls_op" where
  "broadcast_call_state_event env channel_id exclude_user_id app =
     (case app_get_call_by_channel env channel_id app of
        (None, app) \<Rightarrow> app
      | (Some call, app) \<Rightarrow>
          (case build_call_state_response env call (mm env channel_id) channel_id app of
             (Inl _, app) \<Rightarrow> app
           | (Inr payload, app) \<Rightarrow>
               (case cx_response_json env payload of
                  None \<Rightarrow> app
                | Some call_json \<Rightarrow>
                    broadcast_call_event env ''custom_com.mattermost.calls_call_state'' channel_id
                      (JObject [(''call'', JString call_json), (''call_id'', JString (mm env (call_id call))),
                                (''callID'', JString (mm env (call_id call)))])
                      exclude_user_id app)))"

section \<open>Host succession\<close>

definition app_set_host :: "('r, 'pc) calls_env \<Rightarrow> uuid \<Rightarrow> uuid \<Rightarrow> ('r, 'pc) calls_op" where
  "app_set_host env c new_host = on_manager (set_host (cx_env env) c new_host)"

definition normalize_call_host_if_stale ::
  "('r, 'pc) calls_env \<Rightarrow> call_state \<Rightarrow> ('r, 'pc) calls_app \<Rightarrow> call_state \<times> ('r, 'pc) calls_app" where
  "normalize_call_host_if_stale env call app =
     (if participants call = [] \<or> hm_get (participants call) (host_id call) \<noteq> None then (call, app)
      else
        (case select_next_host (participants call) of
           None \<Rightarrow> (call, app)
         | Some new_host_id \<Rightarrow>
             (let app = app_set_host env (call_id call) new_host_id app;
                  app = broadcast_host_changed_event env (call_channel_id call) new_host_id app;
                  app = broadcast_call_state_event env (call_channel_id call) None app;
                  (found, app) = app_get_call env (call_id call) app
              in (case found of None \<Rightarrow> call | Some c \<Rightarrow> c, app))))"

definition reconcile_after_participant_left ::
  "('r, 'pc) calls_env \<Rightarrow> uuid \<Rightarrow> uuid \<Rightarrow> uuid \<Rightarrow> ('r, 'pc) calls_app \<Rightarrow> nat \<times> ('r, 'pc) calls_app" where
  "reconcile_after_participant_left env c channel_id departed_user_id app =
     (case app_get_call env c app of
        (None, app) \<Rightarrow> (0, app)
      | (Some call, app) \<Rightarrow>
          (let should_select_new_host = (host_id call = departed_user_id \<or>
                 (participants call \<noteq> [] \<and> hm_get (participants call) (host_id call) = None));
               (call, app) =
                 (case (if should_select_new_host then select_next_host (participants call) else None) of
                    None \<Rightarrow> (call, app)
                  | Some new_host_id \<Rightarrow>
                      (let app = app_set_host env (call_id call) new_host_id app;
                           app = broadcast_host_changed_event env channel_id new_host_id app;
                           (updated, app) = app_get_call env c app
                       in (case updated of None \<Rightarrow> call | Some u \<Rightarrow> u, app)));
               app = broadcast_call_state_event env channel_id None app
           in (length (participants call), app)))"

section \<open>Ending\<close>

definition mark_ended :: "('r, 'pc) calls_env \<Rightarrow> uuid \<Rightarrow> uuid option \<Rightarrow> ('r, 'pc) calls_op" where
  "mark_ended env channel_id thread app =
     (case thread of
        None \<Rightarrow> app
      | Some t \<Rightarrow>
          (case cx_mark_ended env t (ca_now app) of
             Inr (Some updated_post) \<Rightarrow>
               push_broadcast (with_broadcast (ws_event MessageUpdated (Some updated_post) (Some channel_id))
                 (channel_broadcast channel_id)) app
           | _ \<Rightarrow> app))"

definition end_call :: "('r, 'pc) calls_env \<Rightarrow> uuid \<Rightarrow> uuid \<Rightarrow> ('r, 'pc) calls_op" where
  "end_call env c channel_id app =
     (let (call, app) = app_get_call env c app;
          thread = Option.bind call thread_id;
          app = on_manager (remove_call (cx_env env) c) app;
          app = app\<lparr>ca_sfu := remove_sfu c (ca_sfu app)\<rparr>;
          app = mark_ended env channel_id thread app
      in broadcast_call_event env ''custom_com.mattermost.calls_call_end'' channel_id
           (JObject [(''id'', JString (mm env c)), (''channelID'', JString (mm env channel_id)),
                     (''call_id'', JString (mm env c)), (''channel_id'', JString (mm env channel_id))]) None app)"

definition end_if_alone :: "('r, 'pc) calls_env \<Rightarrow> uuid \<Rightarrow> ('r, 'pc) calls_op" where
  "end_if_alone env c app =
     (case app_get_call env c app of
        (None, app) \<Rightarrow> app
      | (Some call, app) \<Rightarrow>
          if length (participants call) > 1 then app
          else end_call env (call_id call) (call_channel_id call) app)"

definition end_call_if_still_unanswered :: "('r, 'pc) calls_env \<Rightarrow> uuid \<Rightarrow> ('r, 'pc) calls_op" where
  "end_call_if_still_unanswered env c = end_if_alone env c"

definition end_call_if_still_empty :: "('r, 'pc) calls_env \<Rightarrow> uuid \<Rightarrow> ('r, 'pc) calls_op" where
  "end_call_if_still_empty env c = end_if_alone env c"

definition schedule_unanswered_call_timeout :: "uuid \<Rightarrow> ('r, 'pc) calls_op" where
  "schedule_unanswered_call_timeout c app =
     app\<lparr>ca_timers := ca_timers app @ [(c, UNANSWERED_CALL_TIMEOUT_SECS)]\<rparr>"

definition schedule_empty_call_timeout :: "uuid \<Rightarrow> ('r, 'pc) calls_op" where
  "schedule_empty_call_timeout c app = app\<lparr>ca_timers := ca_timers app @ [(c, EMPTY_CALL_TIMEOUT_SECS)]\<rparr>"

section \<open>Leaving\<close>

definition has_session :: "uuid \<Rightarrow> uuid \<Rightarrow> call_state \<Rightarrow> bool" where
  "has_session user_id session_id call \<longleftrightarrow>
     (case hm_get (participants call) user_id of None \<Rightarrow> False | Some p \<Rightarrow> p_session_id p = session_id)"

definition find_call_for_session ::
  "('r, 'pc) calls_env \<Rightarrow> uuid \<Rightarrow> uuid \<Rightarrow> ('r, 'pc) calls_app \<Rightarrow> call_state option \<times> ('r, 'pc) calls_app" where
  "find_call_for_session env user_id session_id app =
     (let (calls, m) = get_all_calls (cx_env env) (ca_manager app)
      in (find (has_session user_id session_id) calls, app\<lparr>ca_manager := m\<rparr>))"

fun member_calls :: "('r, 'pc) calls_env \<Rightarrow> uuid \<Rightarrow> call_state list \<Rightarrow> string + call_state list" where
  "member_calls env user_id [] = Inr []"
| "member_calls env user_id (call # rest) =
     (case cx_is_member env (call_channel_id call) user_id of
        Inl e \<Rightarrow> Inl (''Database error while resolving call membership: '' @ e)
      | Inr is_member \<Rightarrow>
          (case member_calls env user_id rest of
             Inl e \<Rightarrow> Inl e
           | Inr calls \<Rightarrow> Inr (if is_member then call # calls else calls)))"

definition resolve_call_for_ws_connection ::
  "('r, 'pc) calls_env \<Rightarrow> uuid \<Rightarrow> uuid \<Rightarrow> ('r, 'pc) calls_app \<Rightarrow> (string + call_state \<times> uuid) \<times> ('r, 'pc) calls_app" where
  "resolve_call_for_ws_connection env user_id requested_session_id app =
     (case find_call_for_session env user_id requested_session_id app of
        (Some call, app) \<Rightarrow> (Inr (call, requested_session_id), app)
      | (None, app) \<Rightarrow>
          (let (calls, m) = get_all_calls (cx_env env) (ca_manager app);
               app = app\<lparr>ca_manager := m\<rparr>;
               user_calls = List.map_filter (\<lambda>call. map_option (\<lambda>p. (call, p_session_id p))
                 (hm_get (participants call) user_id)) calls;
               many = Inl ''Multiple active calls found for user session resolution''
           in case user_calls of
                [found] \<Rightarrow> (Inr found, app)
              | _ # _ # _ \<Rightarrow> (many, app)
              | [] \<Rightarrow>
                  (let (calls, m) = get_all_calls (cx_env env) (ca_manager app);
                       app = app\<lparr>ca_manager := m\<rparr>
                   in case member_calls env user_id calls of
                        Inl e \<Rightarrow> (Inl e, app)
                      | Inr [call] \<Rightarrow> (Inr (call, requested_session_id), app)
                      | Inr [] \<Rightarrow> (Inl ''No active call found for connection'', app)
                      | Inr _ \<Rightarrow> (many, app))))"

definition resolve_ws_session_uuid :: "('r, 'pc) calls_env \<Rightarrow> string \<Rightarrow> json option \<Rightarrow> string + uuid" where
  "resolve_ws_session_uuid env connection_id data =
     (case cx_parse_str env connection_id of
        None \<Rightarrow> Inl (''Invalid connection ID: '' @ connection_id)
      | Some default_session_id \<Rightarrow>
          (case data of
             None \<Rightarrow> Inr default_session_id
           | Some data \<Rightarrow>
               (let field = (case json_get ''originalConnID'' data of
                      Some v \<Rightarrow> Some v
                    | None \<Rightarrow> (case json_get ''original_conn_id'' data of
                          Some v \<Rightarrow> Some v
                        | None \<Rightarrow> json_get ''originalConnId'' data))
                in Inr (case Option.bind (Option.bind field json_as_str) (cx_parse_str env) of
                          Some s \<Rightarrow> s | None \<Rightarrow> default_session_id))))"

text \<open>The part that leaving through a WebSocket and losing its connection share.\<close>

definition ws_depart :: "('r, 'pc) calls_env \<Rightarrow> uuid \<Rightarrow> call_state \<Rightarrow> uuid \<Rightarrow> ('r, 'pc) calls_op" where
  "ws_depart env user_id call session_id app =
     (let app = on_manager (remove_participant (cx_env env) (call_id call) user_id) app;
          app = sfu_forget env (call_id call) session_id app;
          app = broadcast_call_event env ''custom_com.mattermost.calls_user_left'' (call_channel_id call)
                  (JObject [(''user_id'', JString (mm env user_id)),
                            (''session_id'', JString (raw env session_id))]) None app;
          (remaining, app) = reconcile_after_participant_left env (call_id call) (call_channel_id call) user_id app
      in if remaining \<le> 1 then schedule_empty_call_timeout (call_id call) app else app)"

definition handle_ws_leave_call :: "('r, 'pc) calls_env \<Rightarrow> uuid \<Rightarrow> string \<Rightarrow> ('r, 'pc) calls_app \<Rightarrow> (string + unit) \<times> ('r, 'pc) calls_app" where
  "handle_ws_leave_call env user_id connection_id app =
     (case resolve_ws_session_uuid env connection_id None of
        Inl e \<Rightarrow> (Inl e, app)
      | Inr requested_session_id \<Rightarrow>
          (case resolve_call_for_ws_connection env user_id requested_session_id app of
             (Inl _, app) \<Rightarrow> (Inr (), app)
           | (Inr (call, session_id), app) \<Rightarrow> (Inr (), ws_depart env user_id call session_id app)))"

definition handle_ws_connection_closed :: "('r, 'pc) calls_env \<Rightarrow> uuid \<Rightarrow> string \<Rightarrow> ('r, 'pc) calls_op" where
  "handle_ws_connection_closed env user_id connection_id app =
     (case cx_parse_str env connection_id of
        None \<Rightarrow> app
      | Some session_id \<Rightarrow>
          (case find_call_for_session env user_id session_id app of
             (None, app) \<Rightarrow> app
           | (Some call, app) \<Rightarrow> ws_depart env user_id call session_id app))"

section \<open>Which participant comes next\<close>

lemma min_by_key_None [simp]: "min_by_key key xs = None \<longleftrightarrow> xs = []"
  by (cases xs) (auto split: option.splits)

lemma min_by_key_Some: "min_by_key key xs = Some y \<Longrightarrow> y \<in> set xs \<and> (\<forall>x \<in> set xs. key y \<le> key x)"
proof (induction xs arbitrary: y)
  case (Cons x xs)
  show ?case
  proof (cases "min_by_key key xs")
    case None
    with Cons.prems show ?thesis by simp
  next
    case (Some z)
    with Cons.IH [of z] Cons.prems show ?thesis by (auto split: if_splits)
  qed
qed simp

lemma select_next_host_iff:
  assumes "hm_wf ps" "\<And>u p. hm_get ps u = Some p \<Longrightarrow> p_user_id p = u"
  shows "select_next_host ps = Some u \<longleftrightarrow>
    (\<exists>p. hm_get ps u = Some p \<and>
       (\<forall>v q. hm_get ps v = Some q \<longrightarrow> p_joined_at p < p_joined_at q \<or> (p_joined_at p = p_joined_at q \<and> u \<le> v)))"
    (is "_ \<longleftrightarrow> ?R u")
proof -
  let ?key = "\<lambda>p. (p_joined_at p, p_user_id p)"
  have mem: "p \<in> set (hm_values ps) \<longleftrightarrow> hm_get ps (p_user_id p) = Some p" for p
    using hm_values_iff [OF assms(1), of p] assms(2) by auto
  have least: "?R (p_user_id p)" if "min_by_key ?key (hm_values ps) = Some p" for p
  proof (intro exI [of _ p] conjI allI impI)
    show "hm_get ps (p_user_id p) = Some p" using min_by_key_Some [OF that] mem by blast
    fix v q assume "hm_get ps v = Some q"
    then have "?key p \<le> ?key q" "p_user_id q = v" using min_by_key_Some [OF that] mem assms(2) by blast+
    then show "p_joined_at p < p_joined_at q \<or> (p_joined_at p = p_joined_at q \<and> p_user_id p \<le> v)"
      by (auto simp: less_eq_prod_def)
  qed
  have unique: "u = v" if "?R u" "?R v" for u v
    using that by fastforce
  show ?thesis
  proof
    assume "select_next_host ps = Some u"
    then show "?R u" using least by (auto simp: select_next_host_def)
  next
    assume "?R u"
    then have "hm_values ps \<noteq> []" by auto
    then obtain p where "min_by_key ?key (hm_values ps) = Some p" by fastforce
    with least [OF this] unique \<open>?R u\<close> show "select_next_host ps = Some u"
      by (auto simp: select_next_host_def)
  qed
qed

lemma select_next_host_mem:
  assumes "hm_wf ps" "\<And>u p. hm_get ps u = Some p \<Longrightarrow> p_user_id p = u" "ps \<noteq> []"
  shows "\<exists>u. select_next_host ps = Some u \<and> hm_get ps u \<noteq> None"
proof -
  obtain p where p: "min_by_key (\<lambda>p. (p_joined_at p, p_user_id p)) (hm_values ps) = Some p"
    using assms(3) by fastforce
  then have "select_next_host ps = Some (p_user_id p)" by (simp add: select_next_host_def)
  then show ?thesis using select_next_host_iff [OF assms(1,2)] by blast
qed

section \<open>What the events leave alone\<close>

text \<open>Building the public state of a call may give it a thread post, so a call is followed up to its thread
  id: \<open>view\<close> maps the ids to the rest of the calls.\<close>

definition core :: "call_state \<Rightarrow> call_state" where
  "core call = call\<lparr>thread_id := None\<rparr>"

definition view :: "'r call_manager \<Rightarrow> uuid \<Rightarrow> call_state option" where
  "view m c = map_option core (hm_get (cm_calls m) c)"

lemma core_simps [simp]:
  "call_id (core call) = call_id call" "call_channel_id (core call) = call_channel_id call"
  "host_id (core call) = host_id call" "participants (core call) = participants call"
  "screen_sharer (core call) = screen_sharer call" "owner_id (core call) = owner_id call"
  "core (call\<lparr>thread_id := t\<rparr>) = core call" "core (core call) = core call"
  by (simp_all add: core_def)

lemma core_eqD:
  "core a = core b \<Longrightarrow> call_id a = call_id b \<and> call_channel_id a = call_channel_id b \<and> host_id a = host_id b \<and>
     participants a = participants b \<and> screen_sharer a = screen_sharer b \<and> owner_id a = owner_id b"
  by (metis core_simps(1-6))

lemma view_Some: "view m c = Some x \<longleftrightarrow> (\<exists>call. hm_get (cm_calls m) c = Some call \<and> core call = x)"
  by (auto simp: view_def)

definition quiet :: "('r, 'pc) calls_app \<Rightarrow> ('r, 'pc) calls_app \<Rightarrow> bool" where
  "quiet app app' \<longleftrightarrow> calls_inv (ca_manager app') \<and> view (ca_manager app') = view (ca_manager app) \<and>
     hm_get (cm_channel_index (ca_manager app')) = hm_get (cm_channel_index (ca_manager app)) \<and>
     ca_timers app' = ca_timers app \<and> ca_sfu app' = ca_sfu app \<and> ca_enabled app' = ca_enabled app"

lemma quiet_refl [simp]: "quiet app app = calls_inv (ca_manager app)"
  by (simp add: quiet_def)

lemma quiet_trans: "quiet a b \<Longrightarrow> quiet b c \<Longrightarrow> quiet a c"
  by (simp add: quiet_def)

lemma quietD: "quiet a b \<Longrightarrow> calls_inv (ca_manager b)"
  by (simp add: quiet_def)

lemma quiet_broadcast [simp]: "quiet a (app\<lparr>ca_broadcast := x\<rparr>) = quiet a app"
  by (simp add: quiet_def)

lemma quiet_event [simp]:
  "quiet a (broadcast_call_event env n ch d ex app) = quiet a app"
  "quiet a (push_broadcast e app) = quiet a app"
  "quiet a (broadcast_host_changed_event env ch h app) = quiet a app"
  by (simp_all add: broadcast_call_event_def push_broadcast_def broadcast_host_changed_event_def Let_def)

lemma manager_event [simp]:
  "ca_manager (broadcast_call_event env n ch d ex app) = ca_manager app"
  "ca_manager (push_broadcast e app) = ca_manager app"
  "ca_manager (broadcast_host_changed_event env ch h app) = ca_manager app"
  "ca_manager (schedule_empty_call_timeout c app) = ca_manager app"
  "ca_manager (schedule_unanswered_call_timeout c app) = ca_manager app"
  "ca_manager (on_manager f app) = f (ca_manager app)"
  "ca_manager (sfu_forget env c sid app) = ca_manager app"
  by (simp_all add: broadcast_call_event_def push_broadcast_def broadcast_host_changed_event_def Let_def
      schedule_empty_call_timeout_def schedule_unanswered_call_timeout_def on_manager_def sfu_forget_def on_sfu_def
      split: option.splits prod.splits)

lemma timers_event [simp]:
  "ca_timers (broadcast_call_event env n ch d ex app) = ca_timers app"
  "ca_timers (push_broadcast e app) = ca_timers app"
  "ca_timers (broadcast_host_changed_event env ch h app) = ca_timers app"
  "ca_timers (on_manager f app) = ca_timers app"
  "ca_timers (sfu_forget env c sid app) = ca_timers app"
  by (simp_all add: broadcast_call_event_def push_broadcast_def broadcast_host_changed_event_def Let_def
      on_manager_def sfu_forget_def on_sfu_def split: option.splits prod.splits)

lemma sfu_event [simp]:
  "ca_sfu (broadcast_call_event env n ch d ex app) = ca_sfu app"
  "ca_sfu (push_broadcast e app) = ca_sfu app"
  "ca_sfu (broadcast_host_changed_event env ch h app) = ca_sfu app"
  "ca_sfu (on_manager f app) = ca_sfu app"
  by (simp_all add: broadcast_call_event_def push_broadcast_def broadcast_host_changed_event_def Let_def on_manager_def)

text \<open>Reading the calls of an in-memory manager.\<close>

lemma app_get_call_local:
  "calls_inv (ca_manager app) \<Longrightarrow> app_get_call env c app = (hm_get (cm_calls (ca_manager app)) c, app)"
  by (simp add: app_get_call_def get_call_local calls_inv_conn)

lemma app_get_call_by_channel_local:
  "calls_inv (ca_manager app) \<Longrightarrow>
     app_get_call_by_channel env ch app =
       (Option.bind (hm_get (cm_channel_index (ca_manager app)) ch) (hm_get (cm_calls (ca_manager app))), app)"
  by (simp add: app_get_call_by_channel_def get_call_by_channel_local calls_inv_conn)

lemma get_participants_local:
  "calls_inv m \<Longrightarrow> snd (get_participants env c m) = m"
  by (simp add: get_participants_def get_call_local calls_inv_conn)

lemma call_invD:
  "calls_inv m \<Longrightarrow> hm_get (cm_calls m) c = Some call \<Longrightarrow> call_id call = c \<and> call_ok call"
  by (auto simp: calls_inv_def)

lemma index_invD:
  "calls_inv m \<Longrightarrow> Option.bind (hm_get (cm_channel_index m) ch) (hm_get (cm_calls m)) = Some call \<Longrightarrow>
     hm_get (cm_channel_index m) ch = Some (call_id call) \<and> hm_get (cm_calls m) (call_id call) = Some call \<and>
     call_channel_id call = ch \<and> call_ok call"
  by (fastforce simp: calls_inv_def bind_eq_Some_conv)

lemma call_in_upsert [simp]:
  "hm_get (cm_calls (upsert_call_local call m)) = (hm_get (cm_calls m))(call_id call \<mapsto> call)"
  "hm_get (cm_channel_index (upsert_call_local call m)) = (hm_get (cm_channel_index m))(call_channel_id call \<mapsto> call_id call)"
  by (simp_all add: upsert_call_local_def)

lemma calls_inv_mutate: "calls_inv m \<Longrightarrow> calls_inv (mutate_call env c (mutation_fun mu) m)"
  using calls.step_safe step_mutate by blast

lemma mutate_known:
  assumes "calls_inv m" "hm_get (cm_calls m) c = Some call"
  shows "mutate_call env c f m = upsert_call_local (f call) m"
  using assms by (simp add: mutate_call_local calls_inv_conn)

lemma set_thread_quiet:
  assumes "calls_inv (ca_manager app)" "hm_get (cm_calls (ca_manager app)) (call_id call) = Some call"
    and "hm_get (cm_channel_index (ca_manager app)) (call_channel_id call) = Some (call_id call)"
  shows "quiet app (on_manager (set_thread_id env (call_id call) t) app)"
proof -
  have inv: "calls_inv (set_thread_id env (call_id call) t (ca_manager app))"
    using calls_inv_mutate [OF assms(1), where mu = "Thread t"] by (simp add: set_thread_id_def)
  have "set_thread_id env (call_id call) t (ca_manager app) = upsert_call_local (call\<lparr>thread_id := t\<rparr>) (ca_manager app)"
    by (simp add: set_thread_id_def mutate_known [OF assms(1,2)])
  with inv assms(2,3) show ?thesis
    by (auto simp: quiet_def on_manager_def view_def fun_eq_iff)
qed

lemma ensure_thread_quiet:
  assumes "calls_inv (ca_manager app)" "hm_get (cm_calls (ca_manager app)) (call_id call) = Some call"
    and "hm_get (cm_channel_index (ca_manager app)) (call_channel_id call) = Some (call_id call)"
  shows "quiet app (snd (ensure_call_thread_id env call app))"
proof (cases "thread_id call")
  case None
  show ?thesis
  proof (cases "create_call_thread_post env (call_id call) (call_channel_id call) (owner_id call) (started_at call) app")
    case (Pair r app1)
    then have q: "quiet app app1" "ca_manager app1 = ca_manager app"
      using assms(1) by (auto simp: create_call_thread_post_def Let_def split: sum.splits prod.splits)
    have "quiet app1 (on_manager (set_thread_id (cx_env env) (call_id call) t) app1)" for t
      by (rule set_thread_quiet) (use assms q in auto)
    with None Pair q show ?thesis
      by (auto simp: ensure_call_thread_id_def intro: quiet_trans split: sum.splits)
  qed
qed (simp add: ensure_call_thread_id_def assms)

lemma build_response_quiet:
  assumes "calls_inv (ca_manager app)" "hm_get (cm_calls (ca_manager app)) (call_id call) = Some call"
    and "hm_get (cm_channel_index (ca_manager app)) (call_channel_id call) = Some (call_id call)"
  shows "quiet app (snd (build_call_state_response env call s ch app))"
proof -
  obtain t app1 where e: "ensure_call_thread_id env call app = (t, app1)" by fastforce
  then have q: "quiet app app1" using ensure_thread_quiet [OF assms, of env] by simp
  then have "app1\<lparr>ca_manager := snd (get_participants (cx_env env) (call_id call) (ca_manager app1))\<rparr> = app1"
    using get_participants_local quietD by fastforce
  with q e show ?thesis
    by (simp add: build_call_state_response_def Let_def case_prod_unfold)
qed

lemma call_state_event_quiet:
  assumes "calls_inv (ca_manager app)"
  shows "quiet app (broadcast_call_state_event env ch ex app)"
proof (cases "Option.bind (hm_get (cm_channel_index (ca_manager app)) ch) (hm_get (cm_calls (ca_manager app)))")
  case None
  then show ?thesis using assms by (simp add: broadcast_call_state_event_def app_get_call_by_channel_local)
next
  case (Some call)
  note call = index_invD [OF assms Some]
  obtain r app1 where b: "build_call_state_response env call (mm env ch) ch app = (r, app1)" by fastforce
  then have "quiet app app1" using build_response_quiet [OF assms, of call env "mm env ch" ch] call by simp
  with Some b assms show ?thesis
    by (simp add: broadcast_call_state_event_def app_get_call_by_channel_local split: sum.splits option.splits)
qed

section \<open>After somebody left\<close>

definition next_host :: "call_state \<Rightarrow> uuid \<Rightarrow> uuid option" where
  "next_host call departed =
     (if host_id call = departed \<or> (participants call \<noteq> [] \<and> hm_get (participants call) (host_id call) = None)
      then select_next_host (participants call) else None)"

definition succeed_host :: "call_state \<Rightarrow> uuid \<Rightarrow> call_state" where
  "succeed_host call departed = (case next_host call departed of None \<Rightarrow> call | Some h \<Rightarrow> call\<lparr>host_id := h\<rparr>)"

lemma set_host_local:
  assumes "calls_inv (ca_manager app)" "hm_get (cm_calls (ca_manager app)) c = Some call"
  shows "calls_inv (ca_manager (app_set_host env c h app)) \<and>
    hm_get (cm_calls (ca_manager (app_set_host env c h app))) c = Some (call\<lparr>host_id := h\<rparr>)"
proof -
  have "calls_inv (ca_manager (app_set_host env c h app))"
    using calls_inv_mutate [OF assms(1), where mu = "Host h"] by (simp add: app_set_host_def set_host_def)
  with assms call_invD [OF assms] show ?thesis
    by (simp add: app_set_host_def set_host_def mutate_known)
qed

lemma reconcile_local:
  assumes "calls_inv (ca_manager app)" "hm_get (cm_calls (ca_manager app)) c = Some call"
  shows "\<exists>app'. reconcile_after_participant_left env c ch u app = (length (participants call), app') \<and>
    calls_inv (ca_manager app') \<and> ca_timers app' = ca_timers app \<and> ca_sfu app' = ca_sfu app \<and>
    view (ca_manager app') c = Some (core (succeed_host call u))"
proof (cases "next_host call u")
  case None
  have "quiet app (broadcast_call_state_event env ch None app)" by (rule call_state_event_quiet [OF assms(1)])
  moreover have "view (ca_manager app) c = Some (core call)" using assms(2) by (simp add: view_def)
  ultimately show ?thesis using None assms
    by (simp add: reconcile_after_participant_left_def app_get_call_local next_host_def [symmetric] succeed_host_def
        quiet_def)
next
  case (Some h)
  let ?a = "broadcast_host_changed_event env ch h (app_set_host env c h app)"
  have a: "calls_inv (ca_manager ?a)" "hm_get (cm_calls (ca_manager ?a)) c = Some (call\<lparr>host_id := h\<rparr>)"
    "ca_timers ?a = ca_timers app" "ca_sfu ?a = ca_sfu app"
    using set_host_local [OF assms] by (simp_all add: app_set_host_def)
  have "quiet ?a (broadcast_call_state_event env ch None ?a)" by (rule call_state_event_quiet [OF a(1)])
  moreover have "view (ca_manager ?a) c = Some (core (call\<lparr>host_id := h\<rparr>))" unfolding view_def a(2) by simp
  ultimately show ?thesis using Some assms a call_invD [OF assms]
    by (simp add: reconcile_after_participant_left_def app_get_call_local next_host_def [symmetric] succeed_host_def
        quiet_def)
qed

lemma call_ok_drop: "call_ok call \<Longrightarrow> call_ok (drop_participant u call)"
  using call_ok_mutation [of call "Leave u"] by simp

lemma drop_keeps_id [simp]: "call_id (drop_participant u call) = call_id call"
  by (simp add: drop_participant_def Let_def)

lemma remove_participant_local:
  assumes "calls_inv m" "hm_get (cm_calls m) c = Some call"
  shows "calls_inv (remove_participant env c u m) \<and>
    hm_get (cm_calls (remove_participant env c u m)) c = Some (drop_participant u call)"
proof -
  have "calls_inv (remove_participant env c u m)"
    using calls_inv_mutate [OF assms(1), where mu = "Leave u"] by (simp add: remove_participant_def)
  with assms call_invD [OF assms] show ?thesis by (simp add: remove_participant_def mutate_known)
qed

lemma ws_depart_local:
  fixes u :: uuid
  assumes "calls_inv (ca_manager app)" "hm_get (cm_calls (ca_manager app)) (call_id call) = Some call"
  defines "rest \<equiv> drop_participant u call"
  shows "calls_inv (ca_manager (ws_depart env u call sid app)) \<and>
    view (ca_manager (ws_depart env u call sid app)) (call_id call) = Some (core (succeed_host rest u)) \<and>
    (ca_timers (ws_depart env u call sid app) \<noteq> ca_timers app) = (length (participants rest) \<le> 1)"
proof -
  define app1 where "app1 = broadcast_call_event env ''custom_com.mattermost.calls_user_left'' (call_channel_id call)
      (JObject [(''user_id'', JString (mm env u)), (''session_id'', JString (raw env sid))]) None
      (sfu_forget env (call_id call) sid (on_manager (remove_participant (cx_env env) (call_id call) u) app))"
  have a1: "calls_inv (ca_manager app1)" "hm_get (cm_calls (ca_manager app1)) (call_id call) = Some rest"
    "ca_timers app1 = ca_timers app"
    using remove_participant_local [OF assms(1,2), of "cx_env env" u] by (simp_all add: app1_def rest_def)
  obtain app2 where app2: "reconcile_after_participant_left env (call_id call) (call_channel_id call) u app1 =
      (length (participants rest), app2)" and a2: "calls_inv (ca_manager app2)" "ca_timers app2 = ca_timers app1"
    "view (ca_manager app2) (call_id call) = Some (core (succeed_host rest u))"
    using reconcile_local [OF a1(1,2), of env "call_channel_id call" u] by blast
  have "ws_depart env u call sid app =
      (if length (participants rest) \<le> 1 then schedule_empty_call_timeout (call_id call) app2 else app2)"
    unfolding ws_depart_def Let_def app1_def [symmetric] app2 by simp
  then show ?thesis using a1(3) a2 by (auto simp: schedule_empty_call_timeout_def)
qed

lemma succeed_host_active:
  assumes "call_ok call" "hm_get (participants call) u = None"
  shows "participants call = [] \<or> is_host_session_active (succeed_host call u)"
proof -
  have ps: "hm_wf (participants call)" "\<And>v p. hm_get (participants call) v = Some p \<Longrightarrow> p_user_id p = v"
    using assms(1) by (auto simp: call_ok_def)
  show ?thesis
    using select_next_host_mem [OF ps] assms(2)
    by (cases "next_host call u") (auto simp: succeed_host_def next_host_def is_host_session_active_def split: if_splits)
qed

lemma participants_succeed_host [simp]: "participants (succeed_host call u) = participants call"
  by (simp add: succeed_host_def split: option.splits)

section \<open>Ending a call\<close>

lemma remove_call_gone:
  assumes "calls_inv m"
  shows "calls_inv (remove_call env c m) \<and> hm_get (cm_calls (remove_call env c m)) c = None"
proof -
  have "remove_call env c m = snd (remove_call_local c m)"
    by (rule remove_call_local_mode [OF calls_inv_conn [OF assms]])
  then show ?thesis using calls_inv_remove [OF assms, of c]
    by (auto simp: remove_call_local_def split: option.splits)
qed

lemma mark_ended_keeps [simp]:
  "ca_manager (mark_ended env ch t app) = ca_manager app" "ca_sfu (mark_ended env ch t app) = ca_sfu app"
  by (auto simp: mark_ended_def split: option.splits sum.splits)

lemma end_call_local:
  assumes "calls_inv (ca_manager app)"
  shows "ca_manager (end_call env c ch app) = remove_call (cx_env env) c (ca_manager app) \<and>
    ca_sfu (end_call env c ch app) = remove_sfu c (ca_sfu app)"
  unfolding end_call_def app_get_call_local [OF assms] Let_def prod.case by simp

section \<open>Properties\<close>

text \<open>The next host of a call is determined by its participants alone, whatever order the hash map iterates
  in: it is the participant that joined first, the one with the smaller id among those that joined at
  the same time.\<close>

theorem next_host_is_earliest:
  assumes "hm_wf ps" "\<And>u p. hm_get ps u = Some p \<Longrightarrow> p_user_id p = u"
  shows "(select_next_host ps = Some u) =
    (\<exists>p. hm_get ps u = Some p \<and>
       (\<forall>v q. hm_get ps v = Some q \<longrightarrow> p_joined_at p < p_joined_at q \<or> (p_joined_at p = p_joined_at q \<and> u \<le> v)))"
  by (rule select_next_host_iff [OF assms])

theorem next_host_is_earliest_witness:
  "select_next_host [(Uuid 3, demo_participant 3), (Uuid 2, demo_participant 2)] = Some (Uuid 2)"
proof -
  let ?ps = "[(Uuid 3, demo_participant 3), (Uuid 2, demo_participant 2)]"
  have "hm_wf ?ps" by (simp add: hm_wf_def)
  moreover have "p_user_id p = u" if "hm_get ?ps u = Some p" for u p
    using that by (auto split: if_splits)
  ultimately have iff: "(select_next_host ?ps = Some (Uuid 2)) =
      (\<exists>p. hm_get ?ps (Uuid 2) = Some p \<and>
         (\<forall>v q. hm_get ?ps v = Some q \<longrightarrow>
            p_joined_at p < p_joined_at q \<or> (p_joined_at p = p_joined_at q \<and> Uuid 2 \<le> v)))"
    by (rule next_host_is_earliest)
  have "Uuid 2 \<le> Uuid 2" "Uuid 2 \<le> Uuid 3" by (simp_all add: less_eq_uuid_def word_le_nat_alt)
  moreover have "v = Uuid 2 \<and> q = demo_participant 2 \<or> v = Uuid 3 \<and> q = demo_participant 3"
    if "hm_get ?ps v = Some q" for v q
    using that by (simp split: if_splits)
  ultimately show ?thesis
    unfolding iff by (intro exI [of _ "demo_participant 2"]) (auto simp: demo_participant_def)
qed


definition demo_calls_env :: "(unit, string list) calls_env" where
  "demo_calls_env = \<lparr>cx_env = demo_call_env, cx_sfu = demo_sfu_env, cx_as_bytes = be_bytes, cx_from_slice = be_uuid,
     cx_parse_str = (\<lambda>s. if s = ''c'' then Some (Uuid 50) else if s = ''s'' then Some (Uuid 0) else None),
     cx_is_member = (\<lambda>ch u. Inr True),
     cx_members = (\<lambda>ch. []), cx_user = (\<lambda>u. None), cx_channel_by_name = (\<lambda>n. Inr None),
     cx_insert_post = (\<lambda>ch u props. Inl ''no database''), cx_mark_ended = (\<lambda>t n. Inr None),
     cx_response_json = (\<lambda>r. None), cx_json_text = (\<lambda>v. []), cx_json_parse = (\<lambda>s. Inl ''no JSON''),
     cx_utf8 = (\<lambda>b. None), cx_inflate = (\<lambda>b. Inl ''no zlib''), cx_emojis = [], cx_config = demo_config,
     cx_encryption_key = [], cx_db_config = None, cx_mac = (\<lambda>k m. [])\<rparr>"

definition demo_calls_app :: "(unit, string list) calls_app" where
  "demo_calls_app = \<lparr>ca_manager = one_call, ca_sfu = sfu_manager_new demo_config, ca_enabled = [], ca_broadcast = [],
     ca_pushes = [], ca_timers = [], ca_forwarders = [], ca_now = 0\<rparr>"

lemma one_call_inv: "calls_inv one_call"
  by (rule calls.reach_safe [OF one_call_reachable])




end
