(* ===== verification/Turn.thy ===== *)
theory Turn
  imports Prelude
begin

text \<open>
  TURN credentials: \<^verbatim>\<open>backend/src/api/v4/calls_plugin/turn.rs\<close>. HMAC-SHA1 followed by base64 is
  the parameter \<open>mac\<close>, from a key and a message to text. Times are seconds since the epoch, passed as
  \<open>now\<close>; a \<^verbatim>\<open>u64\<close> sum wraps, as it does in a release build.
\<close>

definition u64_size :: nat where
  "u64_size = 18446744073709551616"

text \<open>\<^verbatim>\<open>str::parse::<u64>\<close>.\<close>

definition parse_u64 :: "string \<Rightarrow> nat option" where
  "parse_u64 s =
     (let digits = (case s of c # cs \<Rightarrow> if c = CHR ''+'' then cs else s | [] \<Rightarrow> [])
      in if digits = [] then None
         else (case parse_digits digits 0 of
                 None \<Rightarrow> None
               | Some n \<Rightarrow> if n < u64_size then Some n else None))"

record turn_credentials =
  tc_username :: string
  tc_credential :: string

record turn_server_config =
  ts_enabled :: bool
  ts_url :: string
  ts_username :: string
  ts_credential :: string

record turn_generator =
  tg_config :: turn_server_config
  tg_use_static_credentials :: bool
  tg_ttl_minutes :: nat

definition with_static_credentials :: "turn_server_config \<Rightarrow> turn_generator" where
  "with_static_credentials config =
     \<lparr>tg_config = config,
      tg_use_static_credentials = (ts_username config \<noteq> [] \<and> ts_credential config \<noteq> []),
      tg_ttl_minutes = 1440\<rparr>"

definition with_rest_api :: "string \<Rightarrow> nat \<Rightarrow> turn_generator" where
  "with_rest_api secret ttl_minutes =
     \<lparr>tg_config = \<lparr>ts_enabled = True, ts_url = [], ts_username = secret, ts_credential = []\<rparr>,
      tg_use_static_credentials = False, tg_ttl_minutes = ttl_minutes\<rparr>"

definition generate_ephemeral_credentials ::
  "(string \<Rightarrow> string \<Rightarrow> string) \<Rightarrow> nat \<Rightarrow> turn_generator \<Rightarrow> string \<Rightarrow> turn_credentials" where
  "generate_ephemeral_credentials mac now g user_id =
     (let expiration = (now + tg_ttl_minutes g * 60) mod u64_size;
          username = show_nat expiration @ '':'' @ user_id
      in \<lparr>tc_username = username, tc_credential = mac (ts_username (tg_config g)) username\<rparr>)"

definition generate_credentials ::
  "(string \<Rightarrow> string \<Rightarrow> string) \<Rightarrow> nat \<Rightarrow> turn_generator \<Rightarrow> string \<Rightarrow> turn_credentials" where
  "generate_credentials mac now g user_id =
     (if tg_use_static_credentials g
      then \<lparr>tc_username = ts_username (tg_config g), tc_credential = ts_credential (tg_config g)\<rparr>
      else generate_ephemeral_credentials mac now g user_id)"

definition validate_ephemeral_credentials ::
  "(string \<Rightarrow> string \<Rightarrow> string) \<Rightarrow> nat \<Rightarrow> turn_generator \<Rightarrow> string \<Rightarrow> string \<Rightarrow> bool" where
  "validate_ephemeral_credentials mac now g username credential \<longleftrightarrow>
     (case split_on (\<lambda>c. c = CHR '':'') username of
        [first, second] \<Rightarrow>
          (case parse_u64 first of
             None \<Rightarrow> False
           | Some expiration \<Rightarrow>
               now \<le> expiration \<and> credential = mac (ts_username (tg_config g)) username)
      | _ \<Rightarrow> False)"

definition get_turn_url :: "turn_generator \<Rightarrow> string option" where
  "get_turn_url g =
     (if ts_enabled (tg_config g) \<and> ts_url (tg_config g) \<noteq> [] then Some (ts_url (tg_config g)) else None)"

section \<open>Printing and parsing numbers\<close>

lemma parse_digits_append:
  "parse_digits (xs @ ys) acc = Option.bind (parse_digits xs acc) (parse_digits ys)"
  by (induction xs arbitrary: acc) (auto split: option.splits)

lemma digit_value_digit: "d < 10 \<Longrightarrow> digit_value (char_of (48 + d)) = Some d"
  by (simp add: digit_value_def code_point_def of_char_of [where 'a = nat])

lemma digit_not_sign:
  fixes d :: nat
  assumes "d < 10"
  shows "char_of (48 + d) \<noteq> CHR '':''" "char_of (48 + d) \<noteq> CHR ''+''"
proof -
  have "(of_char (char_of (48 + d) :: char) :: nat) = 48 + d" using assms by (simp add: of_char_of [where 'a = nat])
  then show "char_of (48 + d) \<noteq> CHR '':''" "char_of (48 + d) \<noteq> CHR ''+''"
    using assms by (auto dest: arg_cong [where f = "of_char :: char \<Rightarrow> nat"])
qed

lemma parse_show_nat: "parse_digits (show_nat n) 0 = Some n"
proof (induction n rule: show_nat.induct)
  case (1 n)
  then show ?case
    by (subst show_nat.simps) (auto simp: parse_digits_append digit_value_digit)
qed

lemma show_nat_digits: "c \<in> set (show_nat n) \<Longrightarrow> c \<noteq> CHR '':'' \<and> c \<noteq> CHR ''+''"
proof (induction n rule: show_nat.induct)
  case (1 n)
  then show ?case
    using digit_not_sign [of n] digit_not_sign [of "n mod 10"] by (subst (asm) show_nat.simps) (auto split: if_splits)
qed

lemma show_nat_not_Nil [simp]: "show_nat n \<noteq> []"
  by (subst show_nat.simps) simp

lemma parse_u64_show: "n < u64_size \<Longrightarrow> parse_u64 (show_nat n) = Some n"
  using show_nat_digits [of "hd (show_nat n)" n] parse_show_nat [of n]
  by (cases "show_nat n") (auto simp: parse_u64_def)

lemma split_on_length:
  "length (split_on p s) = Suc (length (filter p s))"
  by (induction s) (auto split: list.splits)

section \<open>Properties\<close>

text \<open>Ephemeral credentials are good for exactly their lifetime: those issued for a user id without a colon
  validate up to and including the second at which they expire and not after it, with the credential
  issued and no other. Those issued for a user id that contains a colon never validate.\<close>

theorem turn_credentials_lifetime:
  assumes "now + tg_ttl_minutes g * 60 < u64_size"
  shows "validate_ephemeral_credentials mac t g (tc_username (generate_ephemeral_credentials mac now g user)) cred \<longleftrightarrow>
    CHR '':'' \<notin> set user \<and> t \<le> now + tg_ttl_minutes g * 60 \<and>
    cred = tc_credential (generate_ephemeral_credentials mac now g user)"
proof -
  let ?e = "now + tg_ttl_minutes g * 60" and ?p = "\<lambda>c. c = CHR '':''"
  have user: "tc_username (generate_ephemeral_credentials mac now g user) = show_nat ?e @ CHR '':'' # user"
    using assms by (simp add: generate_ephemeral_credentials_def Let_def)
  have split: "split_on ?p (show_nat ?e @ CHR '':'' # user) = show_nat ?e # split_on ?p user"
    using show_nat_digits by (intro split_on_append_sep) auto
  show ?thesis
  proof (cases "CHR '':'' \<in> set user")
    case True
    then have "filter ?p user \<noteq> []" by (auto simp: filter_empty_conv)
    then have "length (split_on ?p user) \<noteq> 1" using split_on_length [of ?p user] by simp
    then show ?thesis unfolding user validate_ephemeral_credentials_def split
      using True by (auto split: list.splits)
  next
    case False
    then have "split_on ?p user = [user]" by (intro split_on_none) auto
    then show ?thesis using False assms
      unfolding user validate_ephemeral_credentials_def split
      by (auto simp: parse_u64_show generate_ephemeral_credentials_def Let_def)
  qed
qed

definition demo_mac :: "string \<Rightarrow> string \<Rightarrow> string" where
  "demo_mac key msg = key @ ''/'' @ msg"

theorem turn_credentials_lifetime_witness:
  "validate_ephemeral_credentials demo_mac 3600 (with_rest_api ''k'' 60)
     (tc_username (generate_ephemeral_credentials demo_mac 0 (with_rest_api ''k'' 60) ''u''))
     (tc_credential (generate_ephemeral_credentials demo_mac 0 (with_rest_api ''k'' 60) ''u''))"
  by (subst turn_credentials_lifetime) (simp_all add: with_rest_api_def u64_size_def)

end
