(* ===== verification/Handlers.thy ===== *)
theory Handlers
  imports Prelude
begin

text \<open>
  Functions that fail and change a state, as the \<^verbatim>\<open>async fn\<close>s of the sources do: a handler takes the state and
  returns an error or a result together with the changed state. What an early return leaves in the state stays
  there. \<open>hoare\<close> and \<open>keeps\<close> say that a handler, or a change of the state, keeps an invariant; their rules are
  collected in \<open>keeping\<close>.
\<close>

section \<open>Handlers\<close>

type_synonym ('e, 'a, 's) handler = "'s \<Rightarrow> ('e + 'a) \<times> 's"

definition hreturn :: "'a \<Rightarrow> ('e, 'a, 's) handler" where
  "hreturn x s = (Inr x, s)"

definition hfail :: "'e \<Rightarrow> ('e, 'a, 's) handler" where
  "hfail e s = (Inl e, s)"

definition hbind :: "('e, 'a, 's) handler \<Rightarrow> ('a \<Rightarrow> ('e, 'b, 's) handler) \<Rightarrow> ('e, 'b, 's) handler" where
  "hbind h f s = (case h s of (Inl e, s) \<Rightarrow> (Inl e, s) | (Inr x, s) \<Rightarrow> f x s)"

text \<open>A computed result, a change of the state, a query of it, and a guard.\<close>

definition hlift :: "'e + 'a \<Rightarrow> ('e, 'a, 's) handler" where
  "hlift r s = (r, s)"

definition hdo :: "('s \<Rightarrow> 's) \<Rightarrow> ('e, unit, 's) handler" where
  "hdo f s = (Inr (), f s)"

definition hask :: "('s \<Rightarrow> 'a \<times> 's) \<Rightarrow> ('e, 'a, 's) handler" where
  "hask f s = (let (x, s) = f s in (Inr x, s))"

definition hguard :: "('s \<Rightarrow> bool) \<Rightarrow> 'e \<Rightarrow> ('e, unit, 's) handler" where
  "hguard P e s = (if P s then Inr () else Inl e, s)"

definition hsome :: "('s \<Rightarrow> 'a option \<times> 's) \<Rightarrow> 'e \<Rightarrow> ('e, 'a, 's) handler" where
  "hsome f e s = (let (x, s) = f s in (case x of None \<Rightarrow> Inl e | Some a \<Rightarrow> Inr a, s))"

text \<open>\<^verbatim>\<open>map_err\<close>, a result whose error is looked at instead of returned, and \<^verbatim>\<open>ok_or_else\<close> on a computed option.\<close>

definition hmap_err :: "('e \<Rightarrow> 'f) \<Rightarrow> ('e, 'a, 's) handler \<Rightarrow> ('f, 'a, 's) handler" where
  "hmap_err f h s = (case h s of (Inl e, s) \<Rightarrow> (Inl (f e), s) | (Inr x, s) \<Rightarrow> (Inr x, s))"

definition htry :: "('e, 'a, 's) handler \<Rightarrow> ('f, 'e + 'a, 's) handler" where
  "htry h s = (case h s of (r, s) \<Rightarrow> (Inr r, s))"

definition hsome_of :: "'a option \<Rightarrow> 'e \<Rightarrow> ('e, 'a, 's) handler" where
  "hsome_of x e = (case x of None \<Rightarrow> hfail e | Some a \<Rightarrow> hreturn a)"

text \<open>A loop whose body may return early.\<close>

fun heach :: "('a \<Rightarrow> ('e, unit, 's) handler) \<Rightarrow> 'a list \<Rightarrow> ('e, unit, 's) handler" where
  "heach f [] = hreturn ()"
| "heach f (x # xs) = hbind (f x) (\<lambda>_. heach f xs)"

lemmas handler_defs = hreturn_def hfail_def hbind_def hlift_def hdo_def hask_def hguard_def hsome_def
  hmap_err_def htry_def hsome_of_def

text \<open>How a sequence came to its result.\<close>

lemma hbind_done: "hbind h f s = (Inr y, t) \<longleftrightarrow> (\<exists>x u. h s = (Inr x, u) \<and> f x u = (Inr y, t))"
  by (auto simp: hbind_def split: prod.splits sum.splits)

lemma hbindE:
  assumes "hbind h f s = (Inr y, t)"
  obtains x u where "h s = (Inr x, u)" "f x u = (Inr y, t)"
  using assms by (auto simp: hbind_done)

lemma hmap_err_done: "hmap_err g h s = (Inr y, t) \<longleftrightarrow> h s = (Inr y, t)"
  by (auto simp: hmap_err_def split: prod.splits sum.splits)

lemma hbasic_done:
  "hreturn x s = (Inr y, t) \<longleftrightarrow> y = x \<and> t = s" "hfail e s \<noteq> (Inr y, t)"
  "hlift r s = (Inr y, t) \<longleftrightarrow> r = Inr y \<and> t = s" "hguard P e s = (Inr u, t) \<longleftrightarrow> P s \<and> t = s"
  "hsome_of z e s = (Inr y, t) \<longleftrightarrow> z = Some y \<and> t = s"
  by (auto simp: handler_defs split: option.splits)

lemmas handler_done = hbind_done hmap_err_done hbasic_done

section \<open>Handlers that keep an invariant\<close>

definition hoare :: "('s \<Rightarrow> bool) \<Rightarrow> ('e, 'a, 's) handler \<Rightarrow> ('s \<Rightarrow> bool) \<Rightarrow> bool" where
  "hoare P h Q \<longleftrightarrow> (\<forall>s. P s \<longrightarrow> Q (snd (h s)))"

definition keeps :: "('s \<Rightarrow> bool) \<Rightarrow> ('s \<Rightarrow> 's) \<Rightarrow> bool" where
  "keeps I f \<longleftrightarrow> (\<forall>s. I s \<longrightarrow> I (f s))"

named_theorems keeping "handlers and state changes that keep the invariant"

lemma hoareI: "(\<And>s. P s \<Longrightarrow> Q (snd (h s))) \<Longrightarrow> hoare P h Q"
  by (simp add: hoare_def)

lemma hoareD: "hoare P h Q \<Longrightarrow> P s \<Longrightarrow> Q (snd (h s))"
  by (simp add: hoare_def)

lemma keepsI: "(\<And>s. I s \<Longrightarrow> I (f s)) \<Longrightarrow> keeps I f"
  by (simp add: keeps_def)

lemma keepsD: "keeps I f \<Longrightarrow> I s \<Longrightarrow> I (f s)"
  by (simp add: keeps_def)

lemma hoare_seq:
  "hoare P h P \<Longrightarrow> (\<And>x. hoare P (f x) Q) \<Longrightarrow> (\<And>s. P s \<Longrightarrow> Q s) \<Longrightarrow> hoare P (hbind h f) Q"
  by (auto simp: hoare_def hbind_def split: prod.splits sum.splits)

lemma hoare_enter: "hoare P h Q \<Longrightarrow> (\<And>x. hoare Q (f x) Q) \<Longrightarrow> hoare P (hbind h f) Q"
  by (auto simp: hoare_def hbind_def split: prod.splits sum.splits)

lemma hoare_bind [keeping]: "hoare I h I \<Longrightarrow> (\<And>x. hoare I (f x) I) \<Longrightarrow> hoare I (hbind h f) I"
  by (rule hoare_enter)

lemma hoare_basic [keeping]:
  "hoare I (hreturn x) I" "hoare I (hfail e) I" "hoare I (hlift r) I" "hoare I (hguard p e) I"
  by (simp_all add: hoare_def hreturn_def hfail_def hlift_def hguard_def)

lemma hoare_do [keeping]: "keeps I f \<Longrightarrow> hoare I (hdo f) I"
  by (simp add: hoare_def keeps_def hdo_def)

lemma hoare_ask [keeping]: "keeps I (\<lambda>s. snd (f s)) \<Longrightarrow> hoare I (hask f) I"
  by (simp add: hoare_def keeps_def hask_def case_prod_unfold Let_def)

lemma hoare_some [keeping]: "keeps I (\<lambda>s. snd (f s)) \<Longrightarrow> hoare I (hsome f e) I"
  by (simp add: hoare_def keeps_def hsome_def case_prod_unfold Let_def)

lemma hoare_cases [keeping]:
  "hoare I a I \<Longrightarrow> (\<And>y. hoare I (b y) I) \<Longrightarrow> hoare I (case x of None \<Rightarrow> a | Some y \<Rightarrow> b y) I"
  "hoare I c I \<Longrightarrow> hoare I d I \<Longrightarrow> hoare I (if q then c else d) I"
  "(\<And>u v. hoare I (f u v) I) \<Longrightarrow> hoare I (case z of (u, v) \<Rightarrow> f u v) I"
  by (auto split: option.splits prod.splits)

lemma keeps_cases [keeping]:
  "keeps I (\<lambda>s. s)" "keeps I f \<Longrightarrow> keeps I g \<Longrightarrow> keeps I (if q then f else g)"
  "keeps I f \<Longrightarrow> (\<And>y. keeps I (h y)) \<Longrightarrow> keeps I (case x of None \<Rightarrow> f | Some y \<Rightarrow> h y)"
  "keeps I f \<Longrightarrow> (\<And>y. keeps I (h y)) \<Longrightarrow> keeps I (\<lambda>s. case x of None \<Rightarrow> f s | Some y \<Rightarrow> h y s)"
  by (auto simp: keeps_def split: option.splits)

lemma keeps_fold [keeping]: "(\<And>x. keeps I (f x)) \<Longrightarrow> keeps I (fold f xs)"
proof (rule keepsI)
  fix s assume "\<And>x. keeps I (f x)" "I s"
  then show "I (fold f xs s)" by (induction xs arbitrary: s) (auto simp: keeps_def)
qed

lemma hoare_more [keeping]:
  "hoare I h I \<Longrightarrow> hoare I (hmap_err g h) I" "hoare I h I \<Longrightarrow> hoare I (htry h) I" "hoare I (hsome_of x e) I"
  by (auto simp: hoare_def handler_defs split: prod.splits sum.splits option.splits)

lemma hoare_each [keeping]: "(\<And>x. hoare I (f x) I) \<Longrightarrow> hoare I (heach f xs) I"
  by (induction xs) (auto intro: hoare_basic hoare_bind)

end
