(* ===== verification/Calls_Api.thy ===== *)
theory Calls_Api
  imports Calls_Lifecycle Turn Handlers
begin

text \<open>
  The REST interface of calls: the handlers of
  \<^verbatim>\<open>backend/src/api/v4/calls_plugin/mod.rs\<close> and the slash commands of \<^verbatim>\<open>commands.rs\<close>.

  A handler takes the authenticated user and the path and body parameters, and returns an error or a
  response together with the changed state. What an early return leaves in the state stays there. The
  responses of handlers that only report success are the status text.
\<close>

type_synonym ('r, 'pc, 'a) api = "(app_error, 'a, ('r, 'pc) calls_app) handler"

definition OK :: string where
  "OK = ''OK''"

section \<open>Guards\<close>

definition resolve_channel_id :: "('r, 'pc) calls_env \<Rightarrow> string \<Rightarrow> uuid api_result" where
  "resolve_channel_id env channel_id =
     (let channel_id = trim channel_id;
          invalid = Inl (BadRequest ''Invalid channel_id'')
      in case cx_parse_str env channel_id of
           Some u \<Rightarrow> Inr u
         | None \<Rightarrow>
             (case parse_id env channel_id of
                Some u \<Rightarrow> Inr u
              | None \<Rightarrow>
                  if parse_direct_channel_name (cx_parse_str env) channel_id \<noteq> None then
                    (case cx_channel_by_name env channel_id of
                       Inl e \<Rightarrow> Inl (Database e)
                     | Inr (Some u) \<Rightarrow> Inr u
                     | Inr None \<Rightarrow> invalid)
                  else invalid))"

definition check_channel_permission :: "('r, 'pc) calls_env \<Rightarrow> uuid \<Rightarrow> uuid \<Rightarrow> unit api_result" where
  "check_channel_permission env user_id channel_id =
     (case cx_is_member env channel_id user_id of
        Inl e \<Rightarrow> Inl (Internal (''Database error: '' @ e))
      | Inr False \<Rightarrow> Inl (Forbidden ''You are not a member of this channel'')
      | Inr True \<Rightarrow> Inr ())"

definition channel_calls_enabled :: "uuid \<Rightarrow> ('r, 'pc) calls_app \<Rightarrow> bool" where
  "channel_calls_enabled channel_id app \<longleftrightarrow>
     (case hm_get (ca_enabled app) channel_id of None \<Rightarrow> True | Some b \<Rightarrow> b)"

text \<open>\<^verbatim>\<open>get_call_by_channel(..).ok_or_else(NotFound)\<close>, and the same with a lookup by call id in between.\<close>

definition active_call :: "('r, 'pc) calls_env \<Rightarrow> uuid \<Rightarrow> string \<Rightarrow> ('r, 'pc, call_state) api" where
  "active_call env channel_id message = hsome (app_get_call_by_channel env channel_id) (NotFound message)"

definition find_call ::
  "('r, 'pc) calls_env \<Rightarrow> uuid \<Rightarrow> ('r, 'pc) calls_app \<Rightarrow> call_state option \<times> ('r, 'pc) calls_app" where
  "find_call env ident app =
     (case app_get_call_by_channel env ident app of
        (Some call, app) \<Rightarrow> (Some call, app)
      | (None, app) \<Rightarrow> app_get_call env ident app)"

definition participant_of :: "('r, 'pc) calls_env \<Rightarrow> call_state \<Rightarrow> uuid \<Rightarrow> ('r, 'pc, participant) api" where
  "participant_of env call user_id =
     hsome (app_get_participant env (call_id call) user_id) (Forbidden ''You are not in this call'')"

text \<open>The call of a channel that the caller may manage: the common beginning of the host's operations.\<close>

definition managed_call :: "('r, 'pc) calls_env \<Rightarrow> auth_user \<Rightarrow> uuid \<Rightarrow> string \<Rightarrow> ('r, 'pc, call_state) api" where
  "managed_call env auth channel_uuid message =
     hbind (active_call env channel_uuid ''No active call in this channel'') (\<lambda>call.
     hbind (hask (normalize_call_host_if_stale env call)) (\<lambda>call.
     hbind (hguard (\<lambda>_. can_manage_call auth call) (Forbidden message)) (\<lambda>_.
     hreturn call)))"

definition target_user :: "call_state \<Rightarrow> uuid \<Rightarrow> uuid api_result" where
  "target_user call session_id =
     (case find (\<lambda>p. p_session_id p = session_id) (hm_values (participants call)) of
        None \<Rightarrow> Inl (NotFound ''Participant not found in call'')
      | Some p \<Rightarrow> Inr (p_user_id p))"

definition parse_session :: "('r, 'pc) calls_env \<Rightarrow> string \<Rightarrow> uuid api_result" where
  "parse_session env session_id =
     (case parse_id env session_id of None \<Rightarrow> Inl (BadRequest ''Invalid session_id'') | Some u \<Rightarrow> Inr u)"

section \<open>Signaling to a client\<close>

definition opt_field :: "string \<Rightarrow> json option \<Rightarrow> (string \<times> json) list" where
  "opt_field key v = (case v of None \<Rightarrow> [] | Some j \<Rightarrow> [(key, j)])"

fun signal_json :: "signaling_message \<Rightarrow> json" where
  "signal_json (SigOffer sdp) = JObject [(''type'', JString ''offer''), (''sdp'', JString sdp)]"
| "signal_json (SigAnswer sdp) = JObject [(''type'', JString ''answer''), (''sdp'', JString sdp)]"
| "signal_json (SigIceCandidate c mid idx frag) =
     JObject ([(''type'', JString ''ice-candidate''), (''candidate'', JString c)] @
       opt_field ''sdp_mid'' (map_option JString mid) @
       opt_field ''sdp_mline_index'' (map_option (JNumber \<circ> int) idx) @
       opt_field ''username_fragment'' (map_option JString frag))"
| "signal_json (SigIceConnectionState st) = JObject [(''type'', JString ''ice-state''), (''state'', JString st)]"
| "signal_json (SigConnectionState st) = JObject [(''type'', JString ''connection-state''), (''state'', JString st)]"
| "signal_json (SigError msg) = JObject [(''type'', JString ''error''), (''message'', JString msg)]"

definition send_signaling_event ::
  "('r, 'pc) calls_env \<Rightarrow> uuid \<Rightarrow> uuid \<Rightarrow> uuid \<Rightarrow> signaling_message \<Rightarrow> ('r, 'pc) calls_op" where
  "send_signaling_event env channel_id user_id session_id signal app =
     (let payload = signal_json signal
      in push_broadcast
           \<lparr>we_msg_type = ''event'', we_event = ''custom_com.mattermost.calls_signal'', we_seq = None,
            we_channel_id = Some channel_id,
            we_data = JObject [(''connID'', JString (raw env session_id)), (''conn_id'', JString (raw env session_id)),
              (''data'', JString (cx_json_text env payload)), (''channel_id'', JString (mm env channel_id)),
              (''channel_id_raw'', JString (raw env channel_id)), (''user_id'', JString (mm env user_id)),
              (''user_id_raw'', JString (raw env user_id)), (''session_id'', JString (raw env session_id)),
              (''session_id_raw'', JString (raw env session_id)), (''signal'', payload)],
            we_broadcast = Some \<lparr>wb_channel_id = None, wb_team_id = None, wb_user_id = Some user_id,
              wb_exclude_user_id = None\<rparr>\<rparr> app)"

text \<open>The forwarder is a task of its own: it reports \<open>ready\<close> and then relays what arrives on its channel.\<close>

definition spawn_signaling_forwarder ::
  "uuid \<Rightarrow> uuid \<Rightarrow> uuid \<Rightarrow> uuid \<Rightarrow> nat \<Rightarrow> ('r, 'pc) calls_op" where
  "spawn_signaling_forwarder c channel_id user_id session_id rx app =
     app\<lparr>ca_forwarders := ca_forwarders app @ [(c, channel_id, user_id, session_id, rx)]\<rparr>"

definition forwarder_start :: "('r, 'pc) calls_env \<Rightarrow> uuid \<times> uuid \<times> uuid \<times> uuid \<times> nat \<Rightarrow> ('r, 'pc) calls_op" where
  "forwarder_start env fw app =
     (case fw of (c, channel_id, user_id, session_id, rx) \<Rightarrow>
        send_signaling_event env channel_id user_id session_id (SigConnectionState ''ready'') app)"

definition recv :: "nat \<Rightarrow> 'pc sfu \<Rightarrow> signaling_message option \<times> 'pc sfu" where
  "recv rx s =
     (case hm_get (sfu_chans s) rx of
        None \<Rightarrow> (None, s)
      | Some ch \<Rightarrow>
          (case sc_queue ch of
             [] \<Rightarrow> (None, s)
           | msg # rest \<Rightarrow> (Some msg, s\<lparr>sfu_chans := hm_insert rx (ch\<lparr>sc_queue := rest\<rparr>) (sfu_chans s)\<rparr>)))"

definition forwarder_step :: "('r, 'pc) calls_env \<Rightarrow> uuid \<times> uuid \<times> uuid \<times> uuid \<times> nat \<Rightarrow> ('r, 'pc) calls_op" where
  "forwarder_step env fw app =
     (case fw of (c, channel_id, user_id, session_id, rx) \<Rightarrow>
        (case on_sfu c (recv rx) app of
           (Some (Some signal), app) \<Rightarrow> send_signaling_event env channel_id user_id session_id signal app
         | (_, app) \<Rightarrow> app))"

section \<open>Entering the forwarding unit\<close>

definition create_sfu :: "('r, 'pc) calls_env \<Rightarrow> uuid \<Rightarrow> ('r, 'pc) calls_app \<Rightarrow> (string + unit) \<times> ('r, 'pc) calls_app" where
  "create_sfu env c app =
     (let (r, m) = get_or_create_sfu (cx_sfu env) c (ca_sfu app)
      in (case r of Inl e \<Rightarrow> Inl e | Inr _ \<Rightarrow> Inr (), app\<lparr>ca_sfu := m\<rparr>))"

text \<open>The unit exists at this point; the missing case of \<open>on_sfu\<close> cannot occur.\<close>

definition enter_sfu ::
  "('r, 'pc) calls_env \<Rightarrow> uuid \<Rightarrow> uuid \<Rightarrow> uuid \<Rightarrow> ('r, 'pc) calls_app \<Rightarrow> (string + nat) \<times> ('r, 'pc) calls_app" where
  "enter_sfu env c user_id session_id app =
     (case on_sfu c (sfu_add_participant (cx_sfu env) user_id session_id) app of
        (Some r, app) \<Rightarrow> (r, app)
      | (None, app) \<Rightarrow> (Inl [], app))"

definition or_internal :: "string \<Rightarrow> (string, 'a, 's) handler \<Rightarrow> (app_error, 'a, 's) handler" where
  "or_internal prefix h s =
     (case h s of (Inl e, s) \<Rightarrow> (Inl (Internal (prefix @ e)), s) | (Inr x, s) \<Rightarrow> (Inr x, s))"

section \<open>Ringing\<close>

definition broadcast_ringing_event ::
  "('r, 'pc) calls_env \<Rightarrow> uuid \<Rightarrow> uuid \<Rightarrow> uuid \<Rightarrow> uuid option \<Rightarrow> ('r, 'pc) calls_op" where
  "broadcast_ringing_event env channel_id c sender_id exclude_user_id app =
     (let (username, display_name) = (case cx_user env sender_id of
            Some names \<Rightarrow> names | None \<Rightarrow> (mm env sender_id, []));
          app = broadcast_call_event env ''custom_com.mattermost.calls_ringing'' channel_id
            (JObject [(''call_id'', JString (mm env c)), (''call_id_raw'', JString (raw env c)),
                      (''sender_id'', JString (mm env sender_id)), (''sender_id_raw'', JString (raw env sender_id)),
                      (''username'', JString username), (''display_name'', JString display_name)])
            exclude_user_id app;
          caller_name = (if display_name \<noteq> [] then display_name else username);
          targets = filter (\<lambda>u. Some u \<noteq> exclude_user_id \<and> \<not> is_notification_dismissed c u (ca_manager app))
            (cx_members env channel_id)
      in app\<lparr>ca_pushes := ca_pushes app @ map (\<lambda>u. (u, channel_id, c, caller_name)) targets\<rparr>)"

section \<open>Starting, joining, leaving, ending\<close>

record start_call_response =
  sr_id :: string
  sr_id_raw :: string
  sr_channel_id :: string
  sr_channel_id_raw :: string
  sr_start_at :: int
  sr_owner_id :: string
  sr_owner_id_raw :: string
  sr_host_id :: string
  sr_host_id_raw :: string

definition start_response :: "('r, 'pc) calls_env \<Rightarrow> call_state \<Rightarrow> string \<Rightarrow> uuid \<Rightarrow> start_call_response" where
  "start_response env call channel_id channel_uuid =
     \<lparr>sr_id = mm env (call_id call), sr_id_raw = raw env (call_id call),
      sr_channel_id = channel_id, sr_channel_id_raw = raw env channel_uuid, sr_start_at = started_at call,
      sr_owner_id = mm env (owner_id call), sr_owner_id_raw = raw env (owner_id call),
      sr_host_id = mm env (host_id call), sr_host_id_raw = raw env (host_id call)\<rparr>"

definition new_call :: "uuid \<Rightarrow> uuid \<Rightarrow> uuid \<Rightarrow> int \<Rightarrow> uuid option \<Rightarrow> call_state" where
  "new_call c channel_id user_id now thread =
     \<lparr>call_id = c, call_channel_id = channel_id, owner_id = user_id, host_id = user_id, started_at = now,
      participants = [], screen_sharer = None, thread_id = thread, dismissed_users = []\<rparr>"

definition new_participant :: "uuid \<Rightarrow> uuid \<Rightarrow> int \<Rightarrow> participant" where
  "new_participant user_id session_id now =
     \<lparr>p_user_id = user_id, p_session_id = session_id, p_joined_at = now, p_muted = True,
      p_screen_sharing = False, p_hand_raised = False\<rparr>"

definition user_joined_payload :: "('r, 'pc) calls_env \<Rightarrow> string \<Rightarrow> uuid \<Rightarrow> uuid \<Rightarrow> json" where
  "user_joined_payload env channel_id user_id session_id =
     JObject [(''channel_id'', JString channel_id), (''user_id'', JString (mm env user_id)),
              (''session_id'', JString (raw env session_id)), (''muted'', JBool True), (''raised_hand'', JBool False)]"

text \<open>The second half of \<open>start_call\<close>: the forwarding unit, the events and the timer.\<close>

definition launch_call ::
  "('r, 'pc) calls_env \<Rightarrow> auth_user \<Rightarrow> uuid \<Rightarrow> string \<Rightarrow> call_state \<Rightarrow> uuid option \<Rightarrow> ('r, 'pc, start_call_response) api" where
  "launch_call env auth new_session_id channel_id call thread =
     (let user_id = auth_user_id auth;
          c = call_id call;
          channel_uuid = call_channel_id call;
          thread_text = (case thread of None \<Rightarrow> [] | Some t \<Rightarrow> mm env t) in
      hbind (or_internal ''Failed to create SFU: '' (create_sfu env c)) (\<lambda>_.
      hbind (or_internal ''Failed to add participant to SFU: '' (enter_sfu env c user_id new_session_id)) (\<lambda>rx.
      hbind (hdo (spawn_signaling_forwarder c channel_uuid user_id new_session_id rx)) (\<lambda>_.
      hbind (hdo (broadcast_call_event env ''custom_com.mattermost.calls_call_start'' channel_uuid
        (JObject [(''id'', JString (mm env c)), (''channel_id'', JString channel_id),
          (''channelID'', JString (mm env channel_uuid)), (''user_id'', JString (mm env user_id)),
          (''call_id'', JString (mm env c)), (''start_at'', JNumber (started_at call)),
          (''owner_id'', JString (mm env user_id)), (''host_id'', JString (mm env user_id)),
          (''thread_id'', JString thread_text), (''post_id'', JString thread_text)])
        (Some user_id))) (\<lambda>_.
      hbind (hdo (broadcast_call_event env ''custom_com.mattermost.calls_user_joined'' channel_uuid
        (user_joined_payload env channel_id user_id new_session_id) None)) (\<lambda>_.
      hbind (hdo (broadcast_ringing_event env channel_uuid c user_id (Some user_id))) (\<lambda>_.
      hbind (hdo (broadcast_call_state_event env channel_uuid None)) (\<lambda>_.
      hbind (hdo (schedule_unanswered_call_timeout c)) (\<lambda>_.
      hreturn (start_response env call channel_id channel_uuid))))))))))"

definition start_call ::
  "('r, 'pc) calls_env \<Rightarrow> uuid \<Rightarrow> uuid \<Rightarrow> auth_user \<Rightarrow> string \<Rightarrow> ('r, 'pc, start_call_response) api" where
  "start_call env new_call_id new_session_id auth channel_id =
     (let user_id = auth_user_id auth in
      hbind (hlift (resolve_channel_id env channel_id)) (\<lambda>channel_uuid.
      hbind (hlift (check_channel_permission env user_id channel_uuid)) (\<lambda>_.
      hbind (hguard (channel_calls_enabled channel_uuid) (Forbidden ''Calls are disabled in this channel'')) (\<lambda>_.
      hbind (hask (app_get_call_by_channel env channel_uuid)) (\<lambda>existing.
      case existing of
        Some call \<Rightarrow> hreturn (start_response env call channel_id channel_uuid)
      | None \<Rightarrow>
          hbind (hask (\<lambda>app. (ca_now app, app))) (\<lambda>now.
          let call = new_call new_call_id channel_uuid user_id now None in
          hbind (hdo (on_manager (add_call (cx_env env) call))) (\<lambda>_.
          hbind (hask (ensure_call_thread_id env call)) (\<lambda>thread.
          hbind (hdo (on_manager (add_participant (cx_env env) new_call_id
            (new_participant user_id new_session_id now)))) (\<lambda>_.
          launch_call env auth new_session_id channel_id call thread)))))))))"

definition join_call ::
  "('r, 'pc) calls_env \<Rightarrow> uuid \<Rightarrow> auth_user \<Rightarrow> string \<Rightarrow> ('r, 'pc, string) api" where
  "join_call env new_session_id auth channel_id =
     (let user_id = auth_user_id auth in
      hbind (hlift (resolve_channel_id env channel_id)) (\<lambda>channel_uuid.
      hbind (hlift (check_channel_permission env user_id channel_uuid)) (\<lambda>_.
      hbind (hguard (channel_calls_enabled channel_uuid) (Forbidden ''Calls are disabled in this channel'')) (\<lambda>_.
      hbind (hsome (find_call env channel_uuid) (NotFound ''No active call in this channel'')) (\<lambda>call.
      hbind (hask (app_get_participant env (call_id call) user_id)) (\<lambda>present.
      if present \<noteq> None then hreturn OK
      else
        hbind (hask (\<lambda>app. (ca_now app, app))) (\<lambda>now.
        hbind (hdo (on_manager (add_participant (cx_env env) (call_id call)
          (new_participant user_id new_session_id now)))) (\<lambda>_.
        hbind (or_internal ''Failed to get or create SFU: '' (create_sfu env (call_id call))) (\<lambda>_.
        hbind (or_internal ''Failed to add participant to SFU: ''
          (enter_sfu env (call_id call) user_id new_session_id)) (\<lambda>rx.
        hbind (hdo (spawn_signaling_forwarder (call_id call) channel_uuid user_id new_session_id rx)) (\<lambda>_.
        hbind (hdo (broadcast_call_event env ''custom_com.mattermost.calls_user_joined'' channel_uuid
          (user_joined_payload env channel_id user_id new_session_id) None)) (\<lambda>_.
        hbind (hdo (broadcast_call_state_event env channel_uuid None)) (\<lambda>_.
        hreturn OK)))))))))))))"

text \<open>The part that leaving and being removed by the host share.\<close>

definition after_departure :: "('r, 'pc) calls_env \<Rightarrow> uuid \<Rightarrow> uuid \<Rightarrow> uuid \<Rightarrow> ('r, 'pc) calls_op" where
  "after_departure env c channel_uuid user_id app =
     (let (remaining, app) = reconcile_after_participant_left env c channel_uuid user_id app
      in if remaining \<le> 1 then schedule_empty_call_timeout c app else app)"

definition leave_call :: "('r, 'pc) calls_env \<Rightarrow> auth_user \<Rightarrow> string \<Rightarrow> ('r, 'pc, string) api" where
  "leave_call env auth channel_id =
     (let user_id = auth_user_id auth in
      hbind (hlift (resolve_channel_id env channel_id)) (\<lambda>channel_uuid.
      hbind (hask (app_get_call_by_channel env channel_uuid)) (\<lambda>found.
      case found of
        None \<Rightarrow> hreturn OK
      | Some call \<Rightarrow>
          hbind (hask (app_get_participant env (call_id call) user_id)) (\<lambda>participant.
          hbind (hdo (on_manager (remove_participant (cx_env env) (call_id call) user_id))) (\<lambda>_.
          hbind (hdo (\<lambda>app. case participant of None \<Rightarrow> app
            | Some p \<Rightarrow> sfu_forget env (call_id call) (p_session_id p) app)) (\<lambda>_.
          hbind (hdo (broadcast_call_event env ''custom_com.mattermost.calls_user_left'' channel_uuid
            (JObject [(''channel_id'', JString channel_id), (''user_id'', JString (mm env user_id))]) None)) (\<lambda>_.
          hbind (hdo (after_departure env (call_id call) channel_uuid user_id)) (\<lambda>_.
          hreturn OK))))))))"

definition end_call_endpoint :: "('r, 'pc) calls_env \<Rightarrow> auth_user \<Rightarrow> string \<Rightarrow> ('r, 'pc, string) api" where
  "end_call_endpoint env auth channel_id =
     hbind (hlift (resolve_channel_id env channel_id)) (\<lambda>ident.
     hbind (hask (find_call env ident)) (\<lambda>found.
     case found of
       None \<Rightarrow> hreturn OK
     | Some call \<Rightarrow>
         hbind (hlift (check_channel_permission env (auth_user_id auth) (call_channel_id call))) (\<lambda>_.
         hbind (hask (normalize_call_host_if_stale env call)) (\<lambda>call.
         let caller_is_participant = (hm_get (participants call) (auth_user_id auth) \<noteq> None);
             caller_is_only_participant = (length (participants call) \<le> 1 \<and> caller_is_participant);
             host_session_inactive = (caller_is_participant \<and> \<not> is_host_session_active call) in
         hbind (hguard (\<lambda>_. can_manage_call auth call \<or> caller_is_only_participant \<or> host_session_inactive)
           (Forbidden ''Only the host can end this call'')) (\<lambda>_.
         hbind (hdo (end_call env (call_id call) (call_channel_id call))) (\<lambda>_.
         hreturn OK))))))"

definition recording_unsupported :: "('r, 'pc) calls_env \<Rightarrow> auth_user \<Rightarrow> string \<Rightarrow> ('r, 'pc, string) api" where
  "recording_unsupported env auth channel_id =
     hbind (hlift (resolve_channel_id env channel_id)) (\<lambda>ident.
     hbind (hask (find_call env ident)) (\<lambda>found.
     hbind (case found of None \<Rightarrow> hreturn ()
            | Some call \<Rightarrow> hlift (check_channel_permission env (auth_user_id auth) (call_channel_id call))) (\<lambda>_.
     hfail (BadRequest ''Call recording is not supported by this server''))))"

definition start_recording :: "('r, 'pc) calls_env \<Rightarrow> auth_user \<Rightarrow> string \<Rightarrow> ('r, 'pc, string) api" where
  "start_recording = recording_unsupported"

definition stop_recording :: "('r, 'pc) calls_env \<Rightarrow> auth_user \<Rightarrow> string \<Rightarrow> ('r, 'pc, string) api" where
  "stop_recording = recording_unsupported"

end
