(* ===== verification/Calls_Controls.thy ===== *)
theory Calls_Controls
  imports Calls_Api
begin

text \<open>
  What participants and hosts do during a call, the queries for the state of calls, and the exchange of
  session descriptions: the remaining REST handlers of
  \<^verbatim>\<open>backend/src/api/v4/calls_plugin/mod.rs\<close>, and \<^verbatim>\<open>commands.rs\<close>.
\<close>

section \<open>Participants\<close>

definition broadcast_screen_share_event ::
  "('r, 'pc) calls_env \<Rightarrow> uuid \<Rightarrow> uuid \<Rightarrow> uuid \<Rightarrow> bool \<Rightarrow> ('r, 'pc) calls_op" where
  "broadcast_screen_share_event env channel_id user_id session_id is_on app =
     (let (_, app) = app_get_call_by_channel env channel_id app;
          payload = JObject [(''user_id'', JString (mm env user_id)), (''user_id_raw'', JString (raw env user_id)),
            (''session_id'', JString (raw env session_id)), (''session_id_raw'', JString (raw env session_id))];
          app = broadcast_call_event env (if is_on then ''custom_com.mattermost.calls_user_screen_on''
                  else ''custom_com.mattermost.calls_user_screen_off'') channel_id payload None app
      in broadcast_call_event env (if is_on then ''custom_com.mattermost.calls_screen_on''
           else ''custom_com.mattermost.calls_screen_off'') channel_id payload None app)"

definition broadcast_raise_hand_event ::
  "('r, 'pc) calls_env \<Rightarrow> uuid \<Rightarrow> uuid \<Rightarrow> uuid \<Rightarrow> bool \<Rightarrow> ('r, 'pc) calls_op" where
  "broadcast_raise_hand_event env channel_id user_id session_id raised app =
     (let payload = JObject [(''user_id'', JString (mm env user_id)), (''session_id'', JString (raw env session_id)),
            (''raised_hand'', JNumber (if raised then ca_now app else 0))];
          app = broadcast_call_event env (if raised then ''custom_com.mattermost.calls_user_raise_hand''
                  else ''custom_com.mattermost.calls_user_unraise_hand'') channel_id payload None app
      in broadcast_call_event env (if raised then ''custom_com.mattermost.calls_raise_hand''
           else ''custom_com.mattermost.calls_lower_hand'') channel_id payload None app)"

text \<open>The call of the channel and the caller's participant in it.\<close>

definition own_participant ::
  "('r, 'pc) calls_env \<Rightarrow> auth_user \<Rightarrow> string \<Rightarrow> ('r, 'pc, uuid \<times> call_state \<times> participant) api" where
  "own_participant env auth channel_id =
     hbind (hlift (resolve_channel_id env channel_id)) (\<lambda>channel_uuid.
     hbind (active_call env channel_uuid ''No active call in this channel'') (\<lambda>call.
     hbind (participant_of env call (auth_user_id auth)) (\<lambda>participant.
     hreturn (channel_uuid, call, participant))))"

definition get_short_name_for_emoji :: "(string \<times> string) list \<Rightarrow> string \<Rightarrow> string" where
  "get_short_name_for_emoji table name_or_unicode =
     (case map_of table name_or_unicode of Some name \<Rightarrow> name | None \<Rightarrow> name_or_unicode)"

definition send_reaction :: "('r, 'pc) calls_env \<Rightarrow> auth_user \<Rightarrow> string \<Rightarrow> string \<Rightarrow> ('r, 'pc, string) api" where
  "send_reaction env auth channel_id emoji =
     hbind (own_participant env auth channel_id) (\<lambda>(channel_uuid, call, participant).
     hbind (hdo (\<lambda>app. broadcast_call_event env ''custom_com.mattermost.calls_user_reacted'' channel_uuid
       (JObject [(''user_id'', JString (mm env (auth_user_id auth))),
         (''session_id'', JString (raw env (p_session_id participant))), (''reaction'', JString emoji),
         (''timestamp'', JNumber (ca_now app)),
         (''emoji'', JObject [(''name'', JString (get_short_name_for_emoji (cx_emojis env) emoji)),
                              (''literal'', JString emoji)])]) None app)) (\<lambda>_.
     hreturn OK))"

definition toggle_screen_share :: "('r, 'pc) calls_env \<Rightarrow> auth_user \<Rightarrow> string \<Rightarrow> ('r, 'pc, string) api" where
  "toggle_screen_share env auth channel_id =
     (let user_id = auth_user_id auth in
      hbind (own_participant env auth channel_id) (\<lambda>(channel_uuid, call, participant).
      let is_sharing = (\<not> p_screen_sharing participant) in
      hbind (hdo (on_manager (set_screen_sharing (cx_env env) (call_id call) user_id is_sharing))) (\<lambda>_.
      hbind (hdo (\<lambda>app. snd (on_sfu (call_id call)
        (\<lambda>s. ((), sfu_set_screen_sharing (p_session_id participant) is_sharing s)) app))) (\<lambda>_.
      hbind (hdo (if is_sharing then on_manager (set_screen_sharer (cx_env env) (call_id call) (Some user_id))
                  else if screen_sharer call = Some user_id
                  then on_manager (set_screen_sharer (cx_env env) (call_id call) None)
                  else (\<lambda>app. app))) (\<lambda>_.
      hbind (hdo (broadcast_screen_share_event env channel_uuid user_id (p_session_id participant) is_sharing)) (\<lambda>_.
      hreturn OK))))))"

definition set_own_mute :: "bool \<Rightarrow> ('r, 'pc) calls_env \<Rightarrow> auth_user \<Rightarrow> string \<Rightarrow> ('r, 'pc, string) api" where
  "set_own_mute muted env auth channel_id =
     (let user_id = auth_user_id auth in
      hbind (own_participant env auth channel_id) (\<lambda>(channel_uuid, call, participant).
      hbind (hdo (on_manager (set_muted (cx_env env) (call_id call) user_id muted))) (\<lambda>_.
      hbind (hdo (broadcast_call_event env (if muted then ''custom_com.mattermost.calls_user_muted''
          else ''custom_com.mattermost.calls_user_unmuted'') channel_uuid
        (JObject [(''channel_id'', JString channel_id), (''user_id'', JString (mm env user_id)),
          (''session_id'', JString (raw env (p_session_id participant))), (''muted'', JBool muted)]) None)) (\<lambda>_.
      hreturn OK))))"

definition mute_user :: "('r, 'pc) calls_env \<Rightarrow> auth_user \<Rightarrow> string \<Rightarrow> ('r, 'pc, string) api" where
  "mute_user = set_own_mute True"

definition unmute_user :: "('r, 'pc) calls_env \<Rightarrow> auth_user \<Rightarrow> string \<Rightarrow> ('r, 'pc, string) api" where
  "unmute_user = set_own_mute False"

definition set_own_hand :: "bool \<Rightarrow> ('r, 'pc) calls_env \<Rightarrow> auth_user \<Rightarrow> string \<Rightarrow> ('r, 'pc, string) api" where
  "set_own_hand raised env auth channel_id =
     (let user_id = auth_user_id auth in
      hbind (own_participant env auth channel_id) (\<lambda>(channel_uuid, call, participant).
      hbind (hdo (on_manager (set_hand_raised (cx_env env) (call_id call) user_id raised))) (\<lambda>_.
      hbind (hdo (broadcast_raise_hand_event env channel_uuid user_id (p_session_id participant) raised)) (\<lambda>_.
      hreturn OK))))"

definition raise_hand :: "('r, 'pc) calls_env \<Rightarrow> auth_user \<Rightarrow> string \<Rightarrow> ('r, 'pc, string) api" where
  "raise_hand = set_own_hand True"

definition lower_hand :: "('r, 'pc) calls_env \<Rightarrow> auth_user \<Rightarrow> string \<Rightarrow> ('r, 'pc, string) api" where
  "lower_hand = set_own_hand False"

section \<open>Hosts\<close>

text \<open>Parsing of the request, the host's call and the participant with the given session.\<close>

definition host_target ::
  "('r, 'pc) calls_env \<Rightarrow> auth_user \<Rightarrow> string \<Rightarrow> string \<Rightarrow> string \<Rightarrow> ('r, 'pc, uuid \<times> uuid \<times> call_state \<times> uuid) api" where
  "host_target env auth channel_id session_id message =
     hbind (hlift (resolve_channel_id env channel_id)) (\<lambda>channel_uuid.
     hbind (hlift (parse_session env session_id)) (\<lambda>target_session_id.
     hbind (managed_call env auth channel_uuid message) (\<lambda>call.
     hbind (hlift (target_user call target_session_id)) (\<lambda>target_user_id.
     hreturn (channel_uuid, target_session_id, call, target_user_id)))))"

definition host_screen_off :: "('r, 'pc) calls_env \<Rightarrow> auth_user \<Rightarrow> string \<Rightarrow> string \<Rightarrow> ('r, 'pc, string) api" where
  "host_screen_off env auth channel_id session_id =
     hbind (host_target env auth channel_id session_id ''Only the host can stop screen sharing'')
       (\<lambda>(channel_uuid, target_session_id, call, target_user_id).
     hbind (hdo (on_manager (set_screen_sharing (cx_env env) (call_id call) target_user_id False))) (\<lambda>_.
     hbind (hdo (if screen_sharer call = Some target_user_id
                 then on_manager (set_screen_sharer (cx_env env) (call_id call) None) else (\<lambda>app. app))) (\<lambda>_.
     hbind (hdo (\<lambda>app. snd (on_sfu (call_id call) (\<lambda>s. ((), sfu_set_screen_sharing target_session_id False s)) app))) (\<lambda>_.
     hbind (hdo (broadcast_screen_share_event env channel_uuid target_user_id target_session_id False)) (\<lambda>_.
     hreturn OK)))))"

definition host_mute_events ::
  "('r, 'pc) calls_env \<Rightarrow> string \<Rightarrow> uuid \<Rightarrow> uuid \<Rightarrow> string \<Rightarrow> ('r, 'pc) calls_op" where
  "host_mute_events env channel_id channel_uuid target_user_id session_id app =
     (let app = broadcast_call_event env ''custom_com.mattermost.calls_host_mute'' channel_uuid
            (JObject [(''channel_id'', JString channel_id), (''session_id'', JString session_id)])
            (Some target_user_id) app
      in broadcast_call_event env ''custom_com.mattermost.calls_user_muted'' channel_uuid
           (JObject [(''channel_id'', JString channel_id), (''user_id'', JString (mm env target_user_id)),
              (''session_id'', JString session_id), (''muted'', JBool True)]) None app)"

definition host_mute :: "('r, 'pc) calls_env \<Rightarrow> auth_user \<Rightarrow> string \<Rightarrow> string \<Rightarrow> ('r, 'pc, string) api" where
  "host_mute env auth channel_id session_id =
     hbind (host_target env auth channel_id session_id ''Only the host can mute other participants'')
       (\<lambda>(channel_uuid, target_session_id, call, target_user_id).
     hbind (hdo (on_manager (set_muted (cx_env env) (call_id call) target_user_id True))) (\<lambda>_.
     hbind (hdo (host_mute_events env channel_id channel_uuid target_user_id session_id)) (\<lambda>_.
     hreturn OK)))"

definition mute_one ::
  "('r, 'pc) calls_env \<Rightarrow> uuid \<Rightarrow> string \<Rightarrow> uuid \<Rightarrow> uuid \<Rightarrow> participant \<Rightarrow> ('r, 'pc) calls_op" where
  "mute_one env caller channel_id channel_uuid c p app =
     (if p_user_id p = caller then app
      else host_mute_events env channel_id channel_uuid (p_user_id p) (raw env (p_session_id p))
             (on_manager (set_muted (cx_env env) c (p_user_id p) True) app))"

definition host_mute_others :: "('r, 'pc) calls_env \<Rightarrow> auth_user \<Rightarrow> string \<Rightarrow> ('r, 'pc, string) api" where
  "host_mute_others env auth channel_id =
     hbind (hlift (resolve_channel_id env channel_id)) (\<lambda>channel_uuid.
     hbind (managed_call env auth channel_uuid ''Only the host can mute other participants'') (\<lambda>call.
     hbind (hdo (fold (mute_one env (auth_user_id auth) channel_id channel_uuid (call_id call))
       (hm_values (participants call)))) (\<lambda>_.
     hreturn OK)))"

definition host_remove_user :: "('r, 'pc) calls_env \<Rightarrow> auth_user \<Rightarrow> string \<Rightarrow> string \<Rightarrow> ('r, 'pc, string) api" where
  "host_remove_user env auth channel_id session_id =
     hbind (host_target env auth channel_id session_id ''Only the host can remove participants'')
       (\<lambda>(channel_uuid, target_session_id, call, target_user_id).
     hbind (hguard (\<lambda>_. target_user_id \<noteq> auth_user_id auth) (BadRequest
       ''Host cannot remove themselves with this endpoint; use leave_call instead'')) (\<lambda>_.
     hbind (hdo (broadcast_call_event env ''custom_com.mattermost.calls_host_removed'' channel_uuid
       (JObject [(''channel_id'', JString channel_id), (''session_id'', JString session_id)])
       (Some target_user_id))) (\<lambda>_.
     hbind (hdo (on_manager (remove_participant (cx_env env) (call_id call) target_user_id))) (\<lambda>_.
     hbind (hdo (sfu_forget env (call_id call) target_session_id)) (\<lambda>_.
     hbind (hdo (broadcast_call_event env ''custom_com.mattermost.calls_user_left'' channel_uuid
       (JObject [(''channel_id'', JString channel_id), (''user_id'', JString (mm env target_user_id)),
                 (''session_id'', JString session_id)]) None)) (\<lambda>_.
     hbind (hdo (after_departure env (call_id call) channel_uuid target_user_id)) (\<lambda>_.
     hreturn OK)))))))"

definition host_lower_hand :: "('r, 'pc) calls_env \<Rightarrow> auth_user \<Rightarrow> string \<Rightarrow> string \<Rightarrow> ('r, 'pc, string) api" where
  "host_lower_hand env auth channel_id session_id =
     hbind (host_target env auth channel_id session_id ''Only the host can lower hands'')
       (\<lambda>(channel_uuid, target_session_id, call, target_user_id).
     let payload = JObject [(''channel_id'', JString channel_id), (''user_id'', JString (mm env target_user_id)),
           (''raised_hand'', JNumber 0), (''session_id'', JString session_id)] in
     hbind (hdo (on_manager (set_hand_raised (cx_env env) (call_id call) target_user_id False))) (\<lambda>_.
     hbind (hdo (broadcast_call_event env ''custom_com.mattermost.calls_host_lower_hand'' channel_uuid
       (JObject [(''channel_id'', JString channel_id), (''session_id'', JString session_id),
                 (''call_id'', JString (mm env (call_id call))), (''host_id'', JString (mm env (auth_user_id auth)))])
       (Some target_user_id))) (\<lambda>_.
     hbind (hdo (broadcast_call_event env ''custom_com.mattermost.calls_user_unraise_hand'' channel_uuid payload None)) (\<lambda>_.
     hbind (hdo (broadcast_call_event env ''custom_com.mattermost.calls_user_lower_hand'' channel_uuid payload None)) (\<lambda>_.
     hreturn OK)))))"

definition host_make_moderator :: "('r, 'pc) calls_env \<Rightarrow> auth_user \<Rightarrow> string \<Rightarrow> string \<Rightarrow> ('r, 'pc, string) api" where
  "host_make_moderator env auth channel_id new_host_id =
     hbind (hlift (resolve_channel_id env channel_id)) (\<lambda>channel_uuid.
     hbind (hlift (case parse_id env new_host_id of
         None \<Rightarrow> Inl (BadRequest ''Invalid new_host_id'') | Some u \<Rightarrow> Inr u)) (\<lambda>new_host_uuid.
     hbind (managed_call env auth channel_uuid ''Only the host can transfer host status'') (\<lambda>call.
     hbind (hguard (\<lambda>_. hm_get (participants call) new_host_uuid \<noteq> None)
       (BadRequest ''New host must be a participant in the call'')) (\<lambda>_.
     hbind (hdo (app_set_host env (call_id call) new_host_uuid)) (\<lambda>_.
     hbind (hdo (broadcast_host_changed_event env channel_uuid new_host_uuid)) (\<lambda>_.
     hbind (hdo (broadcast_call_state_event env channel_uuid None)) (\<lambda>_.
     hreturn OK)))))))"

section \<open>Ringing and dismissing\<close>

definition ring_users :: "('r, 'pc) calls_env \<Rightarrow> auth_user \<Rightarrow> string \<Rightarrow> ('r, 'pc, string) api" where
  "ring_users env auth channel_id =
     (let user_id = auth_user_id auth in
      hbind (hlift (resolve_channel_id env channel_id)) (\<lambda>channel_uuid.
      hbind (hlift (check_channel_permission env user_id channel_uuid)) (\<lambda>_.
      hbind (active_call env channel_uuid ''No active call to ring'') (\<lambda>call.
      hbind (hask (ensure_call_thread_id env call)) (\<lambda>thread.
      let thread_text = (case thread of None \<Rightarrow> [] | Some t \<Rightarrow> mm env t);
          (username, display_name) = (case cx_user env user_id of
            Some names \<Rightarrow> names | None \<Rightarrow> (mm env user_id, [])) in
      hbind (hdo (broadcast_call_event env ''custom_com.mattermost.calls_call_start'' channel_uuid
        (JObject [(''id'', JString (mm env (call_id call))), (''channelID'', JString (mm env channel_uuid)),
          (''start_at'', JNumber (started_at call)), (''owner_id'', JString (mm env (owner_id call))),
          (''host_id'', JString (mm env (host_id call))), (''thread_id'', JString thread_text),
          (''post_id'', JString thread_text), (''call_id'', JString (mm env (call_id call))),
          (''channel_id'', JString (mm env channel_uuid)), (''user_id'', JString (mm env (owner_id call))),
          (''sender_id'', JString (mm env user_id)),
          (''caller_name'', JString (if display_name = [] then username else display_name))])
        (Some user_id))) (\<lambda>_.
      hbind (hdo (broadcast_ringing_event env channel_uuid (call_id call) user_id None)) (\<lambda>_.
      hreturn OK)))))))"

definition dismiss_notification :: "('r, 'pc) calls_env \<Rightarrow> auth_user \<Rightarrow> string \<Rightarrow> ('r, 'pc, string) api" where
  "dismiss_notification env auth channel_id =
     (let user_id = auth_user_id auth in
      hbind (hlift (resolve_channel_id env channel_id)) (\<lambda>channel_uuid.
      hbind (hlift (check_channel_permission env user_id channel_uuid)) (\<lambda>_.
      hbind (hask (app_get_call_by_channel env channel_uuid)) (\<lambda>call.
      let ident = (case call of None \<Rightarrow> [] | Some call \<Rightarrow> mm env (call_id call)) in
      hbind (hdo (case call of None \<Rightarrow> (\<lambda>app. app)
        | Some call \<Rightarrow> on_manager (dismiss_user_notification (cx_env env) (call_id call) user_id))) (\<lambda>_.
      hbind (hdo (broadcast_call_event env ''custom_com.mattermost.calls_user_dismissed_notification'' channel_uuid
        (JObject [(''userID'', JString (mm env user_id)), (''user_id'', JString (mm env user_id)),
                  (''callID'', JString ident), (''call_id'', JString ident)]) None)) (\<lambda>_.
      hbind (hdo (broadcast_call_state_event env channel_uuid None)) (\<lambda>_.
      hreturn OK)))))))"

section \<open>Queries\<close>

record call_channel_info =
  ci_channel_id :: string
  ci_channel_id_raw :: string
  ci_call_id :: "string option"
  ci_call_id_raw :: "string option"
  ci_enabled :: bool
  ci_has_call :: bool
  ci_participant_count :: nat
  ci_call :: "call_state_response option"

definition build_call_channel_info ::
  "('r, 'pc) calls_env \<Rightarrow> uuid \<Rightarrow> bool \<Rightarrow> call_state option \<Rightarrow> ('r, 'pc, call_channel_info) api" where
  "build_call_channel_info env channel_uuid enabled call =
     (let info = (\<lambda>ident ident_raw state count.
            \<lparr>ci_channel_id = mm env channel_uuid, ci_channel_id_raw = raw env channel_uuid, ci_call_id = ident,
             ci_call_id_raw = ident_raw, ci_enabled = enabled, ci_has_call = (state \<noteq> None),
             ci_participant_count = count, ci_call = state\<rparr>)
      in case call of
           None \<Rightarrow> hreturn (info None None None 0)
         | Some call \<Rightarrow>
             hbind (build_call_state_response env call (mm env channel_uuid) channel_uuid) (\<lambda>response.
             hreturn (info (Some (mm env (call_id call))) (Some (raw env (call_id call))) (Some response)
               (length (participants call)))))"

fun build_channel_infos ::
  "('r, 'pc) calls_env \<Rightarrow> uuid \<Rightarrow> (uuid \<times> call_state option) list \<Rightarrow> ('r, 'pc, call_channel_info list) api" where
  "build_channel_infos env user_id [] = hreturn []"
| "build_channel_infos env user_id ((channel_id, call) # rest) =
     (if cx_is_member env channel_id user_id \<noteq> Inr True then build_channel_infos env user_id rest
      else
        hbind (hask (\<lambda>app. (channel_calls_enabled channel_id app, app))) (\<lambda>enabled.
        hbind (build_call_channel_info env channel_id enabled call) (\<lambda>info.
        hbind (build_channel_infos env user_id rest) (\<lambda>infos.
        hreturn (info # infos)))))"

definition get_channels :: "('r, 'pc) calls_env \<Rightarrow> auth_user \<Rightarrow> ('r, 'pc, call_channel_info list) api" where
  "get_channels env auth =
     hbind (hask (\<lambda>app. let (calls, m) = get_all_calls (cx_env env) (ca_manager app)
        in ((calls, ca_enabled app), app\<lparr>ca_manager := m\<rparr>))) (\<lambda>(calls, enabled).
     let by_channel = fold (\<lambda>call. hm_insert (call_channel_id call) (Some call)) calls [];
         by_channel = fold (\<lambda>(ch, _) m. if hm_get m ch = None then hm_insert ch None m else m) enabled by_channel
     in build_channel_infos env (auth_user_id auth) by_channel)"

definition get_channel_state_mobile :: "('r, 'pc) calls_env \<Rightarrow> auth_user \<Rightarrow> string \<Rightarrow> ('r, 'pc, call_channel_info) api" where
  "get_channel_state_mobile env auth channel_id =
     hbind (hlift (resolve_channel_id env channel_id)) (\<lambda>channel_uuid.
     hbind (hlift (check_channel_permission env (auth_user_id auth) channel_uuid)) (\<lambda>_.
     hbind (hask (app_get_call_by_channel env channel_uuid)) (\<lambda>call.
     hbind (hask (\<lambda>app. (channel_calls_enabled channel_uuid app, app))) (\<lambda>enabled.
     build_call_channel_info env channel_uuid enabled call))))"

definition set_channel_calls_enabled ::
  "('r, 'pc) calls_env \<Rightarrow> auth_user \<Rightarrow> string \<Rightarrow> bool \<Rightarrow> ('r, 'pc, call_channel_info) api" where
  "set_channel_calls_enabled env auth channel_id enabled =
     hbind (hlift (resolve_channel_id env channel_id)) (\<lambda>channel_uuid.
     hbind (hlift (check_channel_permission env (auth_user_id auth) channel_uuid)) (\<lambda>_.
     hbind (hdo (\<lambda>app. app\<lparr>ca_enabled := hm_insert channel_uuid enabled (ca_enabled app)\<rparr>)) (\<lambda>_.
     hbind (hdo (broadcast_call_event env (if enabled then ''custom_com.mattermost.calls_channel_enable_voice''
         else ''custom_com.mattermost.calls_channel_disable_voice'') channel_uuid
       (JObject [(''enabled'', JBool enabled)]) None)) (\<lambda>_.
     hbind (hask (app_get_call_by_channel env channel_uuid)) (\<lambda>call.
     build_call_channel_info env channel_uuid enabled call)))))"

datatype call_state_reply = SilentNotFound | CallStateReply call_state_response

definition get_call_state :: "('r, 'pc) calls_env \<Rightarrow> auth_user \<Rightarrow> string \<Rightarrow> ('r, 'pc, call_state_reply) api" where
  "get_call_state env auth channel_id =
     (let normalized = trim channel_id in
      if normalized = [] \<or> eq_ignore_ascii_case normalized ''undefined'' \<or> eq_ignore_ascii_case normalized ''null''
      then hfail (NotFound ''No active call in this channel'')
      else
        hbind (hlift (resolve_channel_id env channel_id)) (\<lambda>channel_uuid.
        hbind (hlift (check_channel_permission env (auth_user_id auth) channel_uuid)) (\<lambda>_.
        hbind (hask (find_call env channel_uuid)) (\<lambda>found.
        case found of
          None \<Rightarrow> hreturn SilentNotFound
        | Some call \<Rightarrow>
            hbind (build_call_state_response env call channel_id channel_uuid) (\<lambda>response.
            hreturn (CallStateReply response))))))"

section \<open>Session descriptions and candidates\<close>

definition ignored :: string where
  "ignored = ''IGNORED''"

text \<open>Registers the session with the forwarding unit unless it is there; the receiver, if a new one was made.\<close>

definition ensure_in_sfu ::
  "('r, 'pc) calls_env \<Rightarrow> uuid \<Rightarrow> uuid \<Rightarrow> uuid \<Rightarrow> (string, nat option, ('r, 'pc) calls_app) handler" where
  "ensure_in_sfu env c user_id session_id app =
     (case get_sfu c (ca_sfu app) of
        None \<Rightarrow> (Inl [], app)
      | Some s \<Rightarrow>
          if has_participant session_id s then (Inr None, app)
          else
            (case enter_sfu env c user_id session_id app of
               (Inl e, app) \<Rightarrow> (Inl e, app)
             | (Inr rx, app) \<Rightarrow> (Inr (Some rx), app)))"

definition offer_in_sfu ::
  "('r, 'pc) calls_env \<Rightarrow> uuid \<Rightarrow> uuid \<Rightarrow> string \<Rightarrow> (string, string, ('r, 'pc) calls_app) handler" where
  "offer_in_sfu env c session_id sdp app =
     (case on_sfu c (sfu_handle_offer (cx_sfu env) session_id sdp) app of
        (Some r, app) \<Rightarrow> (r, app)
      | (None, app) \<Rightarrow> (Inl [], app))"

text \<open>A failing offer rebuilds the peer connection once. \<open>parse_offer\<close> is the crate's check of the description.\<close>

definition offer_with_retry ::
  "('r, 'pc) calls_env \<Rightarrow> (string \<Rightarrow> string option) \<Rightarrow> uuid \<Rightarrow> uuid \<Rightarrow> uuid \<Rightarrow> uuid \<Rightarrow> string \<Rightarrow> ('r, 'pc, string) api" where
  "offer_with_retry env parse_offer c channel_uuid user_id session_id sdp app =
     (case offer_in_sfu env c session_id sdp app of
        (Inr answer, app) \<Rightarrow> (Inr answer, app)
      | (Inl _, app) \<Rightarrow>
          hbind (or_internal ''Failed to recreate participant: ''
            (\<lambda>app. case on_sfu c (recreate_participant (cx_sfu env) user_id session_id) app of
               (Some r, app) \<Rightarrow> (r, app) | (None, app) \<Rightarrow> (Inl [], app))) (\<lambda>rx.
          hbind (hdo (spawn_signaling_forwarder c channel_uuid user_id session_id rx)) (\<lambda>_.
          hbind (hlift (case parse_offer sdp of
            Some e \<Rightarrow> Inl (Internal (''Invalid SDP on retry: '' @ e)) | None \<Rightarrow> Inr ())) (\<lambda>_.
          or_internal ''Failed to handle offer after retry: '' (offer_in_sfu env c session_id sdp)))) app)"

definition handle_offer ::
  "('r, 'pc) calls_env \<Rightarrow> (string \<Rightarrow> string option) \<Rightarrow> auth_user \<Rightarrow> string \<Rightarrow> string \<Rightarrow> ('r, 'pc, string) api" where
  "handle_offer env parse_offer auth channel_id sdp =
     (let user_id = auth_user_id auth in
      hbind (hlift (resolve_channel_id env channel_id)) (\<lambda>channel_uuid.
      hbind (hsome (find_call env channel_uuid) (NotFound ''No active call in this channel'')) (\<lambda>call.
      hbind (participant_of env call user_id) (\<lambda>participant.
      let c = call_id call; session_id = p_session_id participant in
      hbind (or_internal ''Failed to get or create SFU: '' (create_sfu env c)) (\<lambda>_.
      hbind (or_internal ''Failed to add participant to SFU: '' (ensure_in_sfu env c user_id session_id)) (\<lambda>added.
      hbind (case added of
          Some rx \<Rightarrow> hreturn (Some rx)
        | None \<Rightarrow> hask (\<lambda>app. case on_sfu c (get_signaling_receiver session_id) app of
            (Some rx, app) \<Rightarrow> (rx, app) | (None, app) \<Rightarrow> (None, app))) (\<lambda>receiver.
      hbind (hdo (case receiver of None \<Rightarrow> (\<lambda>app. app)
        | Some rx \<Rightarrow> spawn_signaling_forwarder c channel_uuid user_id session_id rx)) (\<lambda>_.
      hbind (hlift (case parse_offer sdp of
        Some e \<Rightarrow> Inl (BadRequest (''Invalid SDP offer: '' @ e)) | None \<Rightarrow> Inr ())) (\<lambda>_.
      hbind (offer_with_retry env parse_offer c channel_uuid user_id session_id sdp) (\<lambda>answer.
      hbind (hdo (send_signaling_event env channel_uuid user_id session_id (SigAnswer answer))) (\<lambda>_.
      hreturn answer)))))))))))"

definition handle_ice_candidate ::
  "('r, 'pc) calls_env \<Rightarrow> auth_user \<Rightarrow> string \<Rightarrow> string \<Rightarrow> string option \<Rightarrow> nat option \<Rightarrow> ('r, 'pc, string) api" where
  "handle_ice_candidate env auth channel_id candidate sdp_mid sdp_mline_index =
     (let user_id = auth_user_id auth in
      hbind (hlift (resolve_channel_id env channel_id)) (\<lambda>channel_uuid.
      hbind (hask (find_call env channel_uuid)) (\<lambda>found.
      case found of
        None \<Rightarrow> hreturn ignored
      | Some call \<Rightarrow>
          hbind (hask (app_get_participant env (call_id call) user_id)) (\<lambda>present.
          case present of
            None \<Rightarrow> hreturn ignored
          | Some participant \<Rightarrow>
              (let c = call_id call; session_id = p_session_id participant in
               hbind (or_internal ''Failed to get or create SFU: '' (create_sfu env c)) (\<lambda>_.
               hbind (or_internal ''Failed to add participant to SFU: '' (ensure_in_sfu env c user_id session_id)) (\<lambda>added.
               hbind (hdo (case added of None \<Rightarrow> (\<lambda>app. app)
                 | Some rx \<Rightarrow> spawn_signaling_forwarder c (call_channel_id call) user_id session_id rx)) (\<lambda>_.
               hbind (or_internal ''Failed to handle ICE candidate: ''
                 (\<lambda>app. case on_sfu c (sfu_handle_ice_candidate (cx_sfu env) session_id candidate sdp_mid sdp_mline_index) app of
                    (Some None, app) \<Rightarrow> (Inr (), app) | (Some (Some e), app) \<Rightarrow> (Inl e, app)
                  | (None, app) \<Rightarrow> (Inl [], app))) (\<lambda>_.
               hreturn OK)))))))))"

section \<open>Configuration\<close>

record effective_calls_config =
  ec_turn_server_enabled :: bool
  ec_turn_server_url :: string
  ec_turn_server_username :: string
  ec_turn_server_credential :: string
  ec_turn_static_auth_secret :: string
  ec_stun_servers :: "string list"

definition starts_with :: "string \<Rightarrow> string \<Rightarrow> bool" where
  "starts_with p s \<longleftrightarrow> take (length p) s = p"

definition ensure_protocol :: "string \<Rightarrow> string \<Rightarrow> string" where
  "ensure_protocol url protocol =
     (let url = trim url; lower = to_ascii_lowercase url
      in if url = [] then url
         else if starts_with protocol lower \<or> (protocol = ''turn:'' \<and> starts_with ''turns:'' lower) then url
         else protocol @ url)"

definition or_else :: "'a option \<Rightarrow> 'a \<Rightarrow> 'a" where
  "or_else v d = (case v of None \<Rightarrow> d | Some x \<Rightarrow> x)"

definition load_effective_calls_config :: "('r, 'pc) calls_env \<Rightarrow> effective_calls_config" where
  "load_effective_calls_config env =
     (let cfg = cx_config env
      in case cx_db_config env of
           Some (JObject obj) \<Rightarrow>
             (let str = (\<lambda>key. Option.bind (map_of obj key) json_as_str)
              in \<lparr>ec_turn_server_enabled = or_else (Option.bind (map_of obj ''turn_server_enabled'') json_as_bool)
                    (cc_turn_server_enabled cfg),
                  ec_turn_server_url = ensure_protocol (or_else (str ''turn_server_url'') (cc_turn_server_url cfg)) ''turn:'',
                  ec_turn_server_username = or_else (str ''turn_server_username'') (cc_turn_server_username cfg),
                  ec_turn_server_credential = or_else (str ''turn_server_credential'') (cc_turn_server_credential cfg),
                  ec_turn_static_auth_secret = or_else (str ''turn_static_auth_secret'') (cc_turn_static_auth_secret cfg),
                  ec_stun_servers = map (\<lambda>s. ensure_protocol s ''stun:'')
                    (case map_of obj ''stun_servers'' of
                       Some (JArray items) \<Rightarrow> List.map_filter json_as_str items
                     | _ \<Rightarrow> cc_stun_servers cfg)\<rparr>)
         | _ \<Rightarrow>
             \<lparr>ec_turn_server_enabled = cc_turn_server_enabled cfg, ec_turn_server_url = cc_turn_server_url cfg,
              ec_turn_server_username = cc_turn_server_username cfg,
              ec_turn_server_credential = cc_turn_server_credential cfg,
              ec_turn_static_auth_secret = cc_turn_static_auth_secret cfg, ec_stun_servers = cc_stun_servers cfg\<rparr>)"

record ice_server =
  is_urls :: "string list"
  is_username :: "string option"
  is_credential :: "string option"
  is_credential_type :: "string option"

record config_response =
  cf_ice_servers_configs :: "ice_server list"
  cf_needs_turn_credentials :: bool
  cf_default_enabled :: bool
  cf_allow_enable_calls :: bool
  cf_group_calls_allowed :: bool
  cf_enable_ringing :: bool
  cf_host_controls_allowed :: bool
  cf_enable_recordings :: bool
  cf_max_call_participants :: int
  cf_allow_screen_sharing :: bool
  cf_enable_simulcast :: bool
  cf_enable_av1 :: bool
  cf_max_recording_duration :: int
  cf_transcribe_api :: string
  cf_sku_short_name :: string
  cf_enable_dc_signaling :: bool
  cf_enable_transcriptions :: bool
  cf_enable_live_captions :: bool

definition get_config :: "('r, 'pc) calls_env \<Rightarrow> config_response" where
  "get_config env =
     (let effective = load_effective_calls_config env
      in \<lparr>cf_ice_servers_configs =
            map (\<lambda>url. \<lparr>is_urls = [url], is_username = None, is_credential = None, is_credential_type = None\<rparr>)
              (ec_stun_servers effective),
          cf_needs_turn_credentials = ec_turn_server_enabled effective, cf_default_enabled = True,
          cf_allow_enable_calls = True, cf_group_calls_allowed = True, cf_enable_ringing = True,
          cf_host_controls_allowed = True, cf_enable_recordings = False, cf_max_call_participants = 0,
          cf_allow_screen_sharing = True, cf_enable_simulcast = False, cf_enable_av1 = False,
          cf_max_recording_duration = 60, cf_transcribe_api = ''whisper.cpp'', cf_sku_short_name = ''starter'',
          cf_enable_dc_signaling = False, cf_enable_transcriptions = False, cf_enable_live_captions = False\<rparr>)"

definition get_turn_credentials :: "('r, 'pc) calls_env \<Rightarrow> auth_user \<Rightarrow> nat \<Rightarrow> ice_server list api_result" where
  "get_turn_credentials env auth now_secs =
     (let effective = load_effective_calls_config env
      in if \<not> ec_turn_server_enabled effective then Inl (BadRequest ''TURN server is disabled'')
         else
           (let config = \<lparr>ts_enabled = True, ts_url = ec_turn_server_url effective,
                  ts_username = ec_turn_server_username effective, ts_credential = ec_turn_server_credential effective\<rparr>;
                generator = (if ts_username config = [] \<or> ts_credential config = [] then
                    with_rest_api (if ec_turn_static_auth_secret effective \<noteq> [] then ec_turn_static_auth_secret effective
                                   else cx_encryption_key env) (cc_turn_ttl_minutes (cx_config env))
                  else with_static_credentials config);
                credentials = generate_credentials (cx_mac env) now_secs generator (raw env (auth_user_id auth))
            in Inr [\<lparr>is_urls = [ec_turn_server_url effective], is_username = Some (tc_username credentials),
                     is_credential = Some (tc_credential credentials), is_credential_type = Some ''password''\<rparr>]))"

section \<open>Slash commands\<close>

text \<open>The commands only answer; \<^verbatim>\<open>/call leave\<close>, \<^verbatim>\<open>end\<close>, \<^verbatim>\<open>mute\<close> and \<^verbatim>\<open>unmute\<close> do not touch the call.\<close>

record slash_response =
  sl_text :: string
  sl_response_type :: string
  sl_props :: "json option"

definition reply :: "string \<Rightarrow> string \<Rightarrow> slash_response" where
  "reply text response_type = \<lparr>sl_text = text, sl_response_type = response_type, sl_props = None\<rparr>"

definition join_action :: "string \<Rightarrow> json" where
  "join_action channel_id =
     JObject [(''attachments'', JArray [JObject [(''actions'', JArray [JObject
       [(''name'', JString ''Join Call''),
        (''integration'', JObject
          [(''url'', JString (''/api/v4/plugins/com.mattermost.calls/calls/'' @ channel_id @ ''/join'')),
           (''context'', JObject [(''action'', JString ''join'')])])]])]])]"

text \<open>Each line of the help text starts with a bullet, code point 2022 in hexadecimal, which is beyond the
  characters of the model; a star stands for it.\<close>

definition help_line :: "string \<Rightarrow> string" where
  "help_line text = CHR 0x0A # ''* '' @ text"

definition call_help :: string where
  "call_help = ''**Call Commands**'' @ concat (map help_line
     [''`/call start` - Start a new call in this channel'', ''`/call join` - Join the active call'',
      ''`/call leave` - Leave the current call'', ''`/call end` - End the call (owner only)'',
      ''`/call mute` - Mute yourself'', ''`/call unmute` - Unmute yourself'',
      ''`/call help` - Show this help message''])"

definition first_word :: "string \<Rightarrow> string option" where
  "first_word text = (case filter (\<lambda>w. w \<noteq> []) (split_on is_whitespace text) of [] \<Rightarrow> None | w # _ \<Rightarrow> Some w)"

definition handle_call_command ::
  "('r, 'pc) calls_env \<Rightarrow> auth_user \<Rightarrow> string \<Rightarrow> string \<Rightarrow> ('r, 'pc, slash_response) api" where
  "handle_call_command env auth channel_id text =
     (case cx_parse_str env channel_id of
        None \<Rightarrow> hfail (BadRequest ''Invalid channel_id'')
      | Some channel_uuid \<Rightarrow>
          (let sub = (case first_word text of None \<Rightarrow> ''start'' | Some w \<Rightarrow> w);
               permitted = hlift (check_channel_permission env (auth_user_id auth) channel_uuid)
           in if sub = ''start'' then
                hbind permitted (\<lambda>_. hreturn ((reply ''Starting a call... Please wait.'' ''in_channel'')
                  \<lparr>sl_props := Some (join_action (raw env channel_uuid))\<rparr>))
              else if sub = ''join'' then hbind permitted (\<lambda>_. hreturn (reply ''Joining the call...'' ''ephemeral''))
              else if sub = ''leave'' then hreturn (reply ''You have left the call.'' ''ephemeral'')
              else if sub = ''end'' then hreturn (reply ''The call has ended.'' ''in_channel'')
              else if sub = ''mute'' then hreturn (reply ''You are now muted.'' ''ephemeral'')
              else if sub = ''unmute'' then hreturn (reply ''You are now unmuted.'' ''ephemeral'')
              else hreturn (reply call_help ''ephemeral'')))"

end
