(* ===== verification/Calls_Ws.thy ===== *)
theory Calls_Ws
  imports Calls_Controls
begin

text \<open>
  The WebSocket interface of calls, used by the mobile clients: \<^verbatim>\<open>handle_ws_action\<close> and what it
  dispatches to in \<^verbatim>\<open>backend/src/api/v4/calls_plugin/mod.rs\<close>, and the listener for voice events.
  Errors are texts, which \<open>handle_ws_action\<close> sends back to the client.
\<close>

type_synonym ('r, 'pc, 'a) ws = "(string, 'a, ('r, 'pc) calls_app) handler"

section \<open>Events for one user\<close>

definition send_ws_plugin_event :: "uuid \<Rightarrow> string \<Rightarrow> json \<Rightarrow> ('r, 'pc) calls_op" where
  "send_ws_plugin_event user_id event data =
     push_broadcast \<lparr>we_msg_type = ''event'', we_event = event, we_seq = None, we_channel_id = None, we_data = data,
       we_broadcast = Some \<lparr>wb_channel_id = None, wb_team_id = None, wb_user_id = Some user_id,
         wb_exclude_user_id = None\<rparr>\<rparr>"

definition send_ws_plugin_error :: "uuid \<Rightarrow> string \<Rightarrow> string \<Rightarrow> ('r, 'pc) calls_op" where
  "send_ws_plugin_error user_id connection_id message =
     send_ws_plugin_event user_id ''custom_com.mattermost.calls_error''
       (JObject [(''connID'', JString connection_id), (''conn_id'', JString connection_id), (''error'', JString message)])"

definition send_ws_plugin_signal :: "('r, 'pc) calls_env \<Rightarrow> uuid \<Rightarrow> string \<Rightarrow> json \<Rightarrow> ('r, 'pc) calls_op" where
  "send_ws_plugin_signal env user_id connection_id signal =
     send_ws_plugin_event user_id ''custom_com.mattermost.calls_signal''
       (JObject [(''connID'', JString connection_id), (''conn_id'', JString connection_id),
                 (''data'', JString (cx_json_text env signal)), (''signal'', signal)])"

section \<open>Payloads\<close>

definition or_field :: "string \<Rightarrow> json \<Rightarrow> json option \<Rightarrow> json option" where
  "or_field key data v = (case v of Some x \<Rightarrow> Some x | None \<Rightarrow> json_get key data)"

definition parse_join_channel_id :: "('r, 'pc) calls_env \<Rightarrow> json \<Rightarrow> string + uuid" where
  "parse_join_channel_id env data =
     (case Option.bind (or_field ''channelId'' data (or_field ''channel_id'' data (json_get ''channelID'' data))) json_as_str of
        None \<Rightarrow> Inl ''Missing channel ID in join payload''
      | Some text \<Rightarrow>
          (case parse_id env text of None \<Rightarrow> Inl (''Invalid channel ID: '' @ text) | Some u \<Rightarrow> Inr u))"

fun json_as_u64 :: "json \<Rightarrow> nat option" where
  "json_as_u64 (JNumber n) = (if 0 \<le> n \<and> nat n < u64_size then Some (nat n) else None)"
| "json_as_u64 _ = None"

fun byte_items :: "string \<Rightarrow> json list \<Rightarrow> string + 8 word list" where
  "byte_items message [] = Inr []"
| "byte_items message (item # rest) =
     (case json_as_u64 item of
        Some v \<Rightarrow>
          if v < 256 then (case byte_items message rest of Inl e \<Rightarrow> Inl e | Inr bs \<Rightarrow> Inr (of_nat v # bs)) else Inl message
      | None \<Rightarrow> Inl message)"

definition parse_ws_binary_data :: "json \<Rightarrow> string + 8 word list" where
  "parse_ws_binary_data value =
     (case value of
        JArray items \<Rightarrow> byte_items ''binary payload contains non-byte value'' items
      | JObject entries \<Rightarrow>
          if map_of entries ''type'' = Some (JString ''Buffer'') then
            (case map_of entries ''data'' of
               Some (JArray items) \<Rightarrow> byte_items ''buffer payload contains non-byte value'' items
             | _ \<Rightarrow> Inl ''buffer payload missing data array'')
          else Inl ''unsupported binary payload shape''
      | _ \<Rightarrow> Inl ''unsupported binary payload shape'')"

definition sdp_of :: "json \<Rightarrow> string option" where
  "sdp_of parsed = Option.bind (json_get ''sdp'' parsed) json_as_str"

definition parse_ws_sdp_payload :: "('r, 'pc) calls_env \<Rightarrow> json option \<Rightarrow> string + string" where
  "parse_ws_sdp_payload env data =
     (let sdp_in = (\<lambda>text missing. case cx_json_parse env text of
            Inl e \<Rightarrow> Inl e
          | Inr parsed \<Rightarrow> (case sdp_of parsed of None \<Rightarrow> Inl missing | Some sdp \<Rightarrow> Inr sdp))
      in case data of
           None \<Rightarrow> Inl ''missing payload''
         | Some data \<Rightarrow>
             (case json_get ''data'' data of
                None \<Rightarrow> Inl ''missing payload.data''
              | Some data_field \<Rightarrow>
                  (case json_as_str data_field of
                     Some text \<Rightarrow> sdp_in text ''missing sdp''
                   | None \<Rightarrow>
                       (case parse_ws_binary_data data_field of
                          Inl e \<Rightarrow> Inl e
                        | Inr bytes \<Rightarrow>
                            (case Option.bind (cx_utf8 env bytes) (\<lambda>text. case cx_json_parse env text of
                                 Inl _ \<Rightarrow> None | Inr parsed \<Rightarrow> sdp_of parsed) of
                               Some sdp \<Rightarrow> Inr sdp
                             | None \<Rightarrow>
                                 (case cx_inflate env bytes of
                                    Inl e \<Rightarrow> Inl (''zlib decode failed: '' @ e @ ''. Data may not be compressed.'')
                                  | Inr text \<Rightarrow> sdp_in text ''missing sdp in decompressed data''))))))"

definition parse_ws_ice_payload ::
  "('r, 'pc) calls_env \<Rightarrow> json option \<Rightarrow> string + string \<times> string option \<times> nat option" where
  "parse_ws_ice_payload env data =
     (case data of
        None \<Rightarrow> Inl ''missing payload''
      | Some data \<Rightarrow>
          (case Option.bind (json_get ''data'' data) json_as_str of
             None \<Rightarrow> Inl ''missing payload.data''
           | Some text \<Rightarrow>
               (case cx_json_parse env text of
                  Inl e \<Rightarrow> Inl e
                | Inr parsed \<Rightarrow>
                    (let str = (\<lambda>key. Option.bind (json_get key parsed) json_as_str);
                         num = (\<lambda>key. Option.bind (json_get key parsed) json_as_u64)
                     in case str ''candidate'' of
                          None \<Rightarrow> Inl ''missing candidate''
                        | Some candidate \<Rightarrow>
                            Inr (candidate,
                                 case str ''sdpMid'' of Some s \<Rightarrow> Some s | None \<Rightarrow> str ''sdp_mid'',
                                 Option.bind (case num ''sdpMLineIndex'' of Some n \<Rightarrow> Some n | None \<Rightarrow> num ''sdp_mline_index'')
                                   (\<lambda>n. if n < 65536 then Some n else None))))))"

section \<open>Joining\<close>

definition hdrop_receiver :: "uuid \<Rightarrow> nat option \<Rightarrow> ('r, 'pc) calls_op" where
  "hdrop_receiver c rx app =
     (case rx of None \<Rightarrow> app | Some n \<Rightarrow> snd (on_sfu c (\<lambda>s. ((), drop_receiver n s)) app))"

definition hprefix :: "string \<Rightarrow> (string, 'a, 's) handler \<Rightarrow> (string, 'a, 's) handler" where
  "hprefix prefix h s = (case h s of (Inl e, s) \<Rightarrow> (Inl (prefix @ e), s) | (Inr x, s) \<Rightarrow> (Inr x, s))"

text \<open>The receiver of a participant registered here is dropped at once.\<close>

definition ws_enter_sfu :: "('r, 'pc) calls_env \<Rightarrow> uuid \<Rightarrow> uuid \<Rightarrow> uuid \<Rightarrow> ('r, 'pc, unit) ws" where
  "ws_enter_sfu env c user_id session_id =
     hbind (hprefix ''Failed to get or create SFU: '' (create_sfu env c)) (\<lambda>_.
     hbind (hprefix ''Failed to add participant to SFU: '' (ensure_in_sfu env c user_id session_id)) (\<lambda>rx.
     hdo (hdrop_receiver c rx)))"

definition joined_payload :: "('r, 'pc) calls_env \<Rightarrow> uuid \<Rightarrow> uuid \<Rightarrow> json" where
  "joined_payload env user_id session_id =
     JObject [(''user_id'', JString (mm env user_id)), (''session_id'', JString (raw env session_id)),
              (''muted'', JBool True), (''raised_hand'', JNumber 0)]"

definition find_or_create_call ::
  "('r, 'pc) calls_env \<Rightarrow> uuid \<Rightarrow> uuid \<Rightarrow> uuid \<Rightarrow> json \<Rightarrow> ('r, 'pc) calls_app \<Rightarrow>
     (bool \<times> call_state) \<times> ('r, 'pc) calls_app" where
  "find_or_create_call env new_call_id user_id channel_uuid data app =
     (case app_get_call_by_channel env channel_uuid app of
        (Some call, app) \<Rightarrow> ((False, call), app)
      | (None, app) \<Rightarrow>
          (let call = new_call new_call_id channel_uuid user_id (ca_now app)
                 (Option.bind (Option.bind (json_get ''threadID'' data) json_as_str) (\<lambda>t. parse_id env t))
           in ((True, call), on_manager (add_call (cx_env env) call) app)))"

definition replace_session :: "('r, 'pc) calls_env \<Rightarrow> uuid \<Rightarrow> uuid \<Rightarrow> uuid \<Rightarrow> ('r, 'pc) calls_op" where
  "replace_session env c user_id conn_uuid app =
     (let (existing, app) = app_get_participant env c user_id app;
          add = on_manager (add_participant (cx_env env) c (new_participant user_id conn_uuid (ca_now app)))
      in case existing of
           None \<Rightarrow> add app
         | Some p \<Rightarrow> if p_session_id p = conn_uuid then app else add (sfu_forget env c (p_session_id p) app))"

definition announce_created :: "('r, 'pc) calls_env \<Rightarrow> uuid \<Rightarrow> call_state \<Rightarrow> uuid \<Rightarrow> uuid option \<Rightarrow> ('r, 'pc) calls_op" where
  "announce_created env user_id call channel_uuid thread app =
     (let app = schedule_unanswered_call_timeout (call_id call) app;
          app = broadcast_call_event env ''custom_com.mattermost.calls_call_start'' channel_uuid
            (JObject [(''id'', JString (mm env (call_id call))), (''channelID'', JString (mm env channel_uuid)),
              (''start_at'', JNumber (started_at call)), (''owner_id'', JString (mm env (owner_id call))),
              (''host_id'', JString (mm env (owner_id call))),
              (''thread_id'', case thread of None \<Rightarrow> JNull | Some t \<Rightarrow> JString (mm env t)),
              (''call_id'', JString (mm env (call_id call))), (''channel_id'', JString (mm env channel_uuid))]) None app
      in broadcast_ringing_event env channel_uuid (call_id call) user_id (Some user_id) app)"

definition handle_ws_join_call ::
  "('r, 'pc) calls_env \<Rightarrow> uuid \<Rightarrow> uuid \<Rightarrow> string \<Rightarrow> json option \<Rightarrow> ('r, 'pc, unit) ws" where
  "handle_ws_join_call env new_call_id user_id connection_id data =
     (case data of
        None \<Rightarrow> hfail ''Missing join payload''
      | Some data \<Rightarrow>
          hbind (hlift (resolve_ws_session_uuid env connection_id (Some data))) (\<lambda>conn_uuid.
          hbind (hlift (parse_join_channel_id env data)) (\<lambda>channel_uuid.
          hbind (hlift (case check_channel_permission env user_id channel_uuid of
            Inl e \<Rightarrow> Inl (app_error_message e) | Inr u \<Rightarrow> Inr u)) (\<lambda>_.
          hbind (hguard (channel_calls_enabled channel_uuid) ''Calls are disabled in this channel'') (\<lambda>_.
          hbind (hask (find_or_create_call env new_call_id user_id channel_uuid data)) (\<lambda>(created_call, call).
          hbind (hdo (replace_session env (call_id call) user_id conn_uuid)) (\<lambda>_.
          hbind (ws_enter_sfu env (call_id call) user_id conn_uuid) (\<lambda>_.
          hbind (hask (ensure_call_thread_id env call)) (\<lambda>thread.
          hbind (hdo (if created_call then announce_created env user_id call channel_uuid thread else (\<lambda>app. app))) (\<lambda>_.
          hbind (hdo (broadcast_call_event env ''custom_com.mattermost.calls_user_joined'' channel_uuid
            (joined_payload env user_id conn_uuid) None)) (\<lambda>_.
          hbind (hdo (broadcast_call_state_event env channel_uuid None)) (\<lambda>_.
          hdo (send_ws_plugin_event user_id ''custom_com.mattermost.calls_join''
            (JObject [(''connID'', JString connection_id), (''conn_id'', JString connection_id),
              (''channelID'', JString (mm env channel_uuid)), (''channel_id'', JString (mm env channel_uuid)),
              (''channel_id_raw'', JString (raw env channel_uuid)), (''callID'', JString (mm env (call_id call))),
              (''call_id'', JString (mm env (call_id call))), (''call_id_raw'', JString (raw env (call_id call))),
              (''sessionID'', JString (raw env conn_uuid)), (''session_id'', JString (raw env conn_uuid))]))))))))))))))"

section \<open>During a call\<close>

definition resolve_ws ::
  "('r, 'pc) calls_env \<Rightarrow> uuid \<Rightarrow> string \<Rightarrow> json option \<Rightarrow> ('r, 'pc, call_state \<times> uuid) ws" where
  "resolve_ws env user_id connection_id data =
     hbind (hlift (resolve_ws_session_uuid env connection_id data)) (\<lambda>requested_session_id.
     resolve_call_for_ws_connection env user_id requested_session_id)"

definition handle_ws_sdp ::
  "('r, 'pc) calls_env \<Rightarrow> (string \<Rightarrow> string option) \<Rightarrow> uuid \<Rightarrow> string \<Rightarrow> json option \<Rightarrow> ('r, 'pc, unit) ws" where
  "handle_ws_sdp env parse_offer user_id connection_id data =
     hbind (hlift (resolve_ws_session_uuid env connection_id data)) (\<lambda>requested_session_id.
     hbind (hprefix ''Invalid SDP payload: '' (hlift (parse_ws_sdp_payload env data))) (\<lambda>sdp.
     hbind (resolve_call_for_ws_connection env user_id requested_session_id) (\<lambda>(call, session_id).
     hbind (ws_enter_sfu env (call_id call) user_id session_id) (\<lambda>_.
     hbind (hlift (case parse_offer sdp of Some e \<Rightarrow> Inl (''Invalid offer SDP: '' @ e) | None \<Rightarrow> Inr ())) (\<lambda>_.
     hbind (hprefix ''Failed to handle offer: '' (offer_in_sfu env (call_id call) session_id sdp)) (\<lambda>answer.
     hdo (send_ws_plugin_signal env user_id connection_id
       (JObject [(''type'', JString ''answer''), (''sdp'', JString answer)]))))))))"

definition handle_ws_ice ::
  "('r, 'pc) calls_env \<Rightarrow> uuid \<Rightarrow> string \<Rightarrow> json option \<Rightarrow> ('r, 'pc, unit) ws" where
  "handle_ws_ice env user_id connection_id data =
     hbind (hlift (resolve_ws_session_uuid env connection_id data)) (\<lambda>requested_session_id.
     hbind (hprefix ''Invalid ICE payload: '' (hlift (parse_ws_ice_payload env data))) (\<lambda>(candidate, sdp_mid, sdp_mline_index).
     hbind (resolve_call_for_ws_connection env user_id requested_session_id) (\<lambda>(call, session_id).
     hbind (ws_enter_sfu env (call_id call) user_id session_id) (\<lambda>_.
     hprefix ''Failed to handle ICE candidate: ''
       (\<lambda>app. case on_sfu (call_id call) (sfu_handle_ice_candidate (cx_sfu env) session_id candidate sdp_mid sdp_mline_index) app of
          (Some None, app) \<Rightarrow> (Inr (), app) | (Some (Some e), app) \<Rightarrow> (Inl e, app) | (None, app) \<Rightarrow> (Inl [], app))))))"

definition recover_participant :: "('r, 'pc) calls_env \<Rightarrow> uuid \<Rightarrow> call_state \<Rightarrow> uuid \<Rightarrow> ('r, 'pc) calls_op" where
  "recover_participant env user_id call session_id app =
     (let (present, app) = app_get_participant env (call_id call) user_id app
      in if present \<noteq> None then app
         else
           (let app = on_manager (add_participant (cx_env env) (call_id call)
                  (new_participant user_id session_id (ca_now app))) app
            in broadcast_call_event env ''custom_com.mattermost.calls_user_joined'' (call_channel_id call)
                 (joined_payload env user_id session_id) None app))"

definition handle_ws_mute ::
  "('r, 'pc) calls_env \<Rightarrow> uuid \<Rightarrow> string \<Rightarrow> json option \<Rightarrow> bool \<Rightarrow> ('r, 'pc, unit) ws" where
  "handle_ws_mute env user_id connection_id data muted =
     hbind (resolve_ws env user_id connection_id data) (\<lambda>(call, session_id).
     hbind (hdo (recover_participant env user_id call session_id)) (\<lambda>_.
     hbind (hdo (on_manager (set_muted (cx_env env) (call_id call) user_id muted))) (\<lambda>_.
     hdo (broadcast_call_event env (if muted then ''custom_com.mattermost.calls_user_muted''
         else ''custom_com.mattermost.calls_user_unmuted'') (call_channel_id call)
       (JObject [(''user_id'', JString (mm env user_id)), (''session_id'', JString (raw env session_id)),
                 (''muted'', JBool muted)]) None))))"

definition handle_ws_raise_hand :: "('r, 'pc) calls_env \<Rightarrow> uuid \<Rightarrow> string \<Rightarrow> bool \<Rightarrow> ('r, 'pc, unit) ws" where
  "handle_ws_raise_hand env user_id connection_id raised =
     hbind (resolve_ws env user_id connection_id None) (\<lambda>(call, session_id).
     hbind (hdo (on_manager (set_hand_raised (cx_env env) (call_id call) user_id raised))) (\<lambda>_.
     hdo (\<lambda>app. broadcast_call_event env (if raised then ''custom_com.mattermost.calls_user_raise_hand''
         else ''custom_com.mattermost.calls_user_unraise_hand'') (call_channel_id call)
       (JObject [(''user_id'', JString (mm env user_id)), (''session_id'', JString (raw env session_id)),
                 (''raised_hand'', JNumber (if raised then ca_now app else 0))]) None app)))"

definition reaction_emoji :: "('r, 'pc) calls_env \<Rightarrow> json \<Rightarrow> json" where
  "reaction_emoji env data =
     (case Option.bind (Option.bind (json_get ''data'' data) json_as_str)
         (\<lambda>text. case cx_json_parse env text of Inl _ \<Rightarrow> None | Inr v \<Rightarrow> Some v) of
        Some v \<Rightarrow> v
      | None \<Rightarrow> (case json_get ''data'' data of Some v \<Rightarrow> v | None \<Rightarrow> JObject []))"

definition reaction_text :: "json \<Rightarrow> string" where
  "reaction_text emoji =
     (case Option.bind (json_get ''literal'' emoji) json_as_str of
        Some s \<Rightarrow> s
      | None \<Rightarrow> (case Option.bind (json_get ''name'' emoji) json_as_str of
                    Some name \<Rightarrow> '':'' @ name @ '':'' | None \<Rightarrow> []))"

definition handle_ws_reaction ::
  "('r, 'pc) calls_env \<Rightarrow> uuid \<Rightarrow> string \<Rightarrow> json option \<Rightarrow> ('r, 'pc, unit) ws" where
  "handle_ws_reaction env user_id connection_id data =
     hbind (resolve_ws env user_id connection_id data) (\<lambda>(call, session_id).
     case data of
       None \<Rightarrow> hfail ''Missing reaction payload''
     | Some data \<Rightarrow>
         (let emoji = reaction_emoji env data in
          hdo (\<lambda>app. broadcast_call_event env ''custom_com.mattermost.calls_user_reacted'' (call_channel_id call)
            (JObject [(''user_id'', JString (mm env user_id)), (''session_id'', JString (raw env session_id)),
              (''reaction'', JString (reaction_text emoji)), (''timestamp'', JNumber (ca_now app)),
              (''emoji'', emoji)]) None app)))"

section \<open>Dispatch\<close>

definition ws_dispatch ::
  "('r, 'pc) calls_env \<Rightarrow> (string \<Rightarrow> string option) \<Rightarrow> uuid \<Rightarrow> uuid \<Rightarrow> string \<Rightarrow> string \<Rightarrow> json option \<Rightarrow> ('r, 'pc, unit) ws" where
  "ws_dispatch env parse_offer new_call_id user_id connection_id call_action data =
     (if call_action = ''join'' \<or> call_action = ''reconnect'' then handle_ws_join_call env new_call_id user_id connection_id data
      else if call_action = ''leave'' then handle_ws_leave_call env user_id connection_id
      else if call_action = ''sdp'' then handle_ws_sdp env parse_offer user_id connection_id data
      else if call_action = ''ice'' then handle_ws_ice env user_id connection_id data
      else if call_action = ''mute'' then handle_ws_mute env user_id connection_id data True
      else if call_action = ''unmute'' then handle_ws_mute env user_id connection_id data False
      else if call_action = ''raise_hand'' then handle_ws_raise_hand env user_id connection_id True
      else if call_action = ''unraise_hand'' then handle_ws_raise_hand env user_id connection_id False
      else if call_action = ''react'' then handle_ws_reaction env user_id connection_id data
      else hreturn ())"

definition handle_ws_action ::
  "('r, 'pc) calls_env \<Rightarrow> (string \<Rightarrow> string option) \<Rightarrow> uuid \<Rightarrow> uuid \<Rightarrow> string \<Rightarrow> string \<Rightarrow> json option \<Rightarrow>
     ('r, 'pc) calls_app \<Rightarrow> bool \<times> ('r, 'pc) calls_app" where
  "handle_ws_action env parse_offer new_call_id user_id connection_id action_name data app =
     (case strip_prefix ''custom_com.mattermost.calls_'' action_name of
        None \<Rightarrow> (False, app)
      | Some call_action \<Rightarrow>
          (case ws_dispatch env parse_offer new_call_id user_id connection_id call_action data app of
             (Inr _, app) \<Rightarrow> (True, app)
           | (Inl err, app) \<Rightarrow> (True, send_ws_plugin_error user_id connection_id err app)))"

section \<open>Voice events\<close>

definition voice_event_step :: "('r, 'pc) calls_env \<Rightarrow> voice_event \<Rightarrow> ('r, 'pc) calls_op" where
  "voice_event_step env event app =
     (let (name, c, session_id) = (case event of
            VoiceOn c sid \<Rightarrow> (''custom_com.mattermost.calls_user_voice_on'', c, sid)
          | VoiceOff c sid \<Rightarrow> (''custom_com.mattermost.calls_user_voice_off'', c, sid))
      in case app_get_call env c app of
           (None, app) \<Rightarrow> app
         | (Some call, app) \<Rightarrow>
             broadcast_call_event env name (call_channel_id call)
               (JObject [(''session_id'', JString (raw env session_id))]) None app)"

definition start_voice_event_listener :: "('r, 'pc) calls_env \<Rightarrow> voice_event list \<Rightarrow> ('r, 'pc) calls_op" where
  "start_voice_event_listener env events app = fold (voice_event_step env) events app"

end
