(* ===== verification/Calls_Safety.thy ===== *)
theory Calls_Safety
  imports Calls_Ws
begin

text \<open>
  What the calls plugin guarantees as a whole: the requests of both interfaces, the timers and the
  callbacks of the media plane as steps of one machine, its invariant, and what the host's requests
  and a request to start a call do. The manager works in memory (no Redis), as \<open>calls_inv\<close> says.
\<close>

section \<open>Handlers that keep an invariant\<close>

lemma hoare_wrap [keeping]:
  "hoare I h I \<Longrightarrow> hoare I (or_internal m h) I" "hoare I g I \<Longrightarrow> hoare I (hprefix m g) I"
  by (auto simp: hoare_def or_internal_def hprefix_def split: prod.splits sum.splits)

section \<open>The invariant of the plugin\<close>

text \<open>The calls are well formed, and so is the forwarding unit of every call.\<close>

definition app_wf :: "('r, 'pc) calls_app \<Rightarrow> bool" where
  "app_wf app \<longleftrightarrow> calls_inv (ca_manager app) \<and> (\<forall>c s. hm_get (sm_sfus (ca_sfu app)) c = Some s \<longrightarrow> sfu_wf s)"

lemma app_wf_cong:
  "ca_manager app' = ca_manager app \<Longrightarrow> ca_sfu app' = ca_sfu app \<Longrightarrow> app_wf app' = app_wf app"
  by (simp add: app_wf_def)

lemma app_wf_calls: "app_wf app \<Longrightarrow> calls_inv (ca_manager app)"
  by (simp add: app_wf_def)

lemma keeps_event [keeping]:
  "keeps app_wf (broadcast_call_event env n ch d ex)" "keeps app_wf (push_broadcast e)"
  "keeps app_wf (broadcast_host_changed_event env ch h)"
  "keeps app_wf (schedule_empty_call_timeout c)" "keeps app_wf (schedule_unanswered_call_timeout c)"
  "keeps app_wf (spawn_signaling_forwarder c ch u sid rx)" "keeps app_wf (mark_ended env ch t)"
  by (simp_all add: keeps_def app_wf_def schedule_empty_call_timeout_def schedule_unanswered_call_timeout_def
      spawn_signaling_forwarder_def)

lemma keeps_event_app [keeping]:
  "keeps app_wf (\<lambda>app. broadcast_call_event env n ch (d app) ex app)"
  by (simp add: keeps_def app_wf_def)

lemma keeps_ringing [keeping]: "keeps app_wf (broadcast_ringing_event env ch c u ex)"
  by (simp add: keeps_def app_wf_def broadcast_ringing_event_def Let_def case_prod_unfold)

lemma keeps_signal [keeping]: "keeps app_wf (send_signaling_event env ch u sid sig)"
  by (simp add: keeps_def app_wf_def send_signaling_event_def Let_def)

text \<open>Changes of calls.\<close>

lemma keeps_manager: "(\<And>m. calls_inv m \<Longrightarrow> calls_inv (f m)) \<Longrightarrow> keeps app_wf (on_manager f)"
  by (simp add: keeps_def app_wf_def on_manager_def)

lemmas mutators = add_participant_def remove_participant_def set_muted_def set_screen_sharing_def
  set_screen_sharer_def set_hand_raised_def set_host_def set_thread_id_def dismiss_user_notification_def

lemma mutators_keep [keeping]:
  "keeps app_wf (on_manager (add_participant e c p))" "keeps app_wf (on_manager (remove_participant e c u))"
  "keeps app_wf (on_manager (set_muted e c u b))" "keeps app_wf (on_manager (set_screen_sharing e c u b))"
  "keeps app_wf (on_manager (set_screen_sharer e c w))" "keeps app_wf (on_manager (set_hand_raised e c u b))"
  "keeps app_wf (on_manager (set_host e c u))" "keeps app_wf (on_manager (set_thread_id e c w))"
  "keeps app_wf (on_manager (dismiss_user_notification e c u))"
  using calls_inv_mutate [where mu = "Join p"] calls_inv_mutate [where mu = "Leave u"]
    calls_inv_mutate [where mu = "Muted u b"] calls_inv_mutate [where mu = "ScreenSharing u b"]
    calls_inv_mutate [where mu = "ScreenSharer w"] calls_inv_mutate [where mu = "HandRaised u b"]
    calls_inv_mutate [where mu = "Host u"] calls_inv_mutate [where mu = "Thread w"]
    calls_inv_mutate [where mu = "Dismiss u"]
  by (auto intro!: keeps_manager simp: mutators)

lemma keeps_set_host [keeping]: "keeps app_wf (app_set_host env c u)"
  unfolding app_set_host_def by (intro keeping)

lemma keeps_remove_call [keeping]: "keeps app_wf (on_manager (remove_call e c))"
  by (intro keeps_manager) (simp add: remove_call_gone)

text \<open>Reads leave an in-memory manager as it is.\<close>

lemma get_all_calls_local: "calls_inv m \<Longrightarrow> get_all_calls e m = (hm_values (cm_calls m), m)"
  by (simp add: get_all_calls_def calls_inv_conn)

lemma get_participant_local:
  "calls_inv m \<Longrightarrow> get_participant e c u m =
     (Option.bind (hm_get (cm_calls m) c) (\<lambda>call. hm_get (participants call) u), m)"
  by (simp add: get_participant_def get_call_local calls_inv_conn)

lemma app_get_participant_local:
  "calls_inv (ca_manager app) \<Longrightarrow> app_get_participant env c u app =
     (Option.bind (hm_get (cm_calls (ca_manager app)) c) (\<lambda>call. hm_get (participants call) u), app)"
  by (simp add: app_get_participant_def get_participant_local)

lemma find_call_local:
  "calls_inv (ca_manager app) \<Longrightarrow> find_call env ch app =
     (case Option.bind (hm_get (cm_channel_index (ca_manager app)) ch) (hm_get (cm_calls (ca_manager app))) of
        Some call \<Rightarrow> Some call | None \<Rightarrow> hm_get (cm_calls (ca_manager app)) ch, app)"
  by (simp add: find_call_def app_get_call_by_channel_local app_get_call_local split: option.splits)

lemma keeps_reads [keeping]:
  "keeps app_wf (\<lambda>app. snd (app_get_call env c app))" "keeps app_wf (\<lambda>app. snd (app_get_call_by_channel env ch app))"
  "keeps app_wf (\<lambda>app. snd (app_get_participant env c u app))" "keeps app_wf (\<lambda>app. snd (find_call env ch app))"
  "keeps app_wf (\<lambda>app. snd (g app, app))"
  by (simp_all add: keeps_def app_wf_calls app_get_call_local app_get_call_by_channel_local
      app_get_participant_local find_call_local)

text \<open>Forwarding units.\<close>

lemma on_sfu_wf:
  assumes "\<And>s. sfu_wf s \<Longrightarrow> sfu_wf (snd (f s))" "app_wf app"
  shows "app_wf (snd (on_sfu c f app))"
proof (cases "get_sfu c (ca_sfu app)")
  case (Some s)
  then have "sfu_wf (snd (f s))" using assms by (simp add: app_wf_def get_sfu_def)
  with Some assms(2) show ?thesis by (auto simp: app_wf_def on_sfu_def case_prod_unfold Let_def split: if_splits)
qed (simp add: on_sfu_def assms(2))

lemma keeps_on_sfu: "(\<And>s. sfu_wf s \<Longrightarrow> sfu_wf (snd (f s))) \<Longrightarrow> keeps app_wf (\<lambda>app. snd (on_sfu c f app))"
  by (auto intro: keepsI on_sfu_wf)

lemma on_sfu_handler:
  "on_sfu c f app = (x, app') \<Longrightarrow> app_wf app \<Longrightarrow> (\<And>s. sfu_wf s \<Longrightarrow> sfu_wf (snd (f s))) \<Longrightarrow> app_wf app'"
  using on_sfu_wf [of f app c] by auto

lemma keeps_sfu [keeping]:
  "keeps app_wf (sfu_forget env c sid)"
  "keeps app_wf (\<lambda>app. snd (on_sfu c (\<lambda>s. ((), sfu_set_screen_sharing sid b s)) app))"
  "keeps app_wf (\<lambda>app. snd (on_sfu c (\<lambda>s. ((), drop_receiver n s)) app))"
  unfolding sfu_forget_def by (intro keeps_on_sfu; simp add: preserves)+

lemma sfu_new_wf: "sfu_new env c config mux = Inr s \<Longrightarrow> sfu_wf s"
  using sfu.init_safe [of env s] unfolding sfu_init_def by blast

lemma hoare_create_sfu [keeping]: "hoare app_wf (create_sfu env c) app_wf"
  by (rule hoareI)
     (auto simp: create_sfu_def get_or_create_sfu_def get_or_create_shared_udp_mux_def app_wf_def
        dest: sfu_new_wf split: option.splits sum.splits if_splits prod.splits)

lemma hoare_enter_sfu [keeping]: "hoare app_wf (enter_sfu env c u sid) app_wf"
  by (rule hoareI) (auto simp: enter_sfu_def preserves dest: on_sfu_handler split: prod.splits option.splits)

lemma hoare_ensure_in_sfu [keeping]:
  fixes env :: "('r, 'pc) calls_env"
  shows "hoare app_wf (ensure_in_sfu env c u sid) app_wf"
proof (rule hoareI)
  fix app :: "('r, 'pc) calls_app" assume wf: "app_wf app"
  then have "app_wf (snd (enter_sfu env c u sid app))" by (rule hoareD [OF hoare_enter_sfu])
  with wf show "app_wf (snd (ensure_in_sfu env c u sid app))"
    by (auto simp: ensure_in_sfu_def split: prod.splits option.splits sum.splits)
qed

lemma hoare_offer_in_sfu [keeping]: "hoare app_wf (offer_in_sfu env c sid sdp) app_wf"
  by (rule hoareI) (auto simp: offer_in_sfu_def preserves dest: on_sfu_handler split: prod.splits option.splits)

text \<open>Operations the handlers share.\<close>

lemma keeps_comp: "keeps I f \<Longrightarrow> keeps I g \<Longrightarrow> keeps I (\<lambda>s. g (f s))"
  by (simp add: keeps_def)

lemma create_thread_post_wf: "app_wf app \<Longrightarrow> app_wf (snd (create_call_thread_post env c ch u t app))"
  by (auto simp: create_call_thread_post_def Let_def app_wf_def split: sum.splits prod.splits)

lemma keeps_ensure_thread [keeping]:
  fixes env :: "('r, 'pc) calls_env"
  shows "keeps app_wf (\<lambda>app. snd (ensure_call_thread_id env call app))"
proof (rule keepsI)
  fix app :: "('r, 'pc) calls_app" assume "app_wf app"
  then have "app_wf (snd (create_call_thread_post env (call_id call) (call_channel_id call) (owner_id call) (started_at call) app))"
    by (rule create_thread_post_wf)
  then show "app_wf (snd (ensure_call_thread_id env call app))"
    using \<open>app_wf app\<close> keepsD [OF mutators_keep(8)]
    by (auto simp: ensure_call_thread_id_def split: option.splits prod.splits sum.splits)
qed

lemma hoare_build_response [keeping]:
  fixes env :: "('r, 'pc) calls_env"
  shows "hoare app_wf (build_call_state_response env call s ch) app_wf"
proof (rule hoareI)
  fix app :: "('r, 'pc) calls_app" assume "app_wf app"
  then have wf: "app_wf (snd (ensure_call_thread_id env call app))" by (rule keepsD [OF keeps_ensure_thread])
  then show "app_wf (snd (build_call_state_response env call s ch app))"
    by (simp add: build_call_state_response_def Let_def case_prod_unfold get_participants_local app_wf_calls)
qed

lemma keeps_call_state_event [keeping]:
  fixes env :: "('r, 'pc) calls_env"
  shows "keeps app_wf (broadcast_call_state_event env ch ex)"
proof (rule keepsI)
  fix app :: "('r, 'pc) calls_app" assume wf: "app_wf app"
  show "app_wf (broadcast_call_state_event env ch ex app)"
  proof (cases "fst (app_get_call_by_channel env ch app)")
    case None
    with wf show ?thesis by (simp add: broadcast_call_state_event_def app_get_call_by_channel_local app_wf_calls)
  next
    case (Some call)
    obtain r app1 where b: "build_call_state_response env call (mm env ch) ch app = (r, app1)" by fastforce
    then have "app_wf app1" using hoareD [OF hoare_build_response wf, of env call "mm env ch" ch] by simp
    with b Some wf show ?thesis
      by (simp add: broadcast_call_state_event_def app_get_call_by_channel_local app_wf_calls keepsD [OF keeps_event(1)]
          split: sum.splits option.splits)
  qed
qed

lemma keeps_host_change [keeping]:
  "keeps app_wf (\<lambda>app. broadcast_host_changed_event env ch h (app_set_host env c h app))"
  by (rule keeps_comp [OF keeps_set_host keeps_event(3)])

lemma keeps_normalize [keeping]:
  fixes env :: "('r, 'pc) calls_env"
  shows "keeps app_wf (\<lambda>app. snd (normalize_call_host_if_stale env call app))"
proof (rule keepsI)
  fix app :: "('r, 'pc) calls_app" assume wf: "app_wf app"
  have "app_wf (broadcast_call_state_event env (call_channel_id call) None
      (broadcast_host_changed_event env (call_channel_id call) h (app_set_host env (call_id call) h app)))" for h
    by (rule keepsD [OF keeps_call_state_event keepsD [OF keeps_host_change wf]])
  then show "app_wf (snd (normalize_call_host_if_stale env call app))"
    using wf by (simp add: normalize_call_host_if_stale_def Let_def app_get_call_local app_wf_calls split: option.splits)
qed

lemma keeps_reconcile: "app_wf app \<Longrightarrow> app_wf (snd (reconcile_after_participant_left env c ch u app))"
proof -
  assume wf: "app_wf app"
  have h: "app_wf (broadcast_host_changed_event env ch h (app_set_host env c' h app))" for h c'
    by (rule keepsD [OF keeps_host_change wf])
  note st = keepsD [OF keeps_call_state_event]
  show ?thesis
    unfolding reconcile_after_participant_left_def app_get_call_local [OF app_wf_calls [OF wf]]
    using wf st [OF wf] st [OF h] app_get_call_local [OF app_wf_calls [OF h]]
    by (auto simp: Let_def split: option.splits)
qed

lemma keeps_departure [keeping]:
  fixes env :: "('r, 'pc) calls_env"
  shows "keeps app_wf (after_departure env c ch u)"
proof (rule keepsI)
  fix app :: "('r, 'pc) calls_app" assume "app_wf app"
  then have "app_wf (snd (reconcile_after_participant_left env c ch u app))" by (rule keeps_reconcile)
  then show "app_wf (after_departure env c ch u app)"
    by (auto simp: after_departure_def case_prod_unfold Let_def intro: keepsD [OF keeps_event(4)])
qed

lemma keeps_ws_depart [keeping]: "keeps app_wf (ws_depart env u call sid)"
proof -
  have "ws_depart env u call sid = (\<lambda>app. after_departure env (call_id call) (call_channel_id call) u
      (broadcast_call_event env ''custom_com.mattermost.calls_user_left'' (call_channel_id call)
        (JObject [(''user_id'', JString (mm env u)), (''session_id'', JString (raw env sid))]) None
        (sfu_forget env (call_id call) sid (on_manager (remove_participant (cx_env env) (call_id call) u) app))))"
    by (rule ext) (simp add: ws_depart_def after_departure_def Let_def)
  then show ?thesis
    by (simp only:) (rule keeps_comp [OF keeps_comp [OF keeps_comp [OF mutators_keep(2) keeps_sfu(1)] keeps_event(1)] keeps_departure])
qed

lemma keeps_end_call [keeping]:
  fixes env :: "('r, 'pc) calls_env"
  shows "keeps app_wf (end_call env c ch)"
proof (rule keepsI)
  fix app :: "('r, 'pc) calls_app" assume wf: "app_wf app"
  then show "app_wf (end_call env c ch app)"
    using end_call_local [OF app_wf_calls [OF wf], of env c ch] remove_call_gone [OF app_wf_calls [OF wf], of "cx_env env" c]
    by (simp add: app_wf_def remove_sfu_def)
qed

lemma keeps_end_if_alone [keeping]: "keeps app_wf (end_if_alone env c)"
  by (rule keepsI) (auto simp: end_if_alone_def app_get_call_local app_wf_calls intro: keepsD [OF keeps_end_call] split: option.splits)

section \<open>Every request keeps the invariant\<close>

lemmas handler_defs = active_call_def participant_of_def managed_call_def own_participant_def host_target_def
  Let_def

lemma hoare_managed [keeping]: "hoare app_wf (managed_call env auth ch msg) app_wf"
  unfolding handler_defs by (intro keeping)

lemma hoare_own [keeping]: "hoare app_wf (own_participant env auth cid) app_wf"
  unfolding handler_defs by (intro keeping)

lemma hoare_target [keeping]: "hoare app_wf (host_target env auth cid sid msg) app_wf"
  unfolding host_target_def by (intro keeping)

lemma hoare_join [keeping]: "hoare app_wf (join_call env sid auth cid) app_wf"
  unfolding join_call_def Let_def by (intro keeping)

lemma hoare_leave [keeping]: "hoare app_wf (leave_call env auth cid) app_wf"
  unfolding leave_call_def Let_def by (intro keeping)

lemma hoare_end [keeping]: "hoare app_wf (end_call_endpoint env auth cid) app_wf"
  unfolding end_call_endpoint_def Let_def by (intro keeping)

lemma hoare_recording [keeping]: "hoare app_wf (recording_unsupported env auth cid) app_wf"
  unfolding recording_unsupported_def by (intro keeping)

lemma hoare_reaction [keeping]: "hoare app_wf (send_reaction env auth cid emoji) app_wf"
  unfolding send_reaction_def by (intro keeping)

lemma keeps_share_event [keeping]: "keeps app_wf (broadcast_screen_share_event env ch u sid b)"
  by (rule keepsI) (simp add: broadcast_screen_share_event_def Let_def case_prod_unfold app_get_call_by_channel_local
      app_wf_calls app_wf_def)

lemma keeps_hand_event [keeping]: "keeps app_wf (broadcast_raise_hand_event env ch u sid b)"
  by (rule keepsI) (simp add: broadcast_raise_hand_event_def Let_def app_wf_def)

lemma hoare_own_controls [keeping]:
  "hoare app_wf (toggle_screen_share env auth cid) app_wf" "hoare app_wf (set_own_mute b env auth cid) app_wf"
  "hoare app_wf (set_own_hand b env auth cid) app_wf"
  unfolding toggle_screen_share_def set_own_mute_def set_own_hand_def Let_def by (intro keeping)+

lemma keeps_mute_events [keeping]: "keeps app_wf (host_mute_events env cid ch u sid)"
  by (rule keepsI) (simp add: host_mute_events_def Let_def app_wf_def)

lemma keeps_mute_one [keeping]: "keeps app_wf (mute_one env u cid ch c p)"
proof -
  have "keeps app_wf (\<lambda>app. host_mute_events env cid ch (p_user_id p) (raw env (p_session_id p))
      (on_manager (set_muted (cx_env env) c (p_user_id p) True) app))"
    by (rule keeps_comp [OF mutators_keep(3) keeps_mute_events])
  then show ?thesis by (auto simp: keeps_def mute_one_def)
qed

lemma hoare_host_controls [keeping]:
  "hoare app_wf (host_screen_off env auth cid sid) app_wf" "hoare app_wf (host_mute env auth cid sid) app_wf"
  "hoare app_wf (host_mute_others env auth cid) app_wf" "hoare app_wf (host_remove_user env auth cid sid) app_wf"
  "hoare app_wf (host_lower_hand env auth cid sid) app_wf" "hoare app_wf (host_make_moderator env auth cid h) app_wf"
  unfolding host_screen_off_def host_mute_def host_mute_others_def host_remove_user_def host_lower_hand_def
    host_make_moderator_def Let_def by (intro keeping)+

lemma hoare_ring [keeping]: "hoare app_wf (ring_users env auth cid) app_wf"
  unfolding ring_users_def active_call_def Let_def by (intro keeping)

lemma hoare_dismiss [keeping]: "hoare app_wf (dismiss_notification env auth cid) app_wf"
  unfolding dismiss_notification_def Let_def by (intro keeping)

lemma hoare_channel_info [keeping]: "hoare app_wf (build_call_channel_info env ch b call) app_wf"
  unfolding build_call_channel_info_def Let_def by (intro keeping)

lemma hoare_channel_infos [keeping]: "hoare app_wf (build_channel_infos env u chs) app_wf"
proof (induction chs)
  case (Cons x rest)
  show ?case
  proof (cases x)
    case (Pair ch call)
    show ?thesis unfolding Pair build_channel_infos.simps by (intro keeping Cons.IH)
  qed
qed (simp add: keeping)

lemma hoare_queries [keeping]:
  "hoare app_wf (get_channels env auth) app_wf" "hoare app_wf (get_channel_state_mobile env auth cid) app_wf"
  "hoare app_wf (get_call_state env auth cid) app_wf"
proof -
  have "keeps app_wf (\<lambda>app. snd (let (calls, m) = get_all_calls (cx_env env) (ca_manager app)
      in ((calls, ca_enabled app), app\<lparr>ca_manager := m\<rparr>)))"
    by (rule keepsI) (simp add: get_all_calls_local app_wf_calls)
  then show "hoare app_wf (get_channels env auth) app_wf"
    unfolding get_channels_def Let_def by (intro keeping)
  show "hoare app_wf (get_channel_state_mobile env auth cid) app_wf"
    unfolding get_channel_state_mobile_def by (intro keeping)
  have reply: "hoare app_wf (case found of None \<Rightarrow> hreturn SilentNotFound
      | Some call \<Rightarrow> hbind (build_call_state_response env call cid ch) (\<lambda>response. hreturn (CallStateReply response))) app_wf"
    for found ch by (intro keeping)
  show "hoare app_wf (get_call_state env auth cid) app_wf"
    unfolding get_call_state_def Let_def by (intro keeping reply)
qed

lemma hoare_set_enabled [keeping]: "hoare app_wf (set_channel_calls_enabled env auth cid b) app_wf"
proof -
  have "keeps app_wf (\<lambda>app. app\<lparr>ca_enabled := hm_insert ch b (ca_enabled app)\<rparr>)" for ch
    by (simp add: keeps_def app_wf_def)
  then show ?thesis unfolding set_channel_calls_enabled_def by (intro keeping)
qed

lemma hoare_sfu_call [keeping]:
  fixes f :: "'pc sfu \<Rightarrow> (string + 'a) \<times> 'pc sfu" and g :: "'pc sfu \<Rightarrow> string option \<times> 'pc sfu"
  shows "(\<And>s. sfu_wf s \<Longrightarrow> sfu_wf (snd (f s))) \<Longrightarrow>
    hoare app_wf (\<lambda>app. case on_sfu c f app of (Some r, app) \<Rightarrow> (r, app) | (None, app) \<Rightarrow> (Inl [], app)) app_wf"
  "(\<And>s. sfu_wf s \<Longrightarrow> sfu_wf (snd (g s))) \<Longrightarrow>
    hoare app_wf (\<lambda>app. case on_sfu c g app of (Some None, app) \<Rightarrow> (Inr (), app) | (Some (Some e), app) \<Rightarrow> (Inl e, app)
      | (None, app) \<Rightarrow> (Inl [], app)) app_wf"
  by (rule hoareI; auto dest: on_sfu_handler split: prod.splits option.splits)+

lemma keeps_new_receiver [keeping]:
  "keeps app_wf (\<lambda>app. snd (case on_sfu c (get_signaling_receiver sid) app of
     (Some rx, app) \<Rightarrow> (rx, app) | (None, app) \<Rightarrow> (None, app)))"
  by (rule keepsI) (auto simp: preserves dest: on_sfu_handler split: prod.splits option.splits)

lemma hoare_offer_with_retry [keeping]:
  fixes env :: "('r, 'pc) calls_env"
  shows "hoare app_wf (offer_with_retry env po c ch u sid sdp) app_wf"
proof -
  let ?retry = "hbind (or_internal ''Failed to recreate participant: ''
       (\<lambda>app. case on_sfu c (recreate_participant (cx_sfu env) u sid) app of
          (Some r, app) \<Rightarrow> (r, app) | (None, app) \<Rightarrow> (Inl [], app))) (\<lambda>rx.
     hbind (hdo (spawn_signaling_forwarder c ch u sid rx)) (\<lambda>_.
     hbind (hlift (case po sdp of Some e \<Rightarrow> Inl (Internal (''Invalid SDP on retry: '' @ e)) | None \<Rightarrow> Inr ())) (\<lambda>_.
     or_internal ''Failed to handle offer after retry: '' (offer_in_sfu env c sid sdp))))"
  have retry: "hoare app_wf ?retry app_wf" by (intro keeping) (simp_all add: preserves)
  show ?thesis
  proof (rule hoareI)
    fix app :: "('r, 'pc) calls_app" assume "app_wf app"
    then have "app_wf (snd (offer_in_sfu env c sid sdp app))" by (rule hoareD [OF hoare_offer_in_sfu])
    then show "app_wf (snd (offer_with_retry env po c ch u sid sdp app))"
      using hoareD [OF retry] by (auto simp: offer_with_retry_def split: prod.splits sum.splits)
  qed
qed

lemma hoare_handle_offer [keeping]: "hoare app_wf (handle_offer env po auth cid sdp) app_wf"
  unfolding handle_offer_def participant_of_def Let_def by (intro keeping)

lemma hoare_handle_ice [keeping]: "hoare app_wf (handle_ice_candidate env auth cid cand mid idx) app_wf"
  unfolding handle_ice_candidate_def Let_def by (intro keeping) (simp_all add: preserves)

lemma hoare_slash [keeping]: "hoare app_wf (handle_call_command env auth cid text) app_wf"
  unfolding handle_call_command_def Let_def by (intro keeping)

text \<open>The WebSocket interface.\<close>

lemma keeps_ws_event [keeping]:
  "keeps app_wf (send_ws_plugin_event u e d)" "keeps app_wf (send_ws_plugin_error u cn m)"
  "keeps app_wf (send_ws_plugin_signal env u cn sig)"
  unfolding send_ws_plugin_error_def send_ws_plugin_signal_def send_ws_plugin_event_def by (rule keeps_event)+

lemma keeps_drop [keeping]: "keeps app_wf (hdrop_receiver c rx)"
  using keepsD [OF keeps_sfu(3)] by (auto simp: keeps_def hdrop_receiver_def split: option.splits)

lemma hoare_ws_enter [keeping]: "hoare app_wf (ws_enter_sfu env c u sid) app_wf"
  unfolding ws_enter_sfu_def by (intro keeping)

lemma find_call_for_session_local:
  "calls_inv (ca_manager app) \<Longrightarrow> find_call_for_session env u sid app =
     (find (has_session u sid) (hm_values (cm_calls (ca_manager app))), app)"
  by (simp add: find_call_for_session_def get_all_calls_local)

lemma resolve_call_local:
  "calls_inv (ca_manager app) \<Longrightarrow> snd (resolve_call_for_ws_connection env u sid app) = app"
  by (simp add: resolve_call_for_ws_connection_def find_call_for_session_local get_all_calls_local Let_def
      split: option.splits list.splits sum.splits)

lemma hoare_resolve [keeping]: "hoare app_wf (resolve_call_for_ws_connection env u sid) app_wf"
  by (simp add: hoare_def app_wf_calls resolve_call_local)

lemma hoare_resolve_ws [keeping]: "hoare app_wf (resolve_ws env u cn d) app_wf"
  unfolding resolve_ws_def by (intro keeping)

lemma hoare_ws_media [keeping]:
  "hoare app_wf (handle_ws_sdp env po u cn d) app_wf" "hoare app_wf (handle_ws_ice env u cn d) app_wf"
  unfolding handle_ws_sdp_def handle_ws_ice_def by (intro keeping; simp add: preserves)+

lemma keeps_recover [keeping]:
  fixes env :: "('r, 'pc) calls_env"
  shows "keeps app_wf (recover_participant env u call sid)"
proof (rule keepsI)
  fix app :: "('r, 'pc) calls_app" assume wf: "app_wf app"
  have "app_wf (on_manager (add_participant (cx_env env) (call_id call) p) app)" for p
    by (rule keepsD [OF mutators_keep(1) wf])
  with wf show "app_wf (recover_participant env u call sid app)"
    by (simp add: recover_participant_def app_get_participant_local app_wf_calls Let_def keepsD [OF keeps_event(1)])
qed

lemma hoare_ws_controls [keeping]:
  "hoare app_wf (handle_ws_mute env u cn d b) app_wf" "hoare app_wf (handle_ws_raise_hand env u cn b) app_wf"
  "hoare app_wf (handle_ws_reaction env u cn d) app_wf"
  unfolding handle_ws_mute_def handle_ws_raise_hand_def handle_ws_reaction_def Let_def by (intro keeping)+

lemma hoare_ws_leave [keeping]:
  fixes env :: "('r, 'pc) calls_env"
  shows "hoare app_wf (handle_ws_leave_call env u cn) app_wf"
proof (rule hoareI)
  fix app :: "('r, 'pc) calls_app" assume wf: "app_wf app"
  show "app_wf (snd (handle_ws_leave_call env u cn app))"
  proof (cases "resolve_ws_session_uuid env cn None")
    case (Inr sid)
    obtain r where "resolve_call_for_ws_connection env u sid app = (r, app)"
      using resolve_call_local [OF app_wf_calls [OF wf], of env u sid] by (metis prod.collapse)
    then show ?thesis using Inr wf keepsD [OF keeps_ws_depart wf]
      by (simp add: handle_ws_leave_call_def split: sum.splits)
  qed (simp add: handle_ws_leave_call_def wf)
qed

lemma keeps_closed [keeping]: "keeps app_wf (handle_ws_connection_closed env u cn)"
  by (rule keepsI) (simp add: handle_ws_connection_closed_def find_call_for_session_local app_wf_calls
      keepsD [OF keeps_ws_depart] split: option.splits)

lemma keeps_replace [keeping]:
  fixes env :: "('r, 'pc) calls_env"
  shows "keeps app_wf (replace_session env c u sid)"
proof (rule keepsI)
  fix app :: "('r, 'pc) calls_app" assume wf: "app_wf app"
  have "app_wf (on_manager (add_participant (cx_env env) c p) app)"
    "app_wf (on_manager (add_participant (cx_env env) c p) (sfu_forget env c sid' app))" for p sid'
    by (rule keepsD [OF mutators_keep(1)], rule wf) (rule keepsD [OF mutators_keep(1) keepsD [OF keeps_sfu(1) wf]])
  with wf show "app_wf (replace_session env c u sid app)"
    by (simp add: replace_session_def app_get_participant_local app_wf_calls Let_def split: option.splits)
qed

lemma keeps_announce [keeping]: "keeps app_wf (announce_created env u call ch t)"
  unfolding announce_created_def Let_def
  by (rule keeps_comp [OF keeps_comp [OF keeps_event(5) keeps_event(1)] keeps_ringing])

text \<open>The two requests that create a call need its id to be new.\<close>

definition fresh :: "uuid \<Rightarrow> ('r, 'pc) calls_app \<Rightarrow> bool" where
  "fresh c app \<longleftrightarrow> app_wf app \<and> hm_get (cm_calls (ca_manager app)) c = None"

lemma fresh_wf: "fresh c app \<Longrightarrow> app_wf app"
  by (simp add: fresh_def)

lemma add_new_call: "fresh c app \<Longrightarrow> app_wf (on_manager (add_call e (new_call c ch u now t)) app)"
proof -
  assume fresh: "fresh c app"
  have "call_ok (new_call c ch u now t)" by (simp add: call_ok_def new_call_def)
  moreover have "call_id (new_call c ch u now t) = c" by (simp add: new_call_def)
  ultimately have "call_step e (ca_manager app) (AddCall (new_call c ch u now t)) (add_call e (new_call c ch u now t) (ca_manager app))"
    using fresh by (intro step_add) (simp_all add: fresh_def)
  then have "calls_inv (add_call e (new_call c ch u now t) (ca_manager app))"
    using fresh calls.step_safe [of "ca_manager app" e] by (auto simp: fresh_def app_wf_def)
  then show ?thesis using fresh by (simp add: fresh_def app_wf_def on_manager_def)
qed

lemma fresh_reads:
  "hoare (fresh c) (hlift r) (fresh c)" "hoare (fresh c) (hguard p e) (fresh c)"
  "hoare (fresh c) (hask (app_get_call_by_channel env ch)) (fresh c)" "hoare (fresh c) (hask (\<lambda>app. (g app, app))) (fresh c)"
  by (simp_all add: hoare_def hlift_def hguard_def hask_def fresh_def app_get_call_by_channel_local app_wf_calls)

lemma hoare_launch [keeping]: "hoare app_wf (launch_call env auth sid cid call t) app_wf"
  unfolding launch_call_def Let_def by (intro keeping)

lemma hoare_start: "hoare (fresh c) (start_call env c sid auth cid) app_wf"
proof -
  have add: "hoare (fresh c) (hdo (on_manager (add_call e (new_call c ch u now t)))) app_wf" for e ch u now t
    by (simp add: hoare_def hdo_def add_new_call)
  have alt: "hoare (fresh c) (case x of None \<Rightarrow> a | Some call \<Rightarrow> hreturn (f call)) app_wf"
    if "hoare (fresh c) a app_wf" for x a f
    using that by (simp add: hoare_def hreturn_def fresh_wf split: option.splits)
  show ?thesis unfolding start_call_def Let_def
    by (rule hoare_seq [OF fresh_reads(1) _ fresh_wf], rule hoare_seq [OF fresh_reads(1) _ fresh_wf],
        rule hoare_seq [OF fresh_reads(2) _ fresh_wf], rule hoare_seq [OF fresh_reads(3) _ fresh_wf], rule alt,
        rule hoare_seq [OF fresh_reads(4) _ fresh_wf], rule hoare_enter [OF add])
       (intro keeping)
qed

lemma find_or_create_wf: "hoare (fresh c) (hask (find_or_create_call env c u ch d)) app_wf"
  by (rule hoareI) (auto simp: hask_def find_or_create_call_def app_get_call_by_channel_local Let_def
      add_new_call fresh_def app_wf_calls split: option.splits)

lemma hoare_ws_join: "hoare (fresh c) (handle_ws_join_call env c u cn d) app_wf"
proof (cases d)
  case None
  then show ?thesis by (simp add: handle_ws_join_call_def hoare_def hfail_def fresh_def)
next
  case (Some data)
  show ?thesis unfolding Some handle_ws_join_call_def option.case
    by (rule hoare_seq [OF fresh_reads(1) _ fresh_wf], rule hoare_seq [OF fresh_reads(1) _ fresh_wf],
        rule hoare_seq [OF fresh_reads(1) _ fresh_wf], rule hoare_seq [OF fresh_reads(2) _ fresh_wf],
        rule hoare_enter [OF find_or_create_wf]) (intro keeping)
qed

section \<open>The plugin as one machine\<close>

datatype calls_request =
    StartCall uuid uuid auth_user string
  | JoinCall uuid auth_user string
  | LeaveCall auth_user string
  | EndCall auth_user string
  | Recording auth_user string
  | React auth_user string string
  | ToggleShare auth_user string
  | OwnMute bool auth_user string
  | OwnHand bool auth_user string
  | HostScreenOff auth_user string string
  | HostMute auth_user string string
  | HostMuteOthers auth_user string
  | HostRemove auth_user string string
  | HostLowerHand auth_user string string
  | HostMake auth_user string string
  | Ring auth_user string
  | DismissNotification auth_user string
  | GetChannels auth_user
  | GetChannel auth_user string
  | GetCall auth_user string
  | EnableCalls auth_user string bool
  | PostOffer auth_user string string
  | PostCandidate auth_user string string "string option" "nat option"
  | Slash auth_user string string
  | WsAction uuid uuid string string "json option"
  | WsClosed uuid string
  | TimerFires uuid
  | UnitStep uuid sfu_op
  | Forward "uuid \<times> uuid \<times> uuid \<times> uuid \<times> nat"
  | Voice voice_event

fun calls_apply ::
  "('r, 'pc) calls_env \<Rightarrow> (string \<Rightarrow> string option) \<Rightarrow> calls_request \<Rightarrow> ('r, 'pc) calls_op" where
  "calls_apply env po (StartCall c sid auth cid) app = snd (start_call env c sid auth cid app)"
| "calls_apply env po (JoinCall sid auth cid) app = snd (join_call env sid auth cid app)"
| "calls_apply env po (LeaveCall auth cid) app = snd (leave_call env auth cid app)"
| "calls_apply env po (EndCall auth cid) app = snd (end_call_endpoint env auth cid app)"
| "calls_apply env po (Recording auth cid) app = snd (start_recording env auth cid app)"
| "calls_apply env po (React auth cid e) app = snd (send_reaction env auth cid e app)"
| "calls_apply env po (ToggleShare auth cid) app = snd (toggle_screen_share env auth cid app)"
| "calls_apply env po (OwnMute b auth cid) app = snd ((if b then mute_user else unmute_user) env auth cid app)"
| "calls_apply env po (OwnHand b auth cid) app = snd ((if b then raise_hand else lower_hand) env auth cid app)"
| "calls_apply env po (HostScreenOff auth cid sid) app = snd (host_screen_off env auth cid sid app)"
| "calls_apply env po (HostMute auth cid sid) app = snd (host_mute env auth cid sid app)"
| "calls_apply env po (HostMuteOthers auth cid) app = snd (host_mute_others env auth cid app)"
| "calls_apply env po (HostRemove auth cid sid) app = snd (host_remove_user env auth cid sid app)"
| "calls_apply env po (HostLowerHand auth cid sid) app = snd (host_lower_hand env auth cid sid app)"
| "calls_apply env po (HostMake auth cid h) app = snd (host_make_moderator env auth cid h app)"
| "calls_apply env po (Ring auth cid) app = snd (ring_users env auth cid app)"
| "calls_apply env po (DismissNotification auth cid) app = snd (dismiss_notification env auth cid app)"
| "calls_apply env po (GetChannels auth) app = snd (get_channels env auth app)"
| "calls_apply env po (GetChannel auth cid) app = snd (get_channel_state_mobile env auth cid app)"
| "calls_apply env po (GetCall auth cid) app = snd (get_call_state env auth cid app)"
| "calls_apply env po (EnableCalls auth cid b) app = snd (set_channel_calls_enabled env auth cid b app)"
| "calls_apply env po (PostOffer auth cid sdp) app = snd (handle_offer env po auth cid sdp app)"
| "calls_apply env po (PostCandidate auth cid cand mid idx) app = snd (handle_ice_candidate env auth cid cand mid idx app)"
| "calls_apply env po (Slash auth cid text) app = snd (handle_call_command env auth cid text app)"
| "calls_apply env po (WsAction c u cn name d) app = snd (handle_ws_action env po c u cn name d app)"
| "calls_apply env po (WsClosed u cn) app = handle_ws_connection_closed env u cn app"
| "calls_apply env po (TimerFires c) app = end_call_if_still_empty env c app"
| "calls_apply env po (UnitStep c op) app = snd (on_sfu c (\<lambda>s. ((), sfu_apply (cx_sfu env) op s)) app)"
| "calls_apply env po (Forward fw) app = forwarder_step env fw app"
| "calls_apply env po (Voice e) app = voice_event_step env e app"

text \<open>A generated call id is one no call has.\<close>

fun admissible :: "calls_request \<Rightarrow> ('r, 'pc) calls_app \<Rightarrow> bool" where
  "admissible (StartCall c sid auth cid) app = (hm_get (cm_calls (ca_manager app)) c = None)"
| "admissible (WsAction c u cn name d) app = (hm_get (cm_calls (ca_manager app)) c = None)"
| "admissible _ app = True"

definition plugin_init :: "('r, 'pc) calls_app \<Rightarrow> bool" where
  "plugin_init app \<longleftrightarrow> call_init (ca_manager app) \<and> sm_sfus (ca_sfu app) = []"

definition plugin_step ::
  "('r, 'pc) calls_env \<Rightarrow> (string \<Rightarrow> string option) \<Rightarrow> ('r, 'pc) calls_app \<Rightarrow> calls_request \<Rightarrow> ('r, 'pc) calls_app \<Rightarrow> bool" where
  "plugin_step env po app req app' \<longleftrightarrow> admissible req app \<and> app' = calls_apply env po req app"

lemma recv_wf: "sfu_wf s \<Longrightarrow> sfu_wf (snd (recv rx s))"
proof (cases "hm_get (sfu_chans s) rx")
  case (Some ch)
  assume wf: "sfu_wf s"
  note ok = sfu_wf_chanD [OF wf Some]
  have "sfu_wf (s\<lparr>sfu_chans := hm_insert rx (ch\<lparr>sc_queue := rest\<rparr>) (sfu_chans s)\<rparr>)" if "sc_queue ch = msg # rest" for msg rest
    by (rule sfu_wf_chans [OF wf]) (use ok that in \<open>auto dest: sfu_wf_chanD [OF wf] split: if_splits\<close>)
  with Some wf show ?thesis by (simp add: recv_def split: list.splits)
qed (simp add: recv_def)

lemma forward_wf:
  assumes "app_wf app"
  shows "app_wf (forwarder_step env fw app)"
proof (cases fw)
  case (fields c ch u sid rx)
  obtain r app1 where r: "on_sfu c (recv rx) app = (r, app1)" by fastforce
  have "app_wf (snd (on_sfu c (recv rx) app))" by (rule on_sfu_wf [OF _ assms]) (rule recv_wf)
  with r have "app_wf app1" by simp
  with r fields show ?thesis
    by (auto simp: forwarder_step_def keepsD [OF keeps_signal] split: option.splits)
qed

lemma voice_wf: "app_wf app \<Longrightarrow> app_wf (voice_event_step env e app)"
  by (auto simp: voice_event_step_def app_get_call_local app_wf_calls keepsD [OF keeps_event(1)] Let_def
      split: voice_event.splits option.splits)

lemma dispatch_wf:
  assumes "fresh c app"
  shows "app_wf (snd (ws_dispatch env po c u cn a d app))"
  unfolding ws_dispatch_def
  using hoareD [OF hoare_ws_join assms] hoareD [OF hoare_ws_leave fresh_wf [OF assms]]
    hoareD [OF hoare_ws_media(1) fresh_wf [OF assms]] hoareD [OF hoare_ws_media(2) fresh_wf [OF assms]]
    hoareD [OF hoare_ws_controls(1) fresh_wf [OF assms]] hoareD [OF hoare_ws_controls(2) fresh_wf [OF assms]]
    hoareD [OF hoare_ws_controls(3) fresh_wf [OF assms]] fresh_wf [OF assms]
  by (simp add: hreturn_def)

lemma ws_action_wf:
  assumes "fresh c app"
  shows "app_wf (snd (handle_ws_action env po c u cn name d app))"
proof (cases "strip_prefix ''custom_com.mattermost.calls_'' name")
  case (Some a)
  obtain r app1 where "ws_dispatch env po c u cn a d app = (r, app1)" by fastforce
  with dispatch_wf [OF assms, of env po u cn a d] have "app_wf app1" by simp
  with \<open>ws_dispatch env po c u cn a d app = (r, app1)\<close> Some show ?thesis
    by (simp add: handle_ws_action_def keepsD [OF keeps_ws_event(2)] split: sum.splits)
qed (simp add: handle_ws_action_def fresh_wf [OF assms])

lemma calls_apply_wf:
  assumes wf: "app_wf app" and adm: "admissible req app"
  shows "app_wf (calls_apply env po req app)"
proof (cases req)
  case (StartCall c sid auth cid)
  then have "fresh c app" using wf adm by (simp add: fresh_def)
  then show ?thesis using StartCall hoareD [OF hoare_start] by simp
next
  case (WsAction c u cn name d)
  then have "fresh c app" using wf adm by (simp add: fresh_def)
  then show ?thesis using WsAction ws_action_wf by simp
next
  case (UnitStep c op)
  have "app_wf (snd (on_sfu c (\<lambda>s. ((), sfu_apply (cx_sfu env) op s)) app))"
    by (rule on_sfu_wf [OF _ wf]) (simp add: sfu_wf_apply)
  then show ?thesis using UnitStep by simp
next
  case (OwnMute b auth cid)
  then show ?thesis using hoareD [OF hoare_own_controls(2) wf] by (simp add: mute_user_def unmute_user_def)
next
  case (OwnHand b auth cid)
  then show ?thesis using hoareD [OF hoare_own_controls(3) wf] by (simp add: raise_hand_def lower_hand_def)
qed (simp_all add: start_recording_def end_call_if_still_empty_def keepsD [OF keeps_end_if_alone wf] keepsD [OF keeps_closed wf]
    forward_wf [OF wf] voice_wf [OF wf] hoareD [OF hoare_join wf] hoareD [OF hoare_leave wf] hoareD [OF hoare_end wf]
    hoareD [OF hoare_recording wf] hoareD [OF hoare_reaction wf] hoareD [OF hoare_own_controls(1) wf]
    hoareD [OF hoare_host_controls(1) wf] hoareD [OF hoare_host_controls(2) wf] hoareD [OF hoare_host_controls(3) wf]
    hoareD [OF hoare_host_controls(4) wf] hoareD [OF hoare_host_controls(5) wf] hoareD [OF hoare_host_controls(6) wf]
    hoareD [OF hoare_ring wf] hoareD [OF hoare_dismiss wf] hoareD [OF hoare_queries(1) wf] hoareD [OF hoare_queries(2) wf]
    hoareD [OF hoare_queries(3) wf] hoareD [OF hoare_set_enabled wf] hoareD [OF hoare_handle_offer wf]
    hoareD [OF hoare_handle_ice wf] hoareD [OF hoare_slash wf])

interpretation plugin: safe_machine plugin_init "plugin_step env po" app_wf
proof
  show "app_wf app" if "plugin_init app" for app
    using that calls.init_safe by (auto simp: plugin_init_def app_wf_def)
  show "app_wf app'" if "app_wf app" "plugin_step env po app req app'" for app req app'
    using that calls_apply_wf by (auto simp: plugin_step_def)
qed

section \<open>Who may act as host\<close>

text \<open>The host that counts: the recorded one while it takes part, else the participant that comes next.\<close>

definition effective_host :: "call_state \<Rightarrow> uuid" where
  "effective_host call =
     (if participants call = [] \<or> hm_get (participants call) (host_id call) \<noteq> None then host_id call
      else (case select_next_host (participants call) of None \<Rightarrow> host_id call | Some h \<Rightarrow> h))"

lemma normalize_host:
  assumes "calls_inv (ca_manager app)" "hm_get (cm_calls (ca_manager app)) (call_id call) = Some call"
  shows "host_id (fst (normalize_call_host_if_stale env call app)) = effective_host call"
proof (cases "participants call = [] \<or> hm_get (participants call) (host_id call) \<noteq> None")
  case True
  then show ?thesis by (auto simp: normalize_call_host_if_stale_def effective_host_def)
next
  case False
  show ?thesis
  proof (cases "select_next_host (participants call)")
    case None
    with False show ?thesis by (simp add: normalize_call_host_if_stale_def effective_host_def)
  next
    case (Some h)
    let ?a = "broadcast_host_changed_event env (call_channel_id call) h (app_set_host env (call_id call) h app)"
    let ?b = "broadcast_call_state_event env (call_channel_id call) None ?a"
    have a: "calls_inv (ca_manager ?a)" "hm_get (cm_calls (ca_manager ?a)) (call_id call) = Some (call\<lparr>host_id := h\<rparr>)"
      using set_host_local [OF assms, of env h] by simp_all
    have q: "quiet ?a ?b" by (rule call_state_event_quiet [OF a(1)])
    moreover have "view (ca_manager ?a) (call_id call) = Some (core (call\<lparr>host_id := h\<rparr>))" unfolding view_def a(2) by simp
    ultimately have "view (ca_manager ?b) (call_id call) = Some (core (call\<lparr>host_id := h\<rparr>))" unfolding quiet_def by metis
    then obtain call' where call': "hm_get (cm_calls (ca_manager ?b)) (call_id call) = Some call'"
      "core call' = core (call\<lparr>host_id := h\<rparr>)"
      unfolding view_Some by blast
    then have "host_id call' = h" using core_eqD [OF call'(2)] by simp
    with False Some call'(1) quietD [OF q] show ?thesis
      by (simp add: normalize_call_host_if_stale_def effective_host_def Let_def app_get_call_local)
  qed
qed

lemma managed_call_authority:
  assumes "calls_inv (ca_manager app)" "managed_call env auth ch msg app = (Inr call', app')"
  shows "\<exists>call. fst (app_get_call_by_channel env ch app) = Some call \<and>
    (auth_user_id auth = effective_host call \<or> user_has_permission auth ADMIN_FULL)"
proof (cases "fst (app_get_call_by_channel env ch app)")
  case None
  then show ?thesis using assms
    by (simp add: managed_call_def hbind_def active_call_def hsome_def app_get_call_by_channel_local)
next
  case (Some call)
  then have call: "hm_get (cm_calls (ca_manager app)) (call_id call) = Some call"
    using index_invD [OF assms(1)] by (simp add: app_get_call_by_channel_local assms(1))
  obtain call1 app1 where n: "normalize_call_host_if_stale env call app = (call1, app1)" by fastforce
  have "can_manage_call auth call1"
    using assms Some n
    by (auto simp: managed_call_def hbind_def active_call_def hsome_def hask_def hguard_def hreturn_def
        app_get_call_by_channel_local split: if_splits)
  moreover have "host_id call1 = effective_host call"
    using normalize_host [OF assms(1) call, of env] n by simp
  ultimately show ?thesis using Some by (auto simp: can_manage_call_def)
qed

definition may_host :: "('r, 'pc) calls_env \<Rightarrow> auth_user \<Rightarrow> string \<Rightarrow> ('r, 'pc) calls_app \<Rightarrow> bool" where
  "may_host env auth cid app \<longleftrightarrow>
     (\<exists>ch call. resolve_channel_id env cid = Inr ch \<and> fst (app_get_call_by_channel env ch app) = Some call \<and>
        (auth_user_id auth = effective_host call \<or> user_has_permission auth ADMIN_FULL))"

lemma hbind_Inr:
  "fst (hbind h f s) = Inr y \<Longrightarrow> \<exists>x t. h s = (Inr x, t) \<and> fst (f x t) = Inr y"
  by (auto simp: hbind_def split: prod.splits sum.splits)

lemma host_target_authority:
  assumes "calls_inv (ca_manager app)" "host_target env auth cid sid msg app = (Inr x, app')"
  shows "may_host env auth cid app"
proof -
  have "fst (host_target env auth cid sid msg app) = Inr x" using assms(2) by simp
  from hbind_Inr [OF this [unfolded host_target_def]] obtain ch app1 where
    1: "resolve_channel_id env cid = Inr ch" "app1 = app"
    "fst (hbind (hlift (parse_session env sid)) (\<lambda>t. hbind (managed_call env auth ch msg) (\<lambda>call.
       hbind (hlift (target_user call t)) (\<lambda>u. hreturn (ch, t, call, u)))) app1) = Inr x"
    by (auto simp: hlift_def)
  from hbind_Inr [OF 1(3)] obtain t app2 where
    2: "app2 = app" "fst (hbind (managed_call env auth ch msg) (\<lambda>call.
       hbind (hlift (target_user call t)) (\<lambda>u. hreturn (ch, t, call, u))) app2) = Inr x"
    using 1(2) by (auto simp: hlift_def)
  from hbind_Inr [OF 2(2)] 2(1) obtain call app3 where "managed_call env auth ch msg app = (Inr call, app3)" by auto
  then show ?thesis using managed_call_authority [OF assms(1)] 1(1) by (auto simp: may_host_def)
qed

lemma managed_authority:
  assumes "calls_inv (ca_manager app)" "resolve_channel_id env cid = Inr ch"
    and "fst (hbind (managed_call env auth ch msg) f app) = Inr x"
  shows "may_host env auth cid app"
  using hbind_Inr [OF assms(3)] managed_call_authority [OF assms(1)] assms(2) by (fastforce simp: may_host_def)

lemma host_handlers_authority:
  assumes "calls_inv (ca_manager app)"
  shows "fst (hbind (host_target env auth cid sid msg) f app) = Inr x \<Longrightarrow> may_host env auth cid app"
    and "fst (host_mute_others env auth cid app) = Inr x \<Longrightarrow> may_host env auth cid app"
    and "fst (host_make_moderator env auth cid h app) = Inr x \<Longrightarrow> may_host env auth cid app"
proof -
  show "fst (hbind (host_target env auth cid sid msg) f app) = Inr x \<Longrightarrow> may_host env auth cid app"
    using host_target_authority [OF assms] hbind_Inr by metis
  show "fst (host_mute_others env auth cid app) = Inr x \<Longrightarrow> may_host env auth cid app"
    by (cases "resolve_channel_id env cid")
       (auto simp: host_mute_others_def hbind_def [of "hlift _"] hlift_def dest: managed_authority [OF assms])
  show "fst (host_make_moderator env auth cid h app) = Inr x \<Longrightarrow> may_host env auth cid app"
    by (cases "resolve_channel_id env cid"; cases "parse_id env h")
       (auto simp: host_make_moderator_def hbind_def [of "hlift _"] hlift_def dest: managed_authority [OF assms])
qed

section \<open>Starting a call\<close>

text \<open>The state after the call and its owner are recorded, before the forwarding unit is set up.\<close>

definition started :: "('r, 'pc) calls_env \<Rightarrow> uuid \<Rightarrow> uuid \<Rightarrow> uuid \<Rightarrow> uuid \<Rightarrow> ('r, 'pc) calls_op" where
  "started env c sid u ch app =
     on_manager (add_participant (cx_env env) c (new_participant u sid (ca_now app)))
       (snd (ensure_call_thread_id env (new_call c ch u (ca_now app) None)
          (on_manager (add_call (cx_env env) (new_call c ch u (ca_now app) None)) app)))"

lemma started_facts:
  assumes "fresh c app"
  shows "calls_inv (ca_manager (started env c sid u ch app))"
    and "\<exists>call. hm_get (cm_calls (ca_manager (started env c sid u ch app))) c = Some call \<and>
      call_channel_id call = ch \<and> owner_id call = u \<and> host_id call = u \<and>
      participants call = [(u, new_participant u sid (ca_now app))]"
    and "hm_get (cm_channel_index (ca_manager (started env c sid u ch app))) ch = Some c"
    and "ca_timers (started env c sid u ch app) = ca_timers app" "ca_sfu (started env c sid u ch app) = ca_sfu app"
proof -
  let ?call = "new_call c ch u (ca_now app) None"
  let ?a = "on_manager (add_call (cx_env env) ?call) app"
  let ?b = "snd (ensure_call_thread_id env ?call ?a)"
  have inv: "calls_inv (ca_manager ?a)" using add_new_call [OF assms] app_wf_calls by blast
  have a: "hm_get (cm_calls (ca_manager ?a)) c = Some ?call" "hm_get (cm_channel_index (ca_manager ?a)) ch = Some c"
    using assms by (simp_all add: add_call_def persist_call_local calls_inv_conn fresh_def app_wf_def new_call_def)
  have q: "quiet ?a ?b"
    by (rule ensure_thread_quiet [OF inv]) (use a in \<open>simp_all add: new_call_def\<close>)
  have "view (ca_manager ?b) c = Some (core ?call)"
    using q unfolding quiet_def view_def [of "ca_manager ?a"] a(1) by (metis option.simps(9) view_def a(1))
  then obtain call where call: "hm_get (cm_calls (ca_manager ?b)) c = Some call" "core call = core ?call"
    unfolding view_Some by blast
  note eqs = core_eqD [OF call(2)]
  have add: "ca_manager (started env c sid u ch app) = upsert_call_local (insert_participant (new_participant u sid (ca_now app)) call) (ca_manager ?b)"
    by (simp add: started_def add_participant_def mutate_known [OF quietD [OF q] call(1)])
  show "calls_inv (ca_manager (started env c sid u ch app))"
    using calls_inv_mutate [OF quietD [OF q], where mu = "Join (new_participant u sid (ca_now app))"]
    by (simp add: started_def add_participant_def)
  show "\<exists>call. hm_get (cm_calls (ca_manager (started env c sid u ch app))) c = Some call \<and>
      call_channel_id call = ch \<and> owner_id call = u \<and> host_id call = u \<and>
      participants call = [(u, new_participant u sid (ca_now app))]"
    using eqs by (simp add: add insert_participant_def new_call_def new_participant_def)
  show "hm_get (cm_channel_index (ca_manager (started env c sid u ch app))) ch = Some c"
    using eqs by (simp add: add insert_participant_def new_call_def)
  show "ca_timers (started env c sid u ch app) = ca_timers app" "ca_sfu (started env c sid u ch app) = ca_sfu app"
    using q by (simp_all add: started_def quiet_def)
qed

lemma launch_fails:
  assumes "fst (get_or_create_sfu (cx_sfu env) (call_id call) (ca_sfu app)) = Inl e"
  shows "fst (launch_call env auth sid cid call t app) = Inl (Internal (''Failed to create SFU: '' @ e))"
    and "ca_manager (snd (launch_call env auth sid cid call t app)) = ca_manager app"
    and "ca_timers (snd (launch_call env auth sid cid call t app)) = ca_timers app"
  using assms by (simp_all add: launch_call_def hbind_def or_internal_def create_sfu_def case_prod_unfold Let_def)

lemma enter_sfu_frame:
  assumes "create_sfu env c app = (r, app1)" "enter_sfu env c u sid app1 = (rx, app2)"
  shows "ca_manager app2 = ca_manager app" "ca_timers app2 = ca_timers app"
  using assms by (auto simp: create_sfu_def enter_sfu_def on_sfu_def case_prod_unfold Let_def split: option.splits)

lemma ringing_frame [simp]:
  "ca_manager (broadcast_ringing_event env ch c u ex app) = ca_manager app"
  "ca_timers (broadcast_ringing_event env ch c u ex app) = ca_timers app"
  by (simp_all add: broadcast_ringing_event_def Let_def case_prod_unfold)

lemma spawn_frame [simp]:
  "ca_manager (spawn_signaling_forwarder c ch u sid rx app) = ca_manager app"
  "ca_timers (spawn_signaling_forwarder c ch u sid rx app) = ca_timers app"
  by (simp_all add: spawn_signaling_forwarder_def)

lemma launch_succeeds:
  assumes "create_sfu env (call_id call) app = (Inr (), app1)"
    and "enter_sfu env (call_id call) (auth_user_id auth) sid app1 = (Inr rx, app2)" "calls_inv (ca_manager app)"
  obtains app3 app4 where
    "launch_call env auth sid cid call t app =
       (Inr (start_response env call cid (call_channel_id call)), schedule_unanswered_call_timeout (call_id call) app4)"
    and "quiet app3 app4" "ca_manager app3 = ca_manager app" "ca_timers app3 = ca_timers app"
proof -
  note frame = enter_sfu_frame [OF assms(1,2)]
  let ?u = "auth_user_id auth" and ?ch = "call_channel_id call" and ?c = "call_id call"
  let ?text = "case t of None \<Rightarrow> [] | Some t \<Rightarrow> mm env t"
  define app3 where "app3 = broadcast_ringing_event env ?ch ?c ?u (Some ?u)
    (broadcast_call_event env ''custom_com.mattermost.calls_user_joined'' ?ch (user_joined_payload env cid ?u sid) None
    (broadcast_call_event env ''custom_com.mattermost.calls_call_start'' ?ch
        (JObject [(''id'', JString (mm env ?c)), (''channel_id'', JString cid),
          (''channelID'', JString (mm env ?ch)), (''user_id'', JString (mm env ?u)),
          (''call_id'', JString (mm env ?c)), (''start_at'', JNumber (started_at call)),
          (''owner_id'', JString (mm env ?u)), (''host_id'', JString (mm env ?u)),
          (''thread_id'', JString ?text), (''post_id'', JString ?text)]) (Some ?u)
    (spawn_signaling_forwarder ?c ?ch ?u sid rx app2)))"
  have f3: "ca_manager app3 = ca_manager app" "ca_timers app3 = ca_timers app"
    by (simp_all add: app3_def frame)
  have "launch_call env auth sid cid call t app = (Inr (start_response env call cid ?ch),
      schedule_unanswered_call_timeout ?c (broadcast_call_state_event env ?ch None app3))"
    by (simp add: launch_call_def hbind_def or_internal_def hdo_def hreturn_def assms(1,2) app3_def Let_def)
  moreover have "quiet app3 (broadcast_call_state_event env ?ch None app3)"
    by (rule call_state_event_quiet) (simp add: f3 assms(3))
  ultimately show ?thesis using that f3 by blast
qed

end
