(* ===== verification/Calls_Properties.thy ===== *)
theory Calls_Properties
  imports Calls_Safety Ws_Hub
begin

text \<open>
  Properties of the calls plugin: the states it can reach, who may use the host's controls, what a
  request to start or to leave a call does, and where the events of a host's action go.
\<close>

section \<open>Lookups and starts\<close>

lemma start_new:
  assumes "fresh c app" "resolve_channel_id env cid = Inr ch" "check_channel_permission env (auth_user_id auth) ch = Inr ()"
    and "channel_calls_enabled ch app" "fst (app_get_call_by_channel env ch app) = None"
  obtains thread where "start_call env c sid auth cid app =
    launch_call env auth sid cid (new_call c ch (auth_user_id auth) (ca_now app) None) thread
      (started env c sid (auth_user_id auth) ch app)"
proof -
  have "\<exists>thread. start_call env c sid auth cid app =
    launch_call env auth sid cid (new_call c ch (auth_user_id auth) (ca_now app) None) thread
      (started env c sid (auth_user_id auth) ch app)"
    using assms
    by (auto simp: start_call_def hbind_def hlift_def hguard_def hask_def hdo_def app_get_call_by_channel_local fresh_def
        app_wf_calls Let_def case_prod_unfold started_def)
  then show ?thesis using that by blast
qed

lemma start_existing:
  assumes "calls_inv (ca_manager app)" "resolve_channel_id env cid = Inr ch"
    and "check_channel_permission env (auth_user_id auth) ch = Inr ()"
    and "channel_calls_enabled ch app" "fst (app_get_call_by_channel env ch app) = Some call"
  shows "start_call env c sid auth cid app = (Inr (start_response env call cid ch), app)"
  using assms
  by (simp add: start_call_def hbind_def hlift_def hguard_def hask_def hreturn_def app_get_call_by_channel_local Let_def)

lemma started_lookup:
  assumes "fresh c app" "calls_inv (ca_manager app')" "view (ca_manager app') = view (ca_manager (started env c sid u ch app))"
    and "hm_get (cm_channel_index (ca_manager app')) = hm_get (cm_channel_index (ca_manager (started env c sid u ch app)))"
  shows "\<exists>call. fst (app_get_call_by_channel env ch app') = Some call \<and> call_id call = c \<and> call_channel_id call = ch \<and>
    owner_id call = u \<and> host_id call = u \<and> participants call = [(u, new_participant u sid (ca_now app))]"
proof -
  note st = started_facts [OF assms(1), of env sid u ch]
  obtain call0 where call0: "hm_get (cm_calls (ca_manager (started env c sid u ch app))) c = Some call0"
    "call_channel_id call0 = ch" "owner_id call0 = u" "host_id call0 = u"
    "participants call0 = [(u, new_participant u sid (ca_now app))]"
    using st(2) by blast
  have "view (ca_manager app') c = Some (core call0)"
    using assms(3) call0(1) by (simp add: view_def)
  then obtain call where call: "hm_get (cm_calls (ca_manager app')) c = Some call" "core call = core call0"
    unfolding view_Some by blast
  have "call_id call0 = c" using call_invD [OF st(1) call0(1)] by simp
  then show ?thesis
    using call core_eqD [OF call(2)] call0 assms(2,4) st(3) by (simp add: app_get_call_by_channel_local)
qed

lemma started_call:
  assumes "fresh c app" "resolve_channel_id env cid = Inr ch" "check_channel_permission env (auth_user_id auth) ch = Inr ()"
    and "channel_calls_enabled ch app" "fst (app_get_call_by_channel env ch app) = None"
    and "create_sfu env c (started env c sid (auth_user_id auth) ch app) = (Inr (), app1)"
    and "enter_sfu env c (auth_user_id auth) sid app1 = (Inr rx, app2)"
  shows "\<exists>call app'. start_call env c sid auth cid app =
      (Inr (start_response env (new_call c ch (auth_user_id auth) (ca_now app) None) cid ch), app') \<and>
    fst (app_get_call_by_channel env ch app') = Some call \<and> call_id call = c \<and>
    owner_id call = auth_user_id auth \<and> host_id call = auth_user_id auth \<and>
    participants call = [(auth_user_id auth, new_participant (auth_user_id auth) sid (ca_now app))] \<and>
    ca_timers app' = ca_timers app @ [(c, UNANSWERED_CALL_TIMEOUT_SECS)]"
proof -
  let ?u = "auth_user_id auth" and ?st = "started env c sid (auth_user_id auth) ch app"
  obtain thread where th: "start_call env c sid auth cid app =
      launch_call env auth sid cid (new_call c ch ?u (ca_now app) None) thread ?st"
    using start_new [OF assms(1-5)] .
  note st = started_facts [OF assms(1), of env sid ?u ch]
  have cid: "call_id (new_call c ch ?u (ca_now app) None) = c" "call_channel_id (new_call c ch ?u (ca_now app) None) = ch"
    by (simp_all add: new_call_def)
  obtain app3 app4 where run: "launch_call env auth sid cid (new_call c ch ?u (ca_now app) None) thread ?st =
      (Inr (start_response env (new_call c ch ?u (ca_now app) None) cid ch), schedule_unanswered_call_timeout c app4)"
    and q: "quiet app3 app4" "ca_manager app3 = ca_manager ?st" "ca_timers app3 = ca_timers ?st"
    using launch_succeeds [of env "new_call c ch ?u (ca_now app) None" ?st app1 auth sid rx app2 cid thread]
      assms(6,7) st(1) unfolding cid by metis
  have "\<exists>call. fst (app_get_call_by_channel env ch (schedule_unanswered_call_timeout c app4)) = Some call \<and> call_id call = c \<and>
      call_channel_id call = ch \<and> owner_id call = ?u \<and> host_id call = ?u \<and>
      participants call = [(?u, new_participant ?u sid (ca_now app))]"
    by (rule started_lookup [OF assms(1)]) (use q in \<open>auto simp: quiet_def\<close>)
  moreover have "ca_timers (schedule_unanswered_call_timeout c app4) = ca_timers app @ [(c, UNANSWERED_CALL_TIMEOUT_SECS)]"
    using q st(4) by (simp add: schedule_unanswered_call_timeout_def quiet_def)
  ultimately show ?thesis using th run by auto
qed

lemma started_enabled:
  assumes "fresh c app"
  shows "ca_enabled (started env c sid u ch app) = ca_enabled app"
proof -
  let ?a = "on_manager (add_call (cx_env env) (new_call c ch u (ca_now app) None)) app"
  have "calls_inv (ca_manager ?a)" using add_new_call [OF assms] app_wf_calls by blast
  moreover have "hm_get (cm_calls (ca_manager ?a)) c = Some (new_call c ch u (ca_now app) None)"
    "hm_get (cm_channel_index (ca_manager ?a)) ch = Some c"
    using assms by (simp_all add: add_call_def persist_call_local calls_inv_conn fresh_def app_wf_def new_call_def)
  ultimately have "quiet ?a (snd (ensure_call_thread_id env (new_call c ch u (ca_now app) None) ?a))"
    by (intro ensure_thread_quiet) (simp_all add: new_call_def)
  then show ?thesis by (simp add: started_def quiet_def on_manager_def)
qed

lemma launch_fails_enabled:
  assumes "fst (get_or_create_sfu (cx_sfu env) (call_id call) (ca_sfu app)) = Inl e"
  shows "ca_enabled (snd (launch_call env auth sid cid call t app)) = ca_enabled app"
  using assms by (simp add: launch_call_def hbind_def or_internal_def create_sfu_def case_prod_unfold Let_def)

section \<open>Broadcasts only grow\<close>

definition grows :: "('r, 'pc) calls_op \<Rightarrow> bool" where
  "grows f \<longleftrightarrow> (\<forall>app. \<exists>evs. ca_broadcast (f app) = ca_broadcast app @ evs)"

lemma growsI: "(\<And>app. \<exists>evs. ca_broadcast (f app) = ca_broadcast app @ evs) \<Longrightarrow> grows f"
  by (simp add: grows_def)

lemma growsD: "grows f \<Longrightarrow> \<exists>evs. ca_broadcast (f app) = ca_broadcast app @ evs"
  by (simp add: grows_def)

lemma grows_event:
  "grows (push_broadcast e)" "grows (broadcast_call_event env n ch d ex)" "grows (broadcast_host_changed_event env ch h)"
  by (simp_all add: grows_def push_broadcast_def broadcast_call_event_def broadcast_host_changed_event_def Let_def)

lemma get_call_broadcast [simp]:
  "ca_broadcast (snd (app_get_call env c app)) = ca_broadcast app"
  "ca_broadcast (snd (app_get_call_by_channel env ch app)) = ca_broadcast app"
  "ca_broadcast (on_manager f app) = ca_broadcast app" "ca_broadcast (app_set_host env c h app) = ca_broadcast app"
  "ca_broadcast (sfu_forget env c sid app) = ca_broadcast app"
  "ca_broadcast (schedule_empty_call_timeout c app) = ca_broadcast app"
  by (simp_all add: app_get_call_def app_get_call_by_channel_def on_manager_def app_set_host_def sfu_forget_def on_sfu_def
      schedule_empty_call_timeout_def case_prod_unfold Let_def split: option.splits)

lemma grows_thread: "grows (\<lambda>app. snd (ensure_call_thread_id env call app))"
proof (rule growsI)
  fix app
  obtain r app1 where r: "create_call_thread_post env (call_id call) (call_channel_id call) (owner_id call) (started_at call) app = (r, app1)"
    by fastforce
  then have "\<exists>evs. ca_broadcast app1 = ca_broadcast app @ evs"
    by (auto simp: create_call_thread_post_def push_broadcast_def Let_def split: sum.splits prod.splits)
  with r show "\<exists>evs. ca_broadcast (snd (ensure_call_thread_id env call app)) = ca_broadcast app @ evs"
    by (auto simp: ensure_call_thread_id_def split: option.splits sum.splits)
qed

lemma grows_response: "grows (\<lambda>app. snd (build_call_state_response env call cid ch app))"
  by (rule growsI) (use growsD [OF grows_thread, of env call] in
      \<open>simp add: build_call_state_response_def Let_def case_prod_unfold\<close>)

text \<open>What was broadcast before a list of events stays in front of it.\<close>

lemma grows_before:
  "grows f \<Longrightarrow> \<exists>evs. ca_broadcast app = xs @ evs \<Longrightarrow> \<exists>evs. ca_broadcast (f app) = xs @ evs"
  using growsD [of f app] by auto

lemma grows_state_event: "grows (broadcast_call_state_event env ch ex)"
proof (rule growsI)
  fix app
  obtain x app1 where x: "app_get_call_by_channel env ch app = (x, app1)" by fastforce
  then have b1: "\<exists>evs. ca_broadcast app1 = ca_broadcast app @ evs" using get_call_broadcast(2) [of env ch app] by simp
  show "\<exists>evs. ca_broadcast (broadcast_call_state_event env ch ex app) = ca_broadcast app @ evs"
  proof (cases x)
    case (Some call)
    obtain r app2 where r: "build_call_state_response env call (mm env ch) ch app1 = (r, app2)" by fastforce
    have "\<exists>evs. ca_broadcast app2 = ca_broadcast app @ evs" using grows_before [OF grows_response b1] r by (metis snd_conv)
    from this grows_before [OF grows_event(2) this] show ?thesis using Some x r
      by (simp add: broadcast_call_state_event_def split: sum.splits option.splits)
  qed (use x b1 in \<open>simp add: broadcast_call_state_event_def\<close>)
qed

lemma grows_reconcile: "grows (\<lambda>app. snd (reconcile_after_participant_left env c ch u app))"
proof (rule growsI)
  fix app
  obtain x app1 where x: "app_get_call env c app = (x, app1)" by fastforce
  then have b1: "\<exists>evs. ca_broadcast app1 = ca_broadcast app @ evs" using get_call_broadcast(1) [of env c app] by simp
  show "\<exists>evs. ca_broadcast (snd (reconcile_after_participant_left env c ch u app)) = ca_broadcast app @ evs"
  proof (cases x)
    case (Some call)
    show ?thesis
    proof (cases "next_host call u")
      case None
      with Some x grows_before [OF grows_state_event b1] show ?thesis
        by (simp add: reconcile_after_participant_left_def next_host_def)
    next
      case h: (Some h)
      let ?a = "snd (app_get_call env c (broadcast_host_changed_event env ch h (app_set_host env (call_id call) h app1)))"
      have "\<exists>evs. ca_broadcast ?a = ca_broadcast app @ evs"
        using grows_before [OF grows_event(3), of "app_set_host env (call_id call) h app1"] b1 by simp
      from grows_before [OF grows_state_event this] show ?thesis
        using Some x h by (simp add: reconcile_after_participant_left_def next_host_def [symmetric] Let_def case_prod_unfold)
    qed
  qed (use x b1 in \<open>simp add: reconcile_after_participant_left_def\<close>)
qed

lemma grows_departure: "grows (after_departure env c ch u)"
  by (rule growsI) (use growsD [OF grows_reconcile] in \<open>simp add: after_departure_def case_prod_unfold Let_def\<close>)

section \<open>Timers\<close>

lemma timeout_gone:
  assumes "calls_inv (ca_manager app)" "hm_get (cm_calls (ca_manager app)) c = Some call" "length (participants call) \<le> 1"
  shows "fst (app_get_call env c (end_call_if_still_empty env c app)) = None"
proof -
  have "end_if_alone env c app = end_call env c (call_channel_id call) app"
    using assms call_invD [OF assms(1,2)] by (simp add: end_if_alone_def app_get_call_local)
  then show ?thesis
    using end_call_local [OF assms(1), of env c "call_channel_id call"] remove_call_gone [OF assms(1), of "cx_env env" c]
    by (simp add: end_call_if_still_empty_def app_get_call_local)
qed

section \<open>Host actions\<close>

lemma host_target_message:
  assumes "host_target env auth cid sid m app = (Inr x, app')"
  shows "host_target env auth cid sid m' app = (Inr x, app')"
  using assms
  by (auto simp: host_target_def managed_call_def hbind_def hlift_def hguard_def hreturn_def
      split: sum.splits prod.splits if_splits)

lemma excluded_not_delivered:
  "(u, conn, m) \<notin> set (broadcast_local ser hub
     \<lparr>we_msg_type = ty, we_event = n, we_seq = q, we_channel_id = wch, we_data = d,
      we_broadcast = Some \<lparr>wb_channel_id = Some ch, wb_team_id = tm, wb_user_id = wu, wb_exclude_user_id = Some u\<rparr>\<rparr>)"
  by (simp add: broadcast_local_def send_to_subscribers_iff split: option.splits)

text \<open>The event that a host's action addresses to a participant, and that nobody delivers to it.\<close>

definition withheld :: "uuid \<Rightarrow> string \<Rightarrow> ('r, 'pc) calls_app \<Rightarrow> ('r, 'pc) calls_app \<Rightarrow> bool" where
  "withheld target name app app' \<longleftrightarrow>
     (\<exists>ev evs. ca_broadcast app' = ca_broadcast app @ ev # evs \<and> we_event ev = name \<and>
        (\<forall>ser (hub :: unit ws_hub) conn m. (target, conn, m) \<notin> set (broadcast_local ser hub ev)))"

lemma withheld_event:
  assumes "\<exists>evs. ca_broadcast app' = ca_broadcast (broadcast_call_event env name ch d (Some target) app1) @ evs"
    and "ca_broadcast app1 = ca_broadcast app"
  shows "withheld target name app app'"
  using assms by (auto simp: withheld_def broadcast_call_event_def Let_def excluded_not_delivered)

lemmas run_defs = hbind_def hdo_def hreturn_def Let_def

lemma mute_withheld:
  assumes "host_target env auth cid sid msg app = (Inr (ch, tsid, call, target), app1)"
  shows "withheld target ''custom_com.mattermost.calls_host_mute'' app1 (snd (host_mute env auth cid sid app))"
  unfolding host_mute_def run_defs host_target_message [OF assms]
  by (simp add: host_mute_events_def Let_def) (rule withheld_event, rule growsD [OF grows_event(2)], simp)

lemma lower_hand_withheld:
  assumes "host_target env auth cid sid msg app = (Inr (ch, tsid, call, target), app1)"
  shows "withheld target ''custom_com.mattermost.calls_host_lower_hand'' app1 (snd (host_lower_hand env auth cid sid app))"
  unfolding host_lower_hand_def run_defs host_target_message [OF assms]
  by simp (rule withheld_event, rule grows_before [OF grows_event(2)], rule growsD [OF grows_event(2)], simp)

lemma remove_withheld:
  assumes "host_target env auth cid sid msg app = (Inr (ch, tsid, call, target), app1)" "target \<noteq> auth_user_id auth"
  shows "withheld target ''custom_com.mattermost.calls_host_removed'' app1 (snd (host_remove_user env auth cid sid app))"
  unfolding host_remove_user_def run_defs host_target_message [OF assms(1)] hguard_def using assms(2)
  by simp (rule withheld_event, rule grows_before [OF grows_departure], rule grows_before [OF grows_event(2)],
      simp only: get_call_broadcast, rule exI [of _ Nil], rule append_Nil2 [symmetric], rule refl)

section \<open>A server with one meeting\<close>

definition demo_host :: auth_user where
  "demo_host = \<lparr>auth_user_id = Uuid 7, auth_email = [], auth_role = ''member'', auth_org_id = None\<rparr>"

definition idle_app :: "(unit, string list) calls_app" where
  "idle_app = demo_calls_app\<lparr>ca_manager := manager_new ()\<rparr>"

definition broken_env :: "(unit, string list) calls_env" where
  "broken_env = demo_calls_env\<lparr>cx_sfu := demo_sfu_env\<lparr>se_engine_error := Some ''no codecs''\<rparr>\<rparr>"

definition meeting_call :: call_state where
  "meeting_call = (demo_call 1)\<lparr>participants := [(Uuid 7, (demo_participant 7)\<lparr>p_session_id := Uuid 9\<rparr>),
     (Uuid 2, demo_participant 2)]\<rparr>"

definition meeting_app :: "(unit, string list) calls_app" where
  "meeting_app = demo_calls_app\<lparr>ca_manager := add_call demo_call_env meeting_call (manager_new ())\<rparr>"

lemma idle_init: "plugin_init idle_app"
  by (simp add: plugin_init_def idle_app_def demo_calls_app_def call_init_def manager_new_def should_use_redis_def
      sfu_manager_new_def)

lemma idle_fresh: "fresh (Uuid 1) idle_app"
  using plugin.init_safe [OF idle_init] by (simp add: fresh_def idle_app_def manager_new_def)

lemma idle_lookup: "fst (app_get_call_by_channel env ch idle_app) = None"
  using idle_fresh by (simp add: app_get_call_by_channel_local fresh_def app_wf_calls)
     (simp add: idle_app_def manager_new_def)

lemma trim_demo: "trim ''c'' = ''c''"
  by code_simp

lemma idle_guards:
  "resolve_channel_id demo_calls_env ''c'' = Inr (Uuid 50)" "resolve_channel_id broken_env ''c'' = Inr (Uuid 50)"
  "check_channel_permission demo_calls_env u ch = Inr ()" "check_channel_permission broken_env u ch = Inr ()"
  "channel_calls_enabled ch idle_app"
  by (simp_all add: resolve_channel_id_def check_channel_permission_def channel_calls_enabled_def demo_calls_env_def
      broken_env_def idle_app_def demo_calls_app_def trim_demo Let_def)

lemma demo_simps: "auth_user_id demo_host = Uuid 7" "ca_now idle_app = 0" "ca_timers idle_app = []"
  by (simp_all add: demo_host_def idle_app_def demo_calls_app_def)

lemma meeting_manager:
  "ca_manager meeting_app = \<lparr>cm_calls = [(Uuid 1, meeting_call)], cm_channel_index = [(Uuid 50, Uuid 1)],
     cm_redis_present = False, cm_backend = MemoryBackend, cm_store = ()\<rparr>"
  by (simp add: meeting_app_def add_call_def persist_call_local manager_new_def upsert_call_local_def meeting_call_def demo_call_def)

lemma meeting_inv: "calls_inv (ca_manager meeting_app)"
proof -
  have "calls_inv (manager_new ())" using idle_fresh by (simp add: fresh_def app_wf_def idle_app_def)
  moreover have "call_step demo_call_env (manager_new ()) (AddCall meeting_call) (ca_manager meeting_app)"
    using step_add [of "manager_new ()" meeting_call demo_call_env]
    by (auto simp: meeting_app_def manager_new_def call_ok_def meeting_call_def hm_wf_def split: if_splits)
  ultimately show ?thesis by (rule calls.step_safe)
qed

lemma meeting_managed:
  "managed_call demo_calls_env demo_host (Uuid 50) msg meeting_app = (Inr meeting_call, meeting_app)"
proof -
  have "app_get_call_by_channel demo_calls_env (Uuid 50) meeting_app = (Some meeting_call, meeting_app)"
    unfolding app_get_call_by_channel_local [OF meeting_inv] by (simp add: meeting_manager)
  moreover have "normalize_call_host_if_stale demo_calls_env meeting_call meeting_app = (meeting_call, meeting_app)"
    "can_manage_call demo_host meeting_call"
    by (simp_all add: normalize_call_host_if_stale_def meeting_call_def demo_call_def can_manage_call_def demo_host_def)
  ultimately show ?thesis
    by (simp add: managed_call_def active_call_def run_defs hask_def hsome_def hguard_def)
qed

lemma meeting_target:
  "host_target demo_calls_env demo_host ''c'' ''s'' msg meeting_app =
     (Inr (Uuid 50, Uuid 0, meeting_call, Uuid 2), meeting_app)"
proof -
  have "parse_session demo_calls_env ''s'' = Inr (Uuid 0)" "target_user meeting_call (Uuid 0) = Inr (Uuid 2)"
    by (simp_all add: parse_session_def parse_mm_or_uuid_def demo_calls_env_def target_user_def meeting_call_def
        demo_participant_def)
  then show ?thesis by (simp add: host_target_def run_defs hlift_def idle_guards(1) meeting_managed)
qed

lemma demo_media_works:
  assumes "ca_sfu app = sfu_manager_new demo_config"
  shows "fst (create_sfu demo_calls_env c app) = Inr ()"
    and "\<exists>rx. fst (enter_sfu demo_calls_env c u (Uuid 9) (snd (create_sfu demo_calls_env c app))) = Inr rx"
proof -
  note defs = create_sfu_def get_or_create_sfu_def get_or_create_shared_udp_mux_def sfu_new_def build_webrtc_api_def
    sfu_manager_new_def case_prod_unfold Let_def demo_calls_env_def demo_sfu_env_def demo_config_def
  show "fst (create_sfu demo_calls_env c app) = Inr ()" by (simp add: assms defs)
  show "\<exists>rx. fst (enter_sfu demo_calls_env c u (Uuid 9) (snd (create_sfu demo_calls_env c app))) = Inr rx"
    by (simp add: assms defs enter_sfu_def on_sfu_def get_sfu_def sfu_add_participant_def new_peer_connection_def
        add_tracks_def)
qed

lemma idle_starts:
  obtains app1 app2 rx where
    "create_sfu demo_calls_env (Uuid 1) (started demo_calls_env (Uuid 1) (Uuid 9) u ch idle_app) = (Inr (), app1)"
    "enter_sfu demo_calls_env (Uuid 1) u (Uuid 9) app1 = (Inr rx, app2)"
proof -
  have "ca_sfu (started demo_calls_env (Uuid 1) (Uuid 9) u ch idle_app) = sfu_manager_new demo_config"
    by (simp add: started_facts(5) [OF idle_fresh]) (simp add: idle_app_def demo_calls_app_def)
  from demo_media_works [OF this] show ?thesis using that by (metis prod.collapse)
qed

lemma idle_started:
  obtains app' call where "reach plugin_init (plugin_step demo_calls_env po) app'"
    "fst (app_get_call_by_channel demo_calls_env (Uuid 50) app') = Some call"
    "participants call = [(Uuid 7, new_participant (Uuid 7) (Uuid 9) 0)]"
proof -
  obtain app1 app2 rx where sfu:
    "create_sfu demo_calls_env (Uuid 1) (started demo_calls_env (Uuid 1) (Uuid 9) (Uuid 7) (Uuid 50) idle_app) = (Inr (), app1)"
    "enter_sfu demo_calls_env (Uuid 1) (Uuid 7) (Uuid 9) app1 = (Inr rx, app2)"
    using idle_starts .
  obtain app' call where run: "snd (start_call demo_calls_env (Uuid 1) (Uuid 9) demo_host ''c'' idle_app) = app'"
    "fst (app_get_call_by_channel demo_calls_env (Uuid 50) app') = Some call"
    "participants call = [(Uuid 7, new_participant (Uuid 7) (Uuid 9) 0)]"
    using started_call [OF idle_fresh idle_guards(1,3,5) idle_lookup, where auth = demo_host and sid = "Uuid 9",
      unfolded demo_simps, OF sfu] by auto
  have "plugin_step demo_calls_env po idle_app (StartCall (Uuid 1) (Uuid 9) demo_host ''c'') app'"
    using run(1) idle_fresh by (simp add: plugin_step_def fresh_def)
  moreover have "reach plugin_init (plugin_step demo_calls_env po) idle_app" by (rule reach_init) (rule idle_init)
  ultimately have "reach plugin_init (plugin_step demo_calls_env po) app'" by (rule reach_step [rotated])
  with run(2,3) that show ?thesis by blast
qed

section \<open>Properties\<close>





text \<open>The event by which a host mutes a participant, lowers its hand or removes it never reaches that
  participant: it is broadcast to the channel with the participant excluded, although the code sends it
  to tell just that participant.\<close>

theorem host_event_misses_target:
  assumes "host_target env auth cid sid msg app = (Inr (ch, tsid, call, target), app1)"
  shows "withheld target ''custom_com.mattermost.calls_host_mute'' app1 (snd (host_mute env auth cid sid app)) \<and>
    withheld target ''custom_com.mattermost.calls_host_lower_hand'' app1 (snd (host_lower_hand env auth cid sid app)) \<and>
    (target \<noteq> auth_user_id auth \<longrightarrow>
       withheld target ''custom_com.mattermost.calls_host_removed'' app1 (snd (host_remove_user env auth cid sid app)))"
  using mute_withheld [OF assms] lower_hand_withheld [OF assms] remove_withheld [OF assms] by blast

theorem host_event_misses_target_witness:
  "\<exists>app1. withheld (Uuid 2) ''custom_com.mattermost.calls_host_removed'' app1
     (snd (host_remove_user demo_calls_env demo_host ''c'' ''s'' meeting_app))"
proof -
  from host_event_misses_target [OF meeting_target] show ?thesis by (auto simp: demo_host_def)
qed



text \<open>A start that fails half way leaves its call behind: when the media plane cannot be set up the caller is
  told so, yet the channel has a call afterwards with the caller in it and no timer that would end it,
  and the next start answers with that call as if it had been started.\<close>

theorem failed_start_lingers:
  assumes "fresh c app" "resolve_channel_id env cid = Inr ch" "check_channel_permission env (auth_user_id auth) ch = Inr ()"
    and "channel_calls_enabled ch app" "fst (app_get_call_by_channel env ch app) = None"
    and "fst (get_or_create_sfu (cx_sfu env) c (ca_sfu app)) = Inl e"
  shows "\<exists>app' call. start_call env c sid auth cid app = (Inl (Internal (''Failed to create SFU: '' @ e)), app') \<and>
    fst (app_get_call_by_channel env ch app') = Some call \<and> call_id call = c \<and>
    participants call = [(auth_user_id auth, new_participant (auth_user_id auth) sid (ca_now app))] \<and>
    ca_timers app' = ca_timers app \<and>
    start_call env c' sid' auth cid app' = (Inr (start_response env call cid ch), app')"
proof -
  let ?u = "auth_user_id auth" and ?call = "new_call c ch (auth_user_id auth) (ca_now app) None"
  let ?st = "started env c sid ?u ch app"
  obtain thread where th: "start_call env c sid auth cid app = launch_call env auth sid cid ?call thread ?st"
    using start_new [OF assms(1-5)] .
  let ?app' = "snd (launch_call env auth sid cid ?call thread ?st)"
  note st = started_facts [OF assms(1), of env sid ?u ch]
  have "call_id ?call = c" by (simp add: new_call_def)
  then have fail: "fst (get_or_create_sfu (cx_sfu env) (call_id ?call) (ca_sfu ?st)) = Inl e"
    using assms(6) st(5) by simp
  note lf = launch_fails [OF fail, of auth sid cid thread] launch_fails_enabled [OF fail, of auth sid cid thread]
  obtain call where call: "fst (app_get_call_by_channel env ch ?app') = Some call" "call_id call = c"
    "participants call = [(?u, new_participant ?u sid (ca_now app))]"
    using started_lookup [OF assms(1), of ?app' env sid ?u ch] st(1) lf(2) by auto
  have inv: "calls_inv (ca_manager ?app')" using st(1) lf(2) by simp
  have "channel_calls_enabled ch ?app'"
    using assms(4) lf(4) started_enabled [OF assms(1)] by (simp add: channel_calls_enabled_def)
  from start_existing [OF inv assms(2,3) this call(1)] call lf st(4) th show ?thesis
    by (metis prod.collapse)
qed

theorem failed_start_lingers_witness:
  "\<exists>app' call. start_call broken_env (Uuid 1) (Uuid 9) demo_host ''c'' idle_app =
      (Inl (Internal ''Failed to create SFU: no codecs''), app') \<and>
    fst (app_get_call_by_channel broken_env (Uuid 50) app') = Some call \<and> call_id call = Uuid 1"
proof -
  have "fst (get_or_create_sfu (cx_sfu broken_env) (Uuid 1) (ca_sfu idle_app)) = Inl ''no codecs''"
    by (simp add: get_or_create_sfu_def get_or_create_shared_udp_mux_def sfu_new_def build_webrtc_api_def broken_env_def
        idle_app_def demo_calls_app_def sfu_manager_new_def demo_sfu_env_def case_prod_unfold Let_def)
  from failed_start_lingers [OF idle_fresh idle_guards(2,4,5) idle_lookup this, where auth = demo_host and sid = "Uuid 9" and c' = "Uuid 2" and sid' = "Uuid 3"] show ?thesis
    by auto
qed

text \<open>Leaving is not checked: a user who is not in a call, and need not even be a member of its channel, can
  call the endpoint on a call where somebody is waiting alone; the timer that ends deserted calls is
  started, and when it fires the call is ended under the participant that is still in it.\<close>

theorem outsider_leave_ends_call:
  assumes "calls_inv (ca_manager app)" "resolve_channel_id env cid = Inr ch"
    and "fst (app_get_call_by_channel env ch app) = Some call"
    and "hm_get (participants call) (auth_user_id auth) = None" "length (participants call) \<le> 1"
  shows "\<exists>app' call'. leave_call env auth cid app = (Inr OK, app') \<and>
    ca_timers app' = ca_timers app @ [(call_id call, EMPTY_CALL_TIMEOUT_SECS)] \<and>
    fst (app_get_call env (call_id call) app') = Some call' \<and> participants call' = participants call \<and>
    fst (app_get_call env (call_id call) (end_call_if_still_empty env (call_id call) app')) = None"
proof -
  let ?u = "auth_user_id auth" and ?c = "call_id call"
  note call = index_invD [OF assms(1)]
  have known: "hm_get (cm_calls (ca_manager app)) ?c = Some call" "call_channel_id call = ch"
    using call [of ch call] assms(1,3) by (simp_all add: app_get_call_by_channel_local)
  define app1 where "app1 = broadcast_call_event env ''custom_com.mattermost.calls_user_left'' ch
      (JObject [(''channel_id'', JString cid), (''user_id'', JString (mm env ?u))]) None
      (on_manager (remove_participant (cx_env env) ?c ?u) app)"
  have a1: "calls_inv (ca_manager app1)" "hm_get (cm_calls (ca_manager app1)) ?c = Some (drop_participant ?u call)"
    "ca_timers app1 = ca_timers app"
    using remove_participant_local [OF assms(1) known(1), of "cx_env env" ?u] by (simp_all add: app1_def)
  have rest: "participants (drop_participant ?u call) = participants call"
    using assms(4) by (simp add: drop_participant_def Let_def AList.delete_id map_of_eq_None_iff)
  obtain app2 where a2: "reconcile_after_participant_left env ?c ch ?u app1 = (length (participants call), app2)"
    "calls_inv (ca_manager app2)" "ca_timers app2 = ca_timers app1"
    "view (ca_manager app2) ?c = Some (core (succeed_host (drop_participant ?u call) ?u))"
    using reconcile_local [OF a1(1,2), of env ch ?u] rest by auto
  let ?app' = "schedule_empty_call_timeout ?c app2"
  have run: "leave_call env auth cid app = (Inr OK, ?app')"
    using assms a2(1) known
    by (simp add: leave_call_def Let_def hbind_def hlift_def hask_def hdo_def hreturn_def app_get_call_by_channel_local
        app_get_participant_local after_departure_def app1_def)
  obtain call' where call': "hm_get (cm_calls (ca_manager ?app')) ?c = Some call'"
    "core call' = core (succeed_host (drop_participant ?u call) ?u)"
    using a2(4) unfolding view_Some by auto
  then have ps: "participants call' = participants call" using core_eqD [OF call'(2)] rest by simp
  have inv: "calls_inv (ca_manager ?app')" using a2(2) by simp
  then have "fst (app_get_call env ?c (end_call_if_still_empty env ?c ?app')) = None"
    using timeout_gone [OF inv call'(1)] ps assms(5) by simp
  then show ?thesis
    using run a1(3) a2(3) call'(1) ps inv
    by (auto simp: app_get_call_local schedule_empty_call_timeout_def)
qed

theorem outsider_leave_ends_call_witness:
  "\<exists>app'. leave_call demo_calls_env demo_host ''c'' demo_calls_app = (Inr OK, app') \<and>
     ca_timers app' = [(Uuid 1, EMPTY_CALL_TIMEOUT_SECS)]"
proof -
  have inv: "calls_inv (ca_manager demo_calls_app)" using one_call_inv by (simp add: demo_calls_app_def)
  have "fst (app_get_call_by_channel demo_calls_env (Uuid 50) demo_calls_app) = Some (demo_call 1)"
    unfolding app_get_call_by_channel_local [OF inv] by (simp add: demo_calls_app_def one_call_eq)
  from outsider_leave_ends_call [OF inv idle_guards(1) this, where auth = demo_host] show ?thesis
    by (auto simp: demo_calls_app_def)
qed


end
