(* ===== verification/Mm_Mappers.thy ===== *)
theory Mm_Mappers
  imports Mm_Id Rate_Limit
begin

text \<open>
  From database rows to the objects Mattermost clients read: \<^verbatim>\<open>backend/src/mattermost_compat/mappers.rs\<close>, the
  row types of \<^verbatim>\<open>backend/src/models\<close> it reads and the wire types of \<^verbatim>\<open>mattermost_compat/models.rs\<close> it builds,
  with the JSON objects their derived \<^verbatim>\<open>Serialize\<close> produces. A \<^verbatim>\<open>DateTime\<close> is its number of milliseconds.
\<close>

section \<open>Identifiers and names\<close>

text \<open>The conversions of the \<^verbatim>\<open>uuid\<close> crate.\<close>

record id_codec =
  ic_as_bytes :: "uuid \<Rightarrow> 8 word list"
  ic_from_slice :: "8 word list \<Rightarrow> uuid option"
  ic_show :: "uuid \<Rightarrow> string"
  ic_parse_str :: "string \<Rightarrow> uuid option"

abbreviation mm_id :: "id_codec \<Rightarrow> uuid \<Rightarrow> string" where
  "mm_id k \<equiv> encode_mm_id (ic_as_bytes k)"

abbreviation parse_mm_id :: "id_codec \<Rightarrow> string \<Rightarrow> uuid option" where
  "parse_mm_id k \<equiv> parse_mm_or_uuid (ic_parse_str k) (ic_from_slice k)"

text \<open>\<^verbatim>\<open>Option::map(encode_mm_id).unwrap_or_default()\<close>, and \<^verbatim>\<open>unwrap_or_default\<close> and \<^verbatim>\<open>unwrap_or(0)\<close> on their own.\<close>

definition mm_id_or_empty :: "id_codec \<Rightarrow> uuid option \<Rightarrow> string" where
  "mm_id_or_empty k u = (case u of None \<Rightarrow> [] | Some u \<Rightarrow> mm_id k u)"

definition str_or_empty :: "string option \<Rightarrow> string" where
  "str_or_empty s = (case s of None \<Rightarrow> [] | Some s \<Rightarrow> s)"

definition ms_or_zero :: "int option \<Rightarrow> int" where
  "ms_or_zero t = (case t of None \<Rightarrow> 0 | Some t \<Rightarrow> t)"

text \<open>\<^verbatim>\<open>rsplit_once('.')\<close>, of which only the part behind the last dot is used.\<close>

definition extension_of :: "string \<Rightarrow> string" where
  "extension_of name = (if CHR ''.'' \<in> set name then rev (takeWhile (\<lambda>c. c \<noteq> CHR ''.'') (rev name)) else [])"

section \<open>Roles\<close>

definition map_system_role :: "string \<Rightarrow> string" where
  "map_system_role role =
     (if role = ''admin'' \<or> role = ''system_admin'' then ''system_admin system_user'' else ''system_user'')"

definition map_team_role :: "string \<Rightarrow> string" where
  "map_team_role role =
     (if role = ''admin'' \<or> role = ''team_admin'' then ''team_admin team_user'' else ''team_user'')"

definition map_channel_role :: "string \<Rightarrow> string" where
  "map_channel_role role =
     (if role = ''admin'' \<or> role = ''channel_admin'' then ''channel_admin channel_user'' else ''channel_user'')"

section \<open>Users\<close>

record user =
  usr_id :: uuid
  usr_org_id :: "uuid option"
  usr_username :: string
  usr_email :: string
  usr_password_hash :: "string option"
  usr_display_name :: "string option"
  usr_avatar_url :: "string option"
  usr_first_name :: "string option"
  usr_last_name :: "string option"
  usr_nickname :: "string option"
  usr_position :: "string option"
  usr_is_bot :: bool
  usr_is_active :: bool
  usr_role :: string
  usr_presence :: string
  usr_status_text :: "string option"
  usr_status_emoji :: "string option"
  usr_status_expires_at :: "int option"
  usr_custom_status :: "json option"
  usr_notify_props :: json
  usr_timezone :: "string option"
  usr_last_login_at :: "int option"
  usr_email_verified :: bool
  usr_email_verified_at :: "int option"
  usr_deleted_at :: "int option"
  usr_deleted_by :: "uuid option"
  usr_delete_reason :: "string option"
  usr_created_at :: int
  usr_updated_at :: int
  usr_entity_type :: entity_type
  usr_api_key_hash :: "string option"
  usr_entity_metadata :: json
  usr_rate_limit_tier :: "rate_limit_tier option"

record mm_user =
  mu_id :: string
  mu_create_at :: int
  mu_update_at :: int
  mu_delete_at :: int
  mu_username :: string
  mu_first_name :: string
  mu_last_name :: string
  mu_nickname :: string
  mu_email :: string
  mu_email_verified :: bool
  mu_auth_service :: string
  mu_roles :: string
  mu_locale :: string
  mu_notify_props :: json
  mu_props :: json
  mu_last_password_update :: int
  mu_last_picture_update :: int
  mu_failed_attempts :: int
  mu_mfa_active :: bool
  mu_timezone :: json

definition mm_user_of :: "id_codec \<Rightarrow> user \<Rightarrow> mm_user" where
  "mm_user_of k u =
     (let is_deleted = usr_deleted_at u \<noteq> None;
          tz = (case usr_timezone u of
                  Some value \<Rightarrow> if trim value \<noteq> [] then value else ''UTC''
                | None \<Rightarrow> ''UTC'')
      in \<lparr>mu_id = mm_id k (usr_id u), mu_create_at = usr_created_at u, mu_update_at = usr_updated_at u,
          mu_delete_at = ms_or_zero (usr_deleted_at u),
          mu_username = (if is_deleted then ''Deleted user'' else usr_username u),
          mu_first_name = (if is_deleted then [] else str_or_empty (usr_first_name u)),
          mu_last_name = (if is_deleted then [] else str_or_empty (usr_last_name u)),
          mu_nickname = (if is_deleted then ''Deleted user''
             else str_or_empty (case usr_nickname u of Some n \<Rightarrow> Some n | None \<Rightarrow> usr_display_name u)),
          mu_email = (if is_deleted then ''deleted-user@local'' else usr_email u),
          mu_email_verified = True, mu_auth_service = [], mu_roles = map_system_role (usr_role u),
          mu_locale = ''en'', mu_notify_props = usr_notify_props u, mu_props = JObject [],
          mu_last_password_update = 0, mu_last_picture_update = 0, mu_failed_attempts = 0, mu_mfa_active = False,
          mu_timezone = JObject [(''automaticTimezone'', JString tz), (''manualTimezone'', JString tz),
                                 (''useAutomaticTimezone'', JString ''true'')]\<rparr>)"

section \<open>Teams and channels\<close>

record team =
  tm_id :: uuid
  tm_org_id :: uuid
  tm_name :: string
  tm_display_name :: "string option"
  tm_description :: "string option"
  tm_invite_id :: string
  tm_is_public :: bool
  tm_allow_open_invite :: bool
  tm_created_at :: int
  tm_updated_at :: int
  tm_deleted_at :: "int option"
  tm_privacy :: "string option"
  tm_icon_path :: "string option"
  tm_scheme_id :: "uuid option"

record mm_team =
  mt_id :: string
  mt_create_at :: int
  mt_update_at :: int
  mt_delete_at :: int
  mt_display_name :: string
  mt_name :: string
  mt_description :: string
  mt_email :: string
  mt_team_type :: string
  mt_company_name :: string
  mt_allowed_domains :: string
  mt_invite_id :: string
  mt_allow_open_invite :: bool

definition mm_team_of :: "id_codec \<Rightarrow> team \<Rightarrow> mm_team" where
  "mm_team_of k t =
     \<lparr>mt_id = mm_id k (tm_id t), mt_create_at = tm_created_at t, mt_update_at = tm_updated_at t,
      mt_delete_at = ms_or_zero (tm_deleted_at t),
      mt_display_name = (case tm_display_name t of None \<Rightarrow> tm_name t | Some n \<Rightarrow> n),
      mt_name = tm_name t, mt_description = str_or_empty (tm_description t), mt_email = [],
      mt_team_type = (if tm_privacy t = Some ''open'' then ''O''
         else if tm_privacy t = Some ''invite'' then ''I''
         else if tm_is_public t then ''O'' else ''I''),
      mt_company_name = [], mt_allowed_domains = [], mt_invite_id = tm_invite_id t,
      mt_allow_open_invite = tm_allow_open_invite t\<rparr>"

datatype channel_type = Public | Private | Direct | Group

record channel =
  ch_id :: uuid
  ch_team_id :: uuid
  ch_channel_type :: channel_type
  ch_name :: string
  ch_display_name :: "string option"
  ch_purpose :: "string option"
  ch_header :: "string option"
  ch_is_archived :: bool
  ch_creator_id :: "uuid option"
  ch_created_at :: int
  ch_updated_at :: int
  ch_deleted_at :: "int option"

record mm_channel =
  mc_id :: string
  mc_create_at :: int
  mc_update_at :: int
  mc_delete_at :: int
  mc_team_id :: string
  mc_channel_type :: string
  mc_display_name :: string
  mc_name :: string
  mc_header :: string
  mc_purpose :: string
  mc_last_post_at :: int
  mc_total_msg_count :: int
  mc_extra_update_at :: int
  mc_creator_id :: string

definition channel_display_name :: "channel \<Rightarrow> string" where
  "channel_display_name c =
     (let fallback = (case ch_channel_type c of
            Direct \<Rightarrow> ''Direct Message'' | Group \<Rightarrow> ''Group Message'' | _ \<Rightarrow> ch_name c)
      in case ch_display_name c of
           Some name \<Rightarrow> if trim name \<noteq> [] then name else fallback
         | None \<Rightarrow> fallback)"

definition channel_wire_name :: "id_codec \<Rightarrow> channel \<Rightarrow> string" where
  "channel_wire_name k c =
     (if ch_channel_type c = Direct
      then (case parse_direct_channel_name (ic_parse_str k) (ch_name c) of
              Some (left, right) \<Rightarrow> canonical_direct_channel_name (ic_show k) left right
            | None \<Rightarrow> ch_name c)
      else ch_name c)"

definition mm_channel_of :: "id_codec \<Rightarrow> channel \<Rightarrow> mm_channel" where
  "mm_channel_of k c =
     \<lparr>mc_id = mm_id k (ch_id c), mc_create_at = ch_created_at c, mc_update_at = ch_updated_at c,
      mc_delete_at = (if ch_is_archived c then ch_updated_at c else 0),
      mc_team_id = mm_id k (ch_team_id c),
      mc_channel_type = (case ch_channel_type c of
         Public \<Rightarrow> ''O'' | Private \<Rightarrow> ''P'' | Direct \<Rightarrow> ''D'' | Group \<Rightarrow> ''G''),
      mc_display_name = channel_display_name c, mc_name = channel_wire_name k c,
      mc_header = str_or_empty (ch_header c), mc_purpose = str_or_empty (ch_purpose c),
      mc_last_post_at = 0, mc_total_msg_count = 0, mc_extra_update_at = 0,
      mc_creator_id = mm_id_or_empty k (ch_creator_id c)\<rparr>"

definition json_of_channel :: "mm_channel \<Rightarrow> json" where
  "json_of_channel c = JObject
     [(''id'', JString (mc_id c)), (''create_at'', JNumber (mc_create_at c)),
      (''update_at'', JNumber (mc_update_at c)), (''delete_at'', JNumber (mc_delete_at c)),
      (''team_id'', JString (mc_team_id c)), (''type'', JString (mc_channel_type c)),
      (''display_name'', JString (mc_display_name c)), (''name'', JString (mc_name c)),
      (''header'', JString (mc_header c)), (''purpose'', JString (mc_purpose c)),
      (''last_post_at'', JNumber (mc_last_post_at c)), (''total_msg_count'', JNumber (mc_total_msg_count c)),
      (''extra_update_at'', JNumber (mc_extra_update_at c)), (''creator_id'', JString (mc_creator_id c))]"

section \<open>Posts and files\<close>

record mm_file_info =
  mf_id :: string
  mf_user_id :: string
  mf_post_id :: string
  mf_channel_id :: string
  mf_create_at :: int
  mf_update_at :: int
  mf_delete_at :: int
  mf_name :: string
  mf_extension :: string
  mf_size :: int
  mf_mime_type :: string
  mf_width :: int
  mf_height :: int
  mf_has_preview_image :: bool
  mf_mini_preview :: "8 word list option"

record mm_post =
  mpo_id :: string
  mpo_create_at :: int
  mpo_update_at :: int
  mpo_delete_at :: int
  mpo_edit_at :: int
  mpo_user_id :: string
  mpo_channel_id :: string
  mpo_root_id :: string
  mpo_original_id :: string
  mpo_message :: string
  mpo_post_type :: string
  mpo_props :: json
  mpo_hashtags :: string
  mpo_file_ids :: "string list"
  mpo_pending_post_id :: string
  mpo_metadata :: "json option"

record post =
  po_id :: uuid
  po_channel_id :: uuid
  po_user_id :: uuid
  po_root_post_id :: "uuid option"
  po_message :: string
  po_props :: json
  po_file_ids :: "uuid list"
  po_is_pinned :: bool
  po_created_at :: int
  po_edited_at :: "int option"
  po_deleted_at :: "int option"
  po_reply_count :: int
  po_last_reply_at :: "int option"
  po_seq :: int

record file_upload_response =
  fu_id :: uuid
  fu_name :: string
  fu_mime_type :: string
  fu_size :: int
  fu_width :: int
  fu_height :: int
  fu_url :: string
  fu_thumbnail_url :: "string option"

record reaction_response =
  rr_emoji :: string
  rr_count :: int
  rr_users :: "uuid list"

record post_response = post +
  pr_username :: "string option"
  pr_avatar_url :: "string option"
  pr_email :: "string option"
  pr_files :: "file_upload_response list"
  pr_reactions :: "reaction_response list"
  pr_is_saved :: bool
  pr_client_msg_id :: "string option"

definition post_type_from_props :: "json \<Rightarrow> string" where
  "post_type_from_props props = str_or_empty (Option.bind (json_get ''type'' props) json_as_str)"

definition mm_post_of :: "id_codec \<Rightarrow> 'a post_scheme \<Rightarrow> mm_post" where
  "mm_post_of k p =
     \<lparr>mpo_id = mm_id k (po_id p), mpo_create_at = po_created_at p,
      mpo_update_at = (case po_edited_at p of None \<Rightarrow> po_created_at p | Some t \<Rightarrow> t),
      mpo_delete_at = ms_or_zero (po_deleted_at p), mpo_edit_at = ms_or_zero (po_edited_at p),
      mpo_user_id = mm_id k (po_user_id p), mpo_channel_id = mm_id k (po_channel_id p),
      mpo_root_id = mm_id_or_empty k (po_root_post_id p), mpo_original_id = [],
      mpo_message = po_message p, mpo_post_type = post_type_from_props (po_props p), mpo_props = po_props p,
      mpo_hashtags = [], mpo_file_ids = map (mm_id k) (po_file_ids p), mpo_pending_post_id = [],
      mpo_metadata = None\<rparr>"

definition json_of_file_info :: "mm_file_info \<Rightarrow> json" where
  "json_of_file_info f = JObject
     ([(''id'', JString (mf_id f)), (''user_id'', JString (mf_user_id f)), (''post_id'', JString (mf_post_id f)),
       (''channel_id'', JString (mf_channel_id f)), (''create_at'', JNumber (mf_create_at f)),
       (''update_at'', JNumber (mf_update_at f)), (''delete_at'', JNumber (mf_delete_at f)),
       (''name'', JString (mf_name f)), (''extension'', JString (mf_extension f)),
       (''size'', JNumber (mf_size f)), (''mime_type'', JString (mf_mime_type f)),
       (''width'', JNumber (mf_width f)), (''height'', JNumber (mf_height f)),
       (''has_preview_image'', JBool (mf_has_preview_image f))]
      @ (case mf_mini_preview f of None \<Rightarrow> []
         | Some bytes \<Rightarrow> [(''mini_preview'', JArray (map (JNumber \<circ> uint) bytes))]))"

definition response_file :: "id_codec \<Rightarrow> post_response \<Rightarrow> file_upload_response \<Rightarrow> mm_file_info" where
  "response_file k p f =
     \<lparr>mf_id = mm_id k (fu_id f), mf_user_id = [], mf_post_id = mm_id k (po_id p),
      mf_channel_id = mm_id k (po_channel_id p), mf_create_at = po_created_at p, mf_update_at = po_created_at p,
      mf_delete_at = 0, mf_name = fu_name f, mf_extension = extension_of (fu_name f), mf_size = fu_size f,
      mf_mime_type = fu_mime_type f, mf_width = fu_width f, mf_height = fu_height f,
      mf_has_preview_image = (fu_thumbnail_url f \<noteq> None), mf_mini_preview = None\<rparr>"

definition response_reaction :: "id_codec \<Rightarrow> post_response \<Rightarrow> reaction_response \<Rightarrow> json" where
  "response_reaction k p r = JObject
     [(''user_id'', JString (mm_id k (case rr_users r of [] \<Rightarrow> Uuid 0 | u # _ \<Rightarrow> u))),
      (''post_id'', JString (mm_id k (po_id p))), (''emoji_name'', JString (rr_emoji r)),
      (''create_at'', JNumber (po_created_at p))]"

definition response_metadata :: "id_codec \<Rightarrow> post_response \<Rightarrow> json option" where
  "response_metadata k p =
     (let reactions = (''reactions'', JArray (map (response_reaction k p) (pr_reactions p)))
      in if pr_files p \<noteq> []
         then Some (JObject [(''files'', JArray (map (json_of_file_info \<circ> response_file k p) (pr_files p))), reactions])
         else if pr_reactions p \<noteq> [] then Some (JObject [reactions])
         else None)"

definition mm_post_of_response :: "id_codec \<Rightarrow> post_response \<Rightarrow> mm_post" where
  "mm_post_of_response k p =
     (mm_post_of k p)\<lparr>mpo_pending_post_id := str_or_empty (pr_client_msg_id p),
                      mpo_metadata := response_metadata k p\<rparr>"

definition json_of_post :: "mm_post \<Rightarrow> json" where
  "json_of_post p = JObject
     ([(''id'', JString (mpo_id p)), (''create_at'', JNumber (mpo_create_at p)),
       (''update_at'', JNumber (mpo_update_at p)), (''delete_at'', JNumber (mpo_delete_at p)),
       (''edit_at'', JNumber (mpo_edit_at p)), (''user_id'', JString (mpo_user_id p)),
       (''channel_id'', JString (mpo_channel_id p)), (''root_id'', JString (mpo_root_id p)),
       (''original_id'', JString (mpo_original_id p)), (''message'', JString (mpo_message p)),
       (''type'', JString (mpo_post_type p)), (''props'', mpo_props p),
       (''hashtags'', JString (mpo_hashtags p)), (''file_ids'', JArray (map JString (mpo_file_ids p))),
       (''pending_post_id'', JString (mpo_pending_post_id p))]
      @ (case mpo_metadata p of None \<Rightarrow> [] | Some m \<Rightarrow> [(''metadata'', m)]))"

record file_info =
  fi_id :: uuid
  fi_uploader_id :: uuid
  fi_channel_id :: "uuid option"
  fi_post_id :: "uuid option"
  fi_name :: string
  fi_key :: string
  fi_mime_type :: string
  fi_size :: int
  fi_backend :: string
  fi_width :: "int option"
  fi_height :: "int option"
  fi_has_thumbnail :: bool
  fi_thumbnail_key :: "string option"
  fi_sha256 :: "string option"
  fi_created_at :: int

definition mm_file_info_of :: "id_codec \<Rightarrow> file_info \<Rightarrow> mm_file_info" where
  "mm_file_info_of k f =
     \<lparr>mf_id = mm_id k (fi_id f), mf_user_id = mm_id k (fi_uploader_id f),
      mf_post_id = mm_id_or_empty k (fi_post_id f), mf_channel_id = mm_id_or_empty k (fi_channel_id f),
      mf_create_at = fi_created_at f, mf_update_at = fi_created_at f, mf_delete_at = 0, mf_name = fi_name f,
      mf_extension = extension_of (fi_name f), mf_size = fi_size f, mf_mime_type = fi_mime_type f,
      mf_width = ms_or_zero (fi_width f), mf_height = ms_or_zero (fi_height f),
      mf_has_preview_image = fi_has_thumbnail f, mf_mini_preview = None\<rparr>"

section \<open>Members and reactions\<close>

record team_member =
  tb_team_id :: uuid
  tb_user_id :: uuid
  tb_role :: string
  tb_created_at :: int

record mm_team_member =
  mtb_team_id :: string
  mtb_user_id :: string
  mtb_roles :: string
  mtb_delete_at :: int
  mtb_scheme_guest :: bool
  mtb_scheme_user :: bool
  mtb_scheme_admin :: bool
  mtb_presence :: "string option"

definition mm_team_member_of :: "id_codec \<Rightarrow> team_member \<Rightarrow> mm_team_member" where
  "mm_team_member_of k m =
     \<lparr>mtb_team_id = mm_id k (tb_team_id m), mtb_user_id = mm_id k (tb_user_id m),
      mtb_roles = map_team_role (tb_role m), mtb_delete_at = 0, mtb_scheme_guest = False, mtb_scheme_user = True,
      mtb_scheme_admin = (tb_role m = ''admin'' \<or> tb_role m = ''system_admin''), mtb_presence = None\<rparr>"

record channel_member =
  cb_channel_id :: uuid
  cb_user_id :: uuid
  cb_role :: string
  cb_notify_props :: json
  cb_last_viewed_at :: "int option"
  cb_created_at :: int
  cb_msg_count :: int
  cb_mention_count :: int
  cb_mention_count_root :: int
  cb_urgent_mention_count :: int
  cb_msg_count_root :: int
  cb_manually_unread :: bool
  cb_last_update_at :: "int option"
  cb_username :: "string option"
  cb_display_name :: "string option"
  cb_avatar_url :: "string option"
  cb_presence :: "string option"

record mm_channel_member =
  mcb_channel_id :: string
  mcb_user_id :: string
  mcb_roles :: string
  mcb_last_viewed_at :: int
  mcb_msg_count :: int
  mcb_mention_count :: int
  mcb_mention_count_root :: int
  mcb_urgent_mention_count :: int
  mcb_msg_count_root :: int
  mcb_notify_props :: json
  mcb_last_update_at :: int
  mcb_scheme_guest :: bool
  mcb_scheme_user :: bool
  mcb_scheme_admin :: bool

definition mm_channel_member_of :: "id_codec \<Rightarrow> channel_member \<Rightarrow> mm_channel_member" where
  "mm_channel_member_of k m =
     \<lparr>mcb_channel_id = mm_id k (cb_channel_id m), mcb_user_id = mm_id k (cb_user_id m),
      mcb_roles = map_channel_role (cb_role m), mcb_last_viewed_at = ms_or_zero (cb_last_viewed_at m),
      mcb_msg_count = cb_msg_count m, mcb_mention_count = cb_mention_count m,
      mcb_mention_count_root = cb_mention_count_root m, mcb_urgent_mention_count = cb_urgent_mention_count m,
      mcb_msg_count_root = cb_msg_count_root m, mcb_notify_props = cb_notify_props m,
      mcb_last_update_at = (case cb_last_update_at m of None \<Rightarrow> cb_created_at m | Some t \<Rightarrow> t),
      mcb_scheme_guest = False, mcb_scheme_user = True,
      mcb_scheme_admin = (cb_role m = ''admin'' \<or> cb_role m = ''channel_admin'')\<rparr>"

definition json_of_channel_member :: "mm_channel_member \<Rightarrow> json" where
  "json_of_channel_member m = JObject
     [(''channel_id'', JString (mcb_channel_id m)), (''user_id'', JString (mcb_user_id m)),
      (''roles'', JString (mcb_roles m)), (''last_viewed_at'', JNumber (mcb_last_viewed_at m)),
      (''msg_count'', JNumber (mcb_msg_count m)), (''mention_count'', JNumber (mcb_mention_count m)),
      (''mention_count_root'', JNumber (mcb_mention_count_root m)),
      (''urgent_mention_count'', JNumber (mcb_urgent_mention_count m)),
      (''msg_count_root'', JNumber (mcb_msg_count_root m)), (''notify_props'', mcb_notify_props m),
      (''last_update_at'', JNumber (mcb_last_update_at m)), (''scheme_guest'', JBool (mcb_scheme_guest m)),
      (''scheme_user'', JBool (mcb_scheme_user m)), (''scheme_admin'', JBool (mcb_scheme_admin m))]"

record mm_reaction =
  mr_user_id :: string
  mr_post_id :: string
  mr_emoji_name :: string
  mr_create_at :: int
  mr_update_at :: int
  mr_delete_at :: int
  mr_channel_id :: string
  mr_remote_id :: string

definition json_of_reaction :: "mm_reaction \<Rightarrow> json" where
  "json_of_reaction r = JObject
     [(''user_id'', JString (mr_user_id r)), (''post_id'', JString (mr_post_id r)),
      (''emoji_name'', JString (mr_emoji_name r)), (''create_at'', JNumber (mr_create_at r)),
      (''update_at'', JNumber (mr_update_at r)), (''delete_at'', JNumber (mr_delete_at r)),
      (''channel_id'', JString (mr_channel_id r)), (''remote_id'', JString (mr_remote_id r))]"

section \<open>Properties\<close>

text \<open>What clients read of a deleted user depends only on its identifier, its timestamps, its role, its
  notification settings and its time zone: neither the user name nor the names, the nickname or the mail address
  reach them.\<close>

theorem deleted_user_anonymous:
  assumes "usr_deleted_at u \<noteq> None"
  shows "mm_user_of k (u\<lparr>usr_username := n, usr_email := e, usr_display_name := d, usr_first_name := f,
           usr_last_name := l, usr_nickname := i\<rparr>) = mm_user_of k u
    \<and> mu_username (mm_user_of k u) = ''Deleted user'' \<and> mu_email (mm_user_of k u) = ''deleted-user@local''"
  using assms by (simp add: mm_user_of_def Let_def)

definition demo_codec :: id_codec where
  "demo_codec = \<lparr>ic_as_bytes = be_bytes, ic_from_slice = be_uuid, ic_show = unary_show, ic_parse_str = unary_parse\<rparr>"

definition deleted_row :: user where
  "deleted_row = \<lparr>usr_id = Uuid 7, usr_org_id = None, usr_username = ''ann'', usr_email = ''ann@example.org'',
     usr_password_hash = None, usr_display_name = Some ''Ann'', usr_avatar_url = None, usr_first_name = None,
     usr_last_name = None, usr_nickname = None, usr_position = None, usr_is_bot = False, usr_is_active = False,
     usr_role = ''member'', usr_presence = [], usr_status_text = None, usr_status_emoji = None,
     usr_status_expires_at = None, usr_custom_status = None, usr_notify_props = JNull, usr_timezone = None,
     usr_last_login_at = None, usr_email_verified = True, usr_email_verified_at = None, usr_deleted_at = Some 3,
     usr_deleted_by = None, usr_delete_reason = None, usr_created_at = 1, usr_updated_at = 2, usr_entity_type = Human,
     usr_api_key_hash = None, usr_entity_metadata = JNull, usr_rate_limit_tier = None\<rparr>"

theorem deleted_user_anonymous_witness:
  "mu_username (mm_user_of demo_codec deleted_row) = ''Deleted user'' \<and> mu_email (mm_user_of demo_codec deleted_row) = ''deleted-user@local''"
  using deleted_user_anonymous [of deleted_row demo_codec] by (simp add: deleted_row_def)

text \<open>The announced name of a direct-message channel is the canonical name of its two members, whether the row
  holds that name or the legacy one, and in either order. The hypotheses say that the \<^verbatim>\<open>uuid\<close> crate reads back
  what it prints, and prints no underscore.\<close>

theorem direct_channel_canonical:
  assumes "\<And>u. ic_parse_str k (ic_show k u) = Some u" "\<And>u. CHR ''_'' \<notin> set (ic_show k u)" "\<And>u. ic_show k u \<noteq> []"
    and "ch_channel_type c = Direct"
    and "ch_name c = canonical_direct_channel_name (ic_show k) a b \<or> ch_name c = legacy_direct_channel_name (ic_show k) a b"
  shows "mc_name (mm_channel_of k c) = canonical_direct_channel_name (ic_show k) a b
    \<and> mc_name (mm_channel_of k c) = canonical_direct_channel_name (ic_show k) b a"
proof -
  note parsed = direct_names_parse [of "ic_parse_str k" "ic_show k" a b, OF assms(1-3)]
  have "canonical_direct_channel_name (ic_show k) (min a b) (max a b) = canonical_direct_channel_name (ic_show k) a b"
    by (cases "a \<le> b") (auto simp: canonical_direct_channel_name_def sort_user_ids_def min_def max_def)
  with parsed assms(4,5) show ?thesis by (auto simp: mm_channel_of_def channel_wire_name_def)
qed

definition demo_channel :: channel where
  "demo_channel = \<lparr>ch_id = Uuid 7, ch_team_id = Uuid 8, ch_channel_type = Direct,
     ch_name = legacy_direct_channel_name unary_show (Uuid 2) (Uuid 1), ch_display_name = None, ch_purpose = None,
     ch_header = None, ch_is_archived = False, ch_creator_id = None, ch_created_at = 0, ch_updated_at = 0, ch_deleted_at = None\<rparr>"

theorem direct_channel_canonical_witness:
  "mc_name (mm_channel_of demo_codec demo_channel) = canonical_direct_channel_name unary_show (Uuid 1) (Uuid 2)"
  using direct_channel_canonical [of demo_codec demo_channel "Uuid 2" "Uuid 1"]
  by (auto simp: demo_codec_def demo_channel_def unary_parse_def unary_show_def)

text \<open>The roles a member is announced with and the \<^verbatim>\<open>scheme_admin\<close> flag beside them are computed from different
  role names: a \<^verbatim>\<open>team_admin\<close> has the role without the flag, a \<^verbatim>\<open>system_admin\<close> the flag without the role.\<close>

lemma team_admin_flag_disagrees:
  "tb_role m = ''team_admin'' \<Longrightarrow> mtb_roles (mm_team_member_of k m) = ''team_admin team_user''
     \<and> \<not> mtb_scheme_admin (mm_team_member_of k m)"
  "tb_role m = ''system_admin'' \<Longrightarrow> mtb_roles (mm_team_member_of k m) = ''team_user''
     \<and> mtb_scheme_admin (mm_team_member_of k m)"
  by (simp_all add: mm_team_member_of_def map_team_role_def)

end
