(* ===== verification/Msgpack.thy ===== *)
theory Msgpack
  imports Prelude
begin

text \<open>
  The decoder for binary client messages: \<^verbatim>\<open>decode_msgpack_value\<close> and what it calls in
  \<^verbatim>\<open>backend/src/api/v4/websocket.rs\<close>. \<^verbatim>\<open>std::str::from_utf8\<close> is the argument \<open>utf8\<close>, since the
  model's strings do not hold every code point.

  The decoder's state is the index into the message and, in the order they are made, the capacities that
  \<^verbatim>\<open>Vec::with_capacity\<close> and \<^verbatim>\<open>Map::with_capacity\<close> are asked for.
\<close>

record mp =
  mp_idx :: nat
  mp_reserved :: "nat list"

type_synonym bytes = "8 word list"

section \<open>Reading\<close>

definition read_exact :: "bytes \<Rightarrow> nat \<Rightarrow> mp \<Rightarrow> bytes option \<times> mp" where
  "read_exact bytes len s =
     (if mp_idx s + len \<le> length bytes
      then (Some (take len (drop (mp_idx s) bytes)), s\<lparr>mp_idx := mp_idx s + len\<rparr>)
      else (None, s))"

definition read_u8 :: "bytes \<Rightarrow> mp \<Rightarrow> 8 word option \<times> mp" where
  "read_u8 bytes s =
     (if mp_idx s < length bytes then (Some (bytes ! mp_idx s), s\<lparr>mp_idx := mp_idx s + 1\<rparr>) else (None, s))"

definition read_u16 :: "bytes \<Rightarrow> mp \<Rightarrow> 16 word option \<times> mp" where
  "read_u16 bytes s = (let (r, s) = read_exact bytes 2 s in (map_option word_rcat r, s))"

definition read_u32 :: "bytes \<Rightarrow> mp \<Rightarrow> 32 word option \<times> mp" where
  "read_u32 bytes s = (let (r, s) = read_exact bytes 4 s in (map_option word_rcat r, s))"

definition read_i8 :: "bytes \<Rightarrow> mp \<Rightarrow> int option \<times> mp" where
  "read_i8 bytes s = (let (r, s) = read_u8 bytes s in (map_option sint r, s))"

definition read_i16 :: "bytes \<Rightarrow> mp \<Rightarrow> int option \<times> mp" where
  "read_i16 bytes s = (let (r, s) = read_u16 bytes s in (map_option sint r, s))"

definition read_i32 :: "bytes \<Rightarrow> mp \<Rightarrow> int option \<times> mp" where
  "read_i32 bytes s = (let (r, s) = read_u32 bytes s in (map_option sint r, s))"

definition decode_str :: "(bytes \<Rightarrow> string option) \<Rightarrow> bytes \<Rightarrow> nat \<Rightarrow> mp \<Rightarrow> json option \<times> mp" where
  "decode_str utf8 bytes len s =
     (let (r, s) = read_exact bytes len s in (map_option JString (Option.bind r utf8), s))"

definition decode_bin_as_json_array :: "bytes \<Rightarrow> nat \<Rightarrow> mp \<Rightarrow> json option \<times> mp" where
  "decode_bin_as_json_array bytes len s =
     (let (r, s) = read_exact bytes len s in (map_option (\<lambda>b. JArray (map (JNumber \<circ> uint) b)) r, s))"

text \<open>What follows a marker: a value, or a number of bytes, items or pairs.\<close>

datatype shape = Value json | Str nat | Bin nat | Items nat | Pairs nat

text \<open>A length is read before the content.\<close>

definition sized :: "('w::len word option \<times> mp) \<Rightarrow> (nat \<Rightarrow> shape) \<Rightarrow> shape option \<times> mp" where
  "sized r f = (case r of (None, s) \<Rightarrow> (None, s) | (Some w, s) \<Rightarrow> (Some (f (unat w)), s))"

definition number :: "(int option \<times> mp) \<Rightarrow> shape option \<times> mp" where
  "number r = (case r of (x, s) \<Rightarrow> (map_option (Value \<circ> JNumber) x, s))"

definition widen :: "('w::len word option \<times> mp) \<Rightarrow> int option \<times> mp" where
  "widen r = (case r of (x, s) \<Rightarrow> (map_option uint x, s))"

text \<open>The arms of the \<^verbatim>\<open>match\<close> on the marker.\<close>

definition shape_of :: "8 word \<Rightarrow> bytes \<Rightarrow> mp \<Rightarrow> shape option \<times> mp" where
  "shape_of marker bytes s =
     (let m = uint marker in
     if m \<le> 0x7f then (Some (Value (JNumber (uint marker))), s)
     else if m \<ge> 0xe0 then (Some (Value (JNumber (sint marker))), s)
     else if m = 0xc0 then (Some (Value JNull), s)
     else if m = 0xc2 then (Some (Value (JBool False)), s)
     else if m = 0xc3 then (Some (Value (JBool True)), s)
     else if m = 0xcc then number (widen (read_u8 bytes s))
     else if m = 0xcd then number (widen (read_u16 bytes s))
     else if m = 0xce then number (widen (read_u32 bytes s))
     else if m = 0xd0 then number (read_i8 bytes s)
     else if m = 0xd1 then number (read_i16 bytes s)
     else if m = 0xd2 then number (read_i32 bytes s)
     else if 0xa0 \<le> m \<and> m \<le> 0xbf then (Some (Str (nat (m - 0xa0))), s)
     else if m = 0xd9 then sized (read_u8 bytes s) Str
     else if m = 0xda then sized (read_u16 bytes s) Str
     else if m = 0xdb then sized (read_u32 bytes s) Str
     else if m = 0xc4 then sized (read_u8 bytes s) Bin
     else if m = 0xc5 then sized (read_u16 bytes s) Bin
     else if m = 0xc6 then sized (read_u32 bytes s) Bin
     else if 0x90 \<le> m \<and> m \<le> 0x9f then (Some (Items (nat (m - 0x90))), s)
     else if m = 0xdc then sized (read_u16 bytes s) Items
     else if m = 0xdd then sized (read_u32 bytes s) Items
     else if 0x80 \<le> m \<and> m \<le> 0x8f then (Some (Pairs (nat (m - 0x80))), s)
     else if m = 0xde then sized (read_u16 bytes s) Pairs
     else if m = 0xdf then sized (read_u32 bytes s) Pairs
     else (None, s))"

definition read_shape :: "bytes \<Rightarrow> mp \<Rightarrow> shape option \<times> mp" where
  "read_shape bytes s =
     (case read_u8 bytes s of (None, s) \<Rightarrow> (None, s) | (Some marker, s) \<Rightarrow> shape_of marker bytes s)"

definition reserve :: "nat \<Rightarrow> mp \<Rightarrow> mp" where
  "reserve len s = s\<lparr>mp_reserved := mp_reserved s @ [len]\<rparr>"

function (domintros) decode_msgpack_at :: "(bytes \<Rightarrow> string option) \<Rightarrow> bytes \<Rightarrow> mp \<Rightarrow> json option \<times> mp"
  and decode_items :: "(bytes \<Rightarrow> string option) \<Rightarrow> bytes \<Rightarrow> nat \<Rightarrow> mp \<Rightarrow> json list option \<times> mp"
  and decode_pairs :: "(bytes \<Rightarrow> string option) \<Rightarrow> bytes \<Rightarrow> nat \<Rightarrow> (string \<times> json) list \<Rightarrow> mp \<Rightarrow> (string \<times> json) list option \<times> mp"
  where
  "decode_msgpack_at utf8 bytes s =
     (case read_shape bytes s of
        (None, s) \<Rightarrow> (None, s)
      | (Some (Value v), s) \<Rightarrow> (Some v, s)
      | (Some (Str len), s) \<Rightarrow> decode_str utf8 bytes len s
      | (Some (Bin len), s) \<Rightarrow> decode_bin_as_json_array bytes len s
      | (Some (Items len), s) \<Rightarrow>
          (case decode_items utf8 bytes len (reserve len s) of (r, s) \<Rightarrow> (map_option JArray r, s))
      | (Some (Pairs len), s) \<Rightarrow>
          (case decode_pairs utf8 bytes len [] (reserve len s) of (r, s) \<Rightarrow> (map_option JObject r, s)))"
| "decode_items utf8 bytes 0 s = (Some [], s)"
| "decode_items utf8 bytes (Suc n) s =
     (case decode_msgpack_at utf8 bytes s of
        (None, s) \<Rightarrow> (None, s)
      | (Some v, s) \<Rightarrow> (case decode_items utf8 bytes n s of (r, s) \<Rightarrow> (map_option ((#) v) r, s)))"
| "decode_pairs utf8 bytes 0 entries s = (Some entries, s)"
| "decode_pairs utf8 bytes (Suc n) entries s =
     (case decode_msgpack_at utf8 bytes s of
        (None, s) \<Rightarrow> (None, s)
      | (Some k, s) \<Rightarrow>
          (case json_as_str k of
             None \<Rightarrow> (None, s)
           | Some key \<Rightarrow>
               (case decode_msgpack_at utf8 bytes s of
                  (None, s) \<Rightarrow> (None, s)
                | (Some v, s) \<Rightarrow> decode_pairs utf8 bytes n (AList.update key v entries) s)))"
  by pat_completeness auto

lemma read_progress:
  "read_u8 bytes s = (Some w, t) \<Longrightarrow> mp_idx s < length bytes \<and> mp_idx t = Suc (mp_idx s)"
  "read_u8 bytes s = (x, t) \<Longrightarrow> mp_idx s \<le> mp_idx t"
  "read_exact bytes n s = (y, t) \<Longrightarrow> mp_idx s \<le> mp_idx t"
  by (auto simp: read_u8_def read_exact_def split: if_splits)

lemma read_shape_progress:
  assumes "read_shape bytes s = (Some x, t)"
  shows "mp_idx s < length bytes \<and> mp_idx s < mp_idx t"
  using assms by (auto simp: read_shape_def shape_of_def read_u8_def read_u16_def read_u32_def read_i8_def read_i16_def read_i32_def read_exact_def sized_def number_def widen_def Let_def split: if_splits)


lemma decode_leaf_progress:
  "decode_str utf8 bytes n s = (x, t) \<Longrightarrow> mp_idx s \<le> mp_idx t"
  "decode_bin_as_json_array bytes n s = (x, t) \<Longrightarrow> mp_idx s \<le> mp_idx t"
  by (auto simp: decode_str_def decode_bin_as_json_array_def Let_def dest: read_progress(3) split: prod.splits)

text \<open>Every decoded value consumes at least its marker. This bounds the recursion by the length of the message,
  whatever lengths the message claims.\<close>

lemma decode_progress:
  "decode_msgpack_at_decode_items_decode_pairs_dom (Inl (utf8, bytes, s)) \<Longrightarrow>
     (\<forall>v t. decode_msgpack_at utf8 bytes s = (Some v, t) \<longrightarrow> mp_idx s < length bytes \<and> mp_idx s < mp_idx t)"
  "decode_msgpack_at_decode_items_decode_pairs_dom (Inr (Inl (utf8, bytes, n, s))) \<Longrightarrow>
     (\<forall>vs t. decode_items utf8 bytes n s = (Some vs, t) \<longrightarrow> mp_idx s \<le> mp_idx t)"
  "decode_msgpack_at_decode_items_decode_pairs_dom (Inr (Inr (utf8, bytes, n, entries, s))) \<Longrightarrow>
     (\<forall>es t. decode_pairs utf8 bytes n entries s = (Some es, t) \<longrightarrow> mp_idx s \<le> mp_idx t)"
proof (induction utf8 bytes s and utf8 bytes n s and utf8 bytes n entries s
    rule: decode_msgpack_at_decode_items_decode_pairs.pinduct)
  case (1 utf8 bytes s)
  show ?case
  proof (intro allI impI)
    fix v t assume *: "decode_msgpack_at utf8 bytes s = (Some v, t)"
    obtain x s1 where x: "read_shape bytes s = (Some x, s1)"
      using * by (auto simp: decode_msgpack_at.psimps [OF 1(1)] split: prod.splits option.splits)
    have "mp_idx s1 \<le> mp_idx t"
    proof (cases x)
      case (Items n)
      then show ?thesis using * x 1(2) [of "Some x" s1 x n] by (fastforce simp: decode_msgpack_at.psimps [OF 1(1)] reserve_def split: prod.splits)
    next
      case (Pairs n)
      then show ?thesis using * x 1(3) [of "Some x" s1 x n] by (fastforce simp: decode_msgpack_at.psimps [OF 1(1)] reserve_def split: prod.splits)
    qed (use * x in \<open>auto simp: decode_msgpack_at.psimps [OF 1(1)] dest: decode_leaf_progress\<close>)
    with read_shape_progress [OF x] show "mp_idx s < length bytes \<and> mp_idx s < mp_idx t" by simp
  qed
next
  case (2 utf8 bytes s)
  then show ?case by (simp add: decode_items.psimps)
next
  case (3 utf8 bytes n s)
  then show ?case
    by (fastforce simp: decode_items.psimps(2) [OF 3(1)] split: prod.splits option.splits)
next
  case (4 utf8 bytes entries s)
  then show ?case by (simp add: decode_pairs.psimps)
next
  case (5 utf8 bytes n entries s)
  then show ?case
    by (fastforce simp: decode_pairs.psimps(2) [OF 5(1)] split: prod.splits option.splits)
qed

lemma shape_decreases:
  "(Some x, t) = read_shape bytes s \<Longrightarrow> length bytes - mp_idx t < length bytes - mp_idx s"
  using read_shape_progress [of bytes s x t] by (metis diff_less_mono2)

lemma value_decreases:
  "decode_msgpack_at_decode_items_decode_pairs_dom (Inl (utf8, bytes, s)) \<Longrightarrow>
     (Some v, t) = decode_msgpack_at utf8 bytes s \<Longrightarrow> length bytes - mp_idx t < length bytes - mp_idx s"
  using decode_progress(1) [of utf8 bytes s] by (metis diff_less_mono2)

termination decode_msgpack_at
proof (relation "measure (\<lambda>x. case x of
    Inl (utf8, bytes, s) \<Rightarrow> 2 * (length bytes - mp_idx s)
  | Inr (Inl (utf8, bytes, n, s)) \<Rightarrow> 2 * (length bytes - mp_idx s) + 1
  | Inr (Inr (utf8, bytes, n, entries, s)) \<Rightarrow> 2 * (length bytes - mp_idx s) + 1)")
qed (auto simp: reserve_def dest: shape_decreases value_decreases
    intro: less_trans [OF value_decreases value_decreases])

definition decode_msgpack_value :: "(bytes \<Rightarrow> string option) \<Rightarrow> bytes \<Rightarrow> json option" where
  "decode_msgpack_value utf8 bytes = fst (decode_msgpack_at utf8 bytes \<lparr>mp_idx = 0, mp_reserved = []\<rparr>)"

section \<open>A reference encoder\<close>

text \<open>The shortest form of each value, as the MessagePack specification gives it. Numbers are the ones the
  decoder has forms for, 32 bits wide.\<close>

definition utf8_bytes :: "string \<Rightarrow> bytes" where
  "utf8_bytes s = concat (map (\<lambda>c. let n = code_point c
     in if n < 128 then [of_nat n] else [of_nat (192 + n div 64), of_nat (128 + n mod 64)]) s)"

definition be16 :: "int \<Rightarrow> bytes" where
  "be16 n = [of_int (n div 256), of_int n]"

definition be32 :: "int \<Rightarrow> bytes" where
  "be32 n = [of_int (n div 16777216), of_int (n div 65536), of_int (n div 256), of_int n]"

definition encode_int :: "int \<Rightarrow> bytes" where
  "encode_int n =
     (if - 32 \<le> n \<and> n < 128 then [of_int n]
      else if 0 \<le> n then
        (if n < 256 then [0xcc, of_int n] else if n < 65536 then 0xcd # be16 n else 0xce # be32 n)
      else if - 128 \<le> n then [0xd0, of_int n]
      else if - 32768 \<le> n then 0xd1 # be16 n
      else 0xd2 # be32 n)"

definition encode_str_len :: "int \<Rightarrow> bytes" where
  "encode_str_len n =
     (if n < 32 then [of_int (0xa0 + n)] else if n < 256 then [0xd9, of_int n]
      else if n < 65536 then 0xda # be16 n else 0xdb # be32 n)"

definition encode_str :: "string \<Rightarrow> bytes" where
  "encode_str s = encode_str_len (int (length (utf8_bytes s))) @ utf8_bytes s"

definition encode_len :: "int \<Rightarrow> 8 word \<Rightarrow> 8 word \<Rightarrow> int \<Rightarrow> bytes" where
  "encode_len fix m16 m32 n =
     (if n < 16 then [of_int (fix + n)] else if n < 65536 then m16 # be16 n else m32 # be32 n)"

fun encode :: "json \<Rightarrow> bytes" and encode_items :: "json list \<Rightarrow> bytes"
  and encode_pairs :: "(string \<times> json) list \<Rightarrow> bytes" where
  "encode JNull = [0xc0]"
| "encode (JBool b) = [if b then 0xc3 else 0xc2]"
| "encode (JNumber n) = encode_int n"
| "encode (JString s) = encode_str s"
| "encode (JArray vs) = encode_len 0x90 0xdc 0xdd (int (length vs)) @ encode_items vs"
| "encode (JObject es) = encode_len 0x80 0xde 0xdf (int (length es)) @ encode_pairs es"
| "encode_items [] = []"
| "encode_items (v # vs) = encode v @ encode_items vs"
| "encode_pairs [] = []"
| "encode_pairs ((k, v) # es) = encode_str k @ encode v @ encode_pairs es"

definition fits :: "nat \<Rightarrow> bool" where
  "fits n \<longleftrightarrow> int n < 4294967296"

fun encodable :: "json \<Rightarrow> bool" and encodable_items :: "json list \<Rightarrow> bool"
  and encodable_pairs :: "(string \<times> json) list \<Rightarrow> bool" where
  "encodable JNull = True"
| "encodable (JBool b) = True"
| "encodable (JNumber n) = (- 2147483648 \<le> n \<and> n < 4294967296)"
| "encodable (JString s) = fits (length (utf8_bytes s))"
| "encodable (JArray vs) = (fits (length vs) \<and> encodable_items vs)"
| "encodable (JObject es) = (fits (length es) \<and> distinct (map fst es) \<and> encodable_pairs es)"
| "encodable_items [] = True"
| "encodable_items (v # vs) = (encodable v \<and> encodable_items vs)"
| "encodable_pairs [] = True"
| "encodable_pairs ((k, v) # es) = (fits (length (utf8_bytes k)) \<and> encodable v \<and> encodable_pairs es)"

section \<open>Reading what was written\<close>

definition at :: "bytes \<Rightarrow> bytes \<Rightarrow> mp \<Rightarrow> bool" where
  "at bytes xs s \<longleftrightarrow> (\<exists>post. drop (mp_idx s) bytes = xs @ post) \<and> mp_idx s \<le> length bytes"

lemma read_exact_at:
  assumes "at bytes (xs @ ys) s" "n = length xs"
  shows "read_exact bytes n s = (Some xs, s\<lparr>mp_idx := mp_idx s + n\<rparr>)"
proof -
  obtain post where post: "drop (mp_idx s) bytes = xs @ ys @ post" using assms(1) by (auto simp: at_def)
  then have "length bytes - mp_idx s = n + length (ys @ post)" using assms(2) by (metis length_append length_drop)
  with post assms show ?thesis by (simp add: read_exact_def at_def)
qed

lemma at_next:
  assumes "at bytes (xs @ ys) s" "mp_idx t = mp_idx s + length xs"
  shows "at bytes ys t"
proof -
  obtain post where post: "drop (mp_idx s) bytes = xs @ ys @ post" using assms(1) by (auto simp: at_def)
  have "drop (mp_idx t) bytes = drop (length xs) (drop (mp_idx s) bytes)" by (simp add: assms(2) add.commute)
  then have rest: "drop (mp_idx t) bytes = ys @ post" using post by simp
  have "length bytes - mp_idx s = length xs + length (ys @ post)" using post by (metis length_append length_drop)
  then have "mp_idx t \<le> length bytes" using assms by (auto simp: at_def)
  with rest show ?thesis by (auto simp: at_def)
qed

lemma read_u8_at: "at bytes (x # ys) s \<Longrightarrow> read_u8 bytes s = (Some x, s\<lparr>mp_idx := mp_idx s + 1\<rparr>)"
proof -
  assume "at bytes (x # ys) s"
  then obtain post where post: "drop (mp_idx s) bytes = x # ys @ post" by (auto simp: at_def)
  then have "mp_idx s < length bytes" by (metis drop_all list.distinct(1) not_le_imp_less)
  with post show ?thesis by (simp add: read_u8_def) (metis nth_via_drop)
qed

lemma rcat_be16: "word_rcat (be16 n) = (word_of_int n :: 16 word)"
proof -
  have "256 * (n div 256 mod 256) + n mod 256 = n mod 65536" using zmod_zmult2_eq [of 256 n 256] by simp
  then show ?thesis
    by (simp add: word_rcat_def be16_def uint_word_of_int word_of_int_eq_iff take_bit_eq_mod add.commute)
qed

lemma horner32:
  fixes a :: int
  shows "a = 256 * b + c \<Longrightarrow> d = 65536 * e + a \<Longrightarrow> f = 16777216 * g + d \<Longrightarrow> c + 256 * (b + 256 * (e + 256 * g)) = f"
  by simp

lemma rcat_be32: "word_rcat (be32 n) = (word_of_int n :: 32 word)"
proof -
  have mods: "n mod 65536 = 256 * (n div 256 mod 256) + n mod 256"
    "n mod 16777216 = 65536 * (n div 65536 mod 256) + n mod 65536"
    "n mod 4294967296 = 16777216 * (n div 16777216 mod 256) + n mod 16777216"
    using zmod_zmult2_eq [of 256 n 256] zmod_zmult2_eq [of 256 n 65536] zmod_zmult2_eq [of 256 n 16777216] by simp_all
  have u: "uint (word_of_int k :: 8 word) = k mod 256" for k by (simp add: uint_word_of_int)
  have "horner_sum uint 256 (rev (be32 n)) = n mod 4294967296"
    by (simp only: be32_def rev.simps append.simps horner_sum_simps u mult_zero_right add_0_right) (rule horner32 [OF mods])
  then have "word_rcat (be32 n) = (word_of_int (n mod 4294967296) :: 32 word)" by (simp add: word_rcat_def)
  then show ?thesis by (simp add: word_of_int_eq_iff take_bit_eq_mod)
qed

lemma be_length [simp]: "length (be16 n) = 2" "length (be32 n) = 4"
  by (simp_all add: be16_def be32_def)

definition skip :: "nat \<Rightarrow> mp \<Rightarrow> mp" where
  "skip n s = s\<lparr>mp_idx := mp_idx s + n\<rparr>"

lemma skip_simps [simp]: "mp_idx (skip n s) = mp_idx s + n" "skip m (skip n s) = skip (n + m) s"
  by (simp_all add: skip_def)

lemma unat_eq_nat_uint: "unat w = nat (uint w)"
  by simp

lemma at_tl: "at bytes (x # ys) s \<Longrightarrow> at bytes ys (skip (Suc 0) s)"
  using at_next [of bytes "[x]" ys s "skip (Suc 0) s"] by simp

lemma read_at:
  "at bytes (x # ys) s \<Longrightarrow> read_u8 bytes s = (Some x, skip (Suc 0) s)"
  "at bytes (be16 n @ ys) s \<Longrightarrow> read_u16 bytes s = (Some (word_of_int n), skip 2 s)"
  "at bytes (be32 n @ ys) s \<Longrightarrow> read_u32 bytes s = (Some (word_of_int n), skip 4 s)"
  by (simp_all add: read_u8_at skip_def read_u16_def read_u32_def read_exact_at [of bytes "be16 n"]
      read_exact_at [of bytes "be32 n"] rcat_be16 rcat_be32)

lemma read_signed_at:
  "at bytes (of_int n # ys) s \<Longrightarrow> - 128 \<le> n \<Longrightarrow> n < 128 \<Longrightarrow> read_i8 bytes s = (Some n, skip (Suc 0) s)"
  "at bytes (be16 n @ ys) s \<Longrightarrow> - 32768 \<le> n \<Longrightarrow> n < 32768 \<Longrightarrow> read_i16 bytes s = (Some n, skip 2 s)"
  "at bytes (be32 n @ ys) s \<Longrightarrow> - 2147483648 \<le> n \<Longrightarrow> n < 2147483648 \<Longrightarrow> read_i32 bytes s = (Some n, skip 4 s)"
  by (simp_all add: read_i8_def read_i16_def read_i32_def read_at int_word_sint)

lemma read_unsigned_at:
  "at bytes (of_int n # ys) s \<Longrightarrow> 0 \<le> n \<Longrightarrow> n < 256 \<Longrightarrow> widen (read_u8 bytes s) = (Some n, skip (Suc 0) s)"
  "at bytes (be16 n @ ys) s \<Longrightarrow> 0 \<le> n \<Longrightarrow> n < 65536 \<Longrightarrow> widen (read_u16 bytes s) = (Some n, skip 2 s)"
  "at bytes (be32 n @ ys) s \<Longrightarrow> 0 \<le> n \<Longrightarrow> n < 4294967296 \<Longrightarrow> widen (read_u32 bytes s) = (Some n, skip 4 s)"
  by (simp_all add: widen_def read_at uint_word_of_int)

lemma read_marker:
  "at bytes (m # ys) s \<Longrightarrow> read_u8 bytes s = (Some m, skip (Suc 0) s) \<and> at bytes ys (skip (Suc 0) s)"
  by (simp add: read_at(1) at_tl)

lemma sized_at:
  "at bytes (of_int n # ys) s \<Longrightarrow> 0 \<le> n \<Longrightarrow> n < 256 \<Longrightarrow> sized (read_u8 bytes s) f = (Some (f (nat n)), skip (Suc 0) s)"
  "at bytes (be16 n @ ys) s \<Longrightarrow> 0 \<le> n \<Longrightarrow> n < 65536 \<Longrightarrow> sized (read_u16 bytes s) f = (Some (f (nat n)), skip 2 s)"
  "at bytes (be32 n @ ys) s \<Longrightarrow> 0 \<le> n \<Longrightarrow> n < 4294967296 \<Longrightarrow> sized (read_u32 bytes s) f = (Some (f (nat n)), skip 4 s)"
  by (simp_all add: sized_def read_at unat_eq_nat_uint uint_word_of_int)

lemma uint_fix: "0 \<le> n \<Longrightarrow> n < 256 \<Longrightarrow> uint (word_of_int n :: 8 word) = n"
  by (simp add: uint_word_of_int)

lemma read_shape_at:
  "at bytes (m # ys) s \<Longrightarrow> read_shape bytes s = shape_of m bytes (skip (Suc 0) s) \<and> at bytes ys (skip (Suc 0) s)"
  using read_marker [of bytes m ys s] by (simp add: read_shape_def)

lemma shape_int:
  assumes "at bytes (encode_int n @ ys) s" "- 2147483648 \<le> n" "n < 4294967296"
  shows "read_shape bytes s = (Some (Value (JNumber n)), skip (length (encode_int n)) s)"
proof -
  consider "0 \<le> n" "n < 128" | "- 32 \<le> n" "n < 0" | "128 \<le> n" "n < 256" | "256 \<le> n" "n < 65536" | "65536 \<le> n"
    | "- 128 \<le> n" "n < - 32" | "- 32768 \<le> n" "n < - 128" | "n < - 32768"
    by linarith
  then show ?thesis
  proof cases
    case 1
    with assms(1) read_shape_at [of bytes "of_int n" ys s] show ?thesis
      by (simp add: shape_of_def encode_int_def uint_fix)
  next
    case 2
    have "n mod 256 = n + 256" using 2 by (intro mod_pos_pos_trivial [of "n + 256" 256, simplified]) auto
    then have "uint (word_of_int n :: 8 word) = n + 256" by (simp add: uint_word_of_int)
    with 2 assms(1) read_shape_at [of bytes "of_int n" ys s] show ?thesis
      by (simp add: shape_of_def encode_int_def int_word_sint)
  next
    case 3
    with assms(1) read_shape_at [of bytes "0xcc" "of_int n # ys" s] read_unsigned_at(1) [of bytes n ys "skip (Suc 0) s"] show ?thesis
      by (simp add: shape_of_def encode_int_def number_def)
  next
    case 4
    with assms(1) read_shape_at [of bytes "0xcd" "be16 n @ ys" s] read_unsigned_at(2) [of bytes n ys "skip (Suc 0) s"] show ?thesis
      by (simp add: shape_of_def encode_int_def number_def numeral_3_eq_3)
  next
    case 5
    with assms read_shape_at [of bytes "0xce" "be32 n @ ys" s] read_unsigned_at(3) [of bytes n ys "skip (Suc 0) s"] show ?thesis
      by (simp add: shape_of_def encode_int_def number_def)
  next
    case 6
    with assms(1) read_shape_at [of bytes "0xd0" "of_int n # ys" s] read_signed_at(1) [of bytes n ys "skip (Suc 0) s"] show ?thesis
      by (simp add: shape_of_def encode_int_def number_def)
  next
    case 7
    with assms(1) read_shape_at [of bytes "0xd1" "be16 n @ ys" s] read_signed_at(2) [of bytes n ys "skip (Suc 0) s"] show ?thesis
      by (simp add: shape_of_def encode_int_def number_def numeral_3_eq_3)
  next
    case 8
    with assms read_shape_at [of bytes "0xd2" "be32 n @ ys" s] read_signed_at(3) [of bytes n ys "skip (Suc 0) s"] show ?thesis
      by (simp add: shape_of_def encode_int_def number_def)
  qed
qed

lemma shape_str:
  assumes "at bytes (encode_str_len n @ ys) s" "0 \<le> n" "n < 4294967296"
  shows "read_shape bytes s = (Some (Str (nat n)), skip (length (encode_str_len n)) s)"
proof -
  consider "n < 32" | "32 \<le> n" "n < 256" | "256 \<le> n" "n < 65536" | "65536 \<le> n" by linarith
  then show ?thesis
  proof cases
    case 1
    with assms uint_fix [of "0xa0 + n"] read_shape_at [of bytes "of_int (0xa0 + n)" ys s] show ?thesis
      by (simp add: shape_of_def encode_str_len_def)
  next
    case 2
    with assms read_shape_at [of bytes "0xd9" "of_int n # ys" s] sized_at(1) [of bytes n ys "skip (Suc 0) s" Str] show ?thesis
      by (simp add: shape_of_def encode_str_len_def)
  next
    case 3
    with assms read_shape_at [of bytes "0xda" "be16 n @ ys" s] sized_at(2) [of bytes n ys "skip (Suc 0) s" Str] show ?thesis
      by (simp add: shape_of_def encode_str_len_def numeral_3_eq_3)
  next
    case 4
    with assms read_shape_at [of bytes "0xdb" "be32 n @ ys" s] sized_at(3) [of bytes n ys "skip (Suc 0) s" Str] show ?thesis
      by (simp add: shape_of_def encode_str_len_def)
  qed
qed

lemma shape_items:
  assumes "at bytes (encode_len 0x90 0xdc 0xdd n @ ys) s" "0 \<le> n" "n < 4294967296"
  shows "read_shape bytes s = (Some (Items (nat n)), skip (length (encode_len 0x90 0xdc 0xdd n)) s)"
proof -
  consider "n < 16" | "16 \<le> n" "n < 65536" | "65536 \<le> n" by linarith
  then show ?thesis
  proof cases
    case 1
    with assms uint_fix [of "0x90 + n"] read_shape_at [of bytes "of_int (0x90 + n)" ys s] show ?thesis
      by (simp add: shape_of_def encode_len_def)
  next
    case 2
    with assms read_shape_at [of bytes "0xdc" "be16 n @ ys" s] sized_at(2) [of bytes n ys "skip (Suc 0) s" Items] show ?thesis
      by (simp add: shape_of_def encode_len_def numeral_3_eq_3)
  next
    case 3
    with assms read_shape_at [of bytes "0xdd" "be32 n @ ys" s] sized_at(3) [of bytes n ys "skip (Suc 0) s" Items] show ?thesis
      by (simp add: shape_of_def encode_len_def)
  qed
qed

lemma shape_pairs:
  assumes "at bytes (encode_len 0x80 0xde 0xdf n @ ys) s" "0 \<le> n" "n < 4294967296"
  shows "read_shape bytes s = (Some (Pairs (nat n)), skip (length (encode_len 0x80 0xde 0xdf n)) s)"
proof -
  consider "n < 16" | "16 \<le> n" "n < 65536" | "65536 \<le> n" by linarith
  then show ?thesis
  proof cases
    case 1
    with assms uint_fix [of "0x80 + n"] read_shape_at [of bytes "of_int (0x80 + n)" ys s] show ?thesis
      by (simp add: shape_of_def encode_len_def)
  next
    case 2
    with assms read_shape_at [of bytes "0xde" "be16 n @ ys" s] sized_at(2) [of bytes n ys "skip (Suc 0) s" Pairs] show ?thesis
      by (simp add: shape_of_def encode_len_def numeral_3_eq_3)
  next
    case 3
    with assms read_shape_at [of bytes "0xdf" "be32 n @ ys" s] sized_at(3) [of bytes n ys "skip (Suc 0) s" Pairs] show ?thesis
      by (simp add: shape_of_def encode_len_def)
  qed
qed


lemma decode_str_at:
  assumes "at bytes (encode_str x @ ys) s" "fits (length (utf8_bytes x))" "utf8 (utf8_bytes x) = Some x"
  shows "decode_msgpack_at utf8 bytes s = (Some (JString x), skip (length (encode_str x)) s)"
proof -
  let ?n = "int (length (utf8_bytes x))"
  have at: "at bytes (encode_str_len ?n @ utf8_bytes x @ ys) s" using assms(1) by (simp add: encode_str_def)
  have "at bytes (utf8_bytes x @ ys) (skip (length (encode_str_len ?n)) s)" using at by (rule at_next) simp
  from read_exact_at [OF this refl] shape_str [OF at] assms(2,3) show ?thesis
    by (simp add: fits_def decode_str_def encode_str_def skip_def add.assoc)
qed

lemma update_new: "k \<notin> fst ` set es \<Longrightarrow> AList.update k v es = es @ [(k, v)]"
  by (induction es) auto

lemma decode_at:
  assumes law: "\<And>x. utf8 (utf8_bytes x) = Some x"
  shows "at bytes (encode v @ ys) s \<Longrightarrow> encodable v \<Longrightarrow>
      \<exists>t. decode_msgpack_at utf8 bytes s = (Some v, t) \<and> mp_idx t = mp_idx s + length (encode v)"
    "at bytes (encode_items vs @ ys) s \<Longrightarrow> encodable_items vs \<Longrightarrow>
      \<exists>t. decode_items utf8 bytes (length vs) s = (Some vs, t) \<and> mp_idx t = mp_idx s + length (encode_items vs)"
    "at bytes (encode_pairs es @ ys) s \<Longrightarrow> encodable_pairs es \<Longrightarrow> distinct (map fst (acc @ es)) \<Longrightarrow>
      \<exists>t. decode_pairs utf8 bytes (length es) acc s = (Some (acc @ es), t)
        \<and> mp_idx t = mp_idx s + length (encode_pairs es)"
proof (induction v and vs and es arbitrary: ys s and ys s and ys s acc rule: encode_encode_items_encode_pairs.induct)
  case 1
  then show ?case using read_shape_at [of bytes "0xc0" ys s] by (simp add: shape_of_def)
next
  case (2 b)
  then show ?case using read_shape_at [of bytes "if b then 0xc3 else 0xc2" ys s] by (simp add: shape_of_def split: if_splits)
next
  case (3 n)
  then show ?case using shape_int [of bytes n ys s] by simp
next
  case (4 x)
  then show ?case using decode_str_at [of bytes x ys s utf8] law by simp
next
  case (5 vs)
  let ?h = "encode_len 0x90 0xdc 0xdd (int (length vs))"
  have at: "at bytes (?h @ encode_items vs @ ys) s" using 5 by simp
  have items: "read_shape bytes s = (Some (Items (length vs)), skip (length ?h) s)"
    using shape_items [OF at] 5 by (simp add: fits_def)
  have "at bytes (encode_items vs @ ys) (reserve (length vs) (skip (length ?h) s))"
    using at by (rule at_next) (simp add: reserve_def)
  from 5(1) [OF this] 5(3) items show ?case by (auto simp: reserve_def)
next
  case (6 es)
  let ?h = "encode_len 0x80 0xde 0xdf (int (length es))"
  have at: "at bytes (?h @ encode_pairs es @ ys) s" using 6 by simp
  have pairs: "read_shape bytes s = (Some (Pairs (length es)), skip (length ?h) s)"
    using shape_pairs [OF at] 6 by (simp add: fits_def)
  have "at bytes (encode_pairs es @ ys) (reserve (length es) (skip (length ?h) s))"
    using at by (rule at_next) (simp add: reserve_def)
  from 6(1) [OF this, of "[]"] 6(3) pairs show ?case by (auto simp: reserve_def)
next
  case 7
  then show ?case by simp
next
  case (8 v vs)
  have at: "at bytes (encode v @ encode_items vs @ ys) s" using 8 by simp
  obtain t where t: "decode_msgpack_at utf8 bytes s = (Some v, t)" "mp_idx t = mp_idx s + length (encode v)"
    using 8(1) [OF at] 8(4) by auto
  from 8(2) [OF at_next [OF at t(2)]] 8(4) t show ?case by auto
next
  case 9
  then show ?case by simp
next
  case (10 k v es)
  have at: "at bytes (encode_str k @ encode v @ encode_pairs es @ ys) s" using 10 by simp
  let ?s = "skip (length (encode_str k)) s"
  have k: "decode_msgpack_at utf8 bytes s = (Some (JString k), ?s)"
    using decode_str_at [OF at] 10(4) law by simp
  have at2: "at bytes (encode v @ encode_pairs es @ ys) ?s" using at by (rule at_next) simp
  obtain t where t: "decode_msgpack_at utf8 bytes ?s = (Some v, t)" "mp_idx t = mp_idx ?s + length (encode v)"
    using 10(1) [OF at2] 10(4) by auto
  have "AList.update k v acc = acc @ [(k, v)]" using 10(5) by (auto intro: update_new)
  with 10(2) [OF at_next [OF at2 t(2)], of "acc @ [(k, v)]"] 10(4,5) k t show ?case by auto
qed


text \<open>\<^verbatim>\<open>from_utf8\<close> on the code points the model's strings hold.\<close>

fun latin1_utf8 :: "bytes \<Rightarrow> string option" where
  "latin1_utf8 [] = Some []"
| "latin1_utf8 (b # bs) =
     (if unat b < 128 then map_option ((#) (char_of (unat b))) (latin1_utf8 bs)
      else case bs of
        [] \<Rightarrow> None
      | c # cs \<Rightarrow>
          if (unat b = 194 \<or> unat b = 195) \<and> 128 \<le> unat c \<and> unat c < 192
          then map_option ((#) (char_of ((unat b - 192) * 64 + (unat c - 128)))) (latin1_utf8 cs) else None)"

lemma latin1_utf8_2:
  "unat b = 192 + p \<Longrightarrow> p = 2 \<or> p = 3 \<Longrightarrow> unat c = 128 + q \<Longrightarrow> q < 64 \<Longrightarrow>
    latin1_utf8 (b # c # bs) = map_option ((#) (char_of (p * 64 + q))) (latin1_utf8 bs)"
  by auto

lemma latin1_utf8_bytes: "latin1_utf8 (utf8_bytes x) = Some x"
proof (induction x)
  case Nil
  then show ?case by (simp add: utf8_bytes_def)
next
  case (Cons c x)
  define n :: nat where "n = of_char c"
  have tail: "utf8_bytes (c # x) = (if n < 128 then [of_nat n] else [of_nat (192 + n div 64), of_nat (128 + n mod 64)]) @ utf8_bytes x"
    by (simp add: utf8_bytes_def Let_def n_def code_point_def)
  have n: "n < 256" "char_of n = c" by (simp_all add: n_def)
  have u: "unat (of_nat k :: 8 word) = k" if "k < 256" for k
    using that by (simp add: unsigned_of_nat take_bit_eq_mod)
  show ?case
  proof (cases "n < 128")
    case True
    with tail Cons n show ?thesis by (simp add: u)
  next
    case False
    with n have "n div 64 = 2 \<or> n div 64 = 3" by auto
    then have "latin1_utf8 (utf8_bytes (c # x)) = map_option ((#) (char_of (n div 64 * 64 + n mod 64))) (latin1_utf8 (utf8_bytes x))"
      using tail False n by (auto intro!: latin1_utf8_2 simp del: of_nat_add simp: u)
    with Cons n show ?thesis by simp
  qed
qed

section \<open>Properties\<close>

text \<open>C20. Every value that MessagePack can write with the forms the decoder knows (null, booleans, integers of up to
  32 bits, strings, arrays, and objects with distinct keys) is read back exactly from its shortest encoding. The
  hypothesis is what \<^verbatim>\<open>std::str::from_utf8\<close> does on valid UTF-8.\<close>

theorem msgpack_roundtrip:
  assumes "\<And>x. utf8 (utf8_bytes x) = Some x" "encodable v"
  shows "decode_msgpack_value utf8 (encode v) = Some v"
  using decode_at(1) [of utf8 "encode v" v "[]" "\<lparr>mp_idx = 0, mp_reserved = []\<rparr>"] assms
  by (auto simp: decode_msgpack_value_def at_def)

theorem msgpack_roundtrip_witness:
  "decode_msgpack_value latin1_utf8 (encode
     (JObject [(''action'', JString ''ping''), (''seq'', JNumber 70000), (''data'', JArray [JNull, JBool True, JNumber (- 200)])]))
   = Some (JObject [(''action'', JString ''ping''), (''seq'', JNumber 70000), (''data'', JArray [JNull, JBool True, JNumber (- 200)])])"
  by (rule msgpack_roundtrip, rule latin1_utf8_bytes) (simp add: fits_def utf8_bytes_def code_point_def)

lemma nested_headers:
  assumes "0 < n" "n < 4294967296" "drop i bytes = concat (replicate k (0xdd # be32 n))" "i \<le> length bytes"
  shows "decode_msgpack_at utf8 bytes \<lparr>mp_idx = i, mp_reserved = rs\<rparr>
    = (None, \<lparr>mp_idx = length bytes, mp_reserved = rs @ replicate k (nat n)\<rparr>)"
  using assms(3,4)
proof (induction k arbitrary: i rs)
  case 0
  then show ?case by (simp add: read_shape_def read_u8_def)
next
  case (Suc k)
  let ?s = "\<lparr>mp_idx = i, mp_reserved = rs\<rparr>" and ?rest = "concat (replicate k (0xdd # be32 n))"
  have at: "at bytes (0xdd # be32 n @ ?rest) ?s" using Suc by (simp add: at_def)
  have items: "read_shape bytes ?s = (Some (Items (nat n)), skip 5 ?s)"
    using read_shape_at [OF at] sized_at(3) [of bytes n ?rest "skip (Suc 0) ?s" Items] assms(1,2)
    by (simp add: shape_of_def)
  obtain m where m: "nat n = Suc m" using assms(1) by (metis gr0_implies_Suc zero_less_nat_eq)
  have len: "length bytes - i = 5 + length ?rest" using arg_cong [OF Suc(2), of length] by simp
  have "drop (5 + i) bytes = drop 5 (drop i bytes)" by (simp add: add.commute)
  also have "\<dots> = drop 5 ((0xdd # be32 n) @ ?rest)" by (simp only: Suc(2) replicate_Suc concat.simps)
  also have "\<dots> = ?rest" by simp
  finally have "drop (i + 5) bytes = ?rest" by (simp add: add.commute)
  from Suc(1) [OF this] len items m show ?case by (simp add: reserve_def skip_def)
qed

text \<open>The decoder asks for memory before it looks for the content: a message of \<open>5 * k\<close> bytes makes it reserve
  \<open>k\<close> vectors of any chosen capacity below 2^32, and is then rejected.\<close>

theorem msgpack_reserves_what_is_claimed:
  assumes "0 < n" "n < 4294967296" "bytes = concat (replicate k (0xdd # be32 n))"
  shows "length bytes = 5 * k
    \<and> decode_msgpack_at utf8 bytes \<lparr>mp_idx = 0, mp_reserved = []\<rparr>
        = (None, \<lparr>mp_idx = 5 * k, mp_reserved = replicate k (nat n)\<rparr>)"
proof -
  have "length bytes = 5 * k" unfolding assms(3) by (induction k) simp_all
  with nested_headers [OF assms(1,2), of 0 bytes k utf8 "[]"] assms(3) show ?thesis by simp
qed

theorem msgpack_reserves_what_is_claimed_witness:
  "decode_msgpack_at latin1_utf8 [0xdd, 0xff, 0xff, 0xff, 0xff] \<lparr>mp_idx = 0, mp_reserved = []\<rparr>
     = (None, \<lparr>mp_idx = 5, mp_reserved = [4294967295]\<rparr>)"
  using msgpack_reserves_what_is_claimed [of 4294967295 "[0xdd, 0xff, 0xff, 0xff, 0xff]" 1 latin1_utf8]
  by (simp add: be32_def)

end
