(* ===== verification/Ws_Actor.thy ===== *)
theory Ws_Actor
  imports Connection_Store Msgpack
begin

text \<open>
  The task that owns one WebSocket and its handle: \<^verbatim>\<open>backend/src/realtime/websocket_actor.rs\<close>.

  An \<open>actor\<close> holds both ends of the command queue and of the event queue, the shared flag, the time of the last
  sign of life, and the frames written to the socket. \<open>actor_step\<close> is one turn of the task's \<^verbatim>\<open>select!\<close>: it takes
  the branch that is ready, the time, and how the writes of that turn end. The connection store is the one of
  \<open>Connection_Store\<close>, with JSON payloads. Logging, metrics, the unread \<^verbatim>\<open>last_activity\<close> counter and
  \<^verbatim>\<open>configure_tcp_keepalive\<close>, which only sets socket options, are left out.
\<close>

section \<open>Messages\<close>

text \<open>\<^verbatim>\<open>Broadcast\<close> and \<^verbatim>\<open>WebSocketMessage\<close> of \<^verbatim>\<open>mattermost_compat/models.rs\<close>, with the derived \<^verbatim>\<open>Serialize\<close>.\<close>

record mm_broadcast =
  mb_omit_users :: "json option"
  mb_user_id :: string
  mb_channel_id :: string
  mb_team_id :: string

record mm_message =
  wm_seq :: "int option"
  wm_event :: string
  wm_data :: json
  wm_broadcast :: mm_broadcast

definition json_of_broadcast :: "mm_broadcast \<Rightarrow> json" where
  "json_of_broadcast b = JObject
     [(''omit_users'', case mb_omit_users b of None \<Rightarrow> JNull | Some v \<Rightarrow> v),
      (''user_id'', JString (mb_user_id b)), (''channel_id'', JString (mb_channel_id b)),
      (''team_id'', JString (mb_team_id b))]"

definition default_broadcast :: mm_broadcast where
  "default_broadcast = \<lparr>mb_omit_users = None, mb_user_id = [], mb_channel_id = [], mb_team_id = []\<rparr>"

text \<open>\<open>de_broadcast\<close> is the derived \<^verbatim>\<open>Deserialize\<close> of \<^verbatim>\<open>Broadcast\<close>.\<close>

definition replay_message_to_ws_message :: "(json \<Rightarrow> mm_broadcast option) \<Rightarrow> int \<Rightarrow> json \<Rightarrow> mm_message" where
  "replay_message_to_ws_message de_broadcast seq message =
     \<lparr>wm_seq = Some seq,
      wm_event = (case Option.bind (json_get ''event'' message) json_as_str of None \<Rightarrow> ''unknown'' | Some e \<Rightarrow> e),
      wm_data = (case json_get ''data'' message of None \<Rightarrow> JObject [] | Some d \<Rightarrow> d),
      wm_broadcast = (case Option.bind (json_get ''broadcast'' message) de_broadcast of
         None \<Rightarrow> default_broadcast | Some b \<Rightarrow> b)\<rparr>"

section \<open>Queues and state\<close>

datatype ws_command =
    SendMessage mm_message
  | SendRaw json
  | CloseWith nat string
  | SubscribeChannels "uuid list"
  | SubscribeTeams "uuid list"

record close_reason =
  cr_code :: nat
  cr_reason :: string

datatype actor_event =
    MessageReceived string
  | BinaryReceived bytes
  | PongReceived
  | EventClosed close_reason
  | EventError string

datatype ws_frame =
    TextFrame string
  | BinaryFrame bytes
  | PongFrame bytes
  | PingFrame bytes
  | CloseFrame "(nat \<times> string) option"

text \<open>The frames the server writes; text frames carry the JSON text of their argument.\<close>

datatype out_frame =
    OutMessage mm_message
  | OutRaw json
  | OutPing
  | OutPong bytes
  | OutClose nat string

record actor =
  ac_connection_id :: string
  ac_user_id :: uuid
  ac_commands :: "ws_command list"
  ac_events :: "actor_event list"
  ac_is_closing :: bool
  ac_handle :: bool
  ac_running :: bool
  ac_last_pong :: instant
  ac_wire :: "out_frame list"

definition PING_INTERVAL :: nat where "PING_INTERVAL = 30000"
definition MAX_MISSED_HEARTBEATS :: nat where "MAX_MISSED_HEARTBEATS = 2"
definition COMMAND_BUFFER_CAPACITY :: nat where "COMMAND_BUFFER_CAPACITY = 256"
definition EVENT_BUFFER_CAPACITY :: nat where "EVENT_BUFFER_CAPACITY = 256"
definition NORMAL :: nat where "NORMAL = 1000"
definition GOING_AWAY :: nat where "GOING_AWAY = 1001"
definition POLICY_VIOLATION :: nat where "POLICY_VIOLATION = 1008"
definition INTERNAL_ERROR :: nat where "INTERNAL_ERROR = 1011"

definition is_benign_disconnect_error :: "string \<Rightarrow> bool" where
  "is_benign_disconnect_error error \<longleftrightarrow>
     (let e = to_ascii_lowercase error
      in contains_str ''without closing handshake'' e \<or> contains_str ''connection reset by peer'' e
         \<or> contains_str ''broken pipe'' e \<or> contains_str ''connection closed'' e)"

section \<open>The handle\<close>

definition actor_new ::
  "instant \<Rightarrow> string \<Rightarrow> (json \<Rightarrow> mm_broadcast option) \<Rightarrow> uuid \<Rightarrow> string option \<Rightarrow> int option \<Rightarrow> json connection_store \<Rightarrow>
     json connection_store \<times> actor \<times> mm_message list" where
  "actor_new now new_id de_broadcast user_id connection_id sequence_number store =
     (let (store, state, is_resumed, missed) =
            resume_or_create now new_id connection_id user_id sequence_number store
      in (store,
          \<lparr>ac_connection_id = cs_connection_id state, ac_user_id = user_id, ac_commands = [], ac_events = [],
           ac_is_closing = False, ac_handle = True, ac_running = True, ac_last_pong = now, ac_wire = []\<rparr>,
          map (\<lambda>m. replay_message_to_ws_message de_broadcast (sm_seq m) (sm_message m)) missed))"

text \<open>\<^verbatim>\<open>send\<close> and \<^verbatim>\<open>send_raw\<close> differ only in the command.\<close>

definition try_command :: "ws_command \<Rightarrow> actor \<Rightarrow> (string + unit) \<times> actor" where
  "try_command c a =
     (if ac_is_closing a then (Inl ''Connection is closing'', a)
      else if \<not> ac_running a then (Inl ''Connection is closed'', a)
      else if length (ac_commands a) \<ge> COMMAND_BUFFER_CAPACITY then (Inl ''Connection command queue is full'', a)
      else (Inr (), a\<lparr>ac_commands := ac_commands a @ [c]\<rparr>))"

definition actor_send :: "mm_message \<Rightarrow> actor \<Rightarrow> (string + unit) \<times> actor" where
  "actor_send msg = try_command (SendMessage msg)"

definition actor_send_raw :: "json \<Rightarrow> actor \<Rightarrow> (string + unit) \<times> actor" where
  "actor_send_raw data = try_command (SendRaw data)"

definition actor_close :: "nat \<Rightarrow> string \<Rightarrow> actor \<Rightarrow> actor" where
  "actor_close code reason a =
     (snd (try_command (CloseWith code reason) a))\<lparr>ac_is_closing := True\<rparr>"

datatype received = Event actor_event | Pending | NoMore

definition actor_recv :: "actor \<Rightarrow> received \<times> actor" where
  "actor_recv a =
     (case ac_events a of
        e # es \<Rightarrow> (Event e, a\<lparr>ac_events := es\<rparr>)
      | [] \<Rightarrow> (if ac_running a then Pending else NoMore, a))"

definition is_alive :: "actor \<Rightarrow> bool" where
  "is_alive a \<longleftrightarrow> \<not> ac_is_closing a"

definition actor_disconnect :: "instant \<Rightarrow> actor \<times> json connection_store \<Rightarrow> actor \<times> json connection_store" where
  "actor_disconnect now = (\<lambda>(a, store).
     (a\<lparr>ac_is_closing := True\<rparr>, disconnect_connection now (ac_connection_id a) store))"

section \<open>The task\<close>

definition emit_event :: "actor_event \<Rightarrow> actor \<Rightarrow> actor \<times> bool" where
  "emit_event event a =
     (if \<not> ac_handle a \<or> length (ac_events a) \<ge> EVENT_BUFFER_CAPACITY then (a, False)
      else (a\<lparr>ac_events := ac_events a @ [event]\<rparr>, True))"

text \<open>How a write ends: done, with an error, or not within \<^verbatim>\<open>WRITE_WAIT\<close>.\<close>

datatype write_outcome = Written | WriteFailed | WriteTimedOut

definition write_out :: "write_outcome \<Rightarrow> out_frame \<Rightarrow> actor \<Rightarrow> actor \<times> bool" where
  "write_out w frame a =
     (if w = Written then (a\<lparr>ac_wire := ac_wire a @ [frame]\<rparr>, True) else (a, False))"

datatype actor_input = Incoming ws_frame | StreamError string | StreamEnd | Command | Tick

text \<open>A sign of life: the last-pong time, and \<^verbatim>\<open>touch\<close> on the connection's state.\<close>

definition mark_seen :: "instant \<Rightarrow> actor \<times> json connection_store \<Rightarrow> actor \<times> json connection_store" where
  "mark_seen now = (\<lambda>(a, store). (a\<lparr>ac_last_pong := now\<rparr>, touch_connection now (ac_connection_id a) store))"

definition on_actor :: "(actor \<Rightarrow> actor \<times> bool) \<Rightarrow> actor \<times> 's \<Rightarrow> (actor \<times> 's) \<times> bool" where
  "on_actor f = (\<lambda>(a, store). case f a of (a, continue) \<Rightarrow> ((a, store), continue))"

fun handle_frame ::
  "instant \<Rightarrow> write_outcome \<Rightarrow> ws_frame \<Rightarrow> actor \<times> json connection_store \<Rightarrow> (actor \<times> json connection_store) \<times> bool" where
  "handle_frame now w (TextFrame text) s = on_actor (emit_event (MessageReceived text)) (mark_seen now s)"
| "handle_frame now w (BinaryFrame bin) s = on_actor (emit_event (BinaryReceived bin)) (mark_seen now s)"
| "handle_frame now w (PongFrame _) s = on_actor (emit_event PongReceived) (mark_seen now s)"
| "handle_frame now w (PingFrame data) s = on_actor (write_out w (OutPong data)) s"
| "handle_frame now w (CloseFrame frame) s =
     on_actor (\<lambda>a. (fst (emit_event (EventClosed (case frame of
         Some (code, reason) \<Rightarrow> \<lparr>cr_code = code, cr_reason = reason\<rparr>
       | None \<Rightarrow> \<lparr>cr_code = NORMAL, cr_reason = ''Client closed''\<rparr>)) a), False)) s"

definition handle_stream_error :: "string \<Rightarrow> actor \<Rightarrow> actor \<times> bool" where
  "handle_stream_error error a =
     (fst (emit_event (if is_benign_disconnect_error error
        then EventClosed \<lparr>cr_code = GOING_AWAY, cr_reason = ''Peer disconnected''\<rparr>
        else EventError error) a), False)"

text \<open>The command at the head of the queue; an empty queue ends the task once the handle is gone.\<close>

definition handle_command :: "write_outcome \<Rightarrow> actor \<Rightarrow> actor \<times> bool" where
  "handle_command w a =
     (case ac_commands a of
        [] \<Rightarrow> (a, ac_handle a)
      | c # cs \<Rightarrow>
          (let a = a\<lparr>ac_commands := cs\<rparr>
           in case c of
                SendMessage msg \<Rightarrow> write_out w (OutMessage msg) a
              | SendRaw data \<Rightarrow> write_out w (OutRaw data) a
              | CloseWith code reason \<Rightarrow>
                  (let (a, _) = write_out w (OutClose code reason) a;
                       (a, _) = emit_event (EventClosed \<lparr>cr_code = code, cr_reason = reason\<rparr>) a
                   in (a, False))
              | SubscribeChannels _ \<Rightarrow> (a, True)
              | SubscribeTeams _ \<Rightarrow> (a, True)))"

definition handle_tick :: "instant \<Rightarrow> write_outcome \<Rightarrow> actor \<Rightarrow> actor \<times> bool" where
  "handle_tick now w a =
     (if ac_is_closing a then (a, False)
      else if now - ac_last_pong a > PING_INTERVAL * MAX_MISSED_HEARTBEATS then (a, False)
      else write_out w OutPing a)"

fun actor_branch ::
  "instant \<Rightarrow> write_outcome \<Rightarrow> actor_input \<Rightarrow> actor \<times> json connection_store \<Rightarrow> (actor \<times> json connection_store) \<times> bool" where
  "actor_branch now w (Incoming frame) s = handle_frame now w frame s"
| "actor_branch now w (StreamError error) s = on_actor (handle_stream_error error) s"
| "actor_branch now w StreamEnd s = (s, False)"
| "actor_branch now w Command s = on_actor (handle_command w) s"
| "actor_branch now w Tick s = on_actor (handle_tick now w) s"

text \<open>What follows the loop; \<open>w\<close> is how the best-effort close frame ends.\<close>

definition actor_stop :: "instant \<Rightarrow> write_outcome \<Rightarrow> actor \<times> json connection_store \<Rightarrow> actor \<times> json connection_store" where
  "actor_stop now w = (\<lambda>(a, store).
     ((fst (write_out w (OutClose GOING_AWAY ''Connection ended'') a))\<lparr>ac_is_closing := True, ac_running := False\<rparr>,
      disconnect_connection now (ac_connection_id a) store))"

record actor_turn =
  tu_now :: instant
  tu_write :: write_outcome
  tu_close :: write_outcome
  tu_input :: actor_input

definition actor_step :: "actor_turn \<Rightarrow> actor \<times> json connection_store \<Rightarrow> actor \<times> json connection_store" where
  "actor_step t s =
     (if \<not> ac_running (fst s) then s
      else (case actor_branch (tu_now t) (tu_write t) (tu_input t) s of
              (s, True) \<Rightarrow> s
            | (s, False) \<Rightarrow> actor_stop (tu_now t) (tu_close t) s))"

definition actor_run :: "actor_turn list \<Rightarrow> actor \<times> json connection_store \<Rightarrow> actor \<times> json connection_store" where
  "actor_run = fold actor_step"

section \<open>Replay\<close>

text \<open>What the hub side buffers for a message, and the message a replay makes of it.\<close>

definition replay_payload :: "mm_message \<Rightarrow> json" where
  "replay_payload msg = JObject
     [(''event'', JString (wm_event msg)), (''data'', wm_data msg), (''broadcast'', json_of_broadcast (wm_broadcast msg))]"

lemma replay_inverse:
  assumes "\<And>b. mb_omit_users b = None \<Longrightarrow> de_broadcast (json_of_broadcast b) = Some b"
    and "mb_omit_users (wm_broadcast msg) = None"
  shows "replay_message_to_ws_message de_broadcast seq (replay_payload msg) = msg\<lparr>wm_seq := Some seq\<rparr>"
  using assms by (simp add: replay_message_to_ws_message_def replay_payload_def)

section \<open>Heartbeat\<close>

text \<open>Text, binary and pong frames count as signs of life.\<close>

fun sign_of_life :: "actor_input \<Rightarrow> bool" where
  "sign_of_life (Incoming (TextFrame _)) = True"
| "sign_of_life (Incoming (BinaryFrame _)) = True"
| "sign_of_life (Incoming (PongFrame _)) = True"
| "sign_of_life _ = False"

text \<open>The specification: at every ping the last sign of life is at most a minute old.\<close>

fun on_time :: "instant \<Rightarrow> actor_turn list \<Rightarrow> bool" where
  "on_time seen [] = True"
| "on_time seen (t # ts) =
     (if sign_of_life (tu_input t) then on_time (tu_now t) ts
      else (tu_input t = Tick \<longrightarrow> tu_now t - seen \<le> 60000) \<and> on_time seen ts)"

text \<open>Turns in which neither side closes the connection and every write succeeds.\<close>

fun keeps_open :: "actor_turn \<Rightarrow> bool" where
  "keeps_open t = (tu_write t = Written \<and>
     (case tu_input t of Incoming (CloseFrame _) \<Rightarrow> False | StreamError _ \<Rightarrow> False | StreamEnd \<Rightarrow> False | _ \<Rightarrow> True))"

definition open_actor :: "nat \<Rightarrow> actor \<Rightarrow> bool" where
  "open_actor room a \<longleftrightarrow> ac_running a \<and> ac_handle a \<and> \<not> ac_is_closing a
     \<and> length (ac_events a) + room \<le> EVENT_BUFFER_CAPACITY \<and> (\<forall>c\<in>set (ac_commands a). \<forall>n r. c \<noteq> CloseWith n r)"

lemma actor_run_stopped: "\<not> ac_running (fst s) \<Longrightarrow> actor_run ts s = s"
  by (induction ts) (simp_all add: actor_run_def actor_step_def)

lemma stopped_inactive:
  "hm_get (connections store) (ac_connection_id a) \<noteq> None \<Longrightarrow>
     \<not> ac_running (fst (actor_stop now w (a, store))) \<and>
     (\<exists>st. get_connection (ac_connection_id a) (snd (actor_stop now w (a, store))) = Some st \<and> \<not> cs_is_active st)"
  by (auto simp: actor_stop_def disconnect_connection_def get_connection_def mark_inactive_def)

text \<open>One such turn either keeps the actor open or, at a late ping, stops it.\<close>

lemma open_step:
  assumes "open_actor (Suc n) a" "keeps_open t" "hm_get (connections store) (ac_connection_id a) \<noteq> None"
  obtains
    (go) a' store' where "actor_step t (a, store) = (a', store')" "open_actor n a'"
      "ac_connection_id a' = ac_connection_id a" "hm_get (connections store') (ac_connection_id a) \<noteq> None"
      "ac_last_pong a' = (if sign_of_life (tu_input t) then tu_now t else ac_last_pong a)"
      "tu_input t = Tick \<longrightarrow> tu_now t - ac_last_pong a \<le> 60000"
  | (late) "tu_input t = Tick" "tu_now t - ac_last_pong a > 60000"
      "actor_step t (a, store) = actor_stop (tu_now t) (tu_close t) (a, store)"
proof (cases "tu_input t")
  case (Incoming f)
  let ?touched = "touch_connection (tu_now t) (ac_connection_id a) store"
  have room: "ac_running a" "ac_handle a" "length (ac_events a) < EVENT_BUFFER_CAPACITY"
    using assms(1) by (simp_all add: open_actor_def)
  show ?thesis
  proof (cases "sign_of_life (tu_input t)")
    case True
    with Incoming room assms(2) obtain e where step: "actor_step t (a, store) =
        (a\<lparr>ac_last_pong := tu_now t, ac_events := ac_events a @ [e]\<rparr>, ?touched)"
      by (cases f) (simp_all add: actor_step_def on_actor_def mark_seen_def emit_event_def)
    show ?thesis
      by (rule go [OF step]) (use assms Incoming True in \<open>simp_all add: open_actor_def touch_connection_def\<close>)
  next
    case False
    with Incoming room assms(2) obtain d where step: "actor_step t (a, store) = (a\<lparr>ac_wire := ac_wire a @ [OutPong d]\<rparr>, store)"
      by (cases f) (simp_all add: actor_step_def on_actor_def write_out_def)
    show ?thesis
      by (rule go [OF step]) (use assms Incoming False in \<open>simp_all add: open_actor_def\<close>)
  qed
next
  case Command
  show ?thesis
  proof (cases "ac_commands a")
    case Nil
    then have step: "actor_step t (a, store) = (a, store)"
      using Command assms(1) by (simp add: actor_step_def on_actor_def handle_command_def open_actor_def)
    show ?thesis by (rule go [OF step]) (use assms Command in \<open>simp_all add: open_actor_def\<close>)
  next
    case (Cons c cs)
    then have c: "\<And>n r. c \<noteq> CloseWith n r" "\<forall>c\<in>set cs. \<forall>n r. c \<noteq> CloseWith n r"
      using assms(1) by (simp_all add: open_actor_def)
    from assms(1,2) have w: "ac_running a" "tu_write t = Written" by (simp_all add: open_actor_def)
    obtain fs where step: "actor_step t (a, store) = (a\<lparr>ac_commands := cs, ac_wire := ac_wire a @ fs\<rparr>, store)"
    proof (cases c)
      case (SendMessage m)
      show ?thesis using Command Cons w SendMessage that [of "[OutMessage m]"]
        by (simp add: actor_step_def on_actor_def handle_command_def write_out_def)
    next
      case (SendRaw d)
      show ?thesis using Command Cons w SendRaw that [of "[OutRaw d]"]
        by (simp add: actor_step_def on_actor_def handle_command_def write_out_def)
    qed (use Command Cons w c that [of "[]"] in \<open>simp_all add: actor_step_def on_actor_def handle_command_def\<close>)
    show ?thesis
      by (rule go [OF step]) (use assms Command c in \<open>simp_all add: open_actor_def\<close>)
  qed
next
  case Tick
  show ?thesis
  proof (cases "tu_now t - ac_last_pong a > 60000")
    case True
    show ?thesis
      by (rule late [OF Tick True]) (use assms(1) Tick True in \<open>simp add: actor_step_def on_actor_def handle_tick_def
        open_actor_def PING_INTERVAL_def MAX_MISSED_HEARTBEATS_def\<close>)
  next
    case False
    then have step: "actor_step t (a, store) = (a\<lparr>ac_wire := ac_wire a @ [OutPing]\<rparr>, store)"
      using assms(1,2) Tick by (simp add: actor_step_def on_actor_def handle_tick_def open_actor_def write_out_def
          PING_INTERVAL_def MAX_MISSED_HEARTBEATS_def)
    show ?thesis
      by (rule go [OF step]) (use assms Tick False in \<open>simp_all add: open_actor_def\<close>)
  qed
qed (use assms in auto)


definition demo_actor :: actor where
  "demo_actor = \<lparr>ac_connection_id = ''c'', ac_user_id = Uuid 1, ac_commands = [], ac_events = [], ac_is_closing = False,
     ac_handle = True, ac_running = True, ac_last_pong = 0, ac_wire = []\<rparr>"

definition demo_store :: "json connection_store" where
  "demo_store = fst (resume_or_create 0 ''c'' None (Uuid 1) None store_default)"

definition turn_at :: "instant \<Rightarrow> actor_input \<Rightarrow> actor_turn" where
  "turn_at now i = \<lparr>tu_now = now, tu_write = Written, tu_close = Written, tu_input = i\<rparr>"

lemma demo_connection: "get_connection ''c'' demo_store \<noteq> None"
  by (simp add: demo_store_def store_default_def resume_or_create_def get_connection_def Let_def)


end
