(* ===== verification/Ws_Mapping.thy ===== *)
theory Ws_Mapping
  imports Mm_Mappers Ws_Actor Calls_Controls
begin

text \<open>
  What Mattermost clients are told of the server's events: \<^verbatim>\<open>map_envelope_to_mm\<close> and its helpers in
  \<^verbatim>\<open>backend/src/api/v4/websocket.rs\<close>. The derived \<^verbatim>\<open>Deserialize\<close> of the payload types and
  \<^verbatim>\<open>serde_json::to_string\<close> are fields of \<open>map_env\<close>.
\<close>

record reaction =
  rc_post_id :: uuid
  rc_user_id :: uuid
  rc_emoji_name :: string
  rc_created_at :: int

record map_env =
  me_ids :: id_codec
  me_post_response :: "json \<Rightarrow> post_response option"
  me_post :: "json \<Rightarrow> mm_post option"
  me_typing :: "json \<Rightarrow> typing_event option"
  me_reaction :: "json \<Rightarrow> reaction option"
  me_to_string :: "json \<Rightarrow> string option"
  me_emojis :: "(string \<times> string) list"

section \<open>Reading payload fields\<close>

definition extract_mm_id :: "id_codec \<Rightarrow> json option \<Rightarrow> string" where
  "extract_mm_id k value = mm_id_or_empty k (Option.bind (Option.bind value json_as_str) (parse_mm_id k))"

fun json_as_i64 :: "json \<Rightarrow> int option" where
  "json_as_i64 (JNumber n) = (if i64_min \<le> n \<and> n \<le> i64_max then Some n else None)"
| "json_as_i64 _ = None"

text \<open>\<^verbatim>\<open>as_u64\<close> followed by \<^verbatim>\<open>i64::try_from\<close> finds no further number.\<close>

definition extract_i64 :: "json option \<Rightarrow> int" where
  "extract_i64 value =
     ms_or_zero (Option.bind value (\<lambda>v.
       case json_as_i64 v of Some n \<Rightarrow> Some n | None \<Rightarrow> Option.bind (json_as_str v) parse_i64))"

definition extract_embedded_json :: "map_env \<Rightarrow> json option \<Rightarrow> string option" where
  "extract_embedded_json e value =
     Option.bind value (\<lambda>v. case json_as_str v of Some text \<Rightarrow> Some text | None \<Rightarrow> me_to_string e v)"

definition map_broadcast :: "id_codec \<Rightarrow> ws_broadcast option \<Rightarrow> mm_broadcast" where
  "map_broadcast k b =
     (case b of
        None \<Rightarrow> default_broadcast
      | Some b \<Rightarrow> \<lparr>mb_omit_users = None, mb_user_id = mm_id_or_empty k (wb_user_id b),
                  mb_channel_id = mm_id_or_empty k (wb_channel_id b), mb_team_id = mm_id_or_empty k (wb_team_id b)\<rparr>)"

section \<open>The mapping\<close>

definition mm_event :: "map_env \<Rightarrow> ws_envelope \<Rightarrow> string \<Rightarrow> json \<Rightarrow> mm_message" where
  "mm_event e env event data =
     \<lparr>wm_seq = None, wm_event = event, wm_data = data, wm_broadcast = map_broadcast (me_ids e) (we_broadcast env)\<rparr>"

definition text_or_empty :: "map_env \<Rightarrow> json \<Rightarrow> json" where
  "text_or_empty e v = JString (str_or_empty (me_to_string e v))"

definition map_posted :: "map_env \<Rightarrow> ws_envelope \<Rightarrow> mm_message option" where
  "map_posted e env =
     map_option (\<lambda>mm_post. mm_event e env ''posted'' (JObject
         [(''post'', text_or_empty e (json_of_post mm_post)), (''channel_display_name'', JString []),
          (''channel_name'', JString []), (''channel_type'', JString ''O''),
          (''sender_name'', JString (mpo_user_id mm_post)), (''team_id'', JString [])]))
       (case me_post_response e (we_data env) of
          Some post_resp \<Rightarrow> Some (mm_post_of_response (me_ids e) post_resp)
        | None \<Rightarrow> me_post e (we_data env))"

definition map_post_change :: "map_env \<Rightarrow> ws_envelope \<Rightarrow> string \<Rightarrow> mm_message option" where
  "map_post_change e env event =
     map_option (\<lambda>post_resp. mm_event e env event (JObject
         [(''post'', text_or_empty e (json_of_post (mm_post_of_response (me_ids e) post_resp)))]))
       (me_post_response e (we_data env))"

definition map_typing :: "map_env \<Rightarrow> ws_envelope \<Rightarrow> mm_message option" where
  "map_typing e env =
     map_option (\<lambda>typing. let parent_id = JString (mm_id_or_empty (me_ids e) (te_thread_root_id typing))
       in mm_event e env ''typing'' (JObject
            [(''parent_id'', parent_id), (''user_id'', JString (mm_id (me_ids e) (te_user_id typing))),
             (''display_name'', JString (te_display_name typing)), (''thread_root_id'', parent_id)]))
       (me_typing e (we_data env))"

definition map_stop_typing :: "map_env \<Rightarrow> ws_envelope \<Rightarrow> mm_message option" where
  "map_stop_typing e env =
     map_option (\<lambda>typing. let parent_id = JString (mm_id_or_empty (me_ids e) (te_thread_root_id typing))
       in mm_event e env ''stop_typing'' (JObject
            [(''parent_id'', parent_id), (''user_id'', JString (mm_id (me_ids e) (te_user_id typing))),
             (''thread_root_id'', parent_id)]))
       (me_typing e (we_data env))"

definition map_reaction :: "map_env \<Rightarrow> ws_envelope \<Rightarrow> string \<Rightarrow> mm_message option" where
  "map_reaction e env event =
     map_option (\<lambda>r. mm_event e env event (JObject [(''reaction'', text_or_empty e (json_of_reaction
         \<lparr>mr_user_id = mm_id (me_ids e) (rc_user_id r), mr_post_id = mm_id (me_ids e) (rc_post_id r),
          mr_emoji_name = get_short_name_for_emoji (me_emojis e) (rc_emoji_name r),
          mr_create_at = rc_created_at r, mr_update_at = rc_created_at r, mr_delete_at = 0,
          mr_channel_id = mm_id_or_empty (me_ids e) (we_channel_id env), mr_remote_id = []\<rparr>))]))
       (me_reaction e (we_data env))"

definition map_status :: "map_env \<Rightarrow> ws_envelope \<Rightarrow> mm_message option" where
  "map_status e env =
     (let field = (\<lambda>key. json_get key (we_data env));
          or_null = (\<lambda>v. case v of None \<Rightarrow> JNull | Some v \<Rightarrow> v)
      in map_option (\<lambda>status. mm_event e env ''status_change'' (JObject
           [(''user_id'', JString (extract_mm_id (me_ids e) (field ''user_id''))), (''status'', JString status),
            (''manual'', JBool (Option.bind (field ''manual'') json_as_bool = Some True)),
            (''last_activity_at'', JNumber (ms_or_zero (Option.bind (field ''last_activity_at'') json_as_i64))),
            (''text'', or_null (field ''text'')), (''emoji'', or_null (field ''emoji'')),
            (''expires_at'', or_null (field ''expires_at''))]))
         (Option.bind (field ''status'') json_as_str))"

definition map_ids :: "map_env \<Rightarrow> ws_envelope \<Rightarrow> string \<Rightarrow> string list \<Rightarrow> mm_message option" where
  "map_ids e env event keys =
     Some (mm_event e env event (JObject
       (map (\<lambda>key. (key, JString (extract_mm_id (me_ids e) (json_get key (we_data env))))) keys)))"

definition map_post_unread :: "map_env \<Rightarrow> ws_envelope \<Rightarrow> mm_message option" where
  "map_post_unread e env =
     Some (mm_event e env ''post_unread'' (JObject
       (map (\<lambda>key. (key, JString (extract_mm_id (me_ids e) (json_get key (we_data env))))) [''channel_id'', ''post_id'']
        @ map (\<lambda>key. (key, JNumber (extract_i64 (json_get key (we_data env)))))
            [''msg_count'', ''msg_count_root'', ''mention_count'', ''mention_count_root'', ''urgent_mention_count'',
             ''last_viewed_at''])))"

definition map_embedded :: "map_env \<Rightarrow> ws_envelope \<Rightarrow> string \<Rightarrow> string \<Rightarrow> mm_message option" where
  "map_embedded e env event key =
     map_option (\<lambda>text. mm_event e env event (JObject [(key, JString text)]))
       (extract_embedded_json e (json_get key (we_data env)))"

definition map_envelope_to_mm :: "map_env \<Rightarrow> ws_envelope \<Rightarrow> mm_message option" where
  "map_envelope_to_mm e env =
     (let event = we_event env in
      if event = ''posted'' \<or> event = ''thread_reply_created'' then map_posted e env
      else if event = ''typing'' \<or> event = ''typing_start'' then map_typing e env
      else if event = ''stop_typing'' \<or> event = ''typing_stop'' then map_stop_typing e env
      else if event = ''post_edited'' \<or> event = ''thread_reply_updated'' then map_post_change e env ''post_edited''
      else if event = ''post_deleted'' \<or> event = ''thread_reply_deleted'' then map_post_change e env ''post_deleted''
      else if event = ''reaction_added'' then map_reaction e env ''reaction_added''
      else if event = ''reaction_removed'' then map_reaction e env ''reaction_removed''
      else if event = ''user_updated'' \<or> event = ''status_change'' then map_status e env
      else if event = ''channel_viewed'' then map_ids e env ''channel_viewed'' [''channel_id'']
      else if event = ''post_unread'' then map_post_unread e env
      else if event = ''thread_updated'' then Some (mm_event e env ''thread_updated'' (we_data env))
      else if event = ''user_added'' then map_ids e env ''user_added'' [''user_id'', ''channel_id'', ''team_id'']
      else if event = ''user_removed'' then map_ids e env ''user_removed'' [''user_id'', ''remover_id'']
      else if event = ''received_group'' then map_embedded e env ''received_group'' ''group''
      else if event = ''group_member_add'' then map_embedded e env ''group_member_add'' ''group_member''
      else if event = ''group_member_deleted'' then map_embedded e env ''group_member_deleted'' ''group_member''
      else if event \<in> {''received_group_associated_to_team'', ''received_group_not_associated_to_team'',
          ''received_group_associated_to_channel'', ''received_group_not_associated_to_channel''}
        then map_ids e env event [''group_id'']
      else if event = ''first_admin_visit_marketplace_status_received''
        then Some (mm_event e env ''first_admin_visit_marketplace_status_received'' (we_data env))
      else if strip_prefix ''custom_'' event \<noteq> None then Some (mm_event e env event (we_data env))
      else None)"

section \<open>Which events arrive\<close>

text \<open>The event types that no Mattermost client is ever told of.\<close>

definition v4_silent :: "event_type list" where
  "v4_silent = [ChannelCreated, ChannelUpdated, ChannelDeleted, ChannelUnread, EphemeralMessage, CallSignal,
     ConfigUpdated, UnreadCountsUpdated, ActivityCreated, ActivityRead, ChannelSubscribed, ChannelUnsubscribed,
     Error, Hello]"

text \<open>The name under which the others arrive.\<close>

definition v4_name :: "event_type \<Rightarrow> string" where
  "v4_name event = (case event of
       ThreadReplyCreated \<Rightarrow> ''posted'' | ThreadReplyUpdated \<Rightarrow> ''post_edited'' | ThreadReplyDeleted \<Rightarrow> ''post_deleted''
     | UserUpdated \<Rightarrow> ''status_change'' | _ \<Rightarrow> as_str event)"

text \<open>What the payload has to hold for the event to arrive.\<close>

definition v4_readable :: "map_env \<Rightarrow> event_type \<Rightarrow> json \<Rightarrow> bool" where
  "v4_readable e event data = (case event of
       MessageCreated \<Rightarrow> me_post_response e data \<noteq> None \<or> me_post e data \<noteq> None
     | ThreadReplyCreated \<Rightarrow> me_post_response e data \<noteq> None \<or> me_post e data \<noteq> None
     | MessageUpdated \<Rightarrow> me_post_response e data \<noteq> None
     | ThreadReplyUpdated \<Rightarrow> me_post_response e data \<noteq> None
     | MessageDeleted \<Rightarrow> me_post_response e data \<noteq> None
     | ThreadReplyDeleted \<Rightarrow> me_post_response e data \<noteq> None
     | UserTyping \<Rightarrow> me_typing e data \<noteq> None
     | UserTypingStop \<Rightarrow> me_typing e data \<noteq> None
     | ReactionAdded \<Rightarrow> me_reaction e data \<noteq> None
     | ReactionRemoved \<Rightarrow> me_reaction e data \<noteq> None
     | UserUpdated \<Rightarrow> Option.bind (json_get ''status'' data) json_as_str \<noteq> None
     | UserPresence \<Rightarrow> Option.bind (json_get ''status'' data) json_as_str \<noteq> None
     | ReceivedGroup \<Rightarrow> extract_embedded_json e (json_get ''group'' data) \<noteq> None
     | GroupMemberAdd \<Rightarrow> extract_embedded_json e (json_get ''group_member'' data) \<noteq> None
     | GroupMemberDeleted \<Rightarrow> extract_embedded_json e (json_get ''group_member'' data) \<noteq> None
     | _ \<Rightarrow> event \<notin> set v4_silent)"

lemmas map_defs = map_posted_def map_post_change_def map_typing_def map_stop_typing_def map_reaction_def
  map_status_def map_ids_def map_post_unread_def map_embedded_def

lemma mm_event_simps [simp]:
  "wm_seq (mm_event e env n d) = None" "wm_event (mm_event e env n d) = n"
  "wm_broadcast (mm_event e env n d) = map_broadcast (me_ids e) (we_broadcast env)"
  by (simp_all add: mm_event_def)


definition demo_map_env :: map_env where
  "demo_map_env = \<lparr>me_ids = demo_codec, me_post_response = (\<lambda>_. None), me_post = (\<lambda>_. None), me_typing = (\<lambda>_. None),
     me_reaction = (\<lambda>_. None), me_to_string = (\<lambda>_. None), me_emojis = []\<rparr>"


end
