(* ===== verification/Ws_V4.thy ===== *)
theory Ws_V4
  imports Ws_Mapping Ws_Core Calls_Ws
begin

text \<open>
  The Mattermost-compatible WebSocket endpoint: \<^verbatim>\<open>backend/src/api/v4/websocket.rs\<close>. It puts together the
  connection store and the actor, the hub and the presence registry (\<open>Ws_Core\<close>), the calls plugin
  (\<open>Calls_Ws\<close>), the event mapping and the MessagePack decoder.

  The shared state is \<open>server\<close>; a connection in its main loop is a \<open>v4_conn\<close>. \<^verbatim>\<open>run_connection\<close> is split at
  its awaits: \<open>connect\<close> and \<open>greet\<close>, between which the actor task already runs, and one operation for each
  thing the loop and the tasks it spawns react to. What the database answers and the derived conversions are
  fields of \<open>v4_env\<close>. Events that the calls plugin broadcasts go to the hub in the order it sends them.
\<close>

section \<open>Environment and state\<close>

record membership_row =
  mw_channel_id :: uuid
  mw_role :: string
  mw_notify_props :: json
  mw_last_viewed_at :: "int option"
  mw_msg_count :: int
  mw_mention_count :: int
  mw_msg_count_root :: int
  mw_mention_count_root :: int
  mw_urgent_mention_count :: int

record reconnect_status_row =
  sw_id :: uuid
  sw_presence :: string
  sw_presence_manual :: bool
  sw_last_login_at :: "int option"
  sw_status_text :: "string option"
  sw_status_emoji :: "string option"
  sw_status_expires_at :: "int option"

text \<open>The queries of the snapshot; \<open>None\<close> is a failed query.\<close>

record snapshot_db =
  sn_channels :: "uuid \<Rightarrow> channel list option"
  sn_partner_name :: "uuid \<Rightarrow> uuid \<Rightarrow> string option option"
  sn_username :: "uuid \<Rightarrow> string option"
  sn_members :: "uuid \<Rightarrow> string \<Rightarrow> membership_row list option"
  sn_statuses :: "uuid list \<Rightarrow> reconnect_status_row list option"

record ('r, 'p, 'post, 'rc, 'pc) v4_env =
  v4_ws :: "('r, 'p, 'post) ws_env"
  v4_calls :: "('rc, 'pc) calls_env"
  v4_map :: map_env
  v4_db :: snapshot_db
  v4_parse_offer :: "string \<Rightarrow> string option"
  v4_from_envelope :: "string \<Rightarrow> ws_envelope option"
  v4_parse :: "string \<Rightarrow> json option"
  v4_utf8 :: "bytes \<Rightarrow> string option"
  v4_de_broadcast :: "json \<Rightarrow> mm_broadcast option"
  v4_version :: string
  v4_post_priority :: bool

record ('r, 'p, 'rc, 'pc) server =
  sv_app :: "('r, 'p, unit) ws_app"
  sv_calls :: "('rc, 'pc) calls_app"
  sv_store :: "json connection_store"
  sv_heartbeats :: "(uuid \<times> string) list"
  sv_graces :: "(uuid \<times> string \<times> instant) list"

record v4_conn =
  vc_actor :: actor
  vc_user_id :: uuid
  vc_username :: string
  vc_hub_id :: uuid
  vc_presence_id :: string
  vc_deadline :: instant
  vc_forwarding :: bool
  vc_open :: bool

abbreviation v4_ids :: "('r, 'p, 'post, 'rc, 'pc) v4_env \<Rightarrow> id_codec" where
  "v4_ids env \<equiv> me_ids (v4_map env)"

abbreviation utc :: "('r, 'p, 'post, 'rc, 'pc) v4_env \<Rightarrow> int" where
  "utc env \<equiv> env_now_ms (v4_ws env)"

section \<open>The upgrade request\<close>

text \<open>What the handler passes on: the resolved identity, the trimmed connection id and the echoed protocol.\<close>

definition nonblank :: "string option \<Rightarrow> string option" where
  "nonblank value = Option.bind value (\<lambda>v. if trim v = [] then None else Some (trim v))"

definition handle_websocket ::
  "('r, 'p, 'post, 'rc, 'pc) v4_env \<Rightarrow> header_map \<Rightarrow> string option \<Rightarrow> websocket_auth option \<times> string option \<times> string option" where
  "handle_websocket env headers connection_id =
     (let protocol = requested_protocol headers;
          token = resolve_auth_token_secure headers protocol
      in (validate_auth_context (v4_ws env) token, nonblank connection_id, protocol))"

section \<open>Authentication over the socket\<close>

record authentication_challenge =
  ach_token :: string
  ach_seq_reply :: json

definition field_or_null :: "string \<Rightarrow> json \<Rightarrow> json" where
  "field_or_null key value = (case json_get key value of None \<Rightarrow> JNull | Some v \<Rightarrow> v)"

definition parse_authentication_challenge :: "(string \<Rightarrow> json option) \<Rightarrow> string \<Rightarrow> authentication_challenge option" where
  "parse_authentication_challenge parse text =
     Option.bind (parse text) (\<lambda>value.
       if Option.bind (json_get ''action'' value) json_as_str \<noteq> Some ''authentication_challenge'' then None
       else map_option (\<lambda>token. \<lparr>ach_token = token, ach_seq_reply = field_or_null ''seq'' value\<rparr>)
              (Option.bind (Option.bind (json_get ''data'' value) (json_get ''token'')) json_as_str))"

text \<open>What \<^verbatim>\<open>timeout(30 s, socket.recv())\<close> yields.\<close>

datatype socket_recv = RecvText string | RecvOther | RecvClosed | RecvError | RecvTimeout

datatype 'a auth_outcome = Authenticated 'a | Unauthenticated | Waiting

text \<open>The replies are returned beside the outcome.\<close>

fun authenticate_via_websocket ::
  "('r, 'p, 'post, 'rc, 'pc) v4_env \<Rightarrow> socket_recv list \<Rightarrow> websocket_auth auth_outcome \<times> json list" where
  "authenticate_via_websocket env [] = (Waiting, [])"
| "authenticate_via_websocket env (RecvText text # rest) =
     (case parse_authentication_challenge (v4_parse env) text of
        None \<Rightarrow> authenticate_via_websocket env rest
      | Some challenge \<Rightarrow>
          (case Option.bind (normalize_auth_token (ach_token challenge)) (validate_auth_token (v4_ws env)) of
             Some auth \<Rightarrow> (Authenticated auth,
               [JObject [(''status'', JString ''OK''), (''seq_reply'', ach_seq_reply challenge)]])
           | None \<Rightarrow>
               (case authenticate_via_websocket env rest of (outcome, replies) \<Rightarrow>
                 (outcome, JObject [(''status'', JString ''FAIL''), (''seq_reply'', ach_seq_reply challenge),
                                    (''error'', JString ''Invalid token'')] # replies))))"
| "authenticate_via_websocket env (RecvOther # rest) = authenticate_via_websocket env rest"
| "authenticate_via_websocket env (RecvClosed # rest) = (Unauthenticated, [])"
| "authenticate_via_websocket env (RecvError # rest) = (Unauthenticated, [])"
| "authenticate_via_websocket env (RecvTimeout # rest) = (Unauthenticated, [])"

section \<open>The reconnect snapshot\<close>

definition should_send_reconnect_snapshot :: "string option \<Rightarrow> int option \<Rightarrow> bool" where
  "should_send_reconnect_snapshot requested_connection_id sequence_number \<longleftrightarrow>
     (case requested_connection_id of None \<Rightarrow> False | Some cid \<Rightarrow> trim cid \<noteq> []) \<or>
     (case sequence_number of None \<Rightarrow> False | Some q \<Rightarrow> q > 0)"

definition normalize_notify_props_for_snapshot :: "json \<Rightarrow> json" where
  "normalize_notify_props_for_snapshot value =
     (if value = JNull \<or> value = JObject []
      then JObject [(''desktop'', JString ''default''), (''mark_unread'', JString ''all'')] else value)"

definition hydrate_direct_channel_display_name :: "snapshot_db \<Rightarrow> uuid \<Rightarrow> channel \<Rightarrow> channel option" where
  "hydrate_direct_channel_display_name db viewer_id channel =
     (if ch_channel_type channel \<noteq> Direct then Some channel
      else map_option (\<lambda>name. channel\<lparr>ch_display_name := Some (case name of None \<Rightarrow> ''Direct Message'' | Some n \<Rightarrow> n)\<rparr>)
             (sn_partner_name db (ch_id channel) viewer_id))"

text \<open>A loop with \<^verbatim>\<open>?\<close> in its body.\<close>

fun try_each :: "('a \<Rightarrow> 'b option) \<Rightarrow> 'a list \<Rightarrow> 'b list option" where
  "try_each f [] = Some []"
| "try_each f (x # xs) = Option.bind (f x) (\<lambda>y. map_option ((#) y) (try_each f xs))"

definition snapshot_member :: "('r, 'p, 'post, 'rc, 'pc) v4_env \<Rightarrow> uuid \<Rightarrow> membership_row \<Rightarrow> json" where
  "snapshot_member env user_id row = json_of_channel_member
     \<lparr>mcb_channel_id = mm_id (v4_ids env) (mw_channel_id row), mcb_user_id = mm_id (v4_ids env) user_id,
      mcb_roles = map_channel_role (mw_role row), mcb_last_viewed_at = ms_or_zero (mw_last_viewed_at row),
      mcb_msg_count = mw_msg_count row, mcb_mention_count = mw_mention_count row,
      mcb_mention_count_root = mw_mention_count_root row,
      mcb_urgent_mention_count = (if v4_post_priority env then mw_urgent_mention_count row else 0),
      mcb_msg_count_root = mw_msg_count_root row,
      mcb_notify_props = normalize_notify_props_for_snapshot (mw_notify_props row), mcb_last_update_at = 0,
      mcb_scheme_guest = False, mcb_scheme_user = True,
      mcb_scheme_admin = (mw_role row \<in> {''admin'', ''team_admin'', ''channel_admin''})\<rparr>"

definition snapshot_unread :: "('r, 'p, 'post, 'rc, 'pc) v4_env \<Rightarrow> membership_row \<Rightarrow> json" where
  "snapshot_unread env row = JObject
     [(''channel_id'', JString (mm_id (v4_ids env) (mw_channel_id row))), (''msg_count'', JNumber (mw_msg_count row)),
      (''msg_count_root'', JNumber (mw_msg_count_root row)), (''mention_count'', JNumber (mw_mention_count row)),
      (''mention_count_root'', JNumber (mw_mention_count_root row)),
      (''urgent_mention_count'', JNumber (if v4_post_priority env then mw_urgent_mention_count row else 0)),
      (''last_viewed_at'', JNumber (ms_or_zero (mw_last_viewed_at row)))]"

definition snapshot_status :: "id_codec \<Rightarrow> reconnect_status_row \<Rightarrow> json" where
  "snapshot_status k row =
     (let text = (\<lambda>s. case s of None \<Rightarrow> JNull | Some s \<Rightarrow> JString s)
      in JObject
        [(''user_id'', JString (mm_id k (sw_id row))),
         (''status'', JString (if sw_presence row = [] then ''offline'' else sw_presence row)),
         (''manual'', JBool (sw_presence_manual row)), (''last_activity_at'', JNumber (ms_or_zero (sw_last_login_at row))),
         (''text'', text (sw_status_text row)), (''emoji'', text (sw_status_emoji row)),
         (''expires_at'', case sw_status_expires_at row of None \<Rightarrow> JNull | Some t \<Rightarrow> JNumber t)])"

definition build_reconnect_snapshot :: "('r, 'p, 'post, 'rc, 'pc) v4_env \<Rightarrow> uuid \<Rightarrow> json option" where
  "build_reconnect_snapshot env user_id =
     (let db = v4_db env in
      Option.bind (sn_channels db user_id) (\<lambda>channels.
      Option.bind (try_each (hydrate_direct_channel_display_name db user_id) channels) (\<lambda>channels.
      Option.bind (sn_username db user_id) (\<lambda>username.
      Option.bind (sn_members db user_id username) (\<lambda>rows.
      Option.bind (if channels = [] then Some [] else sn_statuses db (map ch_id channels)) (\<lambda>statuses.
        Some (JObject
          [(''channels'', JArray (map (json_of_channel \<circ> mm_channel_of (v4_ids env)) channels)),
           (''channel_members'', JArray (map (snapshot_member env user_id) rows)),
           (''channel_unreads'', JArray (map (snapshot_unread env) rows)),
           (''statuses'', JArray (map (snapshot_status (v4_ids env)) statuses)),
           (''server_time'', JNumber (utc env))])))))))"

text \<open>Queue a message for replay, stamp it with the number it got, and hand it to the actor.\<close>

definition queue_and_send ::
  "instant \<Rightarrow> mm_message \<Rightarrow> actor \<times> json connection_store \<Rightarrow> (string + unit) \<times> actor \<times> json connection_store" where
  "queue_and_send now message = (\<lambda>(a, store).
     (let (store, seq) = queue_message now (ac_connection_id a) (replay_payload message) store;
          message = (case seq of None \<Rightarrow> message | Some q \<Rightarrow> message\<lparr>wm_seq := Some q\<rparr>);
          (result, a) = actor_send message a
      in (result, a, store)))"

definition snapshot_message :: "('r, 'p, 'post, 'rc, 'pc) v4_env \<Rightarrow> uuid \<Rightarrow> json \<Rightarrow> mm_message" where
  "snapshot_message env user_id snapshot =
     \<lparr>wm_seq = None, wm_event = ''initial_load'', wm_data = snapshot,
      wm_broadcast = default_broadcast\<lparr>mb_user_id := mm_id (v4_ids env) user_id\<rparr>\<rparr>"

definition send_reconnect_snapshot_if_needed ::
  "('r, 'p, 'post, 'rc, 'pc) v4_env \<Rightarrow> instant \<Rightarrow> uuid \<Rightarrow> bool \<Rightarrow> actor \<times> json connection_store \<Rightarrow> actor \<times> json connection_store" where
  "send_reconnect_snapshot_if_needed env now user_id should_send s =
     (if \<not> should_send then s
      else (case build_reconnect_snapshot env user_id of
              None \<Rightarrow> s
            | Some snapshot \<Rightarrow> snd (queue_and_send now (snapshot_message env user_id snapshot) s)))"

section \<open>Opening a connection\<close>

datatype refusal = TokenExpired | TooManyConnections | UserUnknown actor

definition on_redis :: "('r \<Rightarrow> 'r) \<Rightarrow> ('r, 'p, 't) ws_app \<Rightarrow> ('r, 'p, 't) ws_app" where
  "on_redis f app = app\<lparr>app_redis := f (app_redis app)\<rparr>"

definition register ::
  "('r, 'p, 'post) ws_env \<Rightarrow> uuid \<Rightarrow> uuid \<Rightarrow> string \<Rightarrow> ('r, 'p, unit) app_op" where
  "register ws user_id hub_id username app =
     (let app = app\<lparr>app_hub := add_connection hub_id () user_id username (app_hub app)\<rparr>;
          app = on_redis (register_presence_connection ws user_id (env_show ws hub_id)) app
      in initialize_connection_state ws user_id True app)"

text \<open>\<^verbatim>\<open>run_connection\<close> up to the hello message. The identifiers that are generated on the way are arguments.\<close>

definition connect ::
  "('r, 'p, 'post, 'rc, 'pc) v4_env \<Rightarrow> instant \<Rightarrow> string \<Rightarrow> uuid \<Rightarrow> websocket_auth \<Rightarrow> string option \<Rightarrow> int option \<Rightarrow>
     ('r, 'p, 'rc, 'pc) server \<Rightarrow> (refusal + v4_conn \<times> mm_message list) \<times> ('r, 'p, 'rc, 'pc) server" where
  "connect env now new_id hub_id auth connection_id sequence_number sv =
     (let ws = v4_ws env; user_id = wa_user_id auth in
      if wa_expires_at auth \<le> utc env then (Inl TokenExpired, sv)
      else
        (let (admitted, r) = enforce_connection_limit ws user_id (app_redis (sv_app sv));
             sv = sv\<lparr>sv_app := (sv_app sv)\<lparr>app_redis := r\<rparr>\<rparr>
         in case admitted of
              Inl _ \<Rightarrow> (Inl TooManyConnections, sv)
            | Inr _ \<Rightarrow>
                (let requested = (case connection_id of None \<Rightarrow> None | Some c \<Rightarrow> if c = [] then None else Some c);
                     (store, a, missed) =
                       actor_new now new_id (v4_de_broadcast env) user_id requested sequence_number (sv_store sv);
                     sv = sv\<lparr>sv_store := store\<rparr>
                 in case sn_username (v4_db env) user_id of
                      None \<Rightarrow> (Inl (UserUnknown ((actor_close INTERNAL_ERROR ''User not found'' a)\<lparr>ac_handle := False\<rparr>)), sv)
                    | Some username \<Rightarrow>
                        (let presence_id = env_show ws hub_id;
                             sv = sv\<lparr>sv_app := register ws user_id hub_id username (sv_app sv),
                                     sv_heartbeats := sv_heartbeats sv @ [(user_id, presence_id)]\<rparr>
                         in (Inr (\<lparr>vc_actor = a, vc_user_id = user_id, vc_username = username, vc_hub_id = hub_id,
                                   vc_presence_id = presence_id,
                                   vc_deadline = now + nat (wa_expires_at auth - utc env),
                                   vc_forwarding = False, vc_open = False\<rparr>, missed), sv)))))"

definition hello_seq :: "string option \<Rightarrow> int option \<Rightarrow> string \<Rightarrow> int" where
  "hello_seq requested_connection_id sequence_number actor_connection_id =
     (if requested_connection_id = Some actor_connection_id
      then max (case sequence_number of None \<Rightarrow> 0 | Some q \<Rightarrow> q) 0 else 0)"

definition hello_message :: "('r, 'p, 'post, 'rc, 'pc) v4_env \<Rightarrow> int \<Rightarrow> string \<Rightarrow> mm_message" where
  "hello_message env seq connection_id =
     \<lparr>wm_seq = Some seq, wm_event = ''hello'',
      wm_data = JObject [(''connection_id'', JString connection_id),
        (''server_version'', JString (''rustchat-'' @ v4_version env)), (''protocol_version'', JString ''1.0'')],
      wm_broadcast = default_broadcast\<rparr>"

text \<open>The replay loop stops at the first message the actor does not take.\<close>

fun send_missed :: "mm_message list \<Rightarrow> actor \<Rightarrow> actor" where
  "send_missed [] a = a"
| "send_missed (m # ms) a = (case actor_send m a of (Inl _, a) \<Rightarrow> a | (Inr _, a) \<Rightarrow> send_missed ms a)"

text \<open>From the hello message to the main loop; a failed hello returns and drops the handle, nothing else.\<close>

definition greet ::
  "('r, 'p, 'post, 'rc, 'pc) v4_env \<Rightarrow> instant \<Rightarrow> string option \<Rightarrow> int option \<Rightarrow> v4_conn \<Rightarrow> mm_message list \<Rightarrow>
     ('r, 'p, 'rc, 'pc) server \<Rightarrow> v4_conn \<times> ('r, 'p, 'rc, 'pc) server" where
  "greet env now connection_id sequence_number conn missed sv =
     (let a = vc_actor conn;
          requested = (case connection_id of None \<Rightarrow> None | Some c \<Rightarrow> if c = [] then None else Some c);
          hello = hello_message env (hello_seq requested sequence_number (ac_connection_id a)) (ac_connection_id a)
      in case actor_send hello a of
           (Inl _, a) \<Rightarrow> (conn\<lparr>vc_actor := a\<lparr>ac_handle := False\<rparr>\<rparr>, sv)
         | (Inr _, a) \<Rightarrow>
             (let (a, store) = send_reconnect_snapshot_if_needed env now (vc_user_id conn)
                    (should_send_reconnect_snapshot requested sequence_number) (send_missed missed a, sv_store sv)
              in (conn\<lparr>vc_actor := a, vc_forwarding := True, vc_open := True\<rparr>, sv\<lparr>sv_store := store\<rparr>)))"

section \<open>The main loop\<close>

definition with_socket ::
  "(actor \<times> json connection_store \<Rightarrow> actor \<times> json connection_store) \<Rightarrow> v4_conn \<times> ('r, 'p, 'rc, 'pc) server \<Rightarrow>
     v4_conn \<times> ('r, 'p, 'rc, 'pc) server" where
  "with_socket f = (\<lambda>(conn, sv). case f (vc_actor conn, sv_store sv) of
     (a, store) \<Rightarrow> (conn\<lparr>vc_actor := a\<rparr>, sv\<lparr>sv_store := store\<rparr>))"

text \<open>The forwarding task takes a message from the hub; a failed send ends it.\<close>

definition forward ::
  "('r, 'p, 'post, 'rc, 'pc) v4_env \<Rightarrow> instant \<Rightarrow> string \<Rightarrow> v4_conn \<times> ('r, 'p, 'rc, 'pc) server \<Rightarrow>
     v4_conn \<times> ('r, 'p, 'rc, 'pc) server" where
  "forward env now msg_str = (\<lambda>(conn, sv).
     if \<not> vc_forwarding conn then (conn, sv)
     else (case Option.bind (v4_from_envelope env msg_str) (map_envelope_to_mm (v4_map env)) of
             None \<Rightarrow> (conn, sv)
           | Some mm_msg \<Rightarrow>
               (case queue_and_send now mm_msg (vc_actor conn, sv_store sv) of
                  (result, a, store) \<Rightarrow>
                    (conn\<lparr>vc_actor := a, vc_forwarding := (result = Inr ())\<rparr>, sv\<lparr>sv_store := store\<rparr>))))"

text \<open>A call of the calls plugin, its broadcasts forwarded to the hub.\<close>

definition flush_calls ::
  "('r, 'p, 'post, 'rc, 'pc) v4_env \<Rightarrow> ('rc, 'pc) calls_app \<Rightarrow> ('r, 'p, 'rc, 'pc) server \<Rightarrow> ('r, 'p, 'rc, 'pc) server" where
  "flush_calls env calls sv =
     sv\<lparr>sv_app := fold (app_broadcast (v4_ws env)) (ca_broadcast calls) (sv_app sv),
        sv_calls := calls\<lparr>ca_broadcast := []\<rparr>\<rparr>"

definition calls_action ::
  "('r, 'p, 'post, 'rc, 'pc) v4_env \<Rightarrow> uuid \<Rightarrow> uuid \<Rightarrow> string \<Rightarrow> string \<Rightarrow> json option \<Rightarrow> ('r, 'p, 'rc, 'pc) server \<Rightarrow>
     bool \<times> ('r, 'p, 'rc, 'pc) server" where
  "calls_action env new_call_id user_id connection_id act data sv =
     (case handle_ws_action (v4_calls env) (v4_parse_offer env) new_call_id user_id connection_id act data (sv_calls sv) of
        (handled, calls) \<Rightarrow> (handled, flush_calls env calls sv))"

definition first_id :: "id_codec \<Rightarrow> json option list \<Rightarrow> uuid option" where
  "first_id k candidates =
     (case List.map_filter (\<lambda>v. Option.bind (Option.bind v json_as_str) (parse_mm_id k)) candidates of
        [] \<Rightarrow> None | u # _ \<Rightarrow> Some u)"

definition extract_typing_channel_id :: "id_codec \<Rightarrow> json \<Rightarrow> uuid option" where
  "extract_typing_channel_id k value =
     first_id k [Option.bind (json_get ''data'' value) (json_get ''channel_id''), json_get ''channel_id'' value]"

definition extract_typing_thread_root_id :: "id_codec \<Rightarrow> json \<Rightarrow> uuid option" where
  "extract_typing_thread_root_id k value =
     (let data = json_get ''data'' value
      in first_id k [Option.bind data (json_get ''parent_id''), Option.bind data (json_get ''thread_root_id''),
                     json_get ''parent_id'' value, json_get ''thread_root_id'' value])"

definition broadcast_client_typing ::
  "('r, 'p, 'post, 'rc, 'pc) v4_env \<Rightarrow> event_type \<Rightarrow> uuid \<Rightarrow> string \<Rightarrow> json \<Rightarrow> ('r, 'p, 't) app_op" where
  "broadcast_client_typing env event user_id username value app =
     (case extract_typing_channel_id (v4_ids env) value of
        None \<Rightarrow> app
      | Some channel_id \<Rightarrow>
          app_broadcast (v4_ws env) (with_broadcast
            (ws_event event (Some (typing_payload (v4_ws env)
               \<lparr>te_user_id = user_id, te_display_name = username,
                te_thread_root_id = extract_typing_thread_root_id (v4_ids env) value\<rparr>)) (Some channel_id))
            \<lparr>wb_channel_id = Some channel_id, wb_team_id = None, wb_user_id = None, wb_exclude_user_id = Some user_id\<rparr>) app)"

definition ping_response :: "('r, 'p, 'post, 'rc, 'pc) v4_env \<Rightarrow> json \<Rightarrow> json" where
  "ping_response env value = JObject
     [(''status'', JString ''OK''), (''seq_reply'', field_or_null ''seq'' value),
      (''data'', JObject [(''text'', JString ''pong''), (''version'', JString (''rustchat-'' @ v4_version env)),
         (''server_time'', JNumber (utc env)), (''node_id'', JString [])])]"

definition send_reply ::
  "json \<Rightarrow> actor \<times> json connection_store \<Rightarrow> actor \<times> json connection_store" where
  "send_reply response = (\<lambda>(a, store). (snd (actor_send_raw response a), store))"

definition handle_client_value_message ::
  "('r, 'p, 'post, 'rc, 'pc) v4_env \<Rightarrow> instant \<Rightarrow> uuid \<Rightarrow> json \<Rightarrow> v4_conn \<times> ('r, 'p, 'rc, 'pc) server \<Rightarrow>
     v4_conn \<times> ('r, 'p, 'rc, 'pc) server" where
  "handle_client_value_message env now new_call_id value = (\<lambda>(conn, sv).
     (case Option.bind (json_get ''action'' value) json_as_str of
        None \<Rightarrow> (conn, sv)
      | Some act \<Rightarrow>
          (let user_id = vc_user_id conn; username = vc_username conn;
               (handled, sv) = calls_action env new_call_id user_id (ac_connection_id (vc_actor conn)) act
                 (json_get ''data'' value) sv
           in if handled then (conn, sv)
              else if act = ''ping'' then with_socket (send_reply (ping_response env value)) (conn, sv)
              else if act \<in> {''reconnect'', ''get_initial_load'', ''initial_load''}
              then with_socket (send_reconnect_snapshot_if_needed env now user_id True \<circ>
                send_reply (JObject [(''status'', JString ''OK''), (''seq_reply'', field_or_null ''seq'' value)])) (conn, sv)
              else if act \<in> {''user_typing'', ''typing'', ''typing_start''}
              then (conn, sv\<lparr>sv_app := broadcast_client_typing env UserTyping user_id username value (sv_app sv)\<rparr>)
              else if act \<in> {''user_typing_stop'', ''stop_typing'', ''typing_stop''}
              then (conn, sv\<lparr>sv_app := broadcast_client_typing env UserTypingStop user_id username value (sv_app sv)\<rparr>)
              else (conn, sv))))"

definition handle_client_text_message ::
  "('r, 'p, 'post, 'rc, 'pc) v4_env \<Rightarrow> instant \<Rightarrow> uuid \<Rightarrow> string \<Rightarrow> v4_conn \<times> ('r, 'p, 'rc, 'pc) server \<Rightarrow>
     v4_conn \<times> ('r, 'p, 'rc, 'pc) server" where
  "handle_client_text_message env now new_call_id text = (\<lambda>(conn, sv).
     (let (conn, sv) = (case v4_parse env text of
            Some value \<Rightarrow> handle_client_value_message env now new_call_id value (conn, sv)
          | None \<Rightarrow>
              if trim text \<in> {''mute'', ''unmute'', ''raise_hand'', ''unraise_hand'', ''leave''}
              then (conn, snd (calls_action env new_call_id (vc_user_id conn) (ac_connection_id (vc_actor conn))
                (''custom_com.mattermost.calls_'' @ trim text) None sv))
              else (conn, sv))
      in (conn, sv\<lparr>sv_app := fst (handle_client_envelope_message (v4_ws env) (vc_user_id conn) (vc_username conn)
           text V4 (sv_app sv))\<rparr>)))"

definition handle_client_binary_message ::
  "('r, 'p, 'post, 'rc, 'pc) v4_env \<Rightarrow> instant \<Rightarrow> uuid \<Rightarrow> bytes \<Rightarrow> v4_conn \<times> ('r, 'p, 'rc, 'pc) server \<Rightarrow>
     v4_conn \<times> ('r, 'p, 'rc, 'pc) server" where
  "handle_client_binary_message env now new_call_id bytes s =
     (case decode_msgpack_value (v4_utf8 env) bytes of
        None \<Rightarrow> s
      | Some value \<Rightarrow> handle_client_value_message env now new_call_id value s)"

definition GRACE_MS :: nat where "GRACE_MS = 3000"

text \<open>What follows the loop. The handle is dropped last.\<close>

definition finish ::
  "('r, 'p, 'post, 'rc, 'pc) v4_env \<Rightarrow> instant \<Rightarrow> v4_conn \<times> ('r, 'p, 'rc, 'pc) server \<Rightarrow> v4_conn \<times> ('r, 'p, 'rc, 'pc) server" where
  "finish env now = (\<lambda>(conn, sv).
     (let user_id = vc_user_id conn;
          sv = sv\<lparr>sv_heartbeats := remove1 (user_id, vc_presence_id conn) (sv_heartbeats sv)\<rparr>;
          (a, store) = actor_disconnect now (vc_actor conn, sv_store sv);
          app = (sv_app sv)\<lparr>app_hub := remove_hub_connection user_id (vc_hub_id conn) (app_hub (sv_app sv))\<rparr>;
          app = handle_disconnect (v4_ws env) user_id (vc_presence_id conn) app
      in (conn\<lparr>vc_actor := a\<lparr>ac_handle := False\<rparr>, vc_forwarding := False, vc_open := False\<rparr>,
          sv\<lparr>sv_app := app, sv_store := store,
             sv_graces := sv_graces sv @ [(user_id, ac_connection_id a, now + GRACE_MS)]\<rparr>)))"

text \<open>One event of the actor.\<close>

definition receive ::
  "('r, 'p, 'post, 'rc, 'pc) v4_env \<Rightarrow> instant \<Rightarrow> uuid \<Rightarrow> v4_conn \<times> ('r, 'p, 'rc, 'pc) server \<Rightarrow>
     v4_conn \<times> ('r, 'p, 'rc, 'pc) server" where
  "receive env now new_call_id = (\<lambda>(conn, sv).
     (let (event, a) = actor_recv (vc_actor conn); conn = conn\<lparr>vc_actor := a\<rparr>
      in case event of
           Event (MessageReceived text) \<Rightarrow> handle_client_text_message env now new_call_id text (conn, sv)
         | Event (BinaryReceived bytes) \<Rightarrow> handle_client_binary_message env now new_call_id bytes (conn, sv)
         | Event PongReceived \<Rightarrow> (conn, sv)
         | Event (EventClosed _) \<Rightarrow> finish env now (conn, sv)
         | Event (EventError _) \<Rightarrow> finish env now (conn, sv)
         | NoMore \<Rightarrow> finish env now (conn, sv)
         | Pending \<Rightarrow> (conn, sv)))"

text \<open>What can happen to a connection: a turn of its actor, a message or the end of its hub subscription, an event
  of the actor, the end of the forwarding task, the expiry of the token, a beat of its heartbeat task.\<close>

datatype v4_input =
    ActorTurn actor_turn
  | HubMessage instant string
  | HubLagged
  | HubClosed
  | Receive instant uuid
  | ForwardEnded instant
  | TokenExpiry instant
  | Heartbeat

fun v4_step ::
  "('r, 'p, 'post, 'rc, 'pc) v4_env \<Rightarrow> v4_input \<Rightarrow> v4_conn \<times> ('r, 'p, 'rc, 'pc) server \<Rightarrow> v4_conn \<times> ('r, 'p, 'rc, 'pc) server" where
  "v4_step env (ActorTurn t) s = with_socket (actor_step t) s"
| "v4_step env (HubMessage now msg_str) s = forward env now msg_str s"
| "v4_step env HubLagged s = s"
| "v4_step env HubClosed s = ((fst s)\<lparr>vc_forwarding := False\<rparr>, snd s)"
| "v4_step env (Receive now new_call_id) s = (if vc_open (fst s) then receive env now new_call_id s else s)"
| "v4_step env (ForwardEnded now) s =
     (if vc_open (fst s) \<and> \<not> vc_forwarding (fst s) then finish env now s else s)"
| "v4_step env (TokenExpiry now) s =
     (if vc_open (fst s) \<and> vc_deadline (fst s) \<le> now
      then finish env now (with_socket (\<lambda>(a, store).
        (actor_close POLICY_VIOLATION ''Authentication token expired'' a, store)) s)
      else s)"
| "v4_step env Heartbeat s = (case s of (conn, sv) \<Rightarrow>
     if (vc_user_id conn, vc_presence_id conn) \<in> set (sv_heartbeats sv)
     then (conn, sv\<lparr>sv_app := on_redis (heartbeat_presence_connection (v4_ws env) (vc_user_id conn) (vc_presence_id conn))
            (sv_app sv)\<rparr>)
     else s)"

definition v4_run ::
  "('r, 'p, 'post, 'rc, 'pc) v4_env \<Rightarrow> v4_input list \<Rightarrow> v4_conn \<times> ('r, 'p, 'rc, 'pc) server \<Rightarrow>
     v4_conn \<times> ('r, 'p, 'rc, 'pc) server" where
  "v4_run env = fold (v4_step env)"

text \<open>The end of the grace period after a connection ended.\<close>

definition grace_elapsed ::
  "('r, 'p, 'post, 'rc, 'pc) v4_env \<Rightarrow> uuid \<Rightarrow> string \<Rightarrow> ('r, 'p, 'rc, 'pc) server \<Rightarrow> ('r, 'p, 'rc, 'pc) server" where
  "grace_elapsed env user_id connection_id sv =
     (let still_inactive = (case get_connection connection_id (sv_store sv) of
            None \<Rightarrow> True | Some conn \<Rightarrow> \<not> cs_is_active conn)
      in if still_inactive
         then flush_calls env (handle_ws_connection_closed (v4_calls env) user_id connection_id (sv_calls sv)) sv
         else sv)"

section \<open>The whole connection\<close>

datatype start = Refused refusal | AuthFailed | AuthWaiting | Started v4_conn

text \<open>\<^verbatim>\<open>handle_socket\<close>: authenticate unless the upgrade request did, and run the connection up to its main loop.
  \<open>turns\<close> is what the actor task does before the hello message.\<close>

definition run_connection_start ::
  "('r, 'p, 'post, 'rc, 'pc) v4_env \<Rightarrow> instant \<Rightarrow> string \<Rightarrow> uuid \<Rightarrow> actor_turn list \<Rightarrow> websocket_auth \<Rightarrow> string option \<Rightarrow>
     int option \<Rightarrow> ('r, 'p, 'rc, 'pc) server \<Rightarrow> start \<times> ('r, 'p, 'rc, 'pc) server" where
  "run_connection_start env now new_id hub_id turns auth connection_id sequence_number sv =
     (case connect env now new_id hub_id auth connection_id sequence_number sv of
        (Inl refusal, sv) \<Rightarrow> (Refused refusal, sv)
      | (Inr (conn, missed), sv) \<Rightarrow>
          (let (conn, sv) = with_socket (actor_run turns) (conn, sv);
               (conn, sv) = greet env now connection_id sequence_number conn missed sv
           in (Started conn, sv)))"

definition handle_socket ::
  "('r, 'p, 'post, 'rc, 'pc) v4_env \<Rightarrow> instant \<Rightarrow> string \<Rightarrow> uuid \<Rightarrow> socket_recv list \<Rightarrow> actor_turn list \<Rightarrow>
     websocket_auth option \<Rightarrow> string option \<Rightarrow> int option \<Rightarrow> ('r, 'p, 'rc, 'pc) server \<Rightarrow> start \<times> ('r, 'p, 'rc, 'pc) server" where
  "handle_socket env now new_id hub_id received turns auth connection_id sequence_number sv =
     (case (case auth of Some auth \<Rightarrow> Authenticated auth | None \<Rightarrow> fst (authenticate_via_websocket env received)) of
        Unauthenticated \<Rightarrow> (AuthFailed, sv)
      | Waiting \<Rightarrow> (AuthWaiting, sv)
      | Authenticated auth \<Rightarrow>
          run_connection_start env now new_id hub_id turns auth connection_id sequence_number sv)"

end
