(* ===== verification/Ws_Delivery.thy ===== *)
theory Ws_Delivery
  imports Ws_V4 "HOL-Library.Sublist"
begin

text \<open>
  What a Mattermost client receives over one connection and its resumptions. The abstract view is the \<open>log\<close>: every
  message queued under the connection id, in order. The theory shows that the frames on the wire follow it.
\<close>

section \<open>Messages on the wire and on their way to it\<close>

fun frame_message :: "out_frame \<Rightarrow> mm_message option" where
  "frame_message (OutMessage m) = Some m"
| "frame_message _ = None"

fun command_message :: "ws_command \<Rightarrow> mm_message option" where
  "command_message (SendMessage m) = Some m"
| "command_message _ = None"

definition sent_messages :: "actor \<Rightarrow> mm_message list" where
  "sent_messages a = List.map_filter frame_message (ac_wire a)"

definition queued_messages :: "actor \<Rightarrow> mm_message list" where
  "queued_messages a = List.map_filter command_message (ac_commands a)"

lemma map_filter_append: "List.map_filter f (xs @ ys) = List.map_filter f xs @ List.map_filter f ys"
  by (simp add: List.map_filter_def)

lemma messages_update [simp]:
  "sent_messages (a\<lparr>ac_events := es\<rparr>) = sent_messages a" "queued_messages (a\<lparr>ac_events := es\<rparr>) = queued_messages a"
  "sent_messages (a\<lparr>ac_last_pong := n\<rparr>) = sent_messages a" "queued_messages (a\<lparr>ac_last_pong := n\<rparr>) = queued_messages a"
  "sent_messages (a\<lparr>ac_is_closing := b\<rparr>) = sent_messages a" "queued_messages (a\<lparr>ac_is_closing := b\<rparr>) = queued_messages a"
  "sent_messages (a\<lparr>ac_running := b\<rparr>) = sent_messages a" "queued_messages (a\<lparr>ac_running := b\<rparr>) = queued_messages a"
  "sent_messages (a\<lparr>ac_handle := b\<rparr>) = sent_messages a" "queued_messages (a\<lparr>ac_handle := b\<rparr>) = queued_messages a"
  "sent_messages (a\<lparr>ac_commands := cs\<rparr>) = sent_messages a"
  "queued_messages (a\<lparr>ac_wire := fs\<rparr>) = queued_messages a"
  "sent_messages (a\<lparr>ac_wire := fs @ [f]\<rparr>) =
     sent_messages (a\<lparr>ac_wire := fs\<rparr>) @ (case frame_message f of None \<Rightarrow> [] | Some m \<Rightarrow> [m])"
  "queued_messages (a\<lparr>ac_commands := cs @ [c]\<rparr>) =
     queued_messages (a\<lparr>ac_commands := cs\<rparr>) @ (case command_message c of None \<Rightarrow> [] | Some m \<Rightarrow> [m])"
  by (simp_all add: sent_messages_def queued_messages_def map_filter_append map_filter_simps split: option.splits)

lemma messages_same [simp]:
  "sent_messages (a\<lparr>ac_wire := ac_wire a\<rparr>) = sent_messages a"
  "queued_messages (a\<lparr>ac_commands := ac_commands a\<rparr>) = queued_messages a"
  by simp_all

section \<open>The log in the store\<close>

definition has_log :: "string \<Rightarrow> mm_message list \<Rightarrow> json connection_store \<Rightarrow> bool" where
  "has_log cid log store \<longleftrightarrow>
     (\<exists>st. get_connection cid store = Some st \<and> logged (map replay_payload log) st)"

lemma has_log_modify [simp]:
  "has_log cid log (touch_connection now c store) = has_log cid log store"
  "has_log cid log (disconnect_connection now c store) = has_log cid log store"
  by (auto simp: has_log_def get_connection_def modify_connections)

lemma has_log_queue:
  assumes "has_log cid log store" "int (length log) + 1 < i64_max"
  shows "has_log cid (log @ [m]) (fst (queue_message now cid (replay_payload m) store))
    \<and> snd (queue_message now cid (replay_payload m) store) = Some (int (length log) + 1)"
proof -
  obtain st where st: "hm_get (connections store) cid = Some st" "logged (map replay_payload log) st"
    using assms(1) by (auto simp: has_log_def get_connection_def)
  have "snd (queue_message now cid (replay_payload m) store) = Some (int (length log) + 1)"
    using st by (simp add: queue_message_def next_sequence_def logged_def)
  moreover have "has_log cid (log @ [m]) (fst (queue_message now cid (replay_payload m) store))"
    using st logged_queue [OF st(2), of "replay_payload m" now] assms(2)
    by (simp add: has_log_def get_connection_def queue_connections)
  ultimately show ?thesis by blast
qed

section \<open>The actor sends what it was given, in order\<close>

lemma branch_messages:
  assumes "actor_branch now w i (a, store) = ((a', store'), go)"
  shows "ac_connection_id a' = ac_connection_id a \<and> ac_is_closing a' = ac_is_closing a \<and> ac_running a' = ac_running a
    \<and> (has_log cid log store' \<longleftrightarrow> has_log cid log store)
    \<and> prefix (sent_messages a') (sent_messages a @ queued_messages a)
    \<and> (go \<longrightarrow> sent_messages a' @ queued_messages a' = sent_messages a @ queued_messages a)"
proof (cases i)
  case (Incoming f)
  with assms show ?thesis
    by (cases f) (auto simp: on_actor_def mark_seen_def emit_event_def write_out_def split: if_splits)
next
  case (StreamError e)
  with assms show ?thesis
    by (auto simp: on_actor_def handle_stream_error_def emit_event_def split: if_splits)
next
  case StreamEnd
  with assms show ?thesis by auto
next
  case Command
  show ?thesis
  proof (cases "ac_commands a")
    case Nil
    with Command assms show ?thesis by (auto simp: on_actor_def handle_command_def)
  next
    case (Cons c cs)
    then have q: "queued_messages a = (case command_message c of None \<Rightarrow> [] | Some m \<Rightarrow> [m]) @ queued_messages (a\<lparr>ac_commands := cs\<rparr>)"
      by (simp add: queued_messages_def map_filter_simps split: option.splits)
    show ?thesis
      using assms Command Cons q
      by (cases c) (auto simp: on_actor_def handle_command_def write_out_def emit_event_def Let_def
        split: if_splits prod.splits)
  qed
next
  case Tick
  with assms show ?thesis
    by (auto simp: on_actor_def handle_tick_def write_out_def split: if_splits)
qed


lemma actor_step_messages:
  assumes "actor_step t (a, store) = (a', store')"
  shows "ac_connection_id a' = ac_connection_id a \<and> (has_log cid log store' \<longleftrightarrow> has_log cid log store)
    \<and> (if ac_running a'
       then ac_running a \<and> ac_is_closing a' = ac_is_closing a
         \<and> sent_messages a' @ queued_messages a' = sent_messages a @ queued_messages a
       else if ac_running a then prefix (sent_messages a') (sent_messages a @ queued_messages a) else a' = a)"
proof (cases "ac_running a")
  case False
  with assms show ?thesis by (simp add: actor_step_def)
next
  case True
  obtain a1 store1 go where b: "actor_branch (tu_now t) (tu_write t) (tu_input t) (a, store) = ((a1, store1), go)"
    by (metis prod.exhaust)
  note m = branch_messages [OF b, of cid log]
  show ?thesis
  proof (cases go)
    case True
    with assms b m \<open>ac_running a\<close> show ?thesis by (simp add: actor_step_def)
  next
    case False
    with assms b m \<open>ac_running a\<close> show ?thesis
      by (auto simp: actor_step_def actor_stop_def write_out_def split: if_splits)
  qed
qed

section \<open>Transcripts\<close>

text \<open>The messages of the log after the first \<open>q\<close>, with the sequence numbers they were queued under.\<close>

fun stamped :: "nat \<Rightarrow> mm_message list \<Rightarrow> mm_message list" where
  "stamped q [] = []"
| "stamped q (m # ms) = m\<lparr>wm_seq := Some (int q + 1)\<rparr> # stamped (Suc q) ms"

definition transcript :: "mm_message \<Rightarrow> nat \<Rightarrow> mm_message list \<Rightarrow> mm_message list" where
  "transcript h q log = h # stamped q (drop q log)"

lemma stamped_snoc: "stamped q (ms @ [m]) = stamped q ms @ [m\<lparr>wm_seq := Some (int (q + length ms) + 1)\<rparr>]"
  by (induction ms arbitrary: q) (simp_all add: algebra_simps)

lemma transcript_snoc:
  "q \<le> length log \<Longrightarrow> transcript h q (log @ [m]) = transcript h q log @ [m\<lparr>wm_seq := Some (int (length log) + 1)\<rparr>]"
  by (simp add: transcript_def stamped_snoc)

text \<open>A connection in step with the log: everything queued has been sent or waits in the command queue, and
  what was sent is a beginning of the transcript even when the connection is closing or closed.\<close>

definition in_step :: "string \<Rightarrow> mm_message \<Rightarrow> nat \<Rightarrow> mm_message list \<Rightarrow> actor \<times> json connection_store \<Rightarrow> bool" where
  "in_step cid h q log = (\<lambda>(a, store).
     ac_connection_id a = cid \<and> q \<le> length log \<and> has_log cid log store
     \<and> (if ac_running a
        then prefix (sent_messages a @ queued_messages a) (transcript h q log)
          \<and> (\<not> ac_is_closing a \<longrightarrow> sent_messages a @ queued_messages a = transcript h q log)
        else prefix (sent_messages a) (transcript h q log)))"

lemma in_step_actor:
  assumes "in_step cid h q log (a, store)"
  shows "in_step cid h q log (actor_step t (a, store))"
proof -
  obtain a' store' where s: "actor_step t (a, store) = (a', store')" by fastforce
  show ?thesis
    using assms actor_step_messages [OF s, of cid log]
    by (auto simp: in_step_def s split: if_splits dest: prefix_order.order_trans)
qed

lemma in_step_run: "in_step cid h q log s \<Longrightarrow> in_step cid h q log (actor_run ts s)"
proof (induction ts arbitrary: s)
  case (Cons t ts)
  then show ?case using in_step_actor [of cid h q log "fst s" "snd s" t] by (simp add: actor_run_def)
qed (simp add: actor_run_def)

definition room :: "nat \<Rightarrow> actor \<Rightarrow> bool" where
  "room n a \<longleftrightarrow> length (ac_commands a) + n \<le> COMMAND_BUFFER_CAPACITY"

lemma in_step_queue:
  assumes "in_step cid h q log (a, store)" "room 1 a" "int (length log) + 1 < i64_max"
  shows "in_step cid h q (log @ [m]) (snd (queue_and_send now m (a, store)))"
proof -
  obtain store' where store: "queue_message now cid (replay_payload m) store = (store', Some (int (length log) + 1))"
    "has_log cid (log @ [m]) store'"
    using has_log_queue [of cid log store m now] assms(1,3) by (auto simp: in_step_def split: prod.splits) (metis prod.collapse)
  have q: "q \<le> length log" "ac_connection_id a = cid" using assms(1) by (simp_all add: in_step_def)
  show ?thesis
    using assms(1,2) store q
    by (auto simp: in_step_def queue_and_send_def actor_send_def try_command_def transcript_snoc room_def)
qed

lemma in_step_raw: "in_step cid h q log s \<Longrightarrow> in_step cid h q log (send_reply v s)"
  by (auto simp: in_step_def send_reply_def actor_send_raw_def try_command_def split: prod.splits)

lemma in_step_close:
  "in_step cid h q log (a, store) \<Longrightarrow> in_step cid h q log (actor_close c r a, store)"
  by (auto simp: in_step_def actor_close_def try_command_def)

lemma in_step_disconnect: "in_step cid h q log s \<Longrightarrow> in_step cid h q log (actor_disconnect now s)"
  by (auto simp: in_step_def actor_disconnect_def split: prod.splits)

lemma in_step_updates [simp]:
  "in_step cid h q log (a\<lparr>ac_handle := b\<rparr>, store) = in_step cid h q log (a, store)"
  "in_step cid h q log (a\<lparr>ac_events := es\<rparr>, store) = in_step cid h q log (a, store)"
  by (simp_all add: in_step_def)


section \<open>What a step queues\<close>

definition snapshot_entries :: "('r, 'p, 'post, 'rc, 'pc) v4_env \<Rightarrow> uuid \<Rightarrow> mm_message list" where
  "snapshot_entries env user_id =
     (case build_reconnect_snapshot env user_id of None \<Rightarrow> [] | Some s \<Rightarrow> [snapshot_message env user_id s])"

fun client_value :: "('r, 'p, 'post, 'rc, 'pc) v4_env \<Rightarrow> received \<Rightarrow> json option" where
  "client_value env (Event (MessageReceived text)) = v4_parse env text"
| "client_value env (Event (BinaryReceived bytes)) = decode_msgpack_value (v4_utf8 env) bytes"
| "client_value env _ = None"

definition client_action :: "json \<Rightarrow> string option" where
  "client_action value = Option.bind (json_get ''action'' value) json_as_str"

definition snapshot_action :: "json \<Rightarrow> bool" where
  "snapshot_action value \<longleftrightarrow> (case client_action value of None \<Rightarrow> False
     | Some act \<Rightarrow> act \<in> {''reconnect'', ''get_initial_load'', ''initial_load''})"

text \<open>The messages that an input adds to the log of a connection.\<close>

fun entries :: "('r, 'p, 'post, 'rc, 'pc) v4_env \<Rightarrow> v4_input \<Rightarrow> v4_conn \<Rightarrow> mm_message list" where
  "entries env (HubMessage now msg_str) conn =
     (if vc_forwarding conn
      then (case Option.bind (v4_from_envelope env msg_str) (map_envelope_to_mm (v4_map env)) of None \<Rightarrow> [] | Some m \<Rightarrow> [m])
      else [])"
| "entries env (Receive now new_call_id) conn =
     (case client_value env (fst (actor_recv (vc_actor conn))) of
        Some value \<Rightarrow> if vc_open conn \<and> snapshot_action value then snapshot_entries env (vc_user_id conn) else []
      | None \<Rightarrow> [])"
| "entries env _ conn = []"

fun log_of :: "('r, 'p, 'post, 'rc, 'pc) v4_env \<Rightarrow> v4_input list \<Rightarrow> v4_conn \<times> ('r, 'p, 'rc, 'pc) server \<Rightarrow> mm_message list" where
  "log_of env [] s = []"
| "log_of env (i # is) s = entries env i (fst s) @ log_of env is (v4_step env i s)"

text \<open>The command queue has room for what an input sends.\<close>

fun fitting :: "v4_input \<Rightarrow> actor \<Rightarrow> bool" where
  "fitting (HubMessage _ _) a = room 1 a"
| "fitting (Receive _ _) a = room 2 a"
| "fitting _ a = True"

fun roomy :: "('r, 'p, 'post, 'rc, 'pc) v4_env \<Rightarrow> v4_input list \<Rightarrow> v4_conn \<times> ('r, 'p, 'rc, 'pc) server \<Rightarrow> bool" where
  "roomy env [] s = True"
| "roomy env (i # is) s = (fitting i (vc_actor (fst s)) \<and> roomy env is (v4_step env i s))"

section \<open>Every step keeps the connection in step\<close>

definition socket_of :: "v4_conn \<times> ('r, 'p, 'rc, 'pc) server \<Rightarrow> actor \<times> json connection_store" where
  "socket_of s = (vc_actor (fst s), sv_store (snd s))"

lemma socket_with_socket [simp]: "socket_of (with_socket f s) = f (socket_of s)"
  by (simp add: socket_of_def with_socket_def split: prod.splits)

lemma socket_update [simp]:
  "socket_of (conn, sv\<lparr>sv_app := x\<rparr>) = socket_of (conn, sv)"
  by (simp_all add: socket_of_def)

lemma calls_action_store [simp]: "sv_store (snd (calls_action env n u c act data sv)) = sv_store sv"
  by (simp add: calls_action_def flush_calls_def split: prod.splits)

lemma calls_action_handled:
  "fst (calls_action env n u c act data sv) = (strip_prefix ''custom_com.mattermost.calls_'' act \<noteq> None)"
  by (simp add: calls_action_def handle_ws_action_def split: option.splits prod.splits sum.splits)

lemma socket_value_message:
  "socket_of (handle_client_value_message env now n value (conn, sv)) =
     (if snapshot_action value
      then send_reconnect_snapshot_if_needed env now (vc_user_id conn) True
        (send_reply (JObject [(''status'', JString ''OK''), (''seq_reply'', field_or_null ''seq'' value)]) (vc_actor conn, sv_store sv))
      else if client_action value = Some ''ping'' then send_reply (ping_response env value) (vc_actor conn, sv_store sv)
      else (vc_actor conn, sv_store sv))"
proof (cases "client_action value")
  case None
  then show ?thesis
    by (simp add: handle_client_value_message_def client_action_def snapshot_action_def socket_of_def)
next
  case (Some act)
  obtain handled sv' where h: "calls_action env n (vc_user_id conn) (ac_connection_id (vc_actor conn)) act
      (json_get ''data'' value) sv = (handled, sv')" by fastforce
  have sv': "sv_store sv' = sv_store sv" using h by (metis calls_action_store snd_conv)
  have handled: "handled = (strip_prefix ''custom_com.mattermost.calls_'' act \<noteq> None)"
    using h by (metis calls_action_handled fst_conv)
  have plain: "\<not> handled" if "act \<in> {''reconnect'', ''get_initial_load'', ''initial_load'', ''ping''}"
    using that by (auto simp: handled strip_prefix_def)
  have act: "Option.bind (json_get ''action'' value) json_as_str = Some act" using Some by (simp add: client_action_def)
  show ?thesis
    using plain sv'
    by (auto simp: handle_client_value_message_def act h Some snapshot_action_def socket_of_def with_socket_def Let_def
        split: prod.splits)
qed


lemma socket_text_message:
  "socket_of (handle_client_text_message env now n text (conn, sv)) =
     (case v4_parse env text of
        Some value \<Rightarrow> socket_of (handle_client_value_message env now n value (conn, sv))
      | None \<Rightarrow> (vc_actor conn, sv_store sv))"
  by (auto simp: handle_client_text_message_def socket_of_def Let_def split: option.splits prod.splits)

lemma socket_finish:
  "socket_of (finish env now (conn, sv)) =
     (case actor_disconnect now (vc_actor conn, sv_store sv) of (a, store) \<Rightarrow> (a\<lparr>ac_handle := False\<rparr>, store))"
  by (simp add: finish_def socket_of_def Let_def actor_disconnect_def)

lemma in_step_finish:
  "in_step cid h q log (socket_of s) \<Longrightarrow> in_step cid h q log (socket_of (finish env now s))"
  using in_step_disconnect [of cid h q log "socket_of s" now] socket_finish [of env now "fst s" "snd s"]
  by (cases "actor_disconnect now (socket_of s)") (simp add: socket_of_def)

lemma room_reply: "room 2 a \<Longrightarrow> room 1 (fst (send_reply v (a, store)))"
  by (simp add: room_def send_reply_def actor_send_raw_def try_command_def)

lemma in_step_snapshot:
  assumes "in_step cid h q log (a, store)" "room 1 a" "int (length log) + 1 < i64_max"
  shows "in_step cid h q (log @ snapshot_entries env u) (send_reconnect_snapshot_if_needed env now u True (a, store))"
  using in_step_queue [OF assms, of "snapshot_message env u x" now for x] assms(1)
  by (simp add: send_reconnect_snapshot_if_needed_def snapshot_entries_def split: option.splits)

lemma in_step_value_message:
  assumes "in_step cid h q log (vc_actor conn, sv_store sv)" "room 2 (vc_actor conn)" "int (length log) + 1 < i64_max"
  shows "in_step cid h q (log @ (if snapshot_action value then snapshot_entries env (vc_user_id conn) else []))
    (socket_of (handle_client_value_message env now n value (conn, sv)))"
proof -
  have r: "in_step cid h q log (send_reply v (vc_actor conn, sv_store sv))" for v using assms(1) by (rule in_step_raw)
  show ?thesis
    using assms(1,3) r in_step_snapshot [of cid h q log "fst (send_reply v (vc_actor conn, sv_store sv))"
        "snd (send_reply v (vc_actor conn, sv_store sv))" env "vc_user_id conn" now for v]
      room_reply [OF assms(2), of _ "sv_store sv"]
    by (simp add: socket_value_message)
qed

lemma in_step_receive:
  assumes "in_step cid h q log (socket_of (conn, sv))" "room 2 (vc_actor conn)" "int (length log) + 1 < i64_max" "vc_open conn"
  shows "in_step cid h q (log @ entries env (Receive now n) conn) (socket_of (receive env now n (conn, sv)))"
proof -
  obtain e a where e: "actor_recv (vc_actor conn) = (e, a)" by fastforce
  then have a: "in_step cid h q log (a, sv_store sv)" "room 2 a"
    using assms(1,2) by (auto simp: actor_recv_def socket_of_def room_def split: list.splits if_splits)
  let ?s = "(conn\<lparr>vc_actor := a\<rparr>, sv)"
  have fin: "in_step cid h q log (socket_of (finish env now ?s))"
    using a(1) in_step_finish [of cid h q log ?s] by (simp add: socket_of_def)
  have val: "in_step cid h q (log @ (if snapshot_action v then snapshot_entries env (vc_user_id conn) else []))
      (socket_of (handle_client_value_message env now n v ?s))" for v
    using in_step_value_message [of cid h q log "conn\<lparr>vc_actor := a\<rparr>" sv v env now n] a assms(3)
    by (cases "snapshot_action v") simp_all
  show ?thesis
  proof (cases e)
    case (Event ev)
    then show ?thesis
    proof (cases ev)
      case (MessageReceived t)
      show ?thesis using Event MessageReceived e a(1) val assms(4)
        by (cases "v4_parse env t") (simp_all add: receive_def socket_text_message)
    next
      case (BinaryReceived bytes)
      show ?thesis using Event BinaryReceived e a(1) val assms(4)
        by (cases "decode_msgpack_value (v4_utf8 env) bytes")
          (simp_all add: receive_def handle_client_binary_message_def socket_of_def)
    qed (use Event e a(1) fin in \<open>simp_all add: receive_def socket_of_def\<close>)
  qed (use e a(1) fin in \<open>simp_all add: receive_def socket_of_def\<close>)
qed

lemma in_step_forward:
  assumes "in_step cid h q log (socket_of (conn, sv))" "room 1 (vc_actor conn)" "int (length log) + 1 < i64_max"
  shows "in_step cid h q (log @ entries env (HubMessage now msg) conn) (socket_of (forward env now msg (conn, sv)))"
  using assms(1) in_step_queue [of cid h q log "vc_actor conn" "sv_store sv" m now for m] assms(2,3)
  by (auto simp: forward_def socket_of_def split: option.splits prod.splits) (metis snd_conv)+

lemma in_step_v4:
  assumes "in_step cid h q log (socket_of s)" "fitting i (vc_actor (fst s))" "int (length log) + 1 < i64_max"
  shows "in_step cid h q (log @ entries env i (fst s)) (socket_of (v4_step env i s))"
proof (cases i)
  case (ActorTurn t)
  with assms(1) show ?thesis
    using in_step_actor [of cid h q log "fst (socket_of s)" "snd (socket_of s)" t] by simp
next
  case (HubMessage now msg)
  with assms show ?thesis using in_step_forward [of cid h q log "fst s" "snd s" env now msg] by simp
next
  case (Receive now n)
  show ?thesis
  proof (cases "vc_open (fst s)")
    case True
    with Receive assms show ?thesis using in_step_receive [of cid h q log "fst s" "snd s" env now n] by simp
  next
    case False
    with Receive assms(1) show ?thesis by (simp split: option.splits)
  qed
next
  case (TokenExpiry now)
  with assms(1) show ?thesis
    using in_step_close [of cid h q log "fst (socket_of s)" "snd (socket_of s)"]
    by (auto intro!: in_step_finish split: prod.splits)
next
  case Heartbeat
  with assms(1) show ?thesis by (auto simp: socket_of_def split: prod.splits)
next
  case (ForwardEnded now)
  with assms(1) show ?thesis using in_step_finish [of cid h q log s env now] by simp
qed (use assms(1) in \<open>simp_all add: socket_of_def\<close>)

lemma log_growth: "length (entries env i conn) \<le> 1"
  by (cases i) (auto simp: snapshot_entries_def split: option.splits)

lemma in_step_v4_run:
  "in_step cid h q log (socket_of s) \<Longrightarrow> roomy env is s \<Longrightarrow> int (length (log @ log_of env is s)) + 1 < i64_max \<Longrightarrow>
     in_step cid h q (log @ log_of env is s) (socket_of (v4_run env is s))"
proof (induction "is" arbitrary: log s)
  case Nil
  then show ?case by (simp add: v4_run_def)
next
  case (Cons i "is")
  have "in_step cid h q (log @ entries env i (fst s)) (socket_of (v4_step env i s))"
    using Cons(2-4) by (intro in_step_v4) auto
  then show ?case using Cons(1) [of "log @ entries env i (fst s)" "v4_step env i s"] Cons(3,4) by (simp add: v4_run_def)
qed


section \<open>Opening in step\<close>

text \<open>Before anything was queued the actor's turns queue and send nothing.\<close>

definition silent :: "actor \<Rightarrow> bool" where
  "silent a \<longleftrightarrow> ac_commands a = [] \<and> sent_messages a = [] \<and> ac_is_closing a = (\<not> ac_running a)"

lemma silent_step:
  assumes "silent a" "actor_step t (a, store) = (a', store')"
  shows "silent a'"
proof (cases "ac_running a")
  case False
  with assms show ?thesis by (simp add: actor_step_def)
next
  case True
  obtain a1 store1 go where b: "actor_branch (tu_now t) (tu_write t) (tu_input t) (a, store) = ((a1, store1), go)"
    by (metis prod.exhaust)
  have q: "queued_messages a = []" using assms(1) by (simp add: silent_def queued_messages_def map_filter_simps)
  have "ac_commands a1 = []"
  proof (cases "tu_input t")
    case (Incoming f)
    with b assms(1) show ?thesis
      by (cases f) (auto simp: silent_def on_actor_def mark_seen_def emit_event_def write_out_def split: if_splits)
  qed (use b assms(1) in \<open>auto simp: silent_def on_actor_def handle_stream_error_def emit_event_def handle_command_def
      handle_tick_def write_out_def split: if_splits\<close>)
  with branch_messages [OF b] assms q True b show ?thesis
    by (cases go) (auto simp: silent_def actor_step_def actor_stop_def write_out_def)
qed

lemma silent_run:
  "silent (fst s) \<Longrightarrow> actor_run ts s = s' \<Longrightarrow> silent (fst s') \<and> ac_connection_id (fst s') = ac_connection_id (fst s)
     \<and> (has_log cid log (snd s') = has_log cid log (snd s))"
proof (induction ts arbitrary: s)
  case Nil
  then show ?case by (simp add: actor_run_def)
next
  case (Cons t ts)
  obtain a store a1 store1 where s: "s = (a, store)" "actor_step t s = (a1, store1)" by (metis surj_pair)
  with Cons(2) have "silent a1" using silent_step by simp
  with Cons(1) [of "(a1, store1)"] Cons(3) actor_step_messages [of t a store a1 store1 cid log] s show ?case
    by (simp add: actor_run_def)
qed

lemma length_stamped [simp]: "length (stamped q ms) = length ms"
  by (induction ms arbitrary: q) simp_all

lemma send_missed_all:
  "ac_running a \<Longrightarrow> \<not> ac_is_closing a \<Longrightarrow> room (length ms) a \<Longrightarrow> send_missed ms a = a\<lparr>ac_commands := ac_commands a @ map SendMessage ms\<rparr>"
  by (induction ms arbitrary: a) (simp_all add: actor_send_def try_command_def room_def)

lemma queued_map: "List.map_filter command_message (map SendMessage ms) = ms"
  by (induction ms) (simp_all add: map_filter_simps)

text \<open>A replay gives back the missed part of the log, stamped as it was.\<close>

lemma replays_stamped:
  assumes law: "\<And>b. mb_omit_users b = None \<Longrightarrow> de (json_of_broadcast b) = Some b"
    and "\<forall>m\<in>set ms. mb_omit_users (wm_broadcast m) = None"
  shows "map (\<lambda>(i, p). replay_message_to_ws_message de i p)
    (zip (map (\<lambda>i. int i + 1) [q..<q + length ms]) (map replay_payload ms)) = stamped q ms"
  using assms(2)
proof (induction ms arbitrary: q)
  case (Cons m ms)
  have "[q..<q + length (m # ms)] = q # [Suc q..<Suc q + length ms]" by (subst upt_conv_Cons) simp_all
  then have "zip (map (\<lambda>i. int i + 1) [q..<q + length (m # ms)]) (map replay_payload (m # ms))
      = (int q + 1, replay_payload m) # zip (map (\<lambda>i. int i + 1) [Suc q..<Suc q + length ms]) (map replay_payload ms)"
    by (simp only: list.map zip_Cons_Cons)
  moreover have "replay_message_to_ws_message de (int q + 1) (replay_payload m) = m\<lparr>wm_seq := Some (int q + 1)\<rparr>"
    using Cons(2) by (intro replay_inverse law) simp_all
  ultimately show ?case using Cons(1) [of "Suc q"] Cons(2) by (simp only: list.map prod.case stamped.simps list.set) simp
qed simp

lemma resume_replays:
  assumes law: "\<And>b. mb_omit_users b = None \<Longrightarrow> de (json_of_broadcast b) = Some b"
    and omit: "\<forall>m\<in>set log. mb_omit_users (wm_broadcast m) = None"
    and st: "get_connection cid store = Some st" "cs_user_id st = u" "cs_connection_id st = cid" "logged (map replay_payload log) st"
    and k: "k \<le> length log" "length log \<le> 128 + k"
  obtains store' a where "actor_new now new_id de u (Some cid) (Some (int k)) store = (store', a, stamped k (drop k log))"
    "silent a" "ac_running a" "ac_connection_id a = cid" "has_log cid log store'"
proof -
  have get: "hm_get (connections store) cid = Some st" using st(1) by (simp add: get_connection_def)
  have target: "resume_target (Some cid) u store = Some cid" using get st(2) by (simp add: resume_target_Some)
  have missed: "map (\<lambda>m. (sm_seq m, sm_message m)) (get_missed_messages (int k) (mark_active now st))
      = drop k (numbered (map replay_payload log))"
    using st(4) k by (simp add: missed_view logged_def filter_tail_of MESSAGE_BUFFER_SIZE_def)
  have "drop k (numbered (map replay_payload log))
      = zip (map (\<lambda>i. int i + 1) [k..<k + length (drop k log)]) (map replay_payload (drop k log))"
    using k(1) by (simp add: numbered_def drop_zip drop_map)
  moreover have "\<forall>m\<in>set (drop k log). mb_omit_users (wm_broadcast m) = None" using omit by (meson in_set_dropD)
  ultimately have "map (\<lambda>(i, p). replay_message_to_ws_message de i p) (drop k (numbered (map replay_payload log)))
      = stamped k (drop k log)" using replays_stamped [of de "drop k log" k, OF law] by simp
  then have "map (\<lambda>m. replay_message_to_ws_message de (sm_seq m) (sm_message m)) (get_missed_messages (int k) (mark_active now st))
      = stamped k (drop k log)"
    unfolding missed [symmetric] by (simp add: comp_def)
  then show ?thesis
    using that [of "store\<lparr>connections := hm_insert cid (mark_active now st) (connections store)\<rparr>"
        "\<lparr>ac_connection_id = cid, ac_user_id = u, ac_commands = [], ac_events = [], ac_is_closing = False, ac_handle = True,
          ac_running = True, ac_last_pong = now, ac_wire = []\<rparr>"] st(3,4)
    by (simp add: actor_new_def resume_or_create_resumed [OF target get] silent_def sent_messages_def map_filter_simps
        has_log_def get_connection_def) (simp add: mark_active_def)
qed



end
