(* ===== verification/Ws_V4_Properties.thy ===== *)
theory Ws_V4_Properties
  imports Ws_Delivery
begin

text \<open>
  Who may open a Mattermost WebSocket, and what a connection leaves behind when it ends early or overlaps with
  another one.
\<close>

section \<open>Admission\<close>

lemma connect_started:
  "(\<exists>r. fst (connect env now new_id hub_id auth cid q sv) = Inr r) \<longleftrightarrow>
     utc env < wa_expires_at auth
     \<and> fst (enforce_connection_limit (v4_ws env) (wa_user_id auth) (app_redis (sv_app sv))) = Inr ()
     \<and> sn_username (v4_db env) (wa_user_id auth) \<noteq> None"
  by (auto simp: connect_def Let_def split: prod.splits sum.splits option.splits)

lemma run_started:
  "(\<exists>conn. fst (run_connection_start env now new_id hub_id turns auth cid q sv) = Started conn)
     \<longleftrightarrow> (\<exists>r. fst (connect env now new_id hub_id auth cid q sv) = Inr r)"
  by (cases "connect env now new_id hub_id auth cid q sv"; cases "fst (connect env now new_id hub_id auth cid q sv)")
    (auto simp: run_connection_start_def Let_def split: prod.splits)

lemma auth_outcome:
  "fst (authenticate_via_websocket env rs) = Authenticated auth \<Longrightarrow>
     \<exists>token. validate_auth_token (v4_ws env) token = Some auth"
proof (induction env rs rule: authenticate_via_websocket.induct)
  case (2 env t rs)
  then show ?case by (auto split: option.splits prod.splits simp: bind_eq_Some_conv)
qed simp_all

text \<open>C3. A socket gets into the main loop, or as far as the hello message, only for the subject of a token the JWT
  library accepts, which has not expired, whose connections on all nodes are below the limit, and who has a row in
  the users table. Given the first, the others suffice: neither the account's active flag nor its deletion is looked
  at, unlike in the REST extractors.\<close>

theorem v4_admission_exact:
  assumes "auth = None \<or> (\<exists>token. auth = validate_auth_context (v4_ws env) token)"
    and "who = (case auth of Some a \<Rightarrow> Authenticated a | None \<Rightarrow> fst (authenticate_via_websocket env received))"
  shows "(\<exists>conn. fst (handle_socket env now new_id hub_id received turns auth cid q sv) = Started conn) \<longleftrightarrow>
    (\<exists>a token. who = Authenticated a \<and> validate_auth_token (v4_ws env) token = Some a \<and> utc env < wa_expires_at a
       \<and> fst (enforce_connection_limit (v4_ws env) (wa_user_id a) (app_redis (sv_app sv))) = Inr ()
       \<and> sn_username (v4_db env) (wa_user_id a) \<noteq> None)"
proof (cases who)
  case (Authenticated a)
  have "\<exists>token. validate_auth_token (v4_ws env) token = Some a"
  proof (cases auth)
    case None
    with assms(2) Authenticated show ?thesis using auth_outcome [of env received a] by simp
  next
    case (Some b)
    with assms(1) obtain token where "Some b = validate_auth_context (v4_ws env) token" by auto
    then have "\<exists>t. validate_auth_token (v4_ws env) t = Some b"
      unfolding validate_auth_context_def by (cases token) auto
    with assms(2) Authenticated Some show ?thesis by simp
  qed
  then show ?thesis
    using Authenticated assms(2) run_started [of env now new_id hub_id turns a cid q sv]
      connect_started [of env now new_id hub_id a cid q sv]
    by (auto simp: handle_socket_def)
qed (use assms(2) in \<open>auto simp: handle_socket_def\<close>)

text \<open>There is no bound on the attempts: whatever number of unusable messages came, the next one is awaited.\<close>

lemma auth_attempts_unbounded: "authenticate_via_websocket env (replicate n RecvOther) = (Waiting, [])"
  by (induction n) simp_all

section \<open>Connections that end before they begin\<close>

lemma v4_step_abandoned:
  assumes "\<not> ac_running (vc_actor conn)" "\<not> vc_open conn" "\<not> vc_forwarding conn"
  shows "\<exists>r. v4_step env i (conn, sv) = (conn, sv\<lparr>sv_app := (sv_app sv)\<lparr>app_redis := r\<rparr>\<rparr>)"
proof -
  have same: "v4_step env i (conn, sv) = (conn, sv) \<Longrightarrow> ?thesis" by (intro exI [of _ "app_redis (sv_app sv)"]) simp
  show ?thesis
  proof (cases i)
    case (ActorTurn t)
    with assms(1) show ?thesis by (intro same) (simp add: with_socket_def actor_step_def)
  next
    case HubClosed
    with assms(3) show ?thesis by (intro same) simp
  next
    case Heartbeat
    then show ?thesis using same by (auto simp: on_redis_def)
  qed (use assms same in \<open>auto simp: forward_def\<close>)
qed

lemma v4_run_abandoned:
  assumes "\<not> ac_running (vc_actor conn)" "\<not> vc_open conn" "\<not> vc_forwarding conn"
  shows "\<exists>r. v4_run env is (conn, sv) = (conn, sv\<lparr>sv_app := (sv_app sv)\<lparr>app_redis := r\<rparr>\<rparr>)"
proof (induction "is" arbitrary: sv)
  case Nil
  then show ?case by (intro exI [of _ "app_redis (sv_app sv)"]) (simp add: v4_run_def)
next
  case (Cons i "is")
  obtain r where r: "v4_step env i (conn, sv) = (conn, sv\<lparr>sv_app := (sv_app sv)\<lparr>app_redis := r\<rparr>\<rparr>)"
    using v4_step_abandoned [OF assms, of env i sv] by (elim exE)
  show ?case
    using Cons [of "sv\<lparr>sv_app := (sv_app sv)\<lparr>app_redis := r\<rparr>\<rparr>"] r by (simp add: v4_run_def)
qed


lemma add_connection_registers: "is_connection (add_connection c () u name hub) u c"
  by (simp add: is_connection_def add_connection_def Let_def dom_map_of_conv_image_fst [symmetric])

lemma persist_presence_connection [simp]:
  "is_connection (app_hub (persist_presence_and_broadcast ws u s m app)) v c = is_connection (app_hub app) v c"
  by (simp add: persist_presence_and_broadcast_def Let_def is_connection_def set_presence_def)

lemma fold_subscribe_connection:
  "is_connection (fold (subscribe_team u) ts hub) v c = is_connection hub v c"
  "is_connection (fold (subscribe_channel u) ts hub) v c = is_connection hub v c"
  by (induction ts arbitrary: hub) (simp_all add: is_connection_def subscribe_team_def subscribe_channel_def)

lemma register_registers: "is_connection (app_hub (register ws u c name app)) u c"
  by (simp add: register_def Let_def initialize_connection_state_def subscribe_default_scopes_def on_redis_def
      fold_subscribe_connection add_connection_registers)

text \<open>A client that disconnects while its connection is being set up stays connected for the server: if the actor
  task has ended by the time of the hello message, the connection never enters the main loop, and whatever happens
  afterwards, it remains in the hub and its heartbeat task goes on refreshing its entry in the presence registry.
  The clean-up that every other end of a connection goes through is not reached.\<close>

theorem abandoned_setup_leaks:
  assumes connect: "connect env now new_id hub_id auth cid q sv = (Inr (conn0, missed), sv0)"
    and gone: "actor_run turns (vc_actor conn0, sv_store sv0) = (a, store)" "\<not> ac_running a"
    and start: "run_connection_start env now new_id hub_id turns auth cid q sv = (Started conn, sv1)"
    and run: "v4_run env is (conn, sv1) = (conn2, sv2)"
  shows "\<not> vc_open conn2
    \<and> is_connection (app_hub (sv_app sv2)) (wa_user_id auth) hub_id
    \<and> (wa_user_id auth, env_show (v4_ws env) hub_id) \<in> set (sv_heartbeats sv2)
    \<and> v4_step env Heartbeat (conn2, sv2) = (conn2, sv2\<lparr>sv_app := on_redis
        (heartbeat_presence_connection (v4_ws env) (wa_user_id auth) (env_show (v4_ws env) hub_id)) (sv_app sv2)\<rparr>)"
proof -
  let ?u = "wa_user_id auth" and ?p = "env_show (v4_ws env) hub_id"
  have conn0: "vc_user_id conn0 = ?u" "vc_presence_id conn0 = ?p" "\<not> vc_open conn0" "\<not> vc_forwarding conn0"
    and sv0: "is_connection (app_hub (sv_app sv0)) ?u hub_id" "(?u, ?p) \<in> set (sv_heartbeats sv0)"
    using connect by (auto simp: connect_def Let_def register_registers split: if_splits prod.splits sum.splits option.splits)
  have "actor_send m a = (Inl (if ac_is_closing a then ''Connection is closing'' else ''Connection is closed''), a)" for m
    using gone(2) by (simp add: actor_send_def try_command_def)
  then have started: "conn = conn0\<lparr>vc_actor := a\<lparr>ac_handle := False\<rparr>\<rparr>" "sv1 = sv0\<lparr>sv_store := store\<rparr>"
    using start gone(1) by (auto simp: run_connection_start_def connect with_socket_def greet_def)
  have idle: "\<not> ac_running (vc_actor conn)" "\<not> vc_open conn" "\<not> vc_forwarding conn"
    using started(1) gone(2) conn0 by simp_all
  obtain r where "(conn2, sv2) = (conn, sv1\<lparr>sv_app := (sv_app sv1)\<lparr>app_redis := r\<rparr>\<rparr>)"
    using v4_run_abandoned [OF idle, of env "is" sv1] run by auto
  then show ?thesis
    using idle conn0 sv0 started by simp
qed

section \<open>Overlapping connections\<close>

text \<open>Nothing a connection does makes its state in the store active again; only a resumption does.\<close>

definition inactive :: "string \<Rightarrow> json connection_store \<Rightarrow> bool" where
  "inactive cid store \<longleftrightarrow> (case get_connection cid store of None \<Rightarrow> False | Some st \<Rightarrow> \<not> cs_is_active st)"

lemma inactive_modify [simp]:
  "inactive cid (touch_connection now c store) = inactive cid store"
  "inactive cid store \<Longrightarrow> inactive cid (disconnect_connection now c store)"
  by (auto simp: inactive_def get_connection_def modify_connections touch_def mark_inactive_def split: option.splits)

lemma inactive_queue [simp]: "inactive cid (fst (queue_message now c m store)) = inactive cid store"
  by (auto simp: inactive_def get_connection_def queue_connections buffer_message_def next_sequence_def Let_def
      split: option.splits)

lemma inactive_turn: "inactive cid (snd s) \<Longrightarrow> inactive cid (snd (actor_step t s))"
proof -
  assume i: "inactive cid (snd s)"
  obtain a store where s: "s = (a, store)" by fastforce
  have "inactive cid (snd (fst (actor_branch (tu_now t) (tu_write t) (tu_input t) s)))"
  proof (cases "tu_input t")
    case (Incoming f)
    with i s show ?thesis by (cases f) (auto simp: on_actor_def mark_seen_def split: prod.splits)
  qed (use i s in \<open>auto simp: on_actor_def split: prod.splits\<close>)
  then show ?thesis
    using i by (auto simp: actor_step_def actor_stop_def split: prod.splits bool.splits)
qed

lemma inactive_queue_and_send: "inactive cid (snd s) \<Longrightarrow> inactive cid (snd (snd (queue_and_send now m s)))"
  by (simp add: queue_and_send_def case_prod_unfold Let_def)

lemma inactive_snapshot: "inactive cid (snd s) \<Longrightarrow> inactive cid (snd (send_reconnect_snapshot_if_needed env now u b s))"
  by (auto simp: send_reconnect_snapshot_if_needed_def inactive_queue_and_send split: option.splits)

lemma inactive_reply: "snd (send_reply v s) = snd s"
  by (simp add: send_reply_def split: prod.splits)

lemma inactive_finish: "inactive cid (sv_store sv) \<Longrightarrow> inactive cid (sv_store (snd (finish env now (conn, sv))))"
  by (simp add: finish_def actor_disconnect_def Let_def)

lemma inactive_value: "inactive cid (sv_store sv) \<Longrightarrow>
    inactive cid (sv_store (snd (handle_client_value_message env now n v (conn, sv))))"
  using socket_value_message [of env now n v conn sv] inactive_snapshot [of cid "send_reply w (vc_actor conn, sv_store sv)" for w]
  by (auto simp: socket_of_def inactive_reply prod_eq_iff)

lemma inactive_text: "inactive cid (sv_store sv) \<Longrightarrow>
    inactive cid (sv_store (snd (handle_client_text_message env now n t (conn, sv))))"
  using socket_text_message [of env now n t conn sv] inactive_value [of cid sv env now n _ conn]
  by (auto simp: socket_of_def prod_eq_iff split: option.splits)

lemma inactive_step: "inactive cid (sv_store (snd s)) \<Longrightarrow> inactive cid (sv_store (snd (v4_step env i s)))"
proof -
  assume i: "inactive cid (sv_store (snd s))"
  obtain conn sv where s: "s = (conn, sv)" by fastforce
  have fin: "inactive cid (sv_store (snd (finish env now (c, sv))))" for now c
    using i s inactive_finish by simp
  show ?thesis
  proof (cases i)
    case (ActorTurn t)
    with i s inactive_turn [of cid "(vc_actor conn, sv_store sv)" t] show ?thesis
      by (simp add: with_socket_def case_prod_unfold)
  next
    case (HubMessage now msg)
    with i s inactive_queue_and_send [of cid "(vc_actor conn, sv_store sv)" now] show ?thesis
      by (auto simp: forward_def split: option.splits prod.splits) (metis snd_conv)
  next
    case (Receive now n)
    obtain e a where e: "actor_recv (vc_actor conn) = (e, a)" by fastforce
    have bin: "inactive cid (sv_store (snd (handle_client_binary_message env now n b (c, sv))))" for b c
      using i s inactive_value [of cid sv env now n _ c] by (simp add: handle_client_binary_message_def split: option.splits)
    show ?thesis
      using Receive i s e fin bin inactive_text [of cid sv env now n _ "conn\<lparr>vc_actor := a\<rparr>"]
      by (simp add: receive_def Let_def split: received.splits actor_event.splits)
  next
    case Heartbeat
    with i s show ?thesis by simp
  qed (use i s fin in \<open>auto simp: with_socket_def split: prod.splits\<close>)
qed

lemma inactive_run: "inactive cid (sv_store (snd s)) \<Longrightarrow> inactive cid (sv_store (snd (v4_run env is s)))"
proof (induction "is" arbitrary: s)
  case (Cons i "is")
  then show ?case using inactive_step [of cid s env i] by (simp add: v4_run_def)
qed (simp add: v4_run_def)

text \<open>When a client opens a second socket that resumes its connection before the first one has ended, the end of
  the first one marks the shared state inactive. Nothing that happens on the second socket undoes it, so three seconds
  later the clean-up for a lost connection runs and takes the client out of its call, although it is connected.\<close>

theorem overlapping_close_ends_call:
  assumes "get_connection cid (sv_store sv) = Some st" "ac_connection_id (vc_actor old) = cid" "vc_open old"
    and "finish env now (old, sv) = (old', sv1)"
    and "v4_run env is (new, sv1) = (new', sv2)"
  shows "(vc_user_id old, cid, now + 3000) \<in> set (sv_graces sv1)
    \<and> grace_elapsed env (vc_user_id old) cid sv2 =
        flush_calls env (handle_ws_connection_closed (v4_calls env) (vc_user_id old) cid (sv_calls sv2)) sv2"
proof -
  have "(vc_user_id old, cid, now + 3000) \<in> set (sv_graces sv1)" "inactive cid (sv_store sv1)"
    using assms(1-4) by (auto simp: finish_def Let_def actor_disconnect_def GRACE_MS_def inactive_def get_connection_def
        modify_connections mark_inactive_def)
  moreover from this(2) have "inactive cid (sv_store sv2)"
    using inactive_run [of cid "(new, sv1)" env "is"] assms(5) by simp
  ultimately show ?thesis by (simp add: grace_elapsed_def inactive_def split: option.splits)
qed


section \<open>Witnesses\<close>

fun demo_de_broadcast :: "json \<Rightarrow> mm_broadcast option" where
  "demo_de_broadcast (JObject [(_, omit), (_, JString u), (_, JString c), (_, JString t)]) =
     Some \<lparr>mb_omit_users = (if omit = JNull then None else Some omit), mb_user_id = u, mb_channel_id = c, mb_team_id = t\<rparr>"
| "demo_de_broadcast _ = None"

definition demo_ws :: "((string, string list) hm \<times> string list, cluster_message, unit) ws_env" where
  "demo_ws = demo_env\<lparr>env_auth := demo_jwt\<lparr>au_decode := (\<lambda>t s i a. Inr
     \<lparr>cl_sub = Uuid 1, cl_email = [], cl_role = [], cl_org_id = None, cl_iss = None, cl_aud = None, cl_iat = 0, cl_exp = 5\<rparr>)\<rparr>\<rparr>"

definition demo_login :: websocket_auth where
  "demo_login = \<lparr>wa_user_id = Uuid 1, wa_expires_at = 5\<rparr>"

definition demo_v4 :: "((string, string list) hm \<times> string list, cluster_message, unit, unit, string list) v4_env" where
  "demo_v4 = \<lparr>v4_ws = demo_ws, v4_calls = demo_calls_env, v4_map = demo_map_env,
     v4_db = \<lparr>sn_channels = (\<lambda>_. None), sn_partner_name = (\<lambda>_ _. None), sn_username = (\<lambda>_. Some ''ann''),
              sn_members = (\<lambda>_ _. None), sn_statuses = (\<lambda>_. None)\<rparr>,
     v4_parse_offer = (\<lambda>_. None), v4_from_envelope = (\<lambda>_. Some (ws_event ThreadUpdated None None)),
     v4_parse = (\<lambda>_. None), v4_utf8 = latin1_utf8, v4_de_broadcast = demo_de_broadcast, v4_version = ''1'',
     v4_post_priority = False\<rparr>"

definition demo_server :: "json connection_store \<Rightarrow>
    ((string, string list) hm \<times> string list, cluster_message, unit, string list) server" where
  "demo_server store = \<lparr>sv_app = demo_app, sv_calls = demo_calls_app, sv_store = store, sv_heartbeats = [], sv_graces = []\<rparr>"

lemma demo_ws_admits:
  obtains r where "enforce_connection_limit demo_ws (Uuid 1) (app_redis demo_app) = (Inr (), r)"
proof -
  have limit: "get_max_simultaneous_connections demo_ws = 2"
    by (simp add: get_max_simultaneous_connections_def demo_ws_def demo_env_def parse_i64_def digit_value_def
        code_point_def i64_min_def i64_max_def)
  have "fst (enforce_connection_limit demo_ws (Uuid 1) (app_redis demo_app)) = Inr ()"
    by (simp add: enforce_connection_limit_def limit)
      (simp add: get_global_connection_count_def demo_ws_def demo_env_def demo_redis_def demo_app_def)
  then show ?thesis using that by (metis prod.collapse)
qed

lemma demo_connects:
  "\<exists>r. fst (connect demo_v4 now new_id hub_id demo_login cid q (demo_server store)) = Inr r"
proof -
  have "utc demo_v4 = 0" by (simp add: demo_v4_def demo_ws_def demo_env_def)
  moreover obtain r where "enforce_connection_limit (v4_ws demo_v4) (wa_user_id demo_login) (app_redis (sv_app (demo_server store))) = (Inr (), r)"
    using demo_ws_admits by (simp add: demo_v4_def demo_login_def demo_server_def) blast
  moreover have "sn_username (v4_db demo_v4) (wa_user_id demo_login) \<noteq> None" by (simp add: demo_v4_def)
  ultimately show ?thesis unfolding connect_started by (simp add: demo_login_def)
qed

theorem v4_admission_exact_witness:
  "\<exists>conn. fst (handle_socket demo_v4 0 ''n'' (Uuid 9) [] [] (Some demo_login) None None (demo_server store_default)) = Started conn"
proof -
  have "validate_auth_token demo_ws ''t'' = Some demo_login"
    by (simp add: validate_auth_token_def demo_ws_def demo_env_def demo_jwt_def validate_token_with_policy_def
        claims_to_websocket_auth_def demo_login_def)
  then have "Some demo_login = validate_auth_context (v4_ws demo_v4) (Some ''t'')"
    and t: "validate_auth_token (v4_ws demo_v4) ''t'' = Some demo_login"
    by (simp_all add: validate_auth_context_def demo_v4_def)
  moreover have "utc demo_v4 < wa_expires_at demo_login
      \<and> fst (enforce_connection_limit (v4_ws demo_v4) (wa_user_id demo_login) (app_redis (sv_app (demo_server store_default)))) = Inr ()
      \<and> sn_username (v4_db demo_v4) (wa_user_id demo_login) \<noteq> None"
    using demo_connects unfolding connect_started by blast
  ultimately show ?thesis
    using v4_admission_exact [of "Some demo_login" demo_v4 "Authenticated demo_login" "[]" 0 "''n''" "Uuid 9" "[]" None None
        "demo_server store_default"] by (metis option.simps(5))
qed

theorem abandoned_setup_leaks_witness:
  "\<exists>conn sv1. run_connection_start demo_v4 0 ''n'' (Uuid 9) [turn_at 1 StreamEnd] demo_login None None (demo_server store_default)
      = (Started conn, sv1) \<and> \<not> vc_open conn \<and> is_connection (app_hub (sv_app sv1)) (Uuid 1) (Uuid 9)"
proof -
  let ?c = "connect demo_v4 0 ''n'' (Uuid 9) demo_login None None (demo_server store_default)"
  let ?s = "run_connection_start demo_v4 0 ''n'' (Uuid 9) [turn_at 1 StreamEnd] demo_login None None (demo_server store_default)"
  obtain conn0 missed sv0 where c: "?c = (Inr (conn0, missed), sv0)"
    using demo_connects by (metis prod.collapse)
  obtain a store where g: "actor_run [turn_at 1 StreamEnd] (vc_actor conn0, sv_store sv0) = (a, store)" by fastforce
  have "\<not> ac_running a"
    using g by (auto simp: actor_run_def actor_step_def actor_stop_def turn_at_def split: if_splits)
  moreover obtain conn sv1 where s: "?s = (Started conn, sv1)"
    using run_started demo_connects by (metis prod.collapse)
  ultimately show ?thesis
    using abandoned_setup_leaks [OF c g _ s, of "[]" conn sv1] by (simp add: v4_run_def demo_login_def)
qed

definition demo_conn :: v4_conn where
  "demo_conn = \<lparr>vc_actor = demo_actor, vc_user_id = Uuid 1, vc_username = ''ann'', vc_hub_id = Uuid 9,
     vc_presence_id = ''p'', vc_deadline = 9, vc_forwarding = True, vc_open = True\<rparr>"

theorem overlapping_close_ends_call_witness:
  "\<exists>old sv1. finish demo_v4 5 (demo_conn, demo_server demo_store) = (old, sv1)
     \<and> grace_elapsed demo_v4 (Uuid 1) ''c'' sv1
       = flush_calls demo_v4 (handle_ws_connection_closed demo_calls_env (Uuid 1) ''c'' (sv_calls sv1)) sv1"
proof -
  obtain old sv1 where f: "finish demo_v4 5 (demo_conn, demo_server demo_store) = (old, sv1)" by fastforce
  obtain st where "get_connection ''c'' (sv_store (demo_server demo_store)) = Some st"
    using demo_connection by (auto simp: demo_server_def)
  from overlapping_close_ends_call [OF this _ _ f, of "[]" demo_conn demo_conn sv1] f show ?thesis
    by (simp add: demo_conn_def demo_actor_def v4_run_def demo_v4_def)
qed


text \<open>A client that missed the only message of its connection, resumes, and is then sent a second one.\<close>

definition demo_missed :: mm_message where
  "demo_missed = \<lparr>wm_seq = None, wm_event = ''thread_updated'', wm_data = JNull, wm_broadcast = default_broadcast\<rparr>"

definition demo_away :: "json connection_store" where
  "demo_away = fst (queue_message 1 ''c'' (replay_payload demo_missed) demo_store)"

definition demo_inputs :: "v4_input list" where
  "demo_inputs = [HubMessage 6 ''m'', ActorTurn (turn_at 6 Command), ActorTurn (turn_at 6 Command), ActorTurn (turn_at 6 Command)]"

lemma demo_away_state:
  "get_connection ''c'' demo_away = Some \<lparr>cs_connection_id = ''c'', cs_user_id = Uuid 1, cs_team_ids = [], cs_channel_ids = [],
     cs_sequence = 2, cs_message_buffer = [\<lparr>sm_seq = 1, sm_message = replay_payload demo_missed, sm_timestamp = 1\<rparr>],
     cs_last_activity = 1, cs_is_active = True\<rparr>"
  by (simp add: demo_away_def demo_store_def store_default_def resume_or_create_def get_connection_def Let_def
      queue_message_def next_sequence_def buffer_message_def connection_state_new_def MESSAGE_BUFFER_SIZE_def
      wrap_i64_def i64_min_def)

lemma demo_law: "mb_omit_users b = None \<Longrightarrow> v4_de_broadcast demo_v4 (json_of_broadcast b) = Some b"
  by (simp add: demo_v4_def json_of_broadcast_def)

lemma demo_omit: "\<forall>m\<in>set [demo_missed]. mb_omit_users (wm_broadcast m) = None"
  by (simp add: demo_missed_def default_broadcast_def)

lemma demo_away_logged: "logged (map replay_payload [demo_missed]) (the (get_connection ''c'' demo_away))"
  by (simp add: demo_away_state logged_def buffer_view_def tail_of_def numbered_def MESSAGE_BUFFER_SIZE_def)

lemma connect_socket:
  assumes "connect env now new_id hub_id auth cid q sv = (Inr (conn, missed), sv1)" "cid = Some c" "c \<noteq> []"
    "actor_new now new_id (v4_de_broadcast env) (wa_user_id auth) cid q (sv_store sv) = (store, a, ms)"
  shows "vc_actor conn = a \<and> sv_store sv1 = store \<and> missed = ms \<and> vc_user_id conn = wa_user_id auth"
  using assms by (auto simp: connect_def Let_def split: if_splits prod.splits sum.splits option.splits)

lemma demo_resumes:
  obtains conn sv1 where
    "run_connection_start demo_v4 5 ''n'' (Uuid 9) [] demo_login (Some ''c'') (Some 0) (demo_server demo_away) = (Started conn, sv1)"
    "vc_open conn" "vc_forwarding conn" "ac_connection_id (vc_actor conn) = ''c''" "ac_running (vc_actor conn)"
    "\<not> ac_is_closing (vc_actor conn)"
    "ac_commands (vc_actor conn) = [SendMessage (hello_message demo_v4 0 ''c''), SendMessage (demo_missed\<lparr>wm_seq := Some 1\<rparr>)]"
proof -
  obtain conn0 missed sv0 where c: "connect demo_v4 5 ''n'' (Uuid 9) demo_login (Some ''c'') (Some 0) (demo_server demo_away)
      = (Inr (conn0, missed), sv0)"
    using demo_connects by (metis prod.collapse)
  obtain store a where new: "actor_new 5 ''n'' (v4_de_broadcast demo_v4) (wa_user_id demo_login) (Some ''c'') (Some 0) (sv_store (demo_server demo_away))
      = (store, a, [demo_missed\<lparr>wm_seq := Some 1\<rparr>])"
    and a: "ac_connection_id a = ''c''" "ac_running a" "silent a"
  proof (rule resume_replays [OF demo_law demo_omit demo_away_state _ _ demo_away_logged [unfolded demo_away_state option.sel],
        of "Uuid 1" 0 5 "''n''"], simp_all)
    fix store' a
    assume "actor_new 5 ''n'' (v4_de_broadcast demo_v4) (Uuid 1) (Some ''c'') (Some 0) demo_away = (store', a, [demo_missed\<lparr>wm_seq := Some 1\<rparr>])"
      "silent a" "ac_running a" "ac_connection_id a = ''c''"
    then show thesis using that by (simp add: demo_login_def demo_server_def)
  qed
  note conn0 = connect_socket [OF c _ _ new, of "''c''"]
  have snap: "send_reconnect_snapshot_if_needed demo_v4 now u b s = s" for now u b s
    by (simp add: send_reconnect_snapshot_if_needed_def build_reconnect_snapshot_def demo_v4_def)
  show ?thesis
    using conn0 a that c
    by (simp add: silent_def Let_def run_connection_start_def with_socket_def actor_run_def greet_def hello_seq_def actor_send_def
        try_command_def COMMAND_BUFFER_CAPACITY_def snap)
qed


end
