(* ===== verification/Db.thy ===== *)
theory Db
  imports Handlers App_Error Mm_Mappers
begin

text \<open>
  The database as the account and mail services use it (\<^verbatim>\<open>sqlx\<close> on PostgreSQL), and what they read of the server
  configuration: \<^verbatim>\<open>services/auth_config.rs\<close> and the password-login rule of \<^verbatim>\<open>api/auth.rs\<close>.

  A table is the list of its rows and a statement is one atomic change of it, translated from its SQL text. Which
  statements fail is decided outside: \<open>down n\<close> is the error text of the \<open>n\<close>-th statement sent, if it fails, and the
  tables are then as before. Where SQL leaves the choice or the order of rows open, the order of the list stands for
  it. Times are milliseconds; an operation reads the clock once.
\<close>

section \<open>Characters\<close>

text \<open>The case functions and classes of \<^verbatim>\<open>char\<close> on the code points below 256.\<close>

definition lower_char :: "char \<Rightarrow> char" where
  "lower_char c = (let n = code_point c in
     if 65 \<le> n \<and> n \<le> 90 \<or> 192 \<le> n \<and> n \<le> 222 \<and> n \<noteq> 215 then char_of (n + 32) else c)"

definition to_lowercase :: "string \<Rightarrow> string" where
  "to_lowercase s = map lower_char s"

definition is_lowercase :: "char \<Rightarrow> bool" where
  "is_lowercase c \<longleftrightarrow> (let n = code_point c in
     97 \<le> n \<and> n \<le> 122 \<or> n \<in> {170, 181, 186} \<or> 223 \<le> n \<and> n \<noteq> 247)"

definition is_uppercase :: "char \<Rightarrow> bool" where
  "is_uppercase c \<longleftrightarrow> (let n = code_point c in 65 \<le> n \<and> n \<le> 90 \<or> 192 \<le> n \<and> n \<le> 222 \<and> n \<noteq> 215)"

definition is_numeric :: "char \<Rightarrow> bool" where
  "is_numeric c \<longleftrightarrow> (let n = code_point c in 48 \<le> n \<and> n \<le> 57 \<or> n \<in> {178, 179, 185, 188, 189, 190})"

definition is_alphanumeric :: "char \<Rightarrow> bool" where
  "is_alphanumeric c \<longleftrightarrow> is_lowercase c \<or> is_uppercase c \<or> is_numeric c"

section \<open>Statements\<close>

datatype sqlx_error = RowNotFound | Unavailable string

fun sqlx_message :: "sqlx_error \<Rightarrow> string" where
  "sqlx_message RowNotFound = ''no rows returned by a query that expected to return at least one row''"
| "sqlx_message (Unavailable e) = e"

text \<open>A row of \<^verbatim>\<open>users\<close> has columns that the struct \<^verbatim>\<open>User\<close> does not read.\<close>

record account = user +
  acc_auth_provider :: "string option"
  acc_auth_provider_id :: "string option"

record auth_config =
  enable_email_password :: bool
  enable_sso :: bool
  require_sso :: bool
  sso_break_glass_emails :: "string list"
  allow_registration :: bool
  enable_sign_in_with_email :: bool
  enable_sign_in_with_username :: bool
  enable_sign_up_with_email :: bool
  enable_sign_up_with_gitlab :: bool
  enable_sign_up_with_google :: bool
  enable_sign_up_with_office365 :: bool
  enable_sign_up_with_openid :: bool
  enable_user_creation :: bool
  enable_open_server :: bool
  enable_guest_accounts :: bool
  enable_multifactor_authentication :: bool
  enforce_multifactor_authentication :: bool
  enable_saml :: bool
  enable_ldap :: bool
  password_min_length :: int
  password_require_lowercase :: bool
  password_require_uppercase :: bool
  password_require_number :: bool
  password_require_symbol :: bool
  password_enable_forgot_link :: bool
  session_length_hours :: int

definition default_auth_config :: auth_config where
  "default_auth_config =
     \<lparr>enable_email_password = True, enable_sso = False, require_sso = False, sso_break_glass_emails = [],
      allow_registration = True, enable_sign_in_with_email = True, enable_sign_in_with_username = True,
      enable_sign_up_with_email = True, enable_sign_up_with_gitlab = False, enable_sign_up_with_google = False,
      enable_sign_up_with_office365 = False, enable_sign_up_with_openid = False, enable_user_creation = True,
      enable_open_server = False, enable_guest_accounts = False, enable_multifactor_authentication = False,
      enforce_multifactor_authentication = False, enable_saml = False, enable_ldap = False, password_min_length = 8,
      password_require_lowercase = True, password_require_uppercase = True, password_require_number = True,
      password_require_symbol = False, password_enable_forgot_link = True, session_length_hours = 24\<rparr>"

text \<open>\<open>db_authentication\<close> and \<open>db_site\<close> are columns of the row \<^verbatim>\<open>default\<close> of \<^verbatim>\<open>server_config\<close>, absent without it.\<close>

record db =
  db_statements :: nat
  db_accounts :: "account list"
  db_authentication :: "auth_config option"
  db_site :: "json option"

type_synonym down = "nat \<Rightarrow> string option"
type_synonym ('a, 'd) query = "(sqlx_error, 'a, 'd db_scheme) handler"

definition statement :: "down \<Rightarrow> ('d db_scheme \<Rightarrow> 'a \<times> 'd db_scheme) \<Rightarrow> ('a, 'd) query" where
  "statement down f s =
     (let t = s\<lparr>db_statements := Suc (db_statements s)\<rparr>
      in case down (db_statements s) of
           Some e \<Rightarrow> (Inl (Unavailable e), t)
         | None \<Rightarrow> (let (x, t) = f t in (Inr x, t)))"

definition sql_execute :: "down \<Rightarrow> ('d db_scheme \<Rightarrow> 'd db_scheme) \<Rightarrow> (unit, 'd) query" where
  "sql_execute down f = statement down (\<lambda>s. ((), f s))"

definition fetch :: "down \<Rightarrow> ('d db_scheme \<Rightarrow> 'a) \<Rightarrow> ('a, 'd) query" where
  "fetch down q = statement down (\<lambda>s. (q s, s))"

definition fetch_one :: "down \<Rightarrow> ('d db_scheme \<Rightarrow> 'a option) \<Rightarrow> ('a, 'd) query" where
  "fetch_one down q = hbind (fetch down q) (\<lambda>r. hsome_of r RowNotFound)"

text \<open>\<^verbatim>\<open>UPDATE .. WHERE ..\<close>.\<close>

definition update_where :: "('a \<Rightarrow> bool) \<Rightarrow> ('a \<Rightarrow> 'a) \<Rightarrow> 'a list \<Rightarrow> 'a list" where
  "update_where P f = map (\<lambda>row. if P row then f row else row)"

text \<open>A transaction that is not committed leaves the tables as they were.\<close>

definition transaction_or :: "down \<Rightarrow> 'e \<Rightarrow> ('e, 'a, 'd db_scheme) handler \<Rightarrow> ('e, 'a, 'd db_scheme) handler" where
  "transaction_or down err body s =
     (let control = hmap_err (\<lambda>_. err) (sql_execute down id)
      in case hbind control (\<lambda>_. hbind body (\<lambda>x. hbind control (\<lambda>_. hreturn x))) s of
           (Inr x, t) \<Rightarrow> (Inr x, t)
         | (Inl e, t) \<Rightarrow> (Inl e, s\<lparr>db_statements := db_statements t\<rparr>))"

section \<open>Server configuration\<close>

definition get_password_rules :: "down \<Rightarrow> (app_error, auth_config, 'd db_scheme) handler" where
  "get_password_rules down = hmap_err (\<lambda>e. Database (sqlx_message e)) (fetch_one down db_authentication)"

text \<open>\<^verbatim>\<open>site->>'site_url'\<close>; errors, a missing row and the empty text all count as not configured. The operator
  \<^verbatim>\<open>->>\<close> yields the text of other values too, for which the configuration has no use: they are left out.\<close>

definition query_site_url :: "down \<Rightarrow> ('e, string option, 'd db_scheme) handler" where
  "query_site_url down =
     hbind (htry (fetch down (\<lambda>s. Option.bind (Option.bind (db_site s) (json_get ''site_url'')) json_as_str)))
       (\<lambda>r. hreturn (case r of Inr (Some url) \<Rightarrow> if url = [] then None else Some url | _ \<Rightarrow> None))"

definition show_int :: "int \<Rightarrow> string" where
  "show_int n = (if n < 0 then CHR ''-'' # show_nat (nat (- n)) else show_nat (nat n))"

definition password_too_short :: "auth_config \<Rightarrow> string" where
  "password_too_short config =
     ''Password must be at least '' @ show_int (password_min_length config) @ '' characters long''"

text \<open>The minimum length is an \<^verbatim>\<open>i32\<close> cast to \<^verbatim>\<open>usize\<close>: a negative one exceeds every length.\<close>

definition validate_password :: "string \<Rightarrow> auth_config \<Rightarrow> unit api_result" where
  "validate_password password config =
     (if password_min_length config < 0 \<or> str_len password < nat (password_min_length config)
      then Inl (Validation (password_too_short config))
      else if password_require_lowercase config \<and> \<not> list_ex is_lowercase password
      then Inl (Validation ''Password must contain at least one lowercase letter'')
      else if password_require_uppercase config \<and> \<not> list_ex is_uppercase password
      then Inl (Validation ''Password must contain at least one uppercase letter'')
      else if password_require_number config \<and> \<not> list_ex is_numeric password
      then Inl (Validation ''Password must contain at least one number'')
      else if password_require_symbol config \<and> \<not> list_ex (\<lambda>c. \<not> is_alphanumeric c) password
      then Inl (Validation ''Password must contain at least one symbol'')
      else Inr ())"

definition enforce_password_login_allowed :: "down \<Rightarrow> string \<Rightarrow> (app_error, unit, 'd db_scheme) handler" where
  "enforce_password_login_allowed down user_email =
     hbind (get_password_rules down) (\<lambda>config.
       if \<not> require_sso config then hreturn ()
       else if list_ex (\<lambda>email. eq_ignore_ascii_case (trim email) (to_ascii_lowercase (trim user_email)))
              (sso_break_glass_emails config) then hreturn ()
       else hfail (BadRequest ''Password login is disabled because SSO is required''))"

section \<open>What statements do\<close>

lemma statement_done:
  "statement down f s = (Inr x, t) \<longleftrightarrow>
     down (db_statements s) = None \<and> f (s\<lparr>db_statements := Suc (db_statements s)\<rparr>) = (x, t)"
  by (auto simp: statement_def Let_def split: option.splits prod.splits)

lemma fetch_done:
  "fetch down q s = (Inr x, t) \<longleftrightarrow> down (db_statements s) = None
     \<and> t = s\<lparr>db_statements := Suc (db_statements s)\<rparr> \<and> x = q t"
  by (auto simp: fetch_def statement_done)

lemma sql_execute_done:
  "sql_execute down f s = (Inr u, t) \<longleftrightarrow> down (db_statements s) = None \<and> t = f (s\<lparr>db_statements := Suc (db_statements s)\<rparr>)"
  by (auto simp: sql_execute_def statement_done)

lemma fetch_one_done:
  "fetch_one down q s = (Inr x, t) \<longleftrightarrow> down (db_statements s) = None
     \<and> t = s\<lparr>db_statements := Suc (db_statements s)\<rparr> \<and> q t = Some x"
  by (auto simp: fetch_one_def handler_done fetch_done)

lemmas db_done = handler_done statement_done fetch_done sql_execute_done fetch_one_done

lemma set_update_where: "set (update_where P f rows) = f ` {r \<in> set rows. P r} \<union> {r \<in> set rows. \<not> P r}"
  by (auto simp: update_where_def)

text \<open>An invariant that no statement counter can break is kept by queries, and by updates that keep it.\<close>

lemma hoare_statement [keeping]:
  "(\<And>s. I s \<Longrightarrow> I (s\<lparr>db_statements := Suc (db_statements s)\<rparr>)) \<Longrightarrow> keeps I (\<lambda>s. snd (f s)) \<Longrightarrow> hoare I (statement down f) I"
  by (auto simp: hoare_def keeps_def statement_def Let_def case_prod_unfold split: option.splits)

text \<open>Queries change the statement counter only.\<close>

definition same_tables :: "'d db_scheme \<Rightarrow> 'd db_scheme \<Rightarrow> bool" where
  "same_tables s t \<longleftrightarrow> (\<exists>n. t = s\<lparr>db_statements := n\<rparr>)"

lemma same_tables_refl [simp]: "same_tables s s"
  unfolding same_tables_def by (rule exI [of _ "db_statements s"]) simp

lemma same_tables_counter: "same_tables s t \<Longrightarrow> same_tables s (t\<lparr>db_statements := n\<rparr>)"
  by (auto simp: same_tables_def)

lemma same_tables_trans: "same_tables s t \<Longrightarrow> same_tables t u \<Longrightarrow> same_tables s u"
  by (auto simp: same_tables_def)

lemma same_tables_db:
  "same_tables s t \<Longrightarrow> db_accounts t = db_accounts s \<and> db_authentication t = db_authentication s \<and> db_site t = db_site s"
  by (auto simp: same_tables_def)

lemma same_fetch [keeping]:
  "hoare (same_tables s) (fetch down q) (same_tables s)" "hoare (same_tables s) (fetch_one down r) (same_tables s)"
  by (auto simp: hoare_def fetch_one_def fetch_def statement_def handler_defs Let_def same_tables_counter
      split: option.splits sum.splits prod.splits)

lemma same_step: "hoare (same_tables s) h (same_tables s) \<Longrightarrow> h s = (r, t) \<Longrightarrow> same_tables s t"
  using hoareD [of "same_tables s" h "same_tables s" s] by simp

lemma same_password_rules [keeping]: "hoare (same_tables s) (get_password_rules down) (same_tables s)"
  unfolding get_password_rules_def by (intro keeping)

section \<open>A small database\<close>

definition demo_account :: account where
  "demo_account = (user.extend deleted_row (account.fields None None))
     \<lparr>usr_deleted_at := None, usr_is_active := True, usr_email := ''ann@example.org''\<rparr>"

lemma demo_account_simps [simp]:
  "usr_id demo_account = Uuid 7" "usr_org_id demo_account = None" "usr_email demo_account = ''ann@example.org''"
  "usr_is_active demo_account" "usr_deleted_at demo_account = None" "usr_username demo_account = ''ann''"
  "usr_password_hash demo_account = None" "usr_role demo_account = ''member''"
  "acc_auth_provider demo_account = None" "acc_auth_provider_id demo_account = None" "usr_email_verified demo_account"
  by (simp_all add: demo_account_def deleted_row_def user.defs account.defs)

definition demo_db :: db where
  "demo_db = \<lparr>db_statements = 0, db_accounts = [demo_account], db_authentication = Some default_auth_config,
     db_site = Some (JObject [(''site_url'', JString ''https://chat'')])\<rparr>"

definition no_failure :: down where
  "no_failure n = None"

end
