(* ===== verification/Mail_Templates.thy ===== *)
theory Mail_Templates
  imports Db "HOL-Library.List_Lexorder" "HOL-Library.Char_ord"
begin

text \<open>
  Mail templates: \<^verbatim>\<open>backend/src/services/template_renderer.rs\<close> and the template structs of \<^verbatim>\<open>models/email.rs\<close>.

  The Handlebars engine is a parameter: whether it accepts a template, and what it renders with the helpers
  registered. The helpers and everything around the engine are translated; the placeholders of a template are
  found by the loop of \<^verbatim>\<open>extract_variables\<close>.
\<close>

section \<open>Templates\<close>

datatype template_error = RenderError string | MissingVariable string | InvalidTemplate string | JsonError string

fun template_error_message :: "template_error \<Rightarrow> string" where
  "template_error_message (RenderError msg) = ''Render error: '' @ msg"
| "template_error_message (MissingVariable name) = ''Missing required variable: '' @ name"
| "template_error_message (InvalidTemplate msg) = ''Invalid template: '' @ msg"
| "template_error_message (JsonError msg) = ''JSON error: '' @ msg"

datatype template_status = Draft | Published | Archived

record template_variable =
  tv_name :: string
  tv_required :: bool
  tv_default_value :: "string option"
  tv_description :: "string option"

record email_template_version =
  etv_id :: uuid
  etv_family_id :: uuid
  etv_version :: int
  etv_status :: template_status
  etv_locale :: string
  etv_subject :: string
  etv_body_text :: string
  etv_body_html :: string
  etv_variables_schema :: "template_variable list"
  etv_is_compiled_from_mjml :: bool
  etv_mjml_source :: "string option"
  etv_created_at :: int
  etv_created_by :: "uuid option"
  etv_published_at :: "int option"
  etv_published_by :: "uuid option"

record template_version_response =
  tvr_id :: uuid
  tvr_family_id :: uuid
  tvr_version :: int
  tvr_status :: string
  tvr_locale :: string
  tvr_subject :: string
  tvr_body_text :: "string option"
  tvr_body_html :: "string option"
  tvr_variables :: "template_variable list"
  tvr_is_compiled_from_mjml :: bool
  tvr_created_at :: int
  tvr_created_by :: "uuid option"
  tvr_published_at :: "int option"
  tvr_published_by :: "uuid option"

definition template_version_response_of :: "email_template_version \<Rightarrow> template_version_response" where
  "template_version_response_of tv =
     \<lparr>tvr_id = etv_id tv, tvr_family_id = etv_family_id tv, tvr_version = etv_version tv,
      tvr_status = (case etv_status tv of Draft \<Rightarrow> ''draft'' | Published \<Rightarrow> ''published'' | Archived \<Rightarrow> ''archived''),
      tvr_locale = etv_locale tv, tvr_subject = etv_subject tv, tvr_body_text = Some (etv_body_text tv),
      tvr_body_html = Some (etv_body_html tv), tvr_variables = etv_variables_schema tv,
      tvr_is_compiled_from_mjml = etv_is_compiled_from_mjml tv, tvr_created_at = etv_created_at tv,
      tvr_created_by = etv_created_by tv, tvr_published_at = etv_published_at tv, tvr_published_by = etv_published_by tv\<rparr>"

record render_context =
  rc_variables :: json
  rc_strict_mode :: bool

definition render_context_new :: render_context where
  "render_context_new = \<lparr>rc_variables = JObject [], rc_strict_mode = True\<rparr>"

definition get_variable :: "render_context \<Rightarrow> string \<Rightarrow> json option" where
  "get_variable context name = json_get name (rc_variables context)"

fun validate_required :: "render_context \<Rightarrow> template_variable list \<Rightarrow> template_error + unit" where
  "validate_required context [] = Inr ()"
| "validate_required context (var # schema) =
     (if tv_required var \<and> get_variable context (tv_name var) = None \<and> tv_default_value var = None
      then Inl (MissingVariable (tv_name var))
      else validate_required context schema)"

section \<open>Helpers\<close>

text \<open>\<^verbatim>\<open>h.param(i)\<close> as text.\<close>

definition text_param :: "json list \<Rightarrow> nat \<Rightarrow> string" where
  "text_param params i = (if i < length params then (case json_as_str (params ! i) of Some s \<Rightarrow> s | None \<Rightarrow> []) else [])"

definition helper_eq :: "json list \<Rightarrow> string" where
  "helper_eq params = (if text_param params 0 = text_param params 1 then ''true'' else [])"

definition helper_ne :: "json list \<Rightarrow> string" where
  "helper_ne params = (if text_param params 0 \<noteq> text_param params 1 then ''true'' else [])"

text \<open>\<^verbatim>\<open>to_uppercase\<close> leaves the range of the model for three characters (such as sharp s); it is an argument.\<close>

definition helper_upper :: "(string \<Rightarrow> string) \<Rightarrow> json list \<Rightarrow> string" where
  "helper_upper to_uppercase params = to_uppercase (text_param params 0)"

definition helper_lower :: "json list \<Rightarrow> string" where
  "helper_lower params = to_lowercase (text_param params 0)"

definition helper_format_date :: "json list \<Rightarrow> string" where
  "helper_format_date params = text_param params 0"

text \<open>\<^verbatim>\<open>&text[..length]\<close> takes bytes: it panics (\<open>None\<close>) inside a character. A negative length becomes a huge one.\<close>

fun text_bytes_prefix :: "nat \<Rightarrow> string \<Rightarrow> string option" where
  "text_bytes_prefix 0 s = Some []"
| "text_bytes_prefix (Suc n) [] = None"
| "text_bytes_prefix (Suc n) (c # cs) =
     (if code_point c < 128 then map_option (Cons c) (text_bytes_prefix n cs)
      else (case n of 0 \<Rightarrow> None | Suc m \<Rightarrow> map_option (Cons c) (text_bytes_prefix m cs)))"

definition length_param :: "json list \<Rightarrow> int" where
  "length_param params =
     (case params of _ # JNumber n # _ \<Rightarrow> if i64_min \<le> n \<and> n \<le> i64_max then n else 100 | _ \<Rightarrow> 100)"

definition helper_truncate :: "json list \<Rightarrow> string option" where
  "helper_truncate params =
     (let s = text_param params 0; len = length_param params
      in if 0 \<le> len \<and> int (str_len s) > len
         then map_option (\<lambda>t. t @ ''...'') (text_bytes_prefix (nat len) s) else Some s)"

section \<open>Rendering\<close>

record handlebars =
  hb_register :: "string \<Rightarrow> string option"
  hb_render :: "string \<Rightarrow> json \<Rightarrow> string + string"

record rendered_email =
  re_subject :: string
  re_body_text :: string
  re_body_html :: "string option"

text \<open>\<^verbatim>\<open>msg.split('"').nth(1).unwrap_or("unknown")\<close>.\<close>

definition quoted_part :: "string \<Rightarrow> string" where
  "quoted_part msg = (case split_on (\<lambda>c. c = CHR 0x22) msg of _ # name # _ \<Rightarrow> name | _ \<Rightarrow> ''unknown'')"

definition render_template :: "handlebars \<Rightarrow> string \<Rightarrow> render_context \<Rightarrow> template_error + string" where
  "render_template hb template context =
     (case hb_register hb template of
        Some e \<Rightarrow> Inl (InvalidTemplate e)
      | None \<Rightarrow>
          (case hb_render hb template (rc_variables context) of
             Inr out \<Rightarrow> Inr out
           | Inl msg \<Rightarrow>
               (if contains_str ''helper'' msg \<and> contains_str ''not defined'' msg
                then Inl (MissingVariable (quoted_part msg)) else Inl (RenderError msg))))"

definition render_email :: "handlebars \<Rightarrow> email_template_version \<Rightarrow> render_context \<Rightarrow> template_error + rendered_email" where
  "render_email hb template context =
     (case (if rc_strict_mode context then validate_required context (etv_variables_schema template) else Inr ()) of
        Inl e \<Rightarrow> Inl e
      | Inr _ \<Rightarrow>
          (case render_template hb (etv_subject template) context of
             Inl e \<Rightarrow> Inl e
           | Inr subject \<Rightarrow>
               (case render_template hb (etv_body_text template) context of
                  Inl e \<Rightarrow> Inl e
                | Inr body_text \<Rightarrow>
                    (if etv_body_html template = []
                     then Inr \<lparr>re_subject = subject, re_body_text = body_text, re_body_html = None\<rparr>
                     else (case render_template hb (etv_body_html template) context of
                             Inl e \<Rightarrow> Inl e
                           | Inr html \<Rightarrow>
                               Inr \<lparr>re_subject = subject, re_body_text = body_text, re_body_html = Some html\<rparr>)))))"

definition preview_template :: "handlebars \<Rightarrow> email_template_version \<Rightarrow> json \<Rightarrow> template_error + rendered_email" where
  "preview_template hb template sample_data = render_email hb template (render_context_new\<lparr>rc_variables := sample_data\<rparr>)"

definition validate_template :: "handlebars \<Rightarrow> string \<Rightarrow> template_error + unit" where
  "validate_template hb template = (case hb_register hb template of Some e \<Rightarrow> Inl (InvalidTemplate e) | None \<Rightarrow> Inr ())"

definition compile_mjml :: "bool \<Rightarrow> string \<Rightarrow> template_error + string" where
  "compile_mjml mjml_enabled mjml_source =
     (if \<not> mjml_enabled then Inl (InvalidTemplate ''MJML compilation is not enabled'')
      else Inr (''<!-- MJML would be compiled here -->'' @ [CHR 0x0A] @ mjml_source))"

section \<open>Placeholders\<close>

text \<open>The text up to the next two closing braces, and what follows them; without them, all of the rest.\<close>

fun read_name :: "string \<Rightarrow> string \<times> string" where
  "read_name [] = ([], [])"
| "read_name (c # cs) =
     (if c = CHR ''}'' \<and> take 1 cs = ''}'' then ([], tl cs)
      else (case read_name cs of (name, rest) \<Rightarrow> (c # name, rest)))"

definition clean_name :: "string \<Rightarrow> string" where
  "clean_name var_name = trim (hd (split_on (\<lambda>c. c = CHR ''|'') var_name))"

definition is_variable :: "string \<Rightarrow> bool" where
  "is_variable name \<longleftrightarrow> name \<noteq> [] \<and> hd name \<noteq> CHR ''#'' \<and> hd name \<noteq> CHR ''/''"

lemma read_name_length: "length (snd (read_name cs)) \<le> length cs"
  by (induction cs) (auto split: prod.splits)

lemma read_name_tail: "length (snd (read_name (tl cs))) < Suc (length cs)"
  using read_name_length [of "tl cs"] by (cases cs) simp_all

function variables_in :: "string \<Rightarrow> string list" where
  "variables_in [] = []"
| "variables_in (c # cs) =
     (if c = CHR ''{'' \<and> take 1 cs = ''{''
      then (case read_name (tl cs) of (name, rest) \<Rightarrow>
              (if is_variable (clean_name name) then [clean_name name] else []) @ variables_in rest)
      else variables_in cs)"
  by pat_completeness auto
termination variables_in
  by (relation "measure length", simp_all) (metis read_name_tail snd_conv)

definition extract_variables :: "string \<Rightarrow> string list" where
  "extract_variables template = remdups_adj (sort (variables_in template))"

text \<open>The sample value of a variable without a default, by its name.\<close>

definition sample_value :: "string \<Rightarrow> json" where
  "sample_value name =
     (if name \<in> {''user_name'', ''username'', ''name'', ''display_name''} then JString ''John Doe''
      else if name \<in> {''email'', ''user_email'', ''recipient_email''} then JString ''user@example.com''
      else if name \<in> {''site_name'', ''app_name''} then JString ''RustChat''
      else if name \<in> {''site_url'', ''base_url''} then JString ''https://chat.example.com''
      else if name \<in> {''verification_link'', ''reset_link'', ''invite_link'', ''action_link''}
        then JString ''https://chat.example.com/action?token=abc123''
      else if name = ''channel_name'' then JString ''general''
      else if name = ''team_name'' then JString ''Engineering''
      else if name \<in> {''message_count'', ''unread_count''} then JNumber 5
      else if name \<in> {''message_content'', ''message_excerpt''} then JString ''Hello! This is a sample message...''
      else if name = ''sender_name'' then JString ''Jane Smith''
      else if name \<in> {''timestamp'', ''date'', ''created_at''} then JString ''2026-02-22T20:00:00Z''
      else JString (''['' @ name @ '']''))"

definition build_sample_payload :: "template_variable list \<Rightarrow> json" where
  "build_sample_payload schema =
     JObject (fold (\<lambda>var. AList.update (tv_name var)
       (case tv_default_value var of Some d \<Rightarrow> JString d | None \<Rightarrow> sample_value (tv_name var))) schema [])"

section \<open>Properties\<close>

lemma read_name_until: "CHR ''}'' \<notin> set name \<Longrightarrow> read_name (name @ ''}}'' @ rest) = (name, rest)"
  by (induction name) auto

lemma variables_in_text: "CHR ''{'' \<notin> set t \<Longrightarrow> variables_in (t @ rest) = variables_in rest"
  by (induction t) auto

lemma variables_in_pieces:
  assumes "\<forall>(t, name) \<in> set pieces. CHR ''{'' \<notin> set t \<and> CHR ''}'' \<notin> set name \<and> CHR ''|'' \<notin> set name" "CHR ''{'' \<notin> set rest"
  shows "variables_in (concat (map (\<lambda>(t, name). t @ ''{{'' @ name @ ''}}'') pieces) @ rest)
    = filter is_variable (map (\<lambda>(t, name). trim name) pieces)"
  using assms(1)
proof (induction pieces)
  case Nil
  show ?case using variables_in_text [OF assms(2), of "[]"] by simp
next
  case (Cons piece pieces)
  obtain t name where piece: "piece = (t, name)" by fastforce
  with Cons.prems have free: "CHR ''{'' \<notin> set t" "CHR ''}'' \<notin> set name" "\<forall>c \<in> set name. c \<noteq> CHR ''|''" by auto
  show ?case
    using Cons variables_in_text [OF free(1)] read_name_until [OF free(2)] split_on_none [of name "\<lambda>c. c = CHR ''|''"] free(3)
    by (simp add: piece clean_name_def)
qed

lemma strictly_sorted_dedup: "sorted (xs :: 'a::linorder list) \<Longrightarrow> sorted_wrt (<) (remdups_adj xs)"
  by (induction xs rule: remdups_adj.induct) (auto simp: order.strict_iff_order)

text \<open>The variables an administrator is shown for a template of plain text and placeholders are the names
  between the braces, without surrounding blanks, without block markers, each once and in order.\<close>

theorem extract_variables_exact:
  assumes "\<forall>(t, name) \<in> set pieces. CHR ''{'' \<notin> set t \<and> CHR ''}'' \<notin> set name \<and> CHR ''|'' \<notin> set name" "CHR ''{'' \<notin> set rest"
    and "template = concat (map (\<lambda>(t, name). t @ ''{{'' @ name @ ''}}'') pieces) @ rest"
  shows "set (extract_variables template) = {trim name |t name. (t, name) \<in> set pieces \<and> is_variable (trim name)}
    \<and> sorted_wrt (<) (extract_variables template)"
  using variables_in_pieces [OF assms(1,2)]
  by (force simp: extract_variables_def assms(3) strictly_sorted_dedup)

end
