(* ===== verification/Mail_Models.thy ===== *)
theory Mail_Models
  imports Mail_Templates
begin

text \<open>
  The structs of the mail subsystem and their conversions: \<^verbatim>\<open>backend/src/models/email.rs\<close>.
\<close>

section \<open>Providers\<close>

datatype mail_provider_type = Smtp | Ses | Sendgrid

fun mail_provider_type_str :: "mail_provider_type \<Rightarrow> string" where
  "mail_provider_type_str Smtp = ''smtp''"
| "mail_provider_type_str Ses = ''ses''"
| "mail_provider_type_str Sendgrid = ''sendgrid''"

definition mail_provider_type_from_str :: "string \<Rightarrow> mail_provider_type option" where
  "mail_provider_type_from_str s =
     (if to_lowercase s = ''smtp'' then Some Smtp else if to_lowercase s = ''ses'' then Some Ses
      else if to_lowercase s = ''sendgrid'' then Some Sendgrid else None)"

datatype tls_mode = Starttls | ImplicitTls | NoTls

fun tls_mode_str :: "tls_mode \<Rightarrow> string" where
  "tls_mode_str Starttls = ''starttls''"
| "tls_mode_str ImplicitTls = ''implicit_tls''"
| "tls_mode_str NoTls = ''none''"

definition tls_mode_from_str :: "string \<Rightarrow> tls_mode option" where
  "tls_mode_from_str s =
     (if to_lowercase s = ''starttls'' then Some Starttls
      else if to_lowercase s \<in> {''implicit_tls'', ''tls''} then Some ImplicitTls
      else if to_lowercase s = ''none'' then Some NoTls else None)"

record mail_provider_settings =
  mp_id :: uuid
  mp_tenant_id :: "uuid option"
  mp_provider_type :: mail_provider_type
  mp_host :: string
  mp_port :: int
  mp_username :: string
  mp_password_encrypted :: string
  mp_tls_mode :: tls_mode
  mp_skip_cert_verify :: bool
  mp_from_address :: string
  mp_from_name :: string
  mp_reply_to :: "string option"
  mp_max_emails_per_minute :: int
  mp_max_emails_per_hour :: int
  mp_enabled :: bool
  mp_is_default :: bool
  mp_created_at :: int
  mp_updated_at :: int
  mp_created_by :: "uuid option"

record mail_provider_response =
  mpr_id :: uuid
  mpr_tenant_id :: "uuid option"
  mpr_provider_type :: string
  mpr_host :: string
  mpr_port :: int
  mpr_username :: string
  mpr_has_password :: bool
  mpr_tls_mode :: string
  mpr_skip_cert_verify :: bool
  mpr_from_address :: string
  mpr_from_name :: string
  mpr_reply_to :: "string option"
  mpr_max_emails_per_minute :: int
  mpr_max_emails_per_hour :: int
  mpr_enabled :: bool
  mpr_is_default :: bool
  mpr_created_at :: int
  mpr_updated_at :: int

definition mail_provider_response_of :: "mail_provider_settings \<Rightarrow> mail_provider_response" where
  "mail_provider_response_of s =
     \<lparr>mpr_id = mp_id s, mpr_tenant_id = mp_tenant_id s, mpr_provider_type = mail_provider_type_str (mp_provider_type s),
      mpr_host = mp_host s, mpr_port = mp_port s, mpr_username = mp_username s,
      mpr_has_password = (mp_password_encrypted s \<noteq> []), mpr_tls_mode = tls_mode_str (mp_tls_mode s),
      mpr_skip_cert_verify = mp_skip_cert_verify s, mpr_from_address = mp_from_address s,
      mpr_from_name = mp_from_name s, mpr_reply_to = mp_reply_to s,
      mpr_max_emails_per_minute = mp_max_emails_per_minute s, mpr_max_emails_per_hour = mp_max_emails_per_hour s,
      mpr_enabled = mp_enabled s, mpr_is_default = mp_is_default s, mpr_created_at = mp_created_at s,
      mpr_updated_at = mp_updated_at s\<rparr>"

section \<open>Workflows\<close>

datatype workflow_key =
    UserRegistration | EmailVerification | PasswordReset | PasswordChanged | SecurityAlert
  | Announcements | OfflineMessages | MentionNotifications | AdminInvite | WeeklyDigest

fun workflow_key_str :: "workflow_key \<Rightarrow> string" where
  "workflow_key_str UserRegistration = ''user_registration''"
| "workflow_key_str EmailVerification = ''email_verification''"
| "workflow_key_str PasswordReset = ''password_reset''"
| "workflow_key_str PasswordChanged = ''password_changed''"
| "workflow_key_str SecurityAlert = ''security_alert''"
| "workflow_key_str Announcements = ''announcements''"
| "workflow_key_str OfflineMessages = ''offline_messages''"
| "workflow_key_str MentionNotifications = ''mention_notifications''"
| "workflow_key_str AdminInvite = ''admin_invite''"
| "workflow_key_str WeeklyDigest = ''weekly_digest''"

definition workflow_key_from_str :: "string \<Rightarrow> workflow_key option" where
  "workflow_key_from_str s = find (\<lambda>k. workflow_key_str k = s)
     [UserRegistration, EmailVerification, PasswordReset, PasswordChanged, SecurityAlert, Announcements,
      OfflineMessages, MentionNotifications, AdminInvite, WeeklyDigest]"

definition workflow_is_required :: "workflow_key \<Rightarrow> bool" where
  "workflow_is_required k \<longleftrightarrow> k \<in> {UserRegistration, EmailVerification, PasswordReset, SecurityAlert}"

fun workflow_category :: "workflow_key \<Rightarrow> string" where
  "workflow_category Announcements = ''marketing''"
| "workflow_category k =
     (if k \<in> {UserRegistration, EmailVerification, PasswordReset, PasswordChanged, SecurityAlert} then ''system''
      else ''notification'')"

record workflow_policy =
  wp_token_expiry_hours :: "int option"
  wp_require_opt_in :: "bool option"
  wp_list_unsubscribe :: "bool option"
  wp_throttle_minutes :: "int option"
  wp_max_per_hour :: "int option"
  wp_include_excerpt :: "bool option"
  wp_respect_quiet_hours :: "bool option"
  wp_day_of_week :: "int option"
  wp_hour :: "int option"

record notification_workflow =
  nw_id :: uuid
  nw_tenant_id :: "uuid option"
  nw_workflow_key :: string
  nw_name :: string
  nw_description :: "string option"
  nw_category :: string
  nw_enabled :: bool
  nw_system_required :: bool
  nw_default_locale :: string
  nw_selected_template_family_id :: "uuid option"
  nw_policy :: workflow_policy
  nw_created_at :: int
  nw_updated_at :: int
  nw_created_by :: "uuid option"

record workflow_response =
  wr_id :: uuid
  wr_tenant_id :: "uuid option"
  wr_workflow_key :: string
  wr_name :: string
  wr_description :: "string option"
  wr_category :: string
  wr_enabled :: bool
  wr_system_required :: bool
  wr_can_disable :: bool
  wr_default_locale :: string
  wr_selected_template_family_id :: "uuid option"
  wr_policy :: workflow_policy
  wr_created_at :: int
  wr_updated_at :: int

definition workflow_response_of :: "notification_workflow \<Rightarrow> workflow_response" where
  "workflow_response_of w =
     \<lparr>wr_id = nw_id w, wr_tenant_id = nw_tenant_id w, wr_workflow_key = nw_workflow_key w, wr_name = nw_name w,
      wr_description = nw_description w, wr_category = nw_category w, wr_enabled = nw_enabled w,
      wr_system_required = nw_system_required w, wr_can_disable = (\<not> nw_system_required w),
      wr_default_locale = nw_default_locale w, wr_selected_template_family_id = nw_selected_template_family_id w,
      wr_policy = nw_policy w, wr_created_at = nw_created_at w, wr_updated_at = nw_updated_at w\<rparr>"

record email_template_family =
  etf_id :: uuid
  etf_tenant_id :: "uuid option"
  etf_key :: string
  etf_name :: string
  etf_description :: "string option"
  etf_workflow_key :: "string option"
  etf_is_system :: bool
  etf_created_at :: int
  etf_updated_at :: int
  etf_created_by :: "uuid option"

section \<open>Outbox and events\<close>

datatype email_status = Queued | Sending | Sent | Failed | Cancelled
datatype email_priority = High | Normal | Low

record email_outbox =
  ob_id :: uuid
  ob_tenant_id :: "uuid option"
  ob_workflow_key :: "string option"
  ob_template_family_id :: "uuid option"
  ob_template_version :: "int option"
  ob_locale :: "string option"
  ob_recipient_email :: string
  ob_recipient_user_id :: "uuid option"
  ob_subject :: string
  ob_body_text :: "string option"
  ob_body_html :: "string option"
  ob_payload :: json
  ob_headers :: "json option"
  ob_status :: email_status
  ob_priority :: email_priority
  ob_scheduled_at :: "int option"
  ob_send_after :: "int option"
  ob_attempt_count :: int
  ob_max_attempts :: int
  ob_next_attempt_at :: "int option"
  ob_last_error_category :: "string option"
  ob_last_error_message :: "string option"
  ob_provider_id :: "uuid option"
  ob_provider_message_id :: "string option"
  ob_sent_at :: "int option"
  ob_throttle_key :: "string option"
  ob_created_at :: int
  ob_updated_at :: int
  ob_created_by :: "uuid option"
  ob_source_ip :: "string option"
  ob_source_service :: "string option"

fun email_status_str :: "email_status \<Rightarrow> string" where
  "email_status_str Queued = ''queued''"
| "email_status_str Sending = ''sending''"
| "email_status_str Sent = ''sent''"
| "email_status_str Failed = ''failed''"
| "email_status_str Cancelled = ''cancelled''"

fun email_priority_str :: "email_priority \<Rightarrow> string" where
  "email_priority_str High = ''high''"
| "email_priority_str Normal = ''normal''"
| "email_priority_str Low = ''low''"

record email_outbox_response =
  obr_id :: uuid
  obr_workflow_key :: "string option"
  obr_recipient_email :: string
  obr_recipient_user_id :: "uuid option"
  obr_subject :: string
  obr_status :: string
  obr_priority :: string
  obr_attempt_count :: int
  obr_max_attempts :: int
  obr_sent_at :: "int option"
  obr_created_at :: int

definition email_outbox_response_of :: "email_outbox \<Rightarrow> email_outbox_response" where
  "email_outbox_response_of e =
     \<lparr>obr_id = ob_id e, obr_workflow_key = ob_workflow_key e, obr_recipient_email = ob_recipient_email e,
      obr_recipient_user_id = ob_recipient_user_id e, obr_subject = ob_subject e,
      obr_status = email_status_str (ob_status e), obr_priority = email_priority_str (ob_priority e),
      obr_attempt_count = ob_attempt_count e, obr_max_attempts = ob_max_attempts e, obr_sent_at = ob_sent_at e,
      obr_created_at = ob_created_at e\<rparr>"

datatype email_event_type =
    EQueued | ESent | EDelivered | EBounced | EFailed | EOpened | EClicked | EUnsubscribed | EComplained

fun email_event_type_str :: "email_event_type \<Rightarrow> string" where
  "email_event_type_str EQueued = ''queued''"
| "email_event_type_str ESent = ''sent''"
| "email_event_type_str EDelivered = ''delivered''"
| "email_event_type_str EBounced = ''bounced''"
| "email_event_type_str EFailed = ''failed''"
| "email_event_type_str EOpened = ''opened''"
| "email_event_type_str EClicked = ''clicked''"
| "email_event_type_str EUnsubscribed = ''unsubscribed''"
| "email_event_type_str EComplained = ''complained''"

record email_event =
  ev_id :: uuid
  ev_outbox_id :: "uuid option"
  ev_tenant_id :: "uuid option"
  ev_workflow_key :: "string option"
  ev_event_type :: string
  ev_recipient_email :: string
  ev_recipient_user_id :: "uuid option"
  ev_template_family_id :: "uuid option"
  ev_template_version :: "int option"
  ev_locale :: "string option"
  ev_provider_id :: "uuid option"
  ev_provider_message_id :: "string option"
  ev_status_code :: "int option"
  ev_error_category :: "string option"
  ev_error_message :: "string option"
  ev_provider_response :: "json option"
  ev_ip_address :: "string option"
  ev_user_agent :: "string option"
  ev_created_at :: int

record email_event_response =
  evr_id :: uuid
  evr_outbox_id :: "uuid option"
  evr_workflow_key :: "string option"
  evr_event_type :: string
  evr_recipient_email :: string
  evr_template_version :: "int option"
  evr_locale :: "string option"
  evr_status_code :: "int option"
  evr_error_category :: "string option"
  evr_error_message :: "string option"
  evr_created_at :: int

definition email_event_response_of :: "email_event \<Rightarrow> email_event_response" where
  "email_event_response_of e =
     \<lparr>evr_id = ev_id e, evr_outbox_id = ev_outbox_id e, evr_workflow_key = ev_workflow_key e,
      evr_event_type = ev_event_type e, evr_recipient_email = ev_recipient_email e,
      evr_template_version = ev_template_version e, evr_locale = ev_locale e, evr_status_code = ev_status_code e,
      evr_error_category = ev_error_category e, evr_error_message = ev_error_message e, evr_created_at = ev_created_at e\<rparr>"

section \<open>Preferences\<close>

record quiet_hours =
  qh_enabled :: bool
  qh_start :: string
  qh_end :: string
  qh_timezone :: string

text \<open>\<^verbatim>\<open>QuietHoursConfig::default()\<close> is derived: all fields empty.\<close>

definition default_quiet_hours :: quiet_hours where
  "default_quiet_hours = \<lparr>qh_enabled = False, qh_start = [], qh_end = [], qh_timezone = []\<rparr>"

record user_notification_prefs =
  np_id :: uuid
  np_user_id :: uuid
  np_email_enabled :: bool
  np_announcements_opt_in :: "bool option"
  np_offline_notifications_opt_in :: "bool option"
  np_mention_notifications_opt_in :: "bool option"
  np_digest_opt_in :: "bool option"
  np_quiet_hours :: "quiet_hours option"
  np_locale :: "string option"
  np_offline_throttle_minutes :: "int option"
  np_include_message_content :: bool
  np_created_at :: int
  np_updated_at :: int

record update_prefs_request =
  ur_email_enabled :: "bool option"
  ur_announcements_opt_in :: "bool option"
  ur_offline_notifications_opt_in :: "bool option"
  ur_mention_notifications_opt_in :: "bool option"
  ur_digest_opt_in :: "bool option"
  ur_quiet_hours :: "quiet_hours option"
  ur_locale :: "string option"
  ur_offline_throttle_minutes :: "int option"
  ur_include_message_content :: "bool option"

record user_prefs_response =
  upr_user_id :: uuid
  upr_email_enabled :: bool
  upr_announcements_opt_in :: "bool option"
  upr_offline_notifications_opt_in :: "bool option"
  upr_mention_notifications_opt_in :: "bool option"
  upr_digest_opt_in :: "bool option"
  upr_quiet_hours :: "quiet_hours option"
  upr_locale :: "string option"
  upr_offline_throttle_minutes :: "int option"
  upr_include_message_content :: bool

definition user_prefs_response_of :: "user_notification_prefs \<Rightarrow> user_prefs_response" where
  "user_prefs_response_of p =
     \<lparr>upr_user_id = np_user_id p, upr_email_enabled = np_email_enabled p,
      upr_announcements_opt_in = np_announcements_opt_in p,
      upr_offline_notifications_opt_in = np_offline_notifications_opt_in p,
      upr_mention_notifications_opt_in = np_mention_notifications_opt_in p, upr_digest_opt_in = np_digest_opt_in p,
      upr_quiet_hours = np_quiet_hours p, upr_locale = np_locale p,
      upr_offline_throttle_minutes = np_offline_throttle_minutes p,
      upr_include_message_content = np_include_message_content p\<rparr>"

end
