(* ===== verification/Mail_Service.thy ===== *)
theory Mail_Service
  imports Mail_Models
begin

text \<open>
  The mail service: \<^verbatim>\<open>backend/src/services/email_service.rs\<close>. A mail is rendered and put into the outbox, from where
  the worker of \<^verbatim>\<open>jobs/email_worker.rs\<close> sends it. The mail tables extend the database; \<open>mx_new_id n\<close> is what
  \<^verbatim>\<open>gen_random_uuid()\<close> gives in statement \<open>n\<close>.
\<close>

section \<open>State and environment\<close>

record mail_db = db +
  ml_workflows :: "notification_workflow list"
  ml_families :: "email_template_family list"
  ml_versions :: "email_template_version list"
  ml_prefs :: "user_notification_prefs list"
  ml_providers :: "mail_provider_settings list"
  ml_outbox :: "email_outbox list"
  ml_events :: "email_event list"

record mail_env =
  mx_down :: down
  mx_handlebars :: handlebars
  mx_new_id :: "nat \<Rightarrow> uuid"

datatype email_service_error =
    DatabaseFailed sqlx_error
  | ProviderFailed string
  | TemplateFailed string
  | Misconfigured string
  | WorkflowDisabled string
  | UserOptedOut string
  | Throttled string
  | QuietHours string

fun email_service_message :: "email_service_error \<Rightarrow> string" where
  "email_service_message (DatabaseFailed e) = ''Database error: '' @ sqlx_message e"
| "email_service_message (ProviderFailed s) = ''Provider error: '' @ s"
| "email_service_message (TemplateFailed s) = ''Template error: '' @ s"
| "email_service_message (Misconfigured s) = ''Configuration error: '' @ s"
| "email_service_message (WorkflowDisabled s) = ''Workflow disabled: '' @ s"
| "email_service_message (UserOptedOut s) = ''User opted out: '' @ s"
| "email_service_message (Throttled s) = ''Rate limited: '' @ s"
| "email_service_message (QuietHours s) = ''Quiet hours: '' @ s"

type_synonym ('a, 'd) mail = "(email_service_error, 'a, 'd mail_db_scheme) handler"

record enqueue_options =
  eo_locale :: "string option"
  eo_priority :: email_priority
  eo_scheduled_at :: "int option"
  eo_headers :: "json option"
  eo_throttle_key :: "string option"
  eo_created_by :: "uuid option"

definition default_enqueue_options :: enqueue_options where
  "default_enqueue_options = \<lparr>eo_locale = None, eo_priority = Normal, eo_scheduled_at = None, eo_headers = None,
     eo_throttle_key = None, eo_created_by = None\<rparr>"

section \<open>Checks before a mail is written\<close>

definition get_user_tenant :: "mail_env \<Rightarrow> uuid \<Rightarrow> (uuid option, 'd) mail" where
  "get_user_tenant env user_id =
     hmap_err DatabaseFailed (fetch (mx_down env)
       (\<lambda>s. Option.bind (find (\<lambda>u. usr_id u = user_id) (db_accounts s)) usr_org_id))"

text \<open>The statement looks for rows of the given tenant only: with a tenant the second disjunct is false.\<close>

definition workflow_row :: "string \<Rightarrow> uuid option \<Rightarrow> notification_workflow list \<Rightarrow> notification_workflow option" where
  "workflow_row key tenant rows = find (\<lambda>w. nw_workflow_key w = key \<and>
     (tenant \<noteq> None \<and> nw_tenant_id w = tenant \<or> nw_tenant_id w = None \<and> tenant = None)) rows"

definition get_workflow :: "mail_env \<Rightarrow> string \<Rightarrow> uuid option \<Rightarrow> (notification_workflow, 'd) mail" where
  "get_workflow env key tenant =
     hbind (hmap_err DatabaseFailed (fetch (mx_down env) (\<lambda>s. workflow_row key tenant (ml_workflows s)))) (\<lambda>workflow.
     hsome_of workflow (Misconfigured (''Workflow '' @ [CHR 0x27] @ key @ [CHR 0x27] @ '' not found'')))"

definition opt_in :: "string \<Rightarrow> user_notification_prefs \<Rightarrow> bool option" where
  "opt_in key prefs =
     (if key = ''announcements'' then np_announcements_opt_in prefs
      else if key = ''offline_messages'' then np_offline_notifications_opt_in prefs
      else if key = ''mention_notifications'' then np_mention_notifications_opt_in prefs
      else if key = ''weekly_digest'' then np_digest_opt_in prefs else None)"

definition query_prefs :: "mail_env \<Rightarrow> uuid \<Rightarrow> (user_notification_prefs option, 'd) mail" where
  "query_prefs env user_id =
     hmap_err DatabaseFailed (fetch (mx_down env) (\<lambda>s. find (\<lambda>p. np_user_id p = user_id) (ml_prefs s)))"

definition check_user_preferences :: "mail_env \<Rightarrow> string \<Rightarrow> uuid \<Rightarrow> (unit, 'd) mail" where
  "check_user_preferences env key user_id =
     hbind (query_prefs env user_id) (\<lambda>prefs.
       case prefs of
         None \<Rightarrow> hreturn ()
       | Some prefs \<Rightarrow>
           if \<not> np_email_enabled prefs then hfail (UserOptedOut ''User has disabled all emails'')
           else if opt_in key prefs = Some False
           then hfail (UserOptedOut (''User has opted out of '' @ [CHR 0x27] @ key @ [CHR 0x27]))
           else hreturn ())"

definition is_throttled :: "mail_env \<Rightarrow> int \<Rightarrow> string \<Rightarrow> workflow_policy \<Rightarrow> (bool, 'd) mail" where
  "is_throttled env now throttle_key policy =
     (let throttle_minutes = (case wp_throttle_minutes policy of Some m \<Rightarrow> m | None \<Rightarrow> 5);
          since = now - throttle_minutes * 60000
      in hmap_err DatabaseFailed (fetch (mx_down env) (\<lambda>s.
           0 < length (filter (\<lambda>m. ob_throttle_key m = Some throttle_key \<and> ob_created_at m > since) (ml_outbox s)))))"

text \<open>\<^verbatim>\<open>ORDER BY version DESC LIMIT 1\<close>.\<close>

definition published_version :: "uuid \<Rightarrow> string \<Rightarrow> email_template_version list \<Rightarrow> email_template_version option" where
  "published_version family_id locale versions =
     (case sort_key (\<lambda>v. - etv_version v)
        (filter (\<lambda>v. etv_family_id v = family_id \<and> etv_locale v = locale \<and> etv_status v = Published) versions) of
        [] \<Rightarrow> None | v # _ \<Rightarrow> Some v)"

fun find_template :: "mail_env \<Rightarrow> uuid \<Rightarrow> string list \<Rightarrow> (email_template_version option, 'd) mail" where
  "find_template env family_id [] = hreturn None"
| "find_template env family_id (locale # locales) =
     hbind (hmap_err DatabaseFailed (fetch (mx_down env) (\<lambda>s. published_version family_id locale (ml_versions s))))
       (\<lambda>template. if template \<noteq> None then hreturn template else find_template env family_id locales)"

definition get_template_for_workflow ::
  "mail_env \<Rightarrow> notification_workflow \<Rightarrow> string option \<Rightarrow> (email_template_family \<times> email_template_version, 'd) mail" where
  "get_template_for_workflow env workflow locale =
     hbind (hsome_of (nw_selected_template_family_id workflow)
       (Misconfigured (''No template family configured for workflow '' @ [CHR 0x27] @ nw_workflow_key workflow @ [CHR 0x27])))
       (\<lambda>family_id.
     hbind (hmap_err DatabaseFailed (fetch_one (mx_down env) (\<lambda>s. find (\<lambda>f. etf_id f = family_id) (ml_families s))))
       (\<lambda>family.
     hbind (find_template env family_id [case locale of Some l \<Rightarrow> l | None \<Rightarrow> nw_default_locale workflow, ''en''])
       (\<lambda>template.
     hbind (hsome_of template
       (Misconfigured (''No published template found for family '' @ [CHR 0x27] @ etf_key family @ [CHR 0x27])))
       (\<lambda>template. hreturn (family, template)))))"

section \<open>Quiet hours\<close>

definition wrap_i32 :: "int \<Rightarrow> int" where
  "wrap_i32 x = (x + 2147483648) mod 4294967296 - 2147483648"

definition parse_i32 :: "string \<Rightarrow> int option" where
  "parse_i32 s = Option.bind (parse_i64 s) (\<lambda>n. if - 2147483648 \<le> n \<and> n \<le> 2147483647 then Some n else None)"

text \<open>\<^verbatim>\<open>split(':').filter_map(parse)\<close>, of which there must be two, as minutes of the day.\<close>

definition clock_minutes :: "string \<Rightarrow> int option" where
  "clock_minutes time =
     (case List.map_filter parse_i32 (split_on (\<lambda>c. c = CHR '':'') time) of
        [hour, minute] \<Rightarrow> Some (wrap_i32 (wrap_i32 (hour * 60) + minute))
      | _ \<Rightarrow> None)"

definition minute_of_day :: "int \<Rightarrow> int" where
  "minute_of_day now = now div 60000 mod 1440"

definition in_quiet_hours :: "int \<Rightarrow> int \<Rightarrow> int \<Rightarrow> bool" where
  "in_quiet_hours current start end =
     (if start < end then start \<le> current \<and> current < end else start \<le> current \<or> current < end)"

definition minutes_until_end :: "int \<Rightarrow> int \<Rightarrow> int \<Rightarrow> int" where
  "minutes_until_end current start end =
     (if start \<le> current then wrap_i32 (24 * 60 - current + end) else wrap_i32 (end - current))"

definition send_after_quiet_hours :: "int \<Rightarrow> quiet_hours \<Rightarrow> int option" where
  "send_after_quiet_hours now q =
     (if \<not> qh_enabled q then None
      else (case (clock_minutes (qh_start q), clock_minutes (qh_end q)) of
              (Some start, Some end) \<Rightarrow>
                (let current = minute_of_day now
                 in if in_quiet_hours current start end
                    then Some (now + minutes_until_end current start end * 60000) else None)
            | _ \<Rightarrow> None))"

definition calculate_send_after :: "mail_env \<Rightarrow> int \<Rightarrow> uuid \<Rightarrow> workflow_policy \<Rightarrow> (int option, 'd) mail" where
  "calculate_send_after env now user_id policy =
     (if wp_respect_quiet_hours policy = Some False then hreturn None
      else hbind (query_prefs env user_id) (\<lambda>prefs.
        hreturn (send_after_quiet_hours now
          (case Option.bind prefs np_quiet_hours of Some q \<Rightarrow> q | None \<Rightarrow> default_quiet_hours))))"

section \<open>Writing a mail\<close>

definition record_event ::
  "mail_env \<Rightarrow> int \<Rightarrow> uuid option \<Rightarrow> uuid option \<Rightarrow> string \<Rightarrow> email_event_type \<Rightarrow> string \<Rightarrow> uuid option \<Rightarrow>
     string option \<Rightarrow> string option \<Rightarrow> (unit, 'd) mail" where
  "record_event env now outbox_id tenant_id key event_type recipient recipient_user_id error_category error_message =
     hmap_err DatabaseFailed (sql_execute (mx_down env) (\<lambda>s. s\<lparr>ml_events := ml_events s @
       [\<lparr>ev_id = mx_new_id env (db_statements s), ev_outbox_id = outbox_id, ev_tenant_id = tenant_id,
         ev_workflow_key = Some key, ev_event_type = email_event_type_str event_type, ev_recipient_email = recipient,
         ev_recipient_user_id = recipient_user_id, ev_template_family_id = None, ev_template_version = None,
         ev_locale = None, ev_provider_id = None, ev_provider_message_id = None, ev_status_code = None,
         ev_error_category = error_category, ev_error_message = error_message, ev_provider_response = None,
         ev_ip_address = None, ev_user_agent = None, ev_created_at = now\<rparr>]\<rparr>))"

definition insert_mail ::
  "mail_env \<Rightarrow> int \<Rightarrow> uuid option \<Rightarrow> string \<Rightarrow> email_template_family \<Rightarrow> email_template_version \<Rightarrow> string \<Rightarrow> uuid option \<Rightarrow>
     rendered_email \<Rightarrow> json \<Rightarrow> int option \<Rightarrow> enqueue_options \<Rightarrow> (uuid, 'd) mail" where
  "insert_mail env now tenant_id key family version recipient recipient_user_id rendered payload send_after options =
     hmap_err DatabaseFailed (statement (mx_down env) (\<lambda>s.
       (let new_id = mx_new_id env (db_statements s) in
        (new_id, s\<lparr>ml_outbox := ml_outbox s @
          [\<lparr>ob_id = new_id, ob_tenant_id = tenant_id, ob_workflow_key = Some key,
            ob_template_family_id = Some (etf_id family), ob_template_version = Some (etv_version version),
            ob_locale = Some (etv_locale version), ob_recipient_email = recipient,
            ob_recipient_user_id = recipient_user_id, ob_subject = re_subject rendered,
            ob_body_text = Some (re_body_text rendered), ob_body_html = re_body_html rendered, ob_payload = payload,
            ob_headers = eo_headers options, ob_status = Queued, ob_priority = eo_priority options,
            ob_scheduled_at = eo_scheduled_at options, ob_send_after = send_after, ob_attempt_count = 0,
            ob_max_attempts = 3, ob_next_attempt_at = None, ob_last_error_category = None,
            ob_last_error_message = None, ob_provider_id = None, ob_provider_message_id = None, ob_sent_at = None,
            ob_throttle_key = eo_throttle_key options, ob_created_at = now, ob_updated_at = now,
            ob_created_by = eo_created_by options, ob_source_ip = None, ob_source_service = None\<rparr>]\<rparr>))))"

definition enqueue_email ::
  "mail_env \<Rightarrow> int \<Rightarrow> string \<Rightarrow> string \<Rightarrow> uuid option \<Rightarrow> json \<Rightarrow> enqueue_options \<Rightarrow> (uuid, 'd) mail" where
  "enqueue_email env now key recipient recipient_user_id payload options =
     hbind (case recipient_user_id of Some user_id \<Rightarrow> get_user_tenant env user_id | None \<Rightarrow> hreturn None) (\<lambda>tenant_id.
     hbind (get_workflow env key tenant_id) (\<lambda>workflow.
     hbind (if nw_enabled workflow then hreturn ()
            else hfail (WorkflowDisabled (''Workflow '' @ [CHR 0x27] @ key @ [CHR 0x27] @ '' is disabled''))) (\<lambda>_.
     hbind (case recipient_user_id of Some user_id \<Rightarrow> check_user_preferences env key user_id | None \<Rightarrow> hreturn ()) (\<lambda>_.
     hbind (case eo_throttle_key options of
              Some throttle_key \<Rightarrow>
                hbind (is_throttled env now throttle_key (nw_policy workflow)) (\<lambda>throttled.
                  if throttled then hfail (Throttled (''Email throttled for key: '' @ throttle_key)) else hreturn ())
            | None \<Rightarrow> hreturn ()) (\<lambda>_.
     hbind (get_template_for_workflow env workflow (eo_locale options)) (\<lambda>(family, version).
     hbind (hlift (case render_email (mx_handlebars env) version (render_context_new\<lparr>rc_variables := payload\<rparr>) of
              Inl e \<Rightarrow> Inl (TemplateFailed (template_error_message e)) | Inr r \<Rightarrow> Inr r)) (\<lambda>rendered.
     hbind (case recipient_user_id of
              Some user_id \<Rightarrow> calculate_send_after env now user_id (nw_policy workflow) | None \<Rightarrow> hreturn None) (\<lambda>send_after.
     hbind (insert_mail env now tenant_id key family version recipient recipient_user_id rendered payload send_after options)
       (\<lambda>outbox_id.
     hbind (record_event env now (Some outbox_id) tenant_id key EQueued recipient recipient_user_id None None) (\<lambda>_.
     hreturn outbox_id))))))))))"

section \<open>Queries and preferences\<close>

record outbox_filters =
  of_status :: "email_status option"
  of_workflow_key :: "string option"
  of_recipient_email :: "string option"
  of_recipient_user_id :: "uuid option"

definition get_outbox_entry :: "mail_env \<Rightarrow> uuid \<Rightarrow> (email_outbox option, 'd) mail" where
  "get_outbox_entry env ident =
     hmap_err DatabaseFailed (fetch (mx_down env) (\<lambda>s. find (\<lambda>m. ob_id m = ident) (ml_outbox s)))"

definition matches_filters :: "outbox_filters \<Rightarrow> email_outbox \<Rightarrow> bool" where
  "matches_filters f m \<longleftrightarrow>
     (case of_status f of None \<Rightarrow> True | Some x \<Rightarrow> ob_status m = x) \<and>
     (case of_workflow_key f of None \<Rightarrow> True | Some x \<Rightarrow> ob_workflow_key m = Some x) \<and>
     (case of_recipient_email f of None \<Rightarrow> True | Some x \<Rightarrow> ob_recipient_email m = x) \<and>
     (case of_recipient_user_id f of None \<Rightarrow> True | Some x \<Rightarrow> ob_recipient_user_id m = Some x)"

text \<open>A negative \<^verbatim>\<open>LIMIT\<close> or \<^verbatim>\<open>OFFSET\<close> is an error of the database.\<close>

definition list_outbox :: "mail_env \<Rightarrow> outbox_filters \<Rightarrow> int \<Rightarrow> int \<Rightarrow> (email_outbox list, 'd) mail" where
  "list_outbox env filters limit offset =
     hbind (hmap_err DatabaseFailed (fetch (mx_down env) (\<lambda>s. rev (sort_key ob_created_at (filter (matches_filters filters) (ml_outbox s))))))
       (\<lambda>rows. if limit < 0 then hfail (DatabaseFailed (Unavailable ''LIMIT must not be negative''))
               else if offset < 0 then hfail (DatabaseFailed (Unavailable ''OFFSET must not be negative''))
               else hreturn (take (nat limit) (drop (nat offset) rows)))"

definition get_events :: "mail_env \<Rightarrow> uuid \<Rightarrow> (email_event list, 'd) mail" where
  "get_events env outbox_id =
     hmap_err DatabaseFailed (fetch (mx_down env) (\<lambda>s. sort_key ev_created_at (filter (\<lambda>e. ev_outbox_id e = Some outbox_id) (ml_events s))))"

definition get_user_prefs :: "mail_env \<Rightarrow> int \<Rightarrow> uuid \<Rightarrow> (user_notification_prefs, 'd) mail" where
  "get_user_prefs env now user_id =
     hbind (query_prefs env user_id) (\<lambda>prefs.
       case prefs of
         Some p \<Rightarrow> hreturn p
       | None \<Rightarrow> hmap_err DatabaseFailed (statement (mx_down env) (\<lambda>s.
           (let p = \<lparr>np_id = mx_new_id env (db_statements s), np_user_id = user_id, np_email_enabled = True,
                     np_announcements_opt_in = None, np_offline_notifications_opt_in = Some True,
                     np_mention_notifications_opt_in = Some True, np_digest_opt_in = None, np_quiet_hours = None,
                     np_locale = None, np_offline_throttle_minutes = Some 5, np_include_message_content = True,
                     np_created_at = now, np_updated_at = now\<rparr>
            in (p, s\<lparr>ml_prefs := ml_prefs s @ [p]\<rparr>)))))"

text \<open>\<^verbatim>\<open>COALESCE($n, column)\<close> on a column that may be null, and on one that may not.\<close>

definition coalesce :: "'a option \<Rightarrow> 'a option \<Rightarrow> 'a option" where
  "coalesce x old = (case x of None \<Rightarrow> old | Some _ \<Rightarrow> x)"

definition or_old :: "'a option \<Rightarrow> 'a \<Rightarrow> 'a" where
  "or_old x old = (case x of None \<Rightarrow> old | Some y \<Rightarrow> y)"

definition apply_prefs :: "int \<Rightarrow> update_prefs_request \<Rightarrow> user_notification_prefs \<Rightarrow> user_notification_prefs" where
  "apply_prefs now r p =
     p\<lparr>np_email_enabled := or_old (ur_email_enabled r) (np_email_enabled p),
       np_announcements_opt_in := coalesce (ur_announcements_opt_in r) (np_announcements_opt_in p),
       np_offline_notifications_opt_in := coalesce (ur_offline_notifications_opt_in r) (np_offline_notifications_opt_in p),
       np_mention_notifications_opt_in := coalesce (ur_mention_notifications_opt_in r) (np_mention_notifications_opt_in p),
       np_digest_opt_in := coalesce (ur_digest_opt_in r) (np_digest_opt_in p),
       np_quiet_hours := coalesce (ur_quiet_hours r) (np_quiet_hours p),
       np_locale := coalesce (ur_locale r) (np_locale p),
       np_offline_throttle_minutes := coalesce (ur_offline_throttle_minutes r) (np_offline_throttle_minutes p),
       np_include_message_content := or_old (ur_include_message_content r) (np_include_message_content p),
       np_updated_at := now\<rparr>"

definition update_user_prefs :: "mail_env \<Rightarrow> int \<Rightarrow> uuid \<Rightarrow> update_prefs_request \<Rightarrow> (user_notification_prefs, 'd) mail" where
  "update_user_prefs env now user_id request =
     hbind (get_user_prefs env now user_id) (\<lambda>_.
     hbind (hmap_err DatabaseFailed (statement (mx_down env) (\<lambda>s.
       (let rows = update_where (\<lambda>p. np_user_id p = user_id) (apply_prefs now request) (ml_prefs s)
        in (find (\<lambda>p. np_user_id p = user_id) rows, s\<lparr>ml_prefs := rows\<rparr>))))) (\<lambda>updated.
     hsome_of updated (DatabaseFailed RowNotFound)))"

section \<open>What the checks leave alone\<close>

lemma same_tablesD:
  assumes "same_tables s t"
  shows "ml_outbox t = ml_outbox s" "ml_workflows t = ml_workflows s" "ml_prefs t = ml_prefs s" "ml_events t = ml_events s"
    "ml_versions t = ml_versions s" "ml_providers t = ml_providers s"
  using assms by (auto simp: same_tables_def)

lemma same_find_template [keeping]: "hoare (same_tables s) (find_template env f ls) (same_tables s)"
  by (induction ls) (auto intro!: keeping)

lemma same_checks:
  "hoare (same_tables s) (get_user_tenant env u) (same_tables s)"
  "hoare (same_tables s) (get_workflow env key t) (same_tables s)"
  "hoare (same_tables s) (check_user_preferences env key u) (same_tables s)"
  "hoare (same_tables s) (is_throttled env now k pol) (same_tables s)"
  "hoare (same_tables s) (get_template_for_workflow env w l) (same_tables s)"
  "hoare (same_tables s) (calculate_send_after env now u pol) (same_tables s)"
  unfolding get_user_tenant_def get_workflow_def check_user_preferences_def query_prefs_def is_throttled_def
    get_template_for_workflow_def calculate_send_after_def Let_def
  by (intro keeping)+

lemma same_done:
  "get_user_tenant env u s = (r1, t) \<Longrightarrow> same_tables s t"
  "get_workflow env key tn s = (r2, t) \<Longrightarrow> same_tables s t"
  "check_user_preferences env key u s = (r3, t) \<Longrightarrow> same_tables s t"
  "is_throttled env now k pol s = (r4, t) \<Longrightarrow> same_tables s t"
  "get_template_for_workflow env w l s = (r5, t) \<Longrightarrow> same_tables s t"
  "calculate_send_after env now u pol s = (r6, t) \<Longrightarrow> same_tables s t"
  using same_checks [THEN hoareD, of s s] by (metis snd_conv same_tables_refl)+

section \<open>Properties\<close>

lemma wrap_i32_id: "- 2147483648 \<le> x \<Longrightarrow> x \<le> 2147483647 \<Longrightarrow> wrap_i32 x = x"
  by (simp add: wrap_i32_def)

text \<open>When a mail waits for the end of the recipient's quiet hours: hours that cross midnight end it at their
  end, as they should. Hours within one day (say 13:00 to 15:00) hold it back until their end on the next day: a
  mail written at 14:00 is sent 25 hours later.\<close>

theorem quiet_hours_exact:
  fixes now :: int
  assumes "qh_enabled q" "clock_minutes (qh_start q) = Some start" "clock_minutes (qh_end q) = Some stop"
    and "0 \<le> start" "start < 1440" "0 \<le> stop" "stop < 1440"
  defines "current \<equiv> minute_of_day now"
  shows "send_after_quiet_hours now q =
     (if start < stop
      then if start \<le> current \<and> current < stop then Some (now + (stop - current) * 60000 + 86400000) else None
      else if start \<le> current then Some (now + (1440 - current + stop) * 60000)
      else if current < stop then Some (now + (stop - current) * 60000) else None)"
proof -
  have "0 \<le> current" "current < 1440" unfolding current_def minute_of_day_def by simp_all
  then show ?thesis
    using assms(1-7) by (auto simp: send_after_quiet_hours_def in_quiet_hours_def minutes_until_end_def wrap_i32_id
        current_def [symmetric] Let_def)
qed

definition lunch_break :: quiet_hours where
  "lunch_break = \<lparr>qh_enabled = True, qh_start = ''13:00'', qh_end = ''15:00'', qh_timezone = ''UTC''\<rparr>"

lemma lunch_break_clock: "clock_minutes (qh_start lunch_break) = Some 780" "clock_minutes (qh_end lunch_break) = Some 900"
  by (simp_all add: lunch_break_def clock_minutes_def parse_i32_def parse_i64_def digit_value_def code_point_def
      map_filter_simps wrap_i32_id i64_min_def i64_max_def)

theorem quiet_hours_exact_witness:
  "send_after_quiet_hours 50400000 lunch_break = Some (50400000 + 25 * 3600000)"
  using quiet_hours_exact [of lunch_break 780 900 50400000] lunch_break_clock
  by (simp add: lunch_break_def minute_of_day_def)

text \<open>A user who belongs to an organization gets no mail unless the organization has a workflow of its own: the
  workflow all others use, which the migrations create, is not looked at, and no code creates one for an
  organization. Mails to such a user, password resets among them, fail and nothing is put into the outbox.\<close>

theorem organization_members_get_no_mail:
  assumes "find (\<lambda>u. usr_id u = user_id) (db_accounts s) = Some u" "usr_org_id u = Some org"
    and "\<forall>w \<in> set (ml_workflows s). nw_tenant_id w \<noteq> Some org"
  shows "(\<exists>e. fst (enqueue_email env now key recipient (Some user_id) payload options s) = Inl e)
    \<and> ml_outbox (snd (enqueue_email env now key recipient (Some user_id) payload options s)) = ml_outbox s"
proof -
  have none: "workflow_row key (Some org) (ml_workflows s) = None"
    using assms(3) by (auto simp: workflow_row_def find_None_iff)
  show ?thesis
    by (simp add: enqueue_email_def get_user_tenant_def get_workflow_def fetch_def statement_def handler_defs none
        assms(1,2) Let_def split: option.splits)
qed


section \<open>A small mail system\<close>

definition demo_mail_env :: mail_env where
  "demo_mail_env = \<lparr>mx_down = no_failure, mx_handlebars = \<lparr>hb_register = (\<lambda>_. None), hb_render = (\<lambda>t v. Inr t)\<rparr>,
     mx_new_id = (\<lambda>n. Uuid (of_nat n))\<rparr>"

definition demo_workflow :: notification_workflow where
  "demo_workflow = \<lparr>nw_id = Uuid 40, nw_tenant_id = None, nw_workflow_key = ''password_reset'', nw_name = ''Password Reset'',
     nw_description = None, nw_category = ''system'', nw_enabled = True, nw_system_required = True,
     nw_default_locale = ''en'', nw_selected_template_family_id = Some (Uuid 41),
     nw_policy = \<lparr>wp_token_expiry_hours = Some 24, wp_require_opt_in = None, wp_list_unsubscribe = None,
       wp_throttle_minutes = None, wp_max_per_hour = None, wp_include_excerpt = None, wp_respect_quiet_hours = Some False,
       wp_day_of_week = None, wp_hour = None\<rparr>,
     nw_created_at = 0, nw_updated_at = 0, nw_created_by = None\<rparr>"

definition demo_version :: email_template_version where
  "demo_version = \<lparr>etv_id = Uuid 42, etv_family_id = Uuid 41, etv_version = 1, etv_status = Published, etv_locale = ''en'',
     etv_subject = ''Reset'', etv_body_text = ''Hello'', etv_body_html = [],
     etv_variables_schema = [\<lparr>tv_name = ''user_name'', tv_required = True, tv_default_value = None, tv_description = None\<rparr>],
     etv_is_compiled_from_mjml = False, etv_mjml_source = None, etv_created_at = 0, etv_created_by = None,
     etv_published_at = Some 0, etv_published_by = None\<rparr>"

definition demo_mail_db :: mail_db where
  "demo_mail_db = db.extend demo_db (mail_db.fields [demo_workflow]
     [\<lparr>etf_id = Uuid 41, etf_tenant_id = None, etf_key = ''password_reset'', etf_name = ''Password reset'',
       etf_description = None, etf_workflow_key = None, etf_is_system = True, etf_created_at = 0, etf_updated_at = 0,
       etf_created_by = None\<rparr>] [demo_version] [] [] [] [])"

lemma demo_mail_simps:
  "db_accounts demo_mail_db = [demo_account]" "ml_workflows demo_mail_db = [demo_workflow]" "ml_outbox demo_mail_db = []"
  "ml_prefs demo_mail_db = []" "ml_versions demo_mail_db = [demo_version]"
  by (simp_all add: demo_mail_db_def demo_db_def db.defs mail_db.defs)

theorem organization_members_get_no_mail_witness:
  "\<exists>e. fst (enqueue_email demo_mail_env 0 ''password_reset'' ''ann@example.org'' (Some (Uuid 7)) JNull default_enqueue_options
     (demo_mail_db\<lparr>db_accounts := [demo_account\<lparr>usr_org_id := Some (Uuid 5)\<rparr>]\<rparr>)) = Inl e"
  using organization_members_get_no_mail [of "Uuid 7" "demo_mail_db\<lparr>db_accounts := [demo_account\<lparr>usr_org_id := Some (Uuid 5)\<rparr>]\<rparr>"
      "demo_account\<lparr>usr_org_id := Some (Uuid 5)\<rparr>" "Uuid 5" demo_mail_env 0 "''password_reset''" "''ann@example.org''" JNull
      default_enqueue_options]
  by (simp add: demo_mail_simps demo_workflow_def)

lemma demo_enqueue:
  "\<exists>t. enqueue_email demo_mail_env 0 ''password_reset'' ''ann@example.org'' (Some (Uuid 7))
     (JObject [(''user_name'', JString ''ann'')]) default_enqueue_options demo_mail_db = (Inr (Uuid 6), t)"
  by (simp add: enqueue_email_def get_user_tenant_def get_workflow_def workflow_row_def check_user_preferences_def
      query_prefs_def get_template_for_workflow_def published_version_def render_email_def render_template_def
      get_variable_def calculate_send_after_def insert_mail_def record_event_def fetch_def fetch_one_def sql_execute_def statement_def
      handler_defs Let_def demo_mail_env_def no_failure_def demo_mail_db_def demo_db_def db.defs mail_db.defs
      demo_workflow_def demo_version_def render_context_new_def default_enqueue_options_def)


end
