(* ===== verification/Mail_Worker.thy ===== *)
theory Mail_Worker
  imports Mail_Service Auth
begin

text \<open>
  Sending the mails of the outbox: the SMTP provider of \<^verbatim>\<open>backend/src/services/email_provider.rs\<close>, the worker of
  \<^verbatim>\<open>jobs/email_worker.rs\<close>, and the operations of \<^verbatim>\<open>api/admin_email.rs\<close> on the outbox.

  \<open>wk_handed\<close> is the log of the mails handed over to a mail server. What the mail library does is given by the
  environment: whether it accepts a host, an address or a message, and how the \<open>n\<close>-th transfer ends. The clock and
  the random numbers are read by the number of the statements sent so far.
\<close>

section \<open>The provider\<close>

datatype email_provider_error =
    ConnectionError string
  | AuthenticationError string
  | RateLimitError string
  | InvalidRecipient string
  | InvalidSender string
  | ServerError string
  | ConfigurationError string
  | Other string

fun provider_error_message :: "email_provider_error \<Rightarrow> string" where
  "provider_error_message (ConnectionError msg) = ''Connection error: '' @ msg"
| "provider_error_message (AuthenticationError msg) = ''Authentication error: '' @ msg"
| "provider_error_message (RateLimitError msg) = ''Rate limit: '' @ msg"
| "provider_error_message (InvalidRecipient msg) = ''Invalid recipient: '' @ msg"
| "provider_error_message (InvalidSender msg) = ''Invalid sender: '' @ msg"
| "provider_error_message (ServerError msg) = ''Server error: '' @ msg"
| "provider_error_message (ConfigurationError msg) = ''Configuration error: '' @ msg"
| "provider_error_message (Other msg) = msg"

record email_address =
  ea_email :: string
  ea_name :: "string option"

record email_content =
  ec_subject :: string
  ec_body_text :: string
  ec_body_html :: "string option"
  ec_headers :: "(string \<times> string) list"

datatype transport_tls = Unencrypted | RequiredTls bool

record smtp_transport =
  st_host :: string
  st_port :: int
  st_credentials :: "(string \<times> string) option"
  st_tls :: transport_tls

record smtp_provider =
  sp_settings :: mail_provider_settings
  sp_transport :: smtp_transport

record worker_config =
  wc_poll_interval_secs :: nat
  wc_batch_size :: int
  wc_max_retries :: int
  wc_retry_base_delay_secs :: int
  wc_retry_max_delay_secs :: int
  wc_process_scheduled :: bool

definition default_worker_config :: worker_config where
  "default_worker_config = \<lparr>wc_poll_interval_secs = 10, wc_batch_size = 100, wc_max_retries = 3,
     wc_retry_base_delay_secs = 60, wc_retry_max_delay_secs = 3600, wc_process_scheduled = True\<rparr>"

record worker_env =
  wx_mail :: mail_env
  wx_config :: worker_config
  wx_encryption_key :: string
  wx_decrypt :: "string \<Rightarrow> string \<Rightarrow> app_error + string"
  wx_tls_params :: "string \<Rightarrow> bool \<Rightarrow> string option"
  wx_relay :: "string \<Rightarrow> string option"
  wx_mailbox :: "string \<Rightarrow> string option"
  wx_build :: "email_content \<Rightarrow> string option"
  wx_send :: "nat \<Rightarrow> string + string"
  wx_clock :: "nat \<Rightarrow> int"
  wx_random :: "nat \<Rightarrow> int"

text \<open>The encrypted and the implicit mode build the same transport: TLS is negotiated after connecting in both.\<close>

definition transport_tls_of :: "tls_mode \<Rightarrow> bool \<Rightarrow> transport_tls" where
  "transport_tls_of mode accept_invalid = (case mode of NoTls \<Rightarrow> Unencrypted | _ \<Rightarrow> RequiredTls accept_invalid)"

definition build_transport :: "worker_env \<Rightarrow> mail_provider_settings \<Rightarrow> email_provider_error + smtp_transport" where
  "build_transport env s =
     (let port = mp_port s mod 65536;
          transport = (\<lambda>credentials. case (if mp_tls_mode s = NoTls then None else wx_relay env (mp_host s)) of
            Some e \<Rightarrow> Inl (ConfigurationError (''Transport error: '' @ e))
          | None \<Rightarrow> Inr \<lparr>st_host = mp_host s, st_port = port, st_credentials = credentials,
                        st_tls = transport_tls_of (mp_tls_mode s) (mp_skip_cert_verify s)\<rparr>)
      in if mp_host s = [] then Inl (ConfigurationError ''SMTP host is not configured'')
         else (case wx_tls_params env (mp_host s) (mp_skip_cert_verify s) of
                 Some e \<Rightarrow> Inl (ConfigurationError (''TLS config error: '' @ e))
               | None \<Rightarrow>
                   (if mp_username s = [] then transport None
                    else (case (if mp_password_encrypted s = [] then Inr []
                                else wx_decrypt env (mp_password_encrypted s) (wx_encryption_key env)) of
                            Inl e \<Rightarrow> Inl (ConfigurationError (''Failed to decrypt SMTP password: '' @ app_error_message e))
                          | Inr password \<Rightarrow> transport (Some (mp_username s, password))))))"

definition smtp_provider_new :: "worker_env \<Rightarrow> mail_provider_settings \<Rightarrow> email_provider_error + smtp_provider" where
  "smtp_provider_new env s =
     (case build_transport env s of Inl e \<Rightarrow> Inl e | Inr t \<Rightarrow> Inr \<lparr>sp_settings = s, sp_transport = t\<rparr>)"

definition mentions :: "string list \<Rightarrow> string \<Rightarrow> bool" where
  "mentions words text \<longleftrightarrow> list_ex (\<lambda>w. contains_str w text) words"

definition classify_smtp_error :: "string \<Rightarrow> email_provider_error" where
  "classify_smtp_error error =
     (let lower = to_lowercase error in
      if mentions [''authentication'', ''auth'', ''535''] lower then AuthenticationError error
      else if mentions [''certificate'', ''tls'', ''ssl''] lower then ConnectionError (''TLS error: '' @ error)
      else if mentions [''dns'', ''resolve'', ''connection''] lower then ConnectionError error
      else if mentions [''timeout'', ''timed out''] lower then ConnectionError (''Connection timeout: '' @ error)
      else if mentions [''relay'', ''denied'', ''550''] lower then ServerError (''Relay denied: '' @ error)
      else if mentions [''rate'', ''throttle'', ''421''] lower then RateLimitError error
      else Other error)"

text \<open>\<^verbatim>\<open>MailProviderFactory::create\<close>.\<close>

definition provider_create :: "worker_env \<Rightarrow> mail_provider_settings \<Rightarrow> email_provider_error + smtp_provider" where
  "provider_create env s =
     (case mp_provider_type s of
        Smtp \<Rightarrow> smtp_provider_new env s
      | Ses \<Rightarrow> Inl (ConfigurationError ''SES provider not yet implemented. Use SMTP provider with SES SMTP credentials as a workaround.'')
      | Sendgrid \<Rightarrow> Inl (ConfigurationError ''SendGrid provider not yet implemented. Use SMTP provider with SendGrid SMTP credentials as a workaround.''))"

section \<open>The worker\<close>

record handover =
  ho_mail :: uuid
  ho_from :: email_address
  ho_to :: email_address
  ho_content :: email_content

record worker_db = mail_db +
  wk_handed :: "handover list"
  wk_providers :: "(uuid, smtp_provider) hm"

text \<open>\<^verbatim>\<open>Panicked\<close> is not an error of the code: the task ends and its supervisor starts a new one.\<close>

datatype worker_error =
  WorkerDatabase sqlx_error | Configuration string | Provider string | RateLimited | InQuietHours | Panicked

fun worker_message :: "worker_error \<Rightarrow> string" where
  "worker_message (WorkerDatabase e) = ''Database error: '' @ sqlx_message e"
| "worker_message (Configuration msg) = ''Configuration error: '' @ msg"
| "worker_message (Provider msg) = ''Provider error: '' @ msg"
| "worker_message RateLimited = ''Rate limited''"
| "worker_message InQuietHours = ''In quiet hours''"
| "worker_message Panicked = []"

type_synonym ('a, 'd) worker = "(worker_error, 'a, 'd worker_db_scheme) handler"

definition now_of :: "worker_env \<Rightarrow> ('e, int, 'd db_scheme) handler" where
  "now_of env = hask (\<lambda>s. (wx_clock env (db_statements s), s))"

definition worker_query :: "worker_env \<Rightarrow> ('d worker_db_scheme \<Rightarrow> 'a) \<Rightarrow> ('a, 'd) worker" where
  "worker_query env q = hmap_err WorkerDatabase (fetch (mx_down (wx_mail env)) q)"

definition worker_update :: "worker_env \<Rightarrow> uuid \<Rightarrow> (int \<Rightarrow> email_outbox \<Rightarrow> email_outbox) \<Rightarrow> (unit, 'd) worker" where
  "worker_update env ident f =
     hbind (now_of env) (\<lambda>now. hmap_err WorkerDatabase (sql_execute (mx_down (wx_mail env))
       (\<lambda>s. s\<lparr>ml_outbox := update_where (\<lambda>m. ob_id m = ident) (\<lambda>m. (f now m)\<lparr>ob_updated_at := now\<rparr>) (ml_outbox s)\<rparr>)))"

definition is_due :: "int \<Rightarrow> email_outbox \<Rightarrow> bool" where
  "is_due now m \<longleftrightarrow> ob_status m = Queued
     \<and> (case ob_scheduled_at m of None \<Rightarrow> True | Some t \<Rightarrow> t \<le> now)
     \<and> (case ob_send_after m of None \<Rightarrow> True | Some t \<Rightarrow> t \<le> now)
     \<and> (case ob_next_attempt_at m of None \<Rightarrow> True | Some t \<Rightarrow> t \<le> now)"

fun priority_rank :: "email_priority \<Rightarrow> int" where
  "priority_rank High = 1"
| "priority_rank Normal = 2"
| "priority_rank Low = 3"

text \<open>\<^verbatim>\<open>FOR UPDATE SKIP LOCKED\<close> without a transaction holds its locks for the statement only.\<close>

definition pending :: "int \<Rightarrow> int \<Rightarrow> email_outbox list \<Rightarrow> email_outbox list" where
  "pending now batch_size rows =
     take (nat batch_size) (sort_key (\<lambda>m. priority_rank (ob_priority m)) (sort_key ob_created_at (filter (is_due now) rows)))"

definition get_pending_emails :: "worker_env \<Rightarrow> (email_outbox list, 'd) worker" where
  "get_pending_emails env =
     hbind (now_of env) (\<lambda>now. worker_query env (\<lambda>s. pending now (wc_batch_size (wx_config env)) (ml_outbox s)))"

definition same_scope :: "uuid option \<Rightarrow> mail_provider_settings \<Rightarrow> bool" where
  "same_scope tenant p \<longleftrightarrow> (tenant \<noteq> None \<and> mp_tenant_id p = tenant \<or> mp_tenant_id p = None \<and> tenant = None) \<and> mp_enabled p"

definition oldest :: "(mail_provider_settings \<Rightarrow> bool) \<Rightarrow> mail_provider_settings list \<Rightarrow> mail_provider_settings option" where
  "oldest P rows = find P (sort_key mp_created_at rows)"

text \<open>\<^verbatim>\<open>if x.is_some() { return Ok(x) }\<close>, then the next query.\<close>

definition or_query :: "('a option, 'd) worker \<Rightarrow> ('a option, 'd) worker \<Rightarrow> ('a option, 'd) worker" where
  "or_query h g = hbind h (\<lambda>r. if r \<noteq> None then hreturn r else g)"

definition get_provider_settings :: "worker_env \<Rightarrow> uuid \<Rightarrow> (mail_provider_settings option, 'd) worker" where
  "get_provider_settings env ident =
     worker_query env (\<lambda>s. find (\<lambda>p. mp_id p = ident \<and> mp_enabled p) (ml_providers s))"

definition get_default_provider :: "worker_env \<Rightarrow> uuid option \<Rightarrow> (mail_provider_settings option, 'd) worker" where
  "get_default_provider env tenant =
     or_query (worker_query env (\<lambda>s. find (\<lambda>p. same_scope tenant p \<and> mp_is_default p) (ml_providers s)))
    (or_query (worker_query env (\<lambda>s. oldest (same_scope tenant) (ml_providers s)))
      (if tenant = None then hreturn None
       else or_query (worker_query env (\<lambda>s. oldest (\<lambda>p. same_scope None p \<and> mp_is_default p) (ml_providers s)))
                     (worker_query env (\<lambda>s. oldest (same_scope None) (ml_providers s)))))"

definition get_or_create_provider ::
  "worker_env \<Rightarrow> uuid option \<Rightarrow> uuid option \<Rightarrow> (smtp_provider \<times> mail_provider_settings, 'd) worker" where
  "get_or_create_provider env provider_id tenant =
     hbind (case provider_id of Some ident \<Rightarrow> get_provider_settings env ident | None \<Rightarrow> get_default_provider env tenant)
       (\<lambda>settings.
     hbind (hsome_of settings (Configuration ''No mail provider available'')) (\<lambda>settings.
     hbind (hlift (case smtp_provider_new env settings of
              Inl e \<Rightarrow> Inl (Configuration (''Failed to create provider: '' @ provider_error_message e))
            | Inr p \<Rightarrow> Inr p)) (\<lambda>provider.
     hbind (hdo (\<lambda>s. s\<lparr>wk_providers := hm_insert (mp_id settings) provider (wk_providers s)\<rparr>)) (\<lambda>_.
     hreturn (provider, settings)))))"

definition record_worker_event ::
  "worker_env \<Rightarrow> uuid \<Rightarrow> email_event_type \<Rightarrow> string option \<Rightarrow> string option \<Rightarrow> (unit, 'd) worker" where
  "record_worker_event env outbox_id event_type error_category error_message =
     hbind (hmap_err WorkerDatabase (fetch_one (mx_down (wx_mail env)) (\<lambda>s. find (\<lambda>m. ob_id m = outbox_id) (ml_outbox s)))) (\<lambda>m.
     hbind (now_of env) (\<lambda>now.
     hmap_err WorkerDatabase (sql_execute (mx_down (wx_mail env)) (\<lambda>s. s\<lparr>ml_events := ml_events s @
       [\<lparr>ev_id = mx_new_id (wx_mail env) (db_statements s), ev_outbox_id = Some outbox_id, ev_tenant_id = ob_tenant_id m,
         ev_workflow_key = ob_workflow_key m, ev_event_type = email_event_type_str event_type,
         ev_recipient_email = ob_recipient_email m, ev_recipient_user_id = ob_recipient_user_id m,
         ev_template_family_id = ob_template_family_id m, ev_template_version = ob_template_version m,
         ev_locale = ob_locale m, ev_provider_id = ob_provider_id m, ev_provider_message_id = None,
         ev_status_code = None, ev_error_category = error_category, ev_error_message = error_message,
         ev_provider_response = None, ev_ip_address = None, ev_user_agent = None, ev_created_at = now\<rparr>]\<rparr>))))"

definition mark_sending :: "worker_env \<Rightarrow> uuid \<Rightarrow> (unit, 'd) worker" where
  "mark_sending env ident = worker_update env ident (\<lambda>now m. m\<lparr>ob_status := Sending\<rparr>)"

definition mark_sent :: "worker_env \<Rightarrow> uuid \<Rightarrow> (unit, 'd) worker" where
  "mark_sent env ident =
     hbind (worker_update env ident (\<lambda>now m. m\<lparr>ob_status := Sent, ob_sent_at := Some now\<rparr>)) (\<lambda>_.
     record_worker_event env ident ESent None None)"

definition schedule_retry :: "worker_env \<Rightarrow> uuid \<Rightarrow> string \<Rightarrow> string \<Rightarrow> int \<Rightarrow> (unit, 'd) worker" where
  "schedule_retry env ident category msg next_attempt =
     hbind (worker_update env ident (\<lambda>now m. m\<lparr>ob_status := Queued, ob_attempt_count := ob_attempt_count m + 1,
       ob_next_attempt_at := Some next_attempt, ob_last_error_category := Some category, ob_last_error_message := Some msg\<rparr>)) (\<lambda>_.
     record_worker_event env ident EFailed (Some category) (Some msg))"

definition mark_failed :: "worker_env \<Rightarrow> uuid \<Rightarrow> string \<Rightarrow> string \<Rightarrow> (unit, 'd) worker" where
  "mark_failed env ident category msg =
     hbind (worker_update env ident (\<lambda>now m. m\<lparr>ob_status := Failed, ob_last_error_category := Some category,
       ob_last_error_message := Some msg\<rparr>)) (\<lambda>_.
     record_worker_event env ident EFailed (Some category) (Some msg))"

text \<open>The delay in seconds; \<open>None\<close> is a division by zero, for delays below ten seconds. The tenth is taken in floating
  point by the code, which agrees for the delays of its configuration.\<close>

definition backoff_delay :: "int \<Rightarrow> int \<Rightarrow> int \<Rightarrow> int \<Rightarrow> int option" where
  "backoff_delay attempt_count base_delay max_delay random =
     (let delay = min (wrap_i64 (base_delay * wrap_i64 (2 ^ nat attempt_count))) max_delay;
          jitter = delay div 10
      in if jitter = 0 then None else Some (delay + random mod (jitter * 2) - jitter))"

definition classify_error :: "string \<Rightarrow> string" where
  "classify_error error =
     (let lower = to_lowercase error in
      if mentions [''authentication'', ''auth'', ''535''] lower then ''auth_failed''
      else if mentions [''certificate'', ''tls'', ''ssl''] lower then ''tls_error''
      else if mentions [''dns'', ''resolve''] lower then ''dns_error''
      else if mentions [''timeout'', ''timed out''] lower then ''timeout''
      else if mentions [''relay'', ''denied'', ''550''] lower then ''relay_denied''
      else if mentions [''rate'', ''throttle'', ''421''] lower then ''rate_limited''
      else if mentions [''recipient'', ''mailbox''] lower then ''invalid_recipient''
      else ''smtp_error'')"

definition handle_delivery_error :: "worker_env \<Rightarrow> email_outbox \<Rightarrow> string \<Rightarrow> (unit, 'd) worker" where
  "handle_delivery_error env email msg =
     (let config = wx_config env; category = classify_error msg
      in if ob_attempt_count email < min (ob_max_attempts email) (wc_max_retries config)
         then hbind (now_of env) (\<lambda>now.
              hbind (hask (\<lambda>s. (wx_random env (db_statements s), s))) (\<lambda>random.
              hbind (hsome_of (backoff_delay (ob_attempt_count email) (wc_retry_base_delay_secs config)
                       (wc_retry_max_delay_secs config) random) Panicked) (\<lambda>delay.
              schedule_retry env (ob_id email) category msg (now + delay * 1000))))
         else mark_failed env (ob_id email) category msg)"

definition mailbox_text :: "email_address \<Rightarrow> string" where
  "mailbox_text a = (case ea_name a of Some n \<Rightarrow> n | None \<Rightarrow> []) @ '' <'' @ ea_email a @ ''>''"

definition invalid_address :: "email_address \<Rightarrow> string \<Rightarrow> email_provider_error" where
  "invalid_address a e = InvalidRecipient (''Invalid address '' @ [CHR 0x27] @ ea_email a @ [CHR 0x27] @ '': '' @ e)"

text \<open>\<open>ident\<close> tells the log which mail was handed over.\<close>

definition send_email ::
  "worker_env \<Rightarrow> uuid \<Rightarrow> email_address \<Rightarrow> email_address \<Rightarrow> email_content \<Rightarrow>
     (email_provider_error, string, 'd worker_db_scheme) handler" where
  "send_email env ident from to content s =
     (case wx_mailbox env (mailbox_text from) of
        Some e \<Rightarrow> (Inl (invalid_address from e), s)
      | None \<Rightarrow>
          (case wx_mailbox env (mailbox_text to) of
             Some e \<Rightarrow> (Inl (invalid_address to e), s)
           | None \<Rightarrow>
               (case wx_build env content of
                  Some e \<Rightarrow> (Inl (Other (''Failed to build message: '' @ e)), s)
                | None \<Rightarrow>
                    (let t = s\<lparr>wk_handed := wk_handed s @ [\<lparr>ho_mail = ident, ho_from = from, ho_to = to, ho_content = content\<rparr>]\<rparr>
                     in case wx_send env (length (wk_handed s)) of
                          Inl e \<Rightarrow> (Inl (classify_smtp_error e), t) | Inr response \<Rightarrow> (Inr response, t)))))"

definition content_of :: "email_outbox \<Rightarrow> email_content" where
  "content_of email = \<lparr>ec_subject = ob_subject email, ec_body_text = str_or_empty (ob_body_text email),
     ec_body_html = ob_body_html email, ec_headers = []\<rparr>"

definition process_email :: "worker_env \<Rightarrow> email_outbox \<Rightarrow> (unit, 'd) worker" where
  "process_email env email =
     hbind (mark_sending env (ob_id email)) (\<lambda>_.
     hbind (htry (get_or_create_provider env (ob_provider_id email) (ob_tenant_id email))) (\<lambda>provider.
     case provider of
       Inl e \<Rightarrow> hbind (handle_delivery_error env email (worker_message e)) (\<lambda>_. hfail e)
     | Inr (provider, settings) \<Rightarrow>
         hbind (htry (send_email env (ob_id email)
             \<lparr>ea_email = mp_from_address settings, ea_name = Some (mp_from_name settings)\<rparr>
             \<lparr>ea_email = ob_recipient_email email, ea_name = None\<rparr> (content_of email))) (\<lambda>result.
         case result of
           Inr response \<Rightarrow> mark_sent env (ob_id email)
         | Inl e \<Rightarrow> hbind (handle_delivery_error env email (provider_error_message e)) (\<lambda>_.
                    hfail (Provider (provider_error_message e))))))"

record worker_stats =
  ws_processed :: nat
  ws_sent :: nat
  ws_failed :: nat
  ws_rate_limited :: nat
  ws_quiet_hours_delayed :: nat

fun process_all :: "worker_env \<Rightarrow> email_outbox list \<Rightarrow> worker_stats \<Rightarrow> (worker_stats, 'd) worker" where
  "process_all env [] stats = hreturn stats"
| "process_all env (email # emails) stats =
     hbind (htry (process_email env email)) (\<lambda>r.
       case r of
         Inr _ \<Rightarrow> process_all env emails (stats\<lparr>ws_processed := ws_processed stats + 1, ws_sent := ws_sent stats + 1\<rparr>)
       | Inl RateLimited \<Rightarrow> process_all env emails (stats\<lparr>ws_rate_limited := ws_rate_limited stats + 1\<rparr>)
       | Inl InQuietHours \<Rightarrow> process_all env emails (stats\<lparr>ws_quiet_hours_delayed := ws_quiet_hours_delayed stats + 1\<rparr>)
       | Inl Panicked \<Rightarrow> hfail Panicked
       | Inl e \<Rightarrow> process_all env emails (stats\<lparr>ws_failed := ws_failed stats + 1\<rparr>))"

definition process_batch :: "worker_env \<Rightarrow> (worker_stats, 'd) worker" where
  "process_batch env =
     hbind (get_pending_emails env) (\<lambda>emails. process_all env emails
       \<lparr>ws_processed = 0, ws_sent = 0, ws_failed = 0, ws_rate_limited = 0, ws_quiet_hours_delayed = 0\<rparr>)"

text \<open>The delay before the supervisor's next start.\<close>

definition next_restart_delay :: "nat \<Rightarrow> nat" where
  "next_restart_delay secs = min (secs * 2) 60"

section \<open>Operations of administrators\<close>

text \<open>\<^verbatim>\<open>api::admin::require_admin\<close>.\<close>

definition admins_only :: "auth_user \<Rightarrow> (app_error, unit, 's) handler" where
  "admins_only auth =
     hguard (\<lambda>_. check_permission (auth_role auth) SYSTEM_MANAGE = Allow) (Forbidden ''Admin access required'')"

definition cancel_outbox_entry :: "worker_env \<Rightarrow> auth_user \<Rightarrow> uuid \<Rightarrow> (app_error, unit, 'd worker_db_scheme) handler" where
  "cancel_outbox_entry env auth ident =
     hbind (admins_only auth) (\<lambda>_.
     hbind (hmap_err (\<lambda>e. Database (sqlx_message e)) (statement (mx_down (wx_mail env)) (\<lambda>s.
       (let hit = (\<lambda>m. ob_id m = ident \<and> ob_status m = Queued) in
        (list_ex hit (ml_outbox s),
         s\<lparr>ml_outbox := update_where hit (\<lambda>m. m\<lparr>ob_status := Cancelled\<rparr>) (ml_outbox s)\<rparr>))))) (\<lambda>found.
     if found then hreturn () else hfail (Conflict ''Email cannot be cancelled (may already be sent or failed)'')))"

definition retry_outbox_entry :: "worker_env \<Rightarrow> auth_user \<Rightarrow> uuid \<Rightarrow> (app_error, unit, 'd worker_db_scheme) handler" where
  "retry_outbox_entry env auth ident =
     hbind (admins_only auth) (\<lambda>_.
     hbind (hmap_err (\<lambda>e. Database (sqlx_message e)) (statement (mx_down (wx_mail env)) (\<lambda>s.
       (let hit = (\<lambda>m. ob_id m = ident \<and> ob_status m = Failed) in
        (list_ex hit (ml_outbox s),
         s\<lparr>ml_outbox := update_where hit (\<lambda>m. m\<lparr>ob_status := Queued, ob_attempt_count := 0, ob_next_attempt_at := None,
             ob_last_error_category := None, ob_last_error_message := None\<rparr>) (ml_outbox s)\<rparr>))))) (\<lambda>found.
     if found then hreturn () else hfail (Conflict ''Email cannot be retried (may not be in failed status)'')))"

end
