(* ===== verification/Mail_Properties.thy ===== *)
theory Mail_Properties
  imports Mail_Worker
begin

text \<open>
  What the mail queue guarantees, over every interleaving of workers and administrators: how often a mail is handed
  over, and what becomes of mails that a worker holds when something else happens to them.
\<close>

section \<open>What a worker changes\<close>

text \<open>\<open>moved i f hs s t\<close>: from \<open>s\<close> to \<open>t\<close> the rows of mail \<open>i\<close> were changed by \<open>f\<close>, no others, and \<open>hs\<close> was handed over.\<close>

definition moved :: "uuid \<Rightarrow> (email_outbox \<Rightarrow> email_outbox) \<Rightarrow> handover list \<Rightarrow> 'd worker_db_scheme \<Rightarrow> 'd worker_db_scheme \<Rightarrow> bool" where
  "moved i f hs s t \<longleftrightarrow> ml_outbox t = update_where (\<lambda>m. ob_id m = i) f (ml_outbox s) \<and> wk_handed t = wk_handed s @ hs"

definition keeps_id :: "(email_outbox \<Rightarrow> email_outbox) \<Rightarrow> bool" where
  "keeps_id f \<longleftrightarrow> (\<forall>m. ob_id (f m) = ob_id m \<and> ob_max_attempts (f m) = ob_max_attempts m)"

definition still :: "'d worker_db_scheme \<Rightarrow> 'd worker_db_scheme \<Rightarrow> bool" where
  "still s t \<longleftrightarrow> ml_outbox t = ml_outbox s \<and> wk_handed t = wk_handed s"

lemma still_refl [simp]: "still s s"
  by (simp add: still_def)

lemma still_same: "same_tables s t \<Longrightarrow> still s t"
  by (auto simp: still_def same_tables_def)

lemma still_moved: "still s t \<Longrightarrow> moved i id [] s t"
  by (simp add: still_def moved_def update_where_def cong: if_cong)

lemma moved_trans:
  "moved i f hs s t \<Longrightarrow> moved i g ks t u \<Longrightarrow> keeps_id f \<Longrightarrow> moved i (g \<circ> f) (hs @ ks) s u"
  by (auto simp: moved_def update_where_def keeps_id_def)

lemma moved_still: "moved i f hs s t \<Longrightarrow> still t u \<Longrightarrow> moved i f hs s u"
  by (simp add: moved_def still_def)

lemma still_trans: "still s t \<Longrightarrow> moved i f hs t u \<Longrightarrow> moved i f hs s u"
  by (simp add: moved_def still_def)

lemma still_worker_query [keeping]: "hoare (still s) (worker_query env q) (still s)"
  by (auto simp: hoare_def worker_query_def fetch_def statement_def handler_defs still_def Let_def split: option.splits)

lemma still_now [keeping]: "hoare (still s) (now_of env) (still s)" "hoare (still s) (hask (\<lambda>s. (q s, s))) (still s)"
  by (auto simp: hoare_def now_of_def hask_def)

lemma still_provider: "hoare (still s) (get_or_create_provider env p t) (still s)"
  unfolding get_or_create_provider_def get_provider_settings_def get_default_provider_def or_query_def
  by (intro keeping) (simp_all add: keeps_def still_def)

lemma still_event: "hoare (still s) (record_worker_event env i e c m) (still s)"
  unfolding record_worker_event_def now_of_def
  by (auto simp: hoare_def handler_defs fetch_one_def fetch_def sql_execute_def statement_def still_def Let_def
      split: option.splits sum.splits prod.splits)

lemma still_done: "hoare (still s) h (still s) \<Longrightarrow> still s (snd (h s))"
  using hoareD [of "still s" h "still s" s] by simp

text \<open>An update took place or failed.\<close>

lemma worker_update_cases:
  "fst (worker_update env i f s) = Inr () \<and>
     (\<exists>now. moved i (\<lambda>m. (f now m)\<lparr>ob_updated_at := now\<rparr>) [] s (snd (worker_update env i f s)))
   \<or> (\<exists>e. fst (worker_update env i f s) = Inl e) \<and> still s (snd (worker_update env i f s))"
  by (auto simp: worker_update_def now_of_def handler_defs sql_execute_def statement_def still_def moved_def Let_def
      split: option.splits)

text \<open>What an operation may do to the row it works on: nothing, close it for the worker, or queue it again.\<close>

definition outcome :: "worker_env \<Rightarrow> email_outbox \<Rightarrow> (email_outbox \<Rightarrow> email_outbox) \<Rightarrow> bool" where
  "outcome env e f \<longleftrightarrow> keeps_id f \<and>
     ((\<forall>m. ob_attempt_count (f m) = ob_attempt_count m \<and> ob_status (f m) \<noteq> Queued) \<or>
      (\<forall>m. ob_attempt_count (f m) = ob_attempt_count m + 1 \<and> ob_status (f m) = Queued)
        \<and> ob_attempt_count e < min (ob_max_attempts e) (wc_max_retries (wx_config env)))"

lemma outcomeI:
  assumes "keeps_id f" and "\<And>m. ob_attempt_count (f m) = ob_attempt_count m" and "\<And>m. ob_status (f m) \<noteq> Queued"
  shows "outcome env e f"
  using assms by (simp add: outcome_def)

lemma update_moved:
  assumes "\<And>now. P (\<lambda>m. (f now m)\<lparr>ob_updated_at := now\<rparr>)"
  shows "(\<exists>g. P g \<and> moved i g [] s (snd (worker_update env i f s))) \<or> still s (snd (worker_update env i f s))"
  using worker_update_cases [of env i f s] assms by blast

lemma update_event_moved:
  fixes env i ev c msg
  assumes "\<And>now. P (\<lambda>m. (f now m)\<lparr>ob_updated_at := now\<rparr>)"
  defines "h \<equiv> hbind (worker_update env i f) (\<lambda>_. record_worker_event env i ev c msg)"
  shows "(\<exists>g. P g \<and> moved i g [] s (snd (h s))) \<or> still s (snd (h s))"
proof (cases "worker_update env i f s")
  case (Pair r t)
  note update = worker_update_cases [of env i f s, unfolded Pair fst_conv snd_conv]
  show ?thesis
  proof (cases r)
    case (Inl err)
    then show ?thesis using update by (simp add: h_def hbind_def Pair)
  next
    case (Inr u)
    then obtain now where "moved i (\<lambda>m. (f now m)\<lparr>ob_updated_at := now\<rparr>) [] s t"
      using update by auto
    then have "moved i (\<lambda>m. (f now m)\<lparr>ob_updated_at := now\<rparr>) [] s (snd (record_worker_event env i ev c msg t))"
      by (rule moved_still) (rule still_done [OF still_event])
    then show ?thesis using assms(1) by (auto simp: h_def hbind_def Pair Inr)
  qed
qed

lemma handle_error_moved:
  "(\<exists>f. outcome env e f \<and> moved (ob_id e) f [] s (snd (handle_delivery_error env e msg s)))
   \<or> still s (snd (handle_delivery_error env e msg s))"
proof (cases "ob_attempt_count e < min (ob_max_attempts e) (wc_max_retries (wx_config env))")
  case True
  have "handle_delivery_error env e msg s = (Inl Panicked, s)
      \<or> (\<exists>t. handle_delivery_error env e msg s = schedule_retry env (ob_id e) (classify_error msg) msg t s)"
    using True by (auto simp: handle_delivery_error_def now_of_def handler_defs Let_def split: option.splits)
  moreover have "(\<exists>f. outcome env e f \<and> moved (ob_id e) f [] s (snd (schedule_retry env (ob_id e) c msg t s)))
      \<or> still s (snd (schedule_retry env (ob_id e) c msg t s))" for c t
    unfolding schedule_retry_def by (rule update_event_moved) (use True in \<open>simp add: outcome_def keeps_id_def\<close>)
  ultimately show ?thesis by (metis snd_conv still_refl)
next
  case False
  have "(\<exists>f. outcome env e f \<and> moved (ob_id e) f [] s (snd (mark_failed env (ob_id e) (classify_error msg) msg s)))
      \<or> still s (snd (mark_failed env (ob_id e) (classify_error msg) msg s))"
    unfolding mark_failed_def by (rule update_event_moved) (simp add: outcome_def keeps_id_def)
  then show ?thesis by (simp only: handle_delivery_error_def Let_def False if_False)
qed

definition handed_of :: "uuid \<Rightarrow> handover list \<Rightarrow> bool" where
  "handed_of i hs \<longleftrightarrow> length hs \<le> 1 \<and> (\<forall>h \<in> set hs. ho_mail h = i)"

lemma send_email_moved:
  "\<exists>hs. moved i id hs s (snd (send_email env i from to c s)) \<and> handed_of i hs"
  unfolding send_email_def moved_def update_where_def handed_of_def
  by (auto simp: Let_def cong: if_cong split: option.splits sum.splits)

lemma moved_id_then:
  assumes "moved i id hs s t" and "(\<exists>f. P f \<and> moved i f [] t u) \<or> still t u"
  shows "(\<exists>f. P f \<and> moved i f hs s u) \<or> moved i id hs s u"
  using assms by (auto simp: moved_def still_def update_where_def)

text \<open>Everything after the mail was marked as being sent.\<close>

lemma deliver_moved:
  fixes s :: "'d worker_db_scheme" and env p tn e frm to c
  defines "rest \<equiv> hbind (htry (get_or_create_provider env p tn)) (\<lambda>provider.
     case provider of
       Inl err \<Rightarrow> hbind (handle_delivery_error env e (worker_message err)) (\<lambda>_. hfail err)
     | Inr (provider, settings) \<Rightarrow>
         hbind (htry (send_email env (ob_id e) (frm settings) to c)) (\<lambda>result.
         case result of
           Inr response \<Rightarrow> mark_sent env (ob_id e)
         | Inl err \<Rightarrow> hbind (handle_delivery_error env e (provider_error_message err)) (\<lambda>_.
                    hfail (Provider (provider_error_message err)) :: (unit, 'd) worker)))"
  shows "\<exists>hs. handed_of (ob_id e) hs \<and>
    ((\<exists>f. outcome env e f \<and> moved (ob_id e) f hs s (snd (rest s))) \<or> moved (ob_id e) id hs s (snd (rest s)))"
proof -
  obtain r t where get: "get_or_create_provider env p tn s = (r, t)" by fastforce
  have st: "still s t" using still_done [OF still_provider, of s env p tn] by (simp add: get)
  have after: "(\<exists>f. outcome env e f \<and> moved (ob_id e) f [] v (snd (hbind (handle_delivery_error env e msg) (\<lambda>_. hfail x :: (unit, 'd) worker) v)))
      \<or> still v (snd (hbind (handle_delivery_error env e msg) (\<lambda>_. hfail x :: (unit, 'd) worker) v))" for msg and x :: worker_error and v :: "'d worker_db_scheme"
    using handle_error_moved [of env e v msg] by (auto simp: hbind_def hfail_def split: prod.splits sum.splits)
  have sent: "(\<exists>f. outcome env e f \<and> moved (ob_id e) f [] v (snd (mark_sent env (ob_id e) v)))
      \<or> still v (snd (mark_sent env (ob_id e) v))" for v :: "'d worker_db_scheme"
    unfolding mark_sent_def by (rule update_event_moved) (simp add: outcome_def keeps_id_def)
  have "\<exists>hs. handed_of (ob_id e) hs \<and>
    ((\<exists>f. outcome env e f \<and> moved (ob_id e) f hs t (snd (rest s))) \<or> moved (ob_id e) id hs t (snd (rest s)))"
  proof (cases r)
    case (Inl err)
    have "moved (ob_id e) id [] t t" by (simp add: moved_def update_where_def cong: if_cong)
    from moved_id_then [OF this after] show ?thesis
      by (intro exI [of _ "[]"]) (simp add: rest_def handed_of_def hbind_def [of "htry _"] htry_def get Inl)
  next
    case (Inr ps)
    obtain q u where send: "send_email env (ob_id e) (frm (snd ps)) to c t = (q, u)" by fastforce
    obtain hs where hs: "moved (ob_id e) id hs t u" "handed_of (ob_id e) hs"
      using send_email_moved [of "ob_id e" t env "frm (snd ps)" to c] by (auto simp: send)
    have "snd (rest s) = (case q of Inr _ \<Rightarrow> snd (mark_sent env (ob_id e) u)
        | Inl err \<Rightarrow> snd (hbind (handle_delivery_error env e (provider_error_message err)) (\<lambda>_.
                    hfail (Provider (provider_error_message err)) :: (unit, 'd) worker) u))"
      by (cases ps; cases q) (use send in \<open>simp_all add: rest_def hbind_def [of "htry _"] htry_def get Inr\<close>)
    moreover have "\<exists>hs. handed_of (ob_id e) hs \<and>
        ((\<exists>f. outcome env e f \<and> moved (ob_id e) f hs t v) \<or> moved (ob_id e) id hs t v)"
      if "(\<exists>f. outcome env e f \<and> moved (ob_id e) f [] u v) \<or> still u v" for v :: "'d worker_db_scheme"
      using moved_id_then [OF hs(1) that] hs(2) by blast
    ultimately show ?thesis using after [where v = u] sent [of u] by (cases q) auto
  qed
  then show ?thesis using still_trans [OF st] by blast
qed

lemma process_email_moved:
  obtains (nothing) "still s (snd (process_email env e s))"
  | (outcome) f hs where "outcome env e f" "handed_of (ob_id e) hs" "moved (ob_id e) f hs s (snd (process_email env e s))"
proof -
  obtain r t where mark: "mark_sending env (ob_id e) s = (r, t)" by fastforce
  note cases = worker_update_cases [of env "ob_id e" "\<lambda>now m. m\<lparr>ob_status := Sending\<rparr>" s, folded mark_sending_def, unfolded mark fst_conv snd_conv]
  show ?thesis
  proof (cases r)
    case (Inl err)
    then have "still s (snd (process_email env e s))"
      using cases by (simp add: process_email_def hbind_def mark)
    then show ?thesis by (rule nothing)
  next
    case (Inr u)
    obtain now where m: "moved (ob_id e) (\<lambda>m. m\<lparr>ob_status := Sending, ob_updated_at := now\<rparr>) [] s t"
      using cases Inr by auto
    let ?g = "\<lambda>m. m\<lparr>ob_status := Sending, ob_updated_at := now\<rparr>"
    have g: "keeps_id ?g" by (simp add: keeps_id_def)
    obtain f hs where *: "handed_of (ob_id e) hs" "outcome env e f \<or> f = id" "moved (ob_id e) f hs t (snd (process_email env e s))"
      using deliver_moved [where e = e and env = env and p = "ob_provider_id e" and tn = "ob_tenant_id e" and
          frm = "\<lambda>settings. \<lparr>ea_email = mp_from_address settings, ea_name = Some (mp_from_name settings)\<rparr>" and
          to = "\<lparr>ea_email = ob_recipient_email e, ea_name = None\<rparr>" and c = "content_of e" and s = t]
      by (auto simp: process_email_def hbind_def [of "mark_sending _ _"] mark Inr)
    have "outcome env e (f \<circ> ?g)"
      using *(2) g by (auto simp: outcome_def keeps_id_def)
    then show ?thesis using outcome *(1) moved_trans [OF m *(3) g] by simp
  qed
qed

end
