(* ===== verification/Mail_Queue.thy ===== *)
theory Mail_Queue
  imports Mail_Properties Machine
begin

text \<open>
  The mail queue as a state machine: workers that each fetch a batch and work through it, administrators who cancel
  and retry, and new mails. One mail is worked on in one step; its statements do not collide with those of others,
  which touch rows that are queued or failed only. \<open>ms_held w\<close> is what worker \<open>w\<close> has fetched and not yet worked on.
\<close>

section \<open>The machine\<close>

record mail_system =
  ms_db :: worker_db
  ms_held :: "nat \<Rightarrow> email_outbox list"

datatype mail_op = FetchBatch nat | WorkNext nat | CancelMail auth_user uuid | RetryMail auth_user uuid | Arrive email_outbox

definition fetch_batch :: "worker_env \<Rightarrow> nat \<Rightarrow> mail_system \<Rightarrow> mail_system" where
  "fetch_batch env w st =
     (if ms_held st w \<noteq> [] then st
      else case get_pending_emails env (ms_db st) of
        (Inl _, db) \<Rightarrow> st\<lparr>ms_db := db\<rparr>
      | (Inr mails, db) \<Rightarrow> st\<lparr>ms_db := db, ms_held := (ms_held st)(w := mails)\<rparr>)"

definition work_next :: "worker_env \<Rightarrow> nat \<Rightarrow> mail_system \<Rightarrow> mail_system" where
  "work_next env w st =
     (case ms_held st w of
        [] \<Rightarrow> st
      | mail # mails \<Rightarrow>
          (case process_email env mail (ms_db st) of
             (r, db) \<Rightarrow> st\<lparr>ms_db := db, ms_held := (ms_held st)(w := if r = Inl Panicked then [] else mails)\<rparr>))"

fun mail_next :: "worker_env \<Rightarrow> mail_op \<Rightarrow> mail_system \<Rightarrow> mail_system" where
  "mail_next env (FetchBatch w) st = fetch_batch env w st"
| "mail_next env (WorkNext w) st = work_next env w st"
| "mail_next env (CancelMail auth i) st = st\<lparr>ms_db := snd (cancel_outbox_entry env auth i (ms_db st))\<rparr>"
| "mail_next env (RetryMail auth i) st = st\<lparr>ms_db := snd (retry_outbox_entry env auth i (ms_db st))\<rparr>"
| "mail_next env (Arrive m) st =
     (if ob_id m \<in> ob_id ` set (ml_outbox (ms_db st)) then st
      else st\<lparr>ms_db := (ms_db st)\<lparr>ml_outbox := ml_outbox (ms_db st) @ [m\<lparr>ob_status := Queued, ob_attempt_count := 0\<rparr>]\<rparr>\<rparr>)"

definition mail_step :: "worker_env \<Rightarrow> mail_system \<Rightarrow> mail_op \<Rightarrow> mail_system \<Rightarrow> bool" where
  "mail_step env st e st' \<longleftrightarrow> st' = mail_next env e st"

fun of_one_worker :: "mail_op \<Rightarrow> bool" where
  "of_one_worker (FetchBatch w) \<longleftrightarrow> w = 0"
| "of_one_worker (WorkNext w) \<longleftrightarrow> w = 0"
| "of_one_worker (RetryMail _ _) \<longleftrightarrow> False"
| "of_one_worker _ \<longleftrightarrow> True"

definition one_worker_step :: "worker_env \<Rightarrow> mail_system \<Rightarrow> mail_op \<Rightarrow> mail_system \<Rightarrow> bool" where
  "one_worker_step env st e st' \<longleftrightarrow> of_one_worker e \<and> mail_step env st e st'"

definition mail_init :: "mail_system \<Rightarrow> bool" where
  "mail_init st \<longleftrightarrow> ml_outbox (ms_db st) = [] \<and> wk_handed (ms_db st) = [] \<and> ms_held st = (\<lambda>_. [])"

text \<open>How often a mail was handed over, and how often its failure may queue it again.\<close>

definition handed_count :: "uuid \<Rightarrow> 'd worker_db_scheme \<Rightarrow> int" where
  "handed_count i db = int (length (filter (\<lambda>h. ho_mail h = i) (wk_handed db)))"

definition retry_limit :: "worker_env \<Rightarrow> email_outbox \<Rightarrow> int" where
  "retry_limit env m = max 0 (min (ob_max_attempts m) (wc_max_retries (wx_config env)))"

section \<open>The machine runs the worker's loop\<close>

lemma work_through:
  "ms_held st w = mails \<Longrightarrow>
   ms_db ((work_next env w ^^ length mails) st) = snd (process_all env mails stats (ms_db st))"
proof (induction mails arbitrary: st stats)
  case Nil
  then show ?case by (simp add: hreturn_def)
next
  case (Cons mail mails)
  obtain r db where p: "process_email env mail (ms_db st) = (r, db)" by fastforce
  let ?st = "work_next env w st"
  have db: "ms_db ?st = db" by (simp add: work_next_def Cons.prems p)
  have idle: "(work_next env w ^^ n) u = u" if "ms_held u w = []" for n u
    using that by (induction n) (simp_all add: work_next_def)
  show ?case
  proof (cases "r = Inl Panicked")
    case True
    then have "ms_held ?st w = []" by (simp add: work_next_def Cons.prems p)
    then show ?thesis using True idle [of ?st] db
      by (simp add: funpow_Suc_right hbind_def htry_def hfail_def p del: funpow.simps)
  next
    case False
    then have "ms_held ?st w = mails" by (simp add: work_next_def Cons.prems p)
    from Cons.IH [OF this] show ?thesis using False db
      by (auto simp: funpow_Suc_right hbind_def htry_def p split: sum.splits worker_error.splits simp del: funpow.simps)
  qed
qed

section \<open>Few attempts with one worker\<close>

definition attempts_inv :: "worker_env \<Rightarrow> mail_system \<Rightarrow> bool" where
  "attempts_inv env st \<longleftrightarrow>
     (let db = ms_db st; rows = ml_outbox db; held = ms_held st 0 in
        distinct (map ob_id rows) \<and> distinct (map ob_id held)
      \<and> ob_id ` set held \<subseteq> ob_id ` set rows \<and> ho_mail ` set (wk_handed db) \<subseteq> ob_id ` set rows
      \<and> (\<forall>m \<in> set rows. handed_count (ob_id m) db \<le> ob_attempt_count m + 1 \<and> ob_attempt_count m \<le> retry_limit env m
           \<and> (ob_status m = Queued \<longrightarrow> handed_count (ob_id m) db \<le> ob_attempt_count m))
      \<and> (\<forall>e \<in> set held. \<forall>m \<in> set rows. ob_id m = ob_id e \<longrightarrow>
           ob_attempt_count m = ob_attempt_count e \<and> ob_max_attempts m = ob_max_attempts e
           \<and> handed_count (ob_id e) db \<le> ob_attempt_count e))"

lemma attempts_ids:
  assumes "attempts_inv env st"
  shows "e \<in> set (ms_held st 0) \<Longrightarrow> ob_id e \<in> ob_id ` set (ml_outbox (ms_db st))"
    and "h \<in> set (wk_handed (ms_db st)) \<Longrightarrow> ho_mail h \<in> ob_id ` set (ml_outbox (ms_db st))"
  using assms by (auto simp: attempts_inv_def Let_def subset_iff simp del: in_set_conv_nth)

lemma held_then_db: "st\<lparr>ms_held := h, ms_db := db\<rparr> = st\<lparr>ms_db := db, ms_held := h\<rparr>"
  by simp

lemma attempts_init: "mail_init st \<Longrightarrow> attempts_inv env st"
  by (simp add: mail_init_def attempts_inv_def Let_def)

lemma pending_members: "set (pending now n rows) \<subseteq> {m \<in> set rows. ob_status m = Queued}"
  using set_take_subset by (force simp: pending_def is_due_def)

lemma distinct_ids_sort_key: "distinct (map ob_id (sort_key f xs)) \<longleftrightarrow> distinct (map ob_id xs)"
  by (simp add: distinct_map)

lemma pending_distinct:
  "distinct (map ob_id rows) \<Longrightarrow> distinct (map ob_id (pending now n rows))"
  by (simp add: pending_def take_map [symmetric] distinct_ids_sort_key distinct_map_filter)

lemma get_pending_cases:
  obtains (down) e where "fst (get_pending_emails env db) = Inl e" "still db (snd (get_pending_emails env db))"
  | (up) now where "fst (get_pending_emails env db) = Inr (pending now (wc_batch_size (wx_config env)) (ml_outbox db))"
      "still db (snd (get_pending_emails env db))"
proof (cases "mx_down (wx_mail env) (db_statements db)")
  case None
  with up [of "wx_clock env (db_statements db)"] show ?thesis
    by (simp add: get_pending_emails_def now_of_def worker_query_def fetch_def statement_def handler_defs still_def)
next
  case (Some e)
  with down [of "WorkerDatabase (Unavailable e)"] show ?thesis
    by (simp add: get_pending_emails_def now_of_def worker_query_def fetch_def statement_def handler_defs still_def)
qed

lemma handed_count_still: "still s t \<Longrightarrow> handed_count i t = handed_count i s"
  by (simp add: still_def handed_count_def)

lemma handed_count_moved:
  assumes "moved i f hs s t" and "handed_of i hs"
  shows "handed_count j s \<le> handed_count j t" "handed_count j t \<le> handed_count j s + (if j = i then 1 else 0)"
  using assms by (auto simp: moved_def handed_of_def handed_count_def filter_id_conv le_Suc_eq length_Suc_conv)

lemma attempts_still:
  "attempts_inv env st \<Longrightarrow> still (ms_db st) db \<Longrightarrow> attempts_inv env (st\<lparr>ms_db := db\<rparr>)"
  by (simp add: attempts_inv_def still_def handed_count_def Let_def)

lemma attempts_fetch:
  assumes "attempts_inv env st"
  shows "attempts_inv env (fetch_batch env 0 st)"
proof (cases "ms_held st 0 = []")
  case True
  show ?thesis
  proof (cases rule: get_pending_cases [of env "ms_db st"])
    case (down e)
    then show ?thesis
      using attempts_still [OF assms] True by (cases "get_pending_emails env (ms_db st)") (auto simp: fetch_batch_def)
  next
    case (up now)
    let ?mails = "pending now (wc_batch_size (wx_config env)) (ml_outbox (ms_db st))"
    obtain db where p: "get_pending_emails env (ms_db st) = (Inr ?mails, db)" and st: "still (ms_db st) db"
      using up by (metis prod.collapse)
    have "attempts_inv env (st\<lparr>ms_held := (ms_held st)(0 := ?mails)\<rparr>)"
      using assms pending_members [of now "wc_batch_size (wx_config env)" "ml_outbox (ms_db st)"]
        pending_distinct [of "ml_outbox (ms_db st)" now "wc_batch_size (wx_config env)"]
      by (auto simp: attempts_inv_def Let_def subset_iff dest: distinct_map [THEN iffD1, THEN conjunct2, THEN inj_onD])
    from attempts_still [OF this, of db] st show ?thesis
      by (simp add: fetch_batch_def True p held_then_db)
  qed
qed (simp add: fetch_batch_def assms)

lemma attempts_forget:
  "attempts_inv env st \<Longrightarrow> distinct (map ob_id mails) \<Longrightarrow> set mails \<subseteq> set (ms_held st 0) \<Longrightarrow>
   attempts_inv env (st\<lparr>ms_held := (ms_held st)(0 := mails)\<rparr>)"
  by (auto simp: attempts_inv_def Let_def subset_iff)

lemma attempts_moved:
  assumes inv: "attempts_inv env st" and held: "ms_held st 0 = e # mails"
    and f: "outcome env e f" and hs: "handed_of (ob_id e) hs" and moved: "moved (ob_id e) f hs (ms_db st) db"
  shows "attempts_inv env (st\<lparr>ms_db := db, ms_held := (ms_held st)(0 := mails)\<rparr>)"
proof -
  define rows where "rows = ml_outbox (ms_db st)"
  define g where "g m = (if ob_id m = ob_id e then f m else m)" for m
  have rows': "ml_outbox db = map g rows"
    using moved by (simp add: moved_def update_where_def rows_def g_def)
  have id: "ob_id (g m) = ob_id m" "ob_max_attempts (g m) = ob_max_attempts m" for m
    using f by (auto simp: outcome_def keeps_id_def g_def)
  then have ids: "map ob_id (ml_outbox db) = map ob_id rows" "ob_id ` set (ml_outbox db) = ob_id ` set rows"
    by (auto simp: rows' image_image)
  note facts = inv [unfolded attempts_inv_def Let_def held, folded rows_def]
  have count: "handed_count j db \<le> handed_count j (ms_db st) + (if j = ob_id e then 1 else 0)" for j
    by (rule handed_count_moved [OF moved hs])
  have handed: "ho_mail ` set (wk_handed db) \<subseteq> ob_id ` set rows"
    using facts moved hs by (auto simp: moved_def handed_of_def)
  have row: "handed_count (ob_id m) db \<le> ob_attempt_count (g m) + 1 \<and> ob_attempt_count (g m) \<le> retry_limit env (g m)
           \<and> (ob_status (g m) = Queued \<longrightarrow> handed_count (ob_id m) db \<le> ob_attempt_count (g m))" if m: "m \<in> set rows" for m
  proof (cases "ob_id m = ob_id e")
    case True
    then have "ob_attempt_count m = ob_attempt_count e" "ob_max_attempts m = ob_max_attempts e"
      "handed_count (ob_id e) (ms_db st) \<le> ob_attempt_count e" "ob_attempt_count m \<le> retry_limit env m"
      using facts m by auto
    then show ?thesis using f count [of "ob_id e"] True
      by (auto simp: g_def outcome_def retry_limit_def keeps_id_def)
  next
    case False
    then show ?thesis using facts m count [of "ob_id m"] by (auto simp: g_def)
  qed
  have others: "ob_attempt_count (g m) = ob_attempt_count d \<and> ob_max_attempts (g m) = ob_max_attempts d
           \<and> handed_count (ob_id d) db \<le> ob_attempt_count d" if "d \<in> set mails" "m \<in> set rows" "ob_id m = ob_id d" for d m
  proof -
    have "ob_id e \<notin> ob_id ` set mails" using facts by simp
    then have "ob_id d \<noteq> ob_id e" using that(1) by (metis imageI)
    moreover have "ob_attempt_count m = ob_attempt_count d \<and> ob_max_attempts m = ob_max_attempts d
        \<and> handed_count (ob_id d) (ms_db st) \<le> ob_attempt_count d"
      using facts that by simp
    ultimately show ?thesis using that(3) count [of "ob_id d"] by (simp add: g_def)
  qed
  have "ob_id ` set mails \<subseteq> ob_id ` set rows" using facts by auto
  then show ?thesis
    using facts handed row others unfolding attempts_inv_def Let_def by (simp add: ids rows' [symmetric]) (simp add: rows' id)
qed

lemma attempts_work:
  assumes inv: "attempts_inv env st"
  shows "attempts_inv env (work_next env 0 st)"
proof (cases "ms_held st 0")
  case (Cons e mails)
  obtain r db where p: "process_email env e (ms_db st) = (r, db)" by fastforce
  have d: "distinct (map ob_id mails)" using inv by (simp add: attempts_inv_def Let_def Cons)
  have "attempts_inv env (st\<lparr>ms_db := db, ms_held := (ms_held st)(0 := mails)\<rparr>)"
  proof (cases rule: process_email_moved [of "ms_db st" env e])
    case nothing
    then show ?thesis
      using attempts_still [OF attempts_forget [OF inv d], of db] by (simp add: p Cons held_then_db subset_insertI)
  next
    case (outcome f hs)
    then show ?thesis using attempts_moved [OF inv Cons] by (simp add: p)
  qed
  from this attempts_forget [OF this, of "[]"] show ?thesis
    by (auto simp: work_next_def Cons p)
qed (simp add: work_next_def inv)

lemma cancel_rows:
  defines "g \<equiv> \<lambda>i m. if ob_id m = i \<and> ob_status m = Queued then m\<lparr>ob_status := Cancelled\<rparr> else m"
  shows "wk_handed (snd (cancel_outbox_entry env auth i db)) = wk_handed db"
    and "ml_outbox (snd (cancel_outbox_entry env auth i db)) \<in> {ml_outbox db, map (g i) (ml_outbox db)}"
  by (auto simp: g_def cancel_outbox_entry_def admins_only_def statement_def handler_defs update_where_def Let_def split: option.splits)

lemma retry_rows:
  defines "g \<equiv> \<lambda>i m. if ob_id m = i \<and> ob_status m = Failed then m\<lparr>ob_status := Queued, ob_attempt_count := 0,
      ob_next_attempt_at := None, ob_last_error_category := None, ob_last_error_message := None\<rparr> else m"
  shows "wk_handed (snd (retry_outbox_entry env auth i db)) = wk_handed db"
    and "ml_outbox (snd (retry_outbox_entry env auth i db)) \<in> {ml_outbox db, map (g i) (ml_outbox db)}"
  by (auto simp: g_def retry_outbox_entry_def admins_only_def statement_def handler_defs update_where_def Let_def split: option.splits)

lemma attempts_map:
  assumes "attempts_inv env st" and "wk_handed db = wk_handed (ms_db st)" and "ml_outbox db = map g (ml_outbox (ms_db st))"
    and g: "\<And>m. ob_id (g m) = ob_id m" "\<And>m. ob_attempt_count (g m) = ob_attempt_count m"
      "\<And>m. ob_max_attempts (g m) = ob_max_attempts m" "\<And>m. ob_status (g m) = Queued \<Longrightarrow> ob_status m = Queued"
  shows "attempts_inv env (st\<lparr>ms_db := db\<rparr>)"
proof -
  have "ob_id \<circ> g = ob_id" by (auto simp: g)
  then show ?thesis
    using assms(1) by (auto simp: attempts_inv_def Let_def assms(2,3) handed_count_def retry_limit_def g image_comp)
qed

lemma attempts_cancel:
  assumes "attempts_inv env st"
  shows "attempts_inv env (st\<lparr>ms_db := snd (cancel_outbox_entry env auth i (ms_db st))\<rparr>)"
proof -
  let ?g = "\<lambda>m. if ob_id m = i \<and> ob_status m = Queued then m\<lparr>ob_status := Cancelled\<rparr> else m"
  have "ml_outbox (snd (cancel_outbox_entry env auth i (ms_db st))) = map id (ml_outbox (ms_db st))
      \<or> ml_outbox (snd (cancel_outbox_entry env auth i (ms_db st))) = map ?g (ml_outbox (ms_db st))"
    using cancel_rows(2) [of env auth i "ms_db st"] by auto
  then show ?thesis
    by (elim disjE) (erule attempts_map [OF assms cancel_rows(1)]; auto split: if_splits)+
qed

lemma attempts_arrive:
  assumes "attempts_inv env st"
  shows "attempts_inv env (mail_next env (Arrive m) st)"
proof (cases "ob_id m \<in> ob_id ` set (ml_outbox (ms_db st))")
  case False
  then have "ho_mail h \<noteq> ob_id m" if "h \<in> set (wk_handed (ms_db st))" for h
    using attempts_ids(2) [OF assms that] False by metis
  then have none: "handed_count (ob_id m) (ms_db st) = 0"
    by (auto simp: handed_count_def filter_empty_conv)
  have "ob_id e \<noteq> ob_id m" if "e \<in> set (ms_held st 0)" for e
    using attempts_ids(1) [OF assms that] False by metis
  then show ?thesis
    using assms none False
    by (auto simp: attempts_inv_def Let_def handed_count_def retry_limit_def)
qed (simp add: assms)

lemma attempts_step: "attempts_inv env st \<Longrightarrow> one_worker_step env st e st' \<Longrightarrow> attempts_inv env st'"
  using attempts_fetch [of env st] attempts_work [of env st] attempts_cancel [of env st] attempts_arrive [of env st]
  by (cases e) (auto simp: one_worker_step_def mail_step_def simp del: mail_next.simps(5))

interpretation one_worker: safe_machine mail_init "one_worker_step env" "attempts_inv env" for env
  by unfold_locales (auto intro: attempts_init attempts_step)


section \<open>Mails that stay in the sending state\<close>

definition stuck :: "uuid \<Rightarrow> mail_system \<Rightarrow> bool" where
  "stuck i st \<longleftrightarrow> i \<in> ob_id ` set (ml_outbox (ms_db st))
     \<and> (\<forall>m \<in> set (ml_outbox (ms_db st)). ob_id m = i \<longrightarrow> ob_status m = Sending)
     \<and> (\<forall>w. \<forall>e \<in> set (ms_held st w). ob_id e \<noteq> i)"

definition stays :: "uuid \<Rightarrow> mail_system \<Rightarrow> mail_system \<Rightarrow> bool" where
  "stays i st st' \<longleftrightarrow> stuck i st' \<and> handed_count i (ms_db st') = handed_count i (ms_db st)"

lemma stays_rows:
  assumes "stuck i st" and "\<And>m. ob_id (g m) = ob_id m" and "\<And>m. ob_id m = i \<Longrightarrow> ob_status m = Sending \<Longrightarrow> g m = m"
    and "ml_outbox db = map g (ml_outbox (ms_db st))" and "handed_count i db = handed_count i (ms_db st)"
    and "\<And>w e. e \<in> set (held w) \<Longrightarrow> ob_id e \<noteq> i"
  shows "stays i st (st\<lparr>ms_db := db, ms_held := held\<rparr>)"
proof -
  have "(\<lambda>x. ob_id (g x)) = ob_id" by (simp add: assms(2))
  then show ?thesis
    using assms(1,3,4,5,6) by (auto simp: stays_def stuck_def assms(2) image_image)
qed

lemma stays_still:
  "stuck i st \<Longrightarrow> still (ms_db st) db \<Longrightarrow> (\<And>w e. e \<in> set (held w) \<Longrightarrow> ob_id e \<noteq> i) \<Longrightarrow>
   stays i st (st\<lparr>ms_db := db, ms_held := held\<rparr>)"
  using stays_rows [where g = id] by (simp add: still_def handed_count_def)

lemma stuck_held: "stuck i st \<Longrightarrow> e \<in> set (ms_held st w) \<Longrightarrow> ob_id e \<noteq> i"
  by (auto simp: stuck_def)

lemma stays_fetch:
  assumes "stuck i st"
  shows "stays i st (fetch_batch env w st)"
proof -
  have idle: "stays i st (st\<lparr>ms_db := db\<rparr>)" if "still (ms_db st) db" for db
    using stays_still [OF assms that, of "ms_held st"] stuck_held [OF assms] by simp
  have "stays i st (st\<lparr>ms_db := db, ms_held := (ms_held st)(w := pending now n (ml_outbox (ms_db st)))\<rparr>)"
    if "still (ms_db st) db" for db now n
    by (rule stays_still [OF assms that])
       (use assms pending_members [of now n "ml_outbox (ms_db st)"] stuck_held [OF assms] in
         \<open>fastforce simp: stuck_def subset_iff split: if_splits\<close>)
  then show ?thesis
    using idle [of "ms_db st"] idle
    by (cases rule: get_pending_cases [of env "ms_db st"]; cases "get_pending_emails env (ms_db st)")
       (auto simp: fetch_batch_def)
qed

lemma stays_work:
  assumes "stuck i st"
  shows "stays i st (work_next env w st)"
proof (cases "ms_held st w")
  case Nil
  then show ?thesis using assms by (simp add: work_next_def stays_def)
next
  case (Cons e mails)
  obtain r db where p: "process_email env e (ms_db st) = (r, db)" by fastforce
  let ?held = "(ms_held st)(w := if r = Inl Panicked then [] else mails)"
  have held: "ob_id d \<noteq> i" if "d \<in> set (?held v)" for v d
    using that stuck_held [OF assms, of d v] Cons by (auto split: if_splits)
  have e: "ob_id e \<noteq> i" using stuck_held [OF assms, of e w] by (simp add: Cons)
  have "stays i st (st\<lparr>ms_db := db, ms_held := ?held\<rparr>)"
  proof (cases rule: process_email_moved [of "ms_db st" env e])
    case nothing
    then have "still (ms_db st) db" by (simp add: p)
    from stays_still [OF assms this held] show ?thesis .
  next
    case (outcome f hs)
    let ?g = "\<lambda>m. if ob_id m = ob_id e then f m else m"
    show ?thesis
    proof (rule stays_rows [OF assms, of ?g])
      show "ob_id (?g m) = ob_id m" for m using outcome(1) by (auto simp: outcome_def keeps_id_def)
      show "ml_outbox db = map ?g (ml_outbox (ms_db st))" using outcome(3) by (simp add: p moved_def update_where_def)
      show "handed_count i db = handed_count i (ms_db st)"
        using handed_count_moved [OF outcome(3,2), of i] e by (simp add: p)
    qed (use e held in auto)
  qed
  then show ?thesis by (simp add: work_next_def Cons p)
qed

lemma stays_admin:
  assumes "stuck i st" and "db \<in> {snd (cancel_outbox_entry env auth j (ms_db st)), snd (retry_outbox_entry env auth j (ms_db st))}"
  shows "stays i st (st\<lparr>ms_db := db\<rparr>)"
proof -
  obtain g where "\<And>m. ob_id (g m) = ob_id m" "\<And>m. ob_status m = Sending \<Longrightarrow> g m = m"
    "ml_outbox db = map g (ml_outbox (ms_db st))" "wk_handed db = wk_handed (ms_db st)"
  proof -
    let ?c = "\<lambda>m. if ob_id m = j \<and> ob_status m = Queued then m\<lparr>ob_status := Cancelled\<rparr> else m"
    let ?r = "\<lambda>m. if ob_id m = j \<and> ob_status m = Failed then m\<lparr>ob_status := Queued, ob_attempt_count := 0,
      ob_next_attempt_at := None, ob_last_error_category := None, ob_last_error_message := None\<rparr> else m"
    have "wk_handed (snd (cancel_outbox_entry env auth j (ms_db st))) = wk_handed (ms_db st)"
      "ml_outbox (snd (cancel_outbox_entry env auth j (ms_db st))) \<in> {map id (ml_outbox (ms_db st)), map ?c (ml_outbox (ms_db st))}"
      using cancel_rows [of env auth j "ms_db st"] by simp_all
    moreover have "wk_handed (snd (retry_outbox_entry env auth j (ms_db st))) = wk_handed (ms_db st)"
      "ml_outbox (snd (retry_outbox_entry env auth j (ms_db st))) \<in> {map id (ml_outbox (ms_db st)), map ?r (ml_outbox (ms_db st))}"
      using retry_rows [of env auth j "ms_db st"] by simp_all
    ultimately have "wk_handed db = wk_handed (ms_db st)"
      "ml_outbox db = map id (ml_outbox (ms_db st)) \<or> ml_outbox db = map ?c (ml_outbox (ms_db st))
        \<or> ml_outbox db = map ?r (ml_outbox (ms_db st))"
      using assms(2) by blast+
    then show ?thesis
      by (elim disjE) ((rule that [of id] that [of ?c] that [of ?r]; simp; fail))+
  qed
  then have "stays i st (st\<lparr>ms_db := db, ms_held := ms_held st\<rparr>)"
    by (intro stays_rows [OF assms(1), of g]) (use stuck_held [OF assms(1)] in \<open>auto simp: handed_count_def\<close>)
  then show ?thesis by simp
qed

lemma stays_step: "stuck i st \<Longrightarrow> mail_step env st e st' \<Longrightarrow> stays i st st'"
proof (cases e)
  case (Arrive m)
  assume "stuck i st" "mail_step env st e st'"
  then show ?thesis using Arrive
    by (auto simp: mail_step_def stays_def stuck_def handed_count_def)
qed (use stays_fetch [of i st env] stays_work [of i st env] stays_admin [OF _ insertI1, of i st env] stays_admin [OF _ insertI2, OF _ singletonI, of i st env] in \<open>auto simp: mail_step_def\<close>)

text \<open>A mail that no worker holds and that is in the state \<^verbatim>\<open>sending\<close> stays there: no fetch returns it, no cancel
  or retry of an administrator changes it, and it is never handed over again. Such a mail is what an error of the
  database after the transfer, or a panic, leaves behind.\<close>

theorem sending_is_final:
  assumes "steps (mail_step env) st ops st'" and "stuck i st"
  shows "stuck i st' \<and> handed_count i (ms_db st') = handed_count i (ms_db st)"
  using assms
proof (induction rule: steps.induct)
  case (steps_Cons s e t es u)
  then show ?case using stays_step [of i s env e t] by (simp add: stays_def)
qed simp

section \<open>A fetched mail is sent as it was fetched\<close>


section \<open>Witnesses\<close>

definition demo_settings :: mail_provider_settings where
  "demo_settings = \<lparr>mp_id = Uuid 60, mp_tenant_id = None, mp_provider_type = Smtp, mp_host = ''mx'', mp_port = 25,
     mp_username = [], mp_password_encrypted = [], mp_tls_mode = NoTls, mp_skip_cert_verify = False,
     mp_from_address = ''a@b'', mp_from_name = ''A'', mp_reply_to = None, mp_max_emails_per_minute = 60,
     mp_max_emails_per_hour = 600, mp_enabled = True, mp_is_default = True, mp_created_at = 0, mp_updated_at = 0,
     mp_created_by = None\<rparr>"

definition demo_mail :: email_outbox where
  "demo_mail = \<lparr>ob_id = Uuid 50, ob_tenant_id = None, ob_workflow_key = None, ob_template_family_id = None,
     ob_template_version = None, ob_locale = None, ob_recipient_email = ''c@d'', ob_recipient_user_id = None,
     ob_subject = ''s'', ob_body_text = None, ob_body_html = None, ob_payload = JNull, ob_headers = None,
     ob_status = Queued, ob_priority = Normal, ob_scheduled_at = None, ob_send_after = None, ob_attempt_count = 0,
     ob_max_attempts = 1, ob_next_attempt_at = None, ob_last_error_category = None, ob_last_error_message = None,
     ob_provider_id = Some (Uuid 60), ob_provider_message_id = None, ob_sent_at = None, ob_throttle_key = None,
     ob_created_at = 0, ob_updated_at = 0, ob_created_by = None, ob_source_ip = None, ob_source_service = None\<rparr>"

definition demo_admin :: auth_user where
  "demo_admin = \<lparr>auth_user_id = Uuid 1, auth_email = ''e@f'', auth_role = ''system_admin'', auth_org_id = None\<rparr>"

definition demo_worker_env :: "down \<Rightarrow> string + string \<Rightarrow> worker_env" where
  "demo_worker_env down answer = \<lparr>wx_mail = demo_mail_env\<lparr>mx_down := down\<rparr>, wx_config = default_worker_config,
     wx_encryption_key = [], wx_decrypt = (\<lambda>_ _. Inr []), wx_tls_params = (\<lambda>_ _. None), wx_relay = (\<lambda>_. None),
     wx_mailbox = (\<lambda>_. None), wx_build = (\<lambda>_. None), wx_send = (\<lambda>_. answer), wx_clock = (\<lambda>n. int n * 1000000),
     wx_random = (\<lambda>_. 0)\<rparr>"

definition demo_queue :: mail_system where
  "demo_queue = \<lparr>ms_db = mail_db.extend (demo_mail_db\<lparr>ml_providers := [demo_settings]\<rparr>) (worker_db.fields [] []),
     ms_held = (\<lambda>_. [])\<rparr>"

lemma demo_queue_simps:
  "ml_outbox (ms_db demo_queue) = []" "wk_handed (ms_db demo_queue) = []" "ms_held demo_queue = (\<lambda>_. [])"
  "ml_providers (ms_db demo_queue) = [demo_settings]" "db_statements (ms_db demo_queue) = 0" "wk_providers (ms_db demo_queue) = []"
  by (simp_all add: demo_queue_def demo_mail_db_def demo_db_def db.defs mail_db.defs worker_db.defs)

lemma demo_init: "mail_init demo_queue"
  by (simp add: mail_init_def demo_queue_simps)

definition run_mail :: "worker_env \<Rightarrow> mail_op list \<Rightarrow> mail_system" where
  "run_mail env ops = fold (mail_next env) ops demo_queue"

lemma run_steps: "steps (mail_step env) s ops (fold (mail_next env) ops s)"
  by (induction ops arbitrary: s) (auto intro: steps.intros simp: mail_step_def)

lemma run_one_worker: "list_all of_one_worker ops \<Longrightarrow> reach mail_init (one_worker_step env) (run_mail env ops)"
proof (induction ops rule: rev_induct)
  case Nil
  then show ?case by (simp add: run_mail_def reach_init demo_init)
next
  case (snoc e ops)
  then have "reach mail_init (one_worker_step env) (run_mail env ops)" "of_one_worker e" by simp_all
  moreover have "one_worker_step env (run_mail env ops) e (run_mail env (ops @ [e]))" if "of_one_worker e"
    using that by (simp add: run_mail_def one_worker_step_def mail_step_def)
  ultimately show ?case by (blast intro: reach_step)
qed

lemma held_by_others:
  "v \<noteq> w \<Longrightarrow> ms_held (fetch_batch env w st) v = ms_held st v" "v \<noteq> w \<Longrightarrow> ms_held (work_next env w st) v = ms_held st v"
  by (auto simp: fetch_batch_def work_next_def split: prod.splits sum.splits list.splits)

lemma others_hold_nothing: "list_all of_one_worker ops \<Longrightarrow> w \<noteq> 0 \<Longrightarrow> ms_held (run_mail env ops) w = []"
proof (induction ops rule: rev_induct)
  case (snoc e ops)
  then show ?case
    by (cases e) (simp_all add: run_mail_def held_by_others)
qed (simp add: run_mail_def demo_queue_simps)

definition twice_failing :: "mail_op list" where
  "twice_failing = [Arrive demo_mail, FetchBatch 0, WorkNext 0, FetchBatch 0, WorkNext 0, FetchBatch 0, WorkNext 0]"

definition twice_failed :: mail_system where
  "twice_failed = run_mail (demo_worker_env no_failure (Inl ''x'')) twice_failing"


text \<open>The database fails when the transfer is to be recorded.\<close>

definition fails_at_3 :: down where
  "fails_at_3 n = (if n = 3 then Some ''gone'' else None)"

definition half_done :: mail_system where
  "half_done = run_mail (demo_worker_env fails_at_3 (Inr ''ok'')) [Arrive demo_mail, FetchBatch 0, WorkNext 0]"

theorem sending_is_final_witness:
  "handed_count (Uuid 50) (ms_db half_done) = 1
   \<and> stuck (Uuid 50) (fold (mail_next (demo_worker_env fails_at_3 (Inr ''ok'')))
       [FetchBatch 0, WorkNext 0, CancelMail demo_admin (Uuid 50), RetryMail demo_admin (Uuid 50), FetchBatch 1, WorkNext 1] half_done)"
proof -
  have held: "ms_held half_done w = []" for w
  proof (cases "w = 0")
    case True
    have "ms_held half_done 0 = []" by code_simp
    then show ?thesis using True by simp
  next
    case False
    then show ?thesis by (simp add: half_done_def others_hold_nothing)
  qed
  have "map ob_id (ml_outbox (ms_db half_done)) = [Uuid 50]" "map ob_status (ml_outbox (ms_db half_done)) = [Sending]"
    by code_simp+
  then have "stuck (Uuid 50) half_done" by (auto simp: stuck_def held)
  moreover have "handed_count (Uuid 50) (ms_db half_done) = 1" by code_simp
  ultimately show ?thesis
    using sending_is_final [OF run_steps] by blast
qed

definition both_fetched :: mail_system where
  "both_fetched = run_mail (demo_worker_env no_failure (Inr ''ok''))
     [Arrive demo_mail, FetchBatch 0, FetchBatch 1, CancelMail demo_admin (Uuid 50), WorkNext 1, CancelMail demo_admin (Uuid 50)]"


end
