(* ===== verification/Account_Tokens.thy ===== *)
theory Account_Tokens
  imports Mail_Service
begin

text \<open>
  Tokens that are mailed to the owners of accounts: \<^verbatim>\<open>services/password_reset.rs\<close> (resetting a password and setting the
  first one) and \<^verbatim>\<open>services/email_verification.rs\<close>. Random tokens, SHA-256 and the password hash are parameters;
  random values are read by the number of the statements sent so far.
\<close>

section \<open>Tables\<close>

record reset_token =
  prt_token_hash :: string
  prt_user_id :: "uuid option"
  prt_email :: string
  prt_purpose :: string
  prt_expires_at :: int
  prt_used_at :: "int option"
  prt_created_ip :: "string option"
  prt_user_agent :: "string option"
  prt_created_at :: int

record verification_token =
  evt_user_id :: uuid
  evt_token_hash :: string
  evt_email :: string
  evt_purpose :: string
  evt_expires_at :: int
  evt_used_at :: "int option"
  evt_created_at :: int

record account_db = mail_db +
  tk_resets :: "reset_token list"
  tk_verifications :: "verification_token list"
  tk_preferences :: "((uuid \<times> string \<times> string) \<times> string) list"

record token_env =
  tx_mail :: mail_env
  tx_token :: "nat \<Rightarrow> string"
  tx_sha256 :: "string \<Rightarrow> string"
  tx_hash_password :: "nat \<Rightarrow> string \<Rightarrow> app_error + string"
  tx_verify_password :: "string \<Rightarrow> string \<Rightarrow> app_error + bool"

abbreviation tx_down :: "token_env \<Rightarrow> down" where
  "tx_down env \<equiv> mx_down (tx_mail env)"

section \<open>Resetting a password\<close>

datatype password_reset_error =
    TokenNotFound
  | TokenExpired
  | TokenAlreadyUsed
  | ResetsLimited
  | InvalidPassword string
  | UserNotFound
  | EmailNotConfigured
  | ResetInternal string

fun password_reset_message :: "password_reset_error \<Rightarrow> string" where
  "password_reset_message TokenNotFound = ''Invalid or expired token''"
| "password_reset_message TokenExpired = ''Token has expired''"
| "password_reset_message TokenAlreadyUsed = ''Token has already been used''"
| "password_reset_message ResetsLimited = ''Too many attempts. Please try again later.''"
| "password_reset_message (InvalidPassword msg) = ''Invalid password: '' @ msg"
| "password_reset_message UserNotFound = ''User not found''"
| "password_reset_message EmailNotConfigured = ''Email system not configured. Contact administrator.''"
| "password_reset_message (ResetInternal msg) = ''Internal error: '' @ msg"

type_synonym ('a, 'd) reset = "(password_reset_error, 'a, 'd account_db_scheme) handler"

definition TOKEN_VALIDITY_MINUTES :: int where "TOKEN_VALIDITY_MINUTES = 60"
definition RATE_LIMIT_IP_HOURLY :: nat where "RATE_LIMIT_IP_HOURLY = 10"
definition RATE_LIMIT_EMAIL_HOURLY :: nat where "RATE_LIMIT_EMAIL_HOURLY = 3"

text \<open>A statement whose failure is reported with a text of its own.\<close>

definition or_failed :: "string \<Rightarrow> ('a, 'd account_db_ext mail_db_ext) query \<Rightarrow> ('a, 'd) reset" where
  "or_failed msg = hmap_err (\<lambda>_. ResetInternal msg)"

definition byte_of :: "char \<Rightarrow> 8 word" where
  "byte_of c = word_of_nat (code_point c)"

fun compare_bytes :: "string \<Rightarrow> string \<Rightarrow> 8 word \<Rightarrow> 8 word" where
  "compare_bytes (x # xs) (y # ys) result = compare_bytes xs ys (or result (xor (byte_of x) (byte_of y)))"
| "compare_bytes _ _ result = result"

text \<open>The hashes are hexadecimal, one byte for each character.\<close>

definition constant_time_compare :: "string \<Rightarrow> string \<Rightarrow> bool" where
  "constant_time_compare a b \<longleftrightarrow> length a = length b \<and> compare_bytes a b 0 = 0"

definition recent_tokens :: "int \<Rightarrow> (reset_token \<Rightarrow> bool) \<Rightarrow> reset_token list \<Rightarrow> nat" where
  "recent_tokens since P rows = length (filter (\<lambda>t. P t \<and> since < prt_created_at t) rows)"

definition check_rate_limits :: "token_env \<Rightarrow> int \<Rightarrow> string \<Rightarrow> string option \<Rightarrow> (unit, 'd) reset" where
  "check_rate_limits env now email ip_address =
     (let since = now - 3600000;
          count = (\<lambda>P. or_failed ''Rate limit check failed'' (fetch (tx_down env) (\<lambda>s. recent_tokens since P (tk_resets s))))
      in hbind (count (\<lambda>t. prt_email t = email)) (\<lambda>n.
         if RATE_LIMIT_EMAIL_HOURLY \<le> n then hfail ResetsLimited
         else (case ip_address of
                 None \<Rightarrow> hreturn ()
               | Some ip \<Rightarrow> hbind (count (\<lambda>t. prt_created_ip t = Some ip)) (\<lambda>n.
                   if RATE_LIMIT_IP_HOURLY \<le> n then hfail ResetsLimited else hreturn ()))))"

definition usable :: "account \<Rightarrow> bool" where
  "usable a \<longleftrightarrow> usr_is_active a \<and> usr_deleted_at a = None"

definition new_token :: "token_env \<Rightarrow> (string, 'd) reset" where
  "new_token env = hask (\<lambda>s. (tx_token env (db_statements s), s))"

definition store_token ::
  "token_env \<Rightarrow> int \<Rightarrow> string \<Rightarrow> string \<Rightarrow> uuid option \<Rightarrow> string \<Rightarrow> string \<Rightarrow> string option \<Rightarrow> string option \<Rightarrow> (unit, 'd) reset" where
  "store_token env now msg token user_id email purpose ip_address user_agent =
     or_failed msg (sql_execute (tx_down env) (\<lambda>s. s\<lparr>tk_resets := tk_resets s @
       [\<lparr>prt_token_hash = tx_sha256 env token, prt_user_id = user_id, prt_email = email, prt_purpose = purpose,
         prt_expires_at = now + TOKEN_VALIDITY_MINUTES * 60000, prt_used_at = None, prt_created_ip = ip_address,
         prt_user_agent = user_agent, prt_created_at = now\<rparr>]\<rparr>))"

definition reset_payload :: "string \<Rightarrow> string \<Rightarrow> string \<Rightarrow> (string \<times> json) list" where
  "reset_payload username email link =
     [(''user_name'', JString username), (''email'', JString email), (''reset_link'', JString link),
      (''expiry_hours'', JNumber (TOKEN_VALIDITY_MINUTES div 60)), (''site_name'', JString ''RustChat'')]"

definition high_priority :: enqueue_options where
  "high_priority = default_enqueue_options\<lparr>eo_priority := High\<rparr>"

definition request_password_reset ::
  "token_env \<Rightarrow> int \<Rightarrow> string \<Rightarrow> string option \<Rightarrow> string option \<Rightarrow> (unit, 'd) reset" where
  "request_password_reset env now address ip_address user_agent =
     (let email = to_lowercase (trim address)
      in hbind (check_rate_limits env now email ip_address) (\<lambda>_.
         hbind (or_failed ''Database error'' (fetch (tx_down env)
           (\<lambda>s. find (\<lambda>a. usr_email a = email \<and> usable a) (db_accounts s)))) (\<lambda>user.
         hbind (new_token env) (\<lambda>token.
         hbind (store_token env now ''Failed to create reset token'' token (map_option usr_id user) email ''password_reset''
           ip_address user_agent) (\<lambda>_.
         case user of
           None \<Rightarrow> hreturn ()
         | Some a \<Rightarrow>
             hbind (query_site_url (tx_down env)) (\<lambda>site_url.
             case site_url of
               None \<Rightarrow> hreturn ()
             | Some site_url \<Rightarrow>
                 hbind (htry (enqueue_email (tx_mail env) now ''password_reset'' (usr_email a) (Some (usr_id a))
                   (JObject (reset_payload (usr_username a) (usr_email a) (site_url @ ''/reset-password?token='' @ token)
                      @ [(''ip_address'', JString (case ip_address of Some ip \<Rightarrow> ip | None \<Rightarrow> []))]))
                   high_priority)) (\<lambda>_. hreturn ())))))))"

text \<open>The rows are decoded with a user: a token of an address without an account fails there.\<close>

definition token_user :: "reset_token option \<Rightarrow> password_reset_error + (uuid \<times> reset_token)" where
  "token_user row =
     (case row of
        None \<Rightarrow> Inl TokenNotFound
      | Some t \<Rightarrow> (case prt_user_id t of None \<Rightarrow> Inl (ResetInternal ''Token validation failed'') | Some u \<Rightarrow> Inr (u, t)))"

definition check_token :: "int \<Rightarrow> string \<Rightarrow> reset_token \<Rightarrow> password_reset_error + unit" where
  "check_token now token_hash t =
     (if \<not> constant_time_compare (prt_token_hash t) token_hash then Inl TokenNotFound
      else if prt_used_at t \<noteq> None then Inl TokenAlreadyUsed
      else if prt_expires_at t < now then Inl TokenExpired
      else Inr ())"

definition find_token :: "token_env \<Rightarrow> string \<Rightarrow> (uuid \<times> reset_token, 'd) reset" where
  "find_token env token_hash =
     hbind (or_failed ''Token validation failed'' (fetch (tx_down env)
       (\<lambda>s. find (\<lambda>t. prt_token_hash t = token_hash) (tk_resets s)))) (\<lambda>row. hlift (token_user row))"

definition validate_reset_token :: "token_env \<Rightarrow> int \<Rightarrow> string \<Rightarrow> (uuid \<times> string, 'd) reset" where
  "validate_reset_token env now token =
     hbind (find_token env (tx_sha256 env token)) (\<lambda>(user_id, t).
     hbind (hlift (check_token now (tx_sha256 env token) t)) (\<lambda>_.
     hreturn (user_id, prt_email t)))"

text \<open>\<^verbatim>\<open>reset_password\<close> up to the transaction, and the transaction.\<close>

definition reset_check :: "token_env \<Rightarrow> int \<Rightarrow> string \<Rightarrow> string \<Rightarrow> (uuid \<times> bool \<times> string, 'd) reset" where
  "reset_check env now token new_password =
     hbind (hmap_err (\<lambda>_. ResetInternal ''Failed to load password policy'') (get_password_rules (tx_down env))) (\<lambda>config.
     hbind (hlift (case validate_password new_password config of
              Inl (Validation msg) \<Rightarrow> Inl (InvalidPassword msg)
            | Inl _ \<Rightarrow> Inl (ResetInternal ''Failed to validate password'')
            | Inr _ \<Rightarrow> Inr ())) (\<lambda>_.
     hbind (find_token env (tx_sha256 env token)) (\<lambda>(user_id, t).
     hbind (hlift (check_token now (tx_sha256 env token) t)) (\<lambda>_.
     hbind (hask (\<lambda>s. (tx_hash_password env (db_statements s) new_password, s))) (\<lambda>hash.
     hbind (hlift (case hash of Inl _ \<Rightarrow> Inl (ResetInternal ''Failed to hash password'') | Inr h \<Rightarrow> Inr h)) (\<lambda>password_hash.
     hreturn (user_id, prt_purpose t = ''password_setup'', password_hash)))))))"

definition use_token :: "int \<Rightarrow> string \<Rightarrow> 'd account_db_scheme \<Rightarrow> 'd account_db_scheme" where
  "use_token now token_hash s =
     s\<lparr>tk_resets := update_where (\<lambda>t. prt_token_hash t = token_hash) (\<lambda>t. t\<lparr>prt_used_at := Some now\<rparr>) (tk_resets s)\<rparr>"

definition set_password :: "int \<Rightarrow> bool \<Rightarrow> string \<Rightarrow> account \<Rightarrow> account" where
  "set_password now activate password_hash a =
     a\<lparr>usr_password_hash := Some password_hash, usr_updated_at := now, usr_email_verified := True,
       usr_email_verified_at := (case usr_email_verified_at a of None \<Rightarrow> Some now | v \<Rightarrow> v),
       usr_is_active := (if activate then True else usr_is_active a)\<rparr>"

definition store_password :: "int \<Rightarrow> uuid \<Rightarrow> bool \<Rightarrow> string \<Rightarrow> 'd account_db_scheme \<Rightarrow> 'd account_db_scheme" where
  "store_password now user_id activate password_hash s =
     s\<lparr>db_accounts := update_where (\<lambda>a. usr_id a = user_id) (set_password now activate password_hash) (db_accounts s)\<rparr>"

definition reset_commit :: "token_env \<Rightarrow> int \<Rightarrow> string \<Rightarrow> uuid \<times> bool \<times> string \<Rightarrow> (uuid, 'd) reset" where
  "reset_commit env now token checked =
     (case checked of (user_id, activate, password_hash) \<Rightarrow>
        transaction_or (tx_down env) (ResetInternal ''Database error'')
          (hbind (or_failed ''Failed to consume token'' (sql_execute (tx_down env) (use_token now (tx_sha256 env token)))) (\<lambda>_.
           hbind (or_failed ''Failed to update password''
             (sql_execute (tx_down env) (store_password now user_id activate password_hash))) (\<lambda>_. hreturn user_id))))"

definition reset_password :: "token_env \<Rightarrow> int \<Rightarrow> string \<Rightarrow> string \<Rightarrow> (uuid, 'd) reset" where
  "reset_password env now token new_password =
     hbind (reset_check env now token new_password) (reset_commit env now token)"

definition needs_password_setup :: "token_env \<Rightarrow> uuid \<Rightarrow> (bool, 'd) reset" where
  "needs_password_setup env user_id =
     hbind (or_failed ''Database error'' (fetch (tx_down env) (\<lambda>s. find (\<lambda>a. usr_id a = user_id \<and> usable a) (db_accounts s)))) (\<lambda>user.
     hreturn (case user of None \<Rightarrow> False | Some a \<Rightarrow> usr_password_hash a = None))"

definition mail_setup_link :: "token_env \<Rightarrow> int \<Rightarrow> uuid \<Rightarrow> string \<Rightarrow> string \<Rightarrow> string \<Rightarrow> (unit, 'd) reset" where
  "mail_setup_link env now user_id username email link =
     hbind (htry (enqueue_email (tx_mail env) now ''password_reset'' email (Some user_id)
       (JObject (reset_payload username email link)) high_priority)) (\<lambda>r.
     case r of Inr _ \<Rightarrow> hreturn () | Inl _ \<Rightarrow> hfail (ResetInternal ''Failed to send setup email''))"

definition request_password_setup :: "token_env \<Rightarrow> int \<Rightarrow> uuid \<Rightarrow> string option \<Rightarrow> string option \<Rightarrow> (unit, 'd) reset" where
  "request_password_setup env now user_id ip_address user_agent =
     hbind (or_failed ''Database error'' (fetch (tx_down env) (\<lambda>s. find (\<lambda>a. usr_id a = user_id \<and> usable a) (db_accounts s)))) (\<lambda>user.
     hbind (hsome_of user UserNotFound) (\<lambda>a.
     hbind (check_rate_limits env now (usr_email a) ip_address) (\<lambda>_.
     hbind (new_token env) (\<lambda>token.
     hbind (store_token env now ''Failed to create setup token'' token (Some user_id) (usr_email a) ''password_setup''
       ip_address user_agent) (\<lambda>_.
     hbind (query_site_url (tx_down env)) (\<lambda>site_url.
     hbind (hsome_of site_url EmailNotConfigured) (\<lambda>site_url.
     mail_setup_link env now user_id (usr_username a) (usr_email a) (site_url @ ''/setup-password?token='' @ token))))))))"

definition send_password_setup_email :: "token_env \<Rightarrow> int \<Rightarrow> uuid \<Rightarrow> string \<Rightarrow> string \<Rightarrow> string \<Rightarrow> (unit, 'd) reset" where
  "send_password_setup_email env now user_id username email site_url =
     hbind (check_rate_limits env now email None) (\<lambda>_.
     hbind (new_token env) (\<lambda>token.
     hbind (store_token env now ''Failed to create setup token'' token (Some user_id) email ''password_setup'' None None) (\<lambda>_.
     mail_setup_link env now user_id username email (site_url @ ''/set-password?token='' @ token))))"

section \<open>Verifying an address\<close>

type_synonym ('a, 'd) accounts = "(app_error, 'a, 'd account_db_scheme) handler"

definition or_internal_error :: "string \<Rightarrow> ('a, 'd account_db_ext mail_db_ext) query \<Rightarrow> ('a, 'd) accounts" where
  "or_internal_error msg = hmap_err (\<lambda>_. Internal msg)"

definition put_verification :: "verification_token \<Rightarrow> verification_token list \<Rightarrow> verification_token list" where
  "put_verification new rows =
     (let same = (\<lambda>t. evt_user_id t = evt_user_id new \<and> evt_purpose t = evt_purpose new)
      in if list_ex same rows then update_where same (\<lambda>_. new) rows else rows @ [new])"

definition create_verification_token :: "token_env \<Rightarrow> int \<Rightarrow> uuid \<Rightarrow> string \<Rightarrow> string \<Rightarrow> (string, 'd) accounts" where
  "create_verification_token env now user_id email purpose =
     hbind (hask (\<lambda>s. (tx_token env (db_statements s), s))) (\<lambda>token.
     hbind (or_internal_error ''Failed to create verification token'' (sql_execute (tx_down env) (\<lambda>s. s\<lparr>tk_verifications :=
       put_verification \<lparr>evt_user_id = user_id, evt_token_hash = tx_sha256 env token, evt_email = email, evt_purpose = purpose,
         evt_expires_at = now + 24 * 3600000, evt_used_at = None, evt_created_at = now\<rparr> (tk_verifications s)\<rparr>))) (\<lambda>_.
     hreturn token))"

definition valid_verification :: "int \<Rightarrow> string \<Rightarrow> string \<Rightarrow> verification_token \<Rightarrow> bool" where
  "valid_verification now token_hash purpose t \<longleftrightarrow>
     evt_token_hash t = token_hash \<and> evt_purpose t = purpose \<and> evt_used_at t = None \<and> now < evt_expires_at t"

definition mark_verified :: "int \<Rightarrow> account \<Rightarrow> account" where
  "mark_verified now a = a\<lparr>usr_email_verified := True, usr_email_verified_at := Some now, usr_updated_at := now\<rparr>"

definition verify_token :: "token_env \<Rightarrow> int \<Rightarrow> string \<Rightarrow> string \<Rightarrow> (uuid, 'd) accounts" where
  "verify_token env now token purpose =
     (let token_hash = tx_sha256 env token
      in hbind (or_internal_error ''Failed to verify token'' (fetch (tx_down env)
           (\<lambda>s. find (valid_verification now token_hash purpose) (tk_verifications s)))) (\<lambda>row.
         hbind (hsome_of row (BadRequest ''Invalid or expired verification token'')) (\<lambda>t.
         hbind (or_internal_error ''Failed to complete verification'' (sql_execute (tx_down env) (\<lambda>s. s\<lparr>tk_verifications :=
           update_where (\<lambda>t. evt_token_hash t = token_hash) (\<lambda>t. t\<lparr>evt_used_at := Some now\<rparr>) (tk_verifications s)\<rparr>))) (\<lambda>_.
         hbind (or_internal_error ''Failed to complete verification'' (sql_execute (tx_down env) (\<lambda>s. s\<lparr>db_accounts :=
           update_where (\<lambda>a. usr_id a = evt_user_id t) (mark_verified now) (db_accounts s)\<rparr>))) (\<lambda>_.
         hreturn (evt_user_id t))))))"

definition is_email_verified :: "token_env \<Rightarrow> uuid \<Rightarrow> (bool, 'd) accounts" where
  "is_email_verified env user_id =
     hbind (or_internal_error ''Failed to check verification status'' (fetch (tx_down env)
       (\<lambda>s. find (\<lambda>a. usr_id a = user_id) (db_accounts s)))) (\<lambda>user.
     hreturn (case user of None \<Rightarrow> False | Some a \<Rightarrow> usr_email_verified a))"

definition send_verification_email :: "token_env \<Rightarrow> int \<Rightarrow> uuid \<Rightarrow> string \<Rightarrow> string \<Rightarrow> string \<Rightarrow> (unit, 'd) accounts" where
  "send_verification_email env now user_id username email verification_url_base =
     hbind (create_verification_token env now user_id email ''registration'') (\<lambda>token.
     hbind (htry (enqueue_email (tx_mail env) now ''email_verification'' email (Some user_id)
       (JObject [(''username'', JString username), (''email'', JString email),
         (''verification_link'', JString (verification_url_base @ ''?token='' @ token)), (''expiry_hours'', JNumber 24),
         (''site_name'', JString ''RustChat'')]) high_priority)) (\<lambda>r.
     case r of
       Inr _ \<Rightarrow> hreturn ()
     | Inl _ \<Rightarrow> hfail (Internal ''Failed to send verification email. Please try again later.'')))"

definition resend_verification_email :: "token_env \<Rightarrow> int \<Rightarrow> uuid \<Rightarrow> string \<Rightarrow> (unit, 'd) accounts" where
  "resend_verification_email env now user_id verification_url_base =
     hbind (or_internal_error ''Failed to fetch user'' (fetch (tx_down env)
       (\<lambda>s. find (\<lambda>a. usr_id a = user_id) (db_accounts s)))) (\<lambda>user.
     hbind (hsome_of user (NotFound ''User not found'')) (\<lambda>a.
     if usr_email_verified a then hfail (BadRequest ''Email is already verified'')
     else send_verification_email env now user_id (usr_username a) (usr_email a) verification_url_base))"

end
