(* ===== verification/Sign_In.thy ===== *)
theory Sign_In
  imports Account_Tokens Auth
begin

text \<open>
  Signing in and managing accounts: the handlers of \<^verbatim>\<open>api/auth.rs\<close> (own clients), \<^verbatim>\<open>api/v4/users/auth.rs\<close> and
  \<^verbatim>\<open>api/v4/users/management.rs\<close> (Mattermost clients) and the change of a password in \<^verbatim>\<open>api/users.rs\<close>, with the limit on
  attempts of \<^verbatim>\<open>middleware/rate_limit.rs\<close> and the Turnstile check of \<^verbatim>\<open>services/turnstile.rs\<close>.

  The Redis commands of the limit are statements like those of the database, with failures of their own. A sorted set
  of seconds scored by themselves is the list of its members.
\<close>

section \<open>What clients see of an account\<close>

record user_response =
  ur_id :: uuid
  ur_org_id :: "uuid option"
  ur_username :: string
  ur_email :: string
  ur_display_name :: "string option"
  ur_avatar_url :: "string option"
  ur_first_name :: "string option"
  ur_last_name :: "string option"
  ur_nickname :: "string option"
  ur_position :: "string option"
  ur_is_bot :: bool
  ur_role :: string
  ur_presence :: string
  ur_status_text :: "string option"
  ur_status_emoji :: "string option"
  ur_status_expires_at :: "int option"
  ur_custom_status :: "json option"
  ur_notify_props :: json
  ur_timezone :: "string option"
  ur_email_verified :: bool
  ur_created_at :: int

definition stable_avatar_path :: "(uuid \<Rightarrow> string) \<Rightarrow> uuid \<Rightarrow> string" where
  "stable_avatar_path show user_id = ''/api/v4/users/'' @ show user_id @ ''/image''"

definition legacy_avatar_key_from_url :: "(uuid \<Rightarrow> string) \<Rightarrow> uuid \<Rightarrow> string \<Rightarrow> string option" where
  "legacy_avatar_key_from_url show user_id avatar_url =
     (let trimmed = trim avatar_url
      in if trimmed = [] then None
         else (let path = hd (split_on (\<lambda>c. c = CHR ''?'') trimmed)
               in case split_once ''/files/'' path of
                    Some (_, rest) \<Rightarrow>
                      (if take (length (''files/'' @ show user_id @ ''/'')) (''files/'' @ rest) = ''files/'' @ show user_id @ ''/''
                       then Some (''files/'' @ rest) else None)
                  | None \<Rightarrow> map_option (\<lambda>rest. ''files/'' @ rest) (strip_prefix ''files/'' path)))"

definition normalize_avatar_url :: "(uuid \<Rightarrow> string) \<Rightarrow> uuid \<Rightarrow> string option \<Rightarrow> string option" where
  "normalize_avatar_url show user_id avatar_url =
     (case avatar_url of
        None \<Rightarrow> None
      | Some url \<Rightarrow>
          (let trimmed = trim url
           in if trimmed = [] then None
              else if strip_prefix ''/api/v4/users/'' trimmed \<noteq> None \<or> strip_prefix ''/api/v1/files/'' trimmed \<noteq> None then Some trimmed
              else if legacy_avatar_key_from_url show user_id trimmed \<noteq> None then Some (stable_avatar_path show user_id)
              else Some trimmed))"

definition user_response_of :: "(uuid \<Rightarrow> string) \<Rightarrow> 'a user_scheme \<Rightarrow> user_response" where
  "user_response_of show u =
     (let deleted = usr_deleted_at u \<noteq> None in
      \<lparr>ur_id = usr_id u, ur_org_id = usr_org_id u,
       ur_username = (if deleted then ''Deleted user'' else usr_username u),
       ur_email = (if deleted then ''deleted-user@local'' else usr_email u),
       ur_display_name = (if deleted then Some ''Deleted user'' else usr_display_name u),
       ur_avatar_url = normalize_avatar_url show (usr_id u) (usr_avatar_url u), ur_first_name = usr_first_name u,
       ur_last_name = usr_last_name u, ur_nickname = usr_nickname u, ur_position = usr_position u,
       ur_is_bot = usr_is_bot u, ur_role = usr_role u, ur_presence = usr_presence u, ur_status_text = usr_status_text u,
       ur_status_emoji = usr_status_emoji u, ur_status_expires_at = usr_status_expires_at u,
       ur_custom_status = usr_custom_status u, ur_notify_props = usr_notify_props u, ur_timezone = usr_timezone u,
       ur_email_verified = usr_email_verified u, ur_created_at = usr_created_at u\<rparr>)"

section \<open>The limit on attempts\<close>

record sign_db = account_db +
  sg_zsets :: "(string, int list) hm"

datatype turnstile_error = InvalidToken | ExpiredToken | InvalidSecretKey | BadTurnstileRequest | TurnstileTimeout | UnknownHost
  | TurnstileInternal

record 'r sign_env =
  sx_tokens :: token_env
  sx_auth :: "'r auth_env"
  sx_codec :: id_codec
  sx_expiry_hours :: nat
  sx_production :: bool
  sx_rate_limit_enabled :: bool
  sx_rate_limit_auth_per_minute :: nat
  sx_redis_pool :: down
  sx_redis :: down
  sx_turnstile :: "(string \<times> (string \<Rightarrow> string \<Rightarrow> string option \<Rightarrow> string option + (bool \<times> string list option))) option"
  sx_row :: "nat \<Rightarrow> account"
  sx_constraint :: string
  sx_after_membership :: "nat \<Rightarrow> nat"
  sx_json_text :: "json \<Rightarrow> string"

abbreviation sx_down :: "'r sign_env \<Rightarrow> down" where
  "sx_down env \<equiv> tx_down (sx_tokens env)"

type_synonym 'a sign = "(app_error, 'a, sign_db) handler"

definition sql :: "'r sign_env \<Rightarrow> (sign_db \<Rightarrow> 'a \<times> sign_db) \<Rightarrow> 'a sign" where
  "sql env f = hmap_err (\<lambda>e. Database (sqlx_message e)) (statement (sx_down env) f)"

definition sql_query :: "'r sign_env \<Rightarrow> (sign_db \<Rightarrow> 'a) \<Rightarrow> 'a sign" where
  "sql_query env q = sql env (\<lambda>s. (q s, s))"

definition update_accounts :: "'r sign_env \<Rightarrow> uuid \<Rightarrow> (account \<Rightarrow> account) \<Rightarrow> unit sign" where
  "update_accounts env user_id f =
     sql env (\<lambda>s. ((), s\<lparr>db_accounts := update_where (\<lambda>a. usr_id a = user_id) f (db_accounts s)\<rparr>))"

definition redis_command :: "'r sign_env \<Rightarrow> (sign_db \<Rightarrow> 'a \<times> sign_db) \<Rightarrow> 'a sign" where
  "redis_command env f = hmap_err (\<lambda>e. RedisError (sqlx_message e)) (statement (sx_redis env) f)"

record rate_limit_result =
  rl_allowed :: bool
  rl_remaining :: nat
  rl_reset_at :: int

text \<open>The time to live of the key ends when its youngest member leaves the window: it changes nothing here.\<close>

definition check_login_limit :: "'r sign_env \<Rightarrow> int \<Rightarrow> nat \<Rightarrow> nat \<Rightarrow> string \<Rightarrow> rate_limit_result sign" where
  "check_login_limit env now window_secs max_requests key =
     (let redis_key = ''ratelimit:'' @ key;
          members = (\<lambda>s. case hm_get (sg_zsets s) redis_key of Some ms \<Rightarrow> ms | None \<Rightarrow> [])
      in hbind (hmap_err (\<lambda>e. Internal (''Redis connection error: '' @ sqlx_message e)) (statement (sx_redis_pool env) (\<lambda>s. ((), s)))) (\<lambda>_.
         hbind (redis_command env (\<lambda>s. ((), s\<lparr>sg_zsets := hm_insert redis_key
           (filter (\<lambda>m. \<not> (0 \<le> m \<and> m \<le> now - int window_secs)) (members s)) (sg_zsets s)\<rparr>))) (\<lambda>_.
         hbind (redis_command env (\<lambda>s. (length (members s), s))) (\<lambda>current_count.
         if max_requests \<le> current_count
         then hreturn \<lparr>rl_allowed = False, rl_remaining = 0, rl_reset_at = now + int window_secs\<rparr>
         else hbind (redis_command env (\<lambda>s. ((), s\<lparr>sg_zsets := hm_insert redis_key
                (if now \<in> set (members s) then members s else members s @ [now]) (sg_zsets s)\<rparr>))) (\<lambda>_.
              hbind (redis_command env (\<lambda>s. ((), s))) (\<lambda>_.
              hreturn \<lparr>rl_allowed = True, rl_remaining = max_requests - current_count - 1, rl_reset_at = now + int window_secs\<rparr>))))))"

text \<open>The throttle of one account, with the texts that both log-ins share.\<close>

definition throttle_account :: "'r sign_env \<Rightarrow> int \<Rightarrow> uuid \<Rightarrow> unit sign" where
  "throttle_account env now user_id =
     (if \<not> sx_rate_limit_enabled env then hreturn ()
      else hbind (check_login_limit env (now div 1000) 60 (sx_rate_limit_auth_per_minute env)
             (''user:'' @ au_show (sx_auth env) user_id)) (\<lambda>result.
           if rl_allowed result then hreturn ()
           else hfail (TooManyRequests ''Too many login attempts. Please try again later.'')))"

definition token_for :: "'r sign_env \<Rightarrow> int \<Rightarrow> 'a user_scheme \<Rightarrow> string api_result" where
  "token_for env now u =
     create_token_with_policy (sx_auth env) (now div 1000) (usr_id u) (usr_email u) (usr_role u) (usr_org_id u)
       (au_jwt_secret (sx_auth env)) (au_jwt_issuer (sx_auth env)) (au_jwt_audience (sx_auth env)) (sx_expiry_hours env)"

section \<open>Logging in\<close>

record auth_response =
  ar_token :: string
  ar_token_type :: string
  ar_expires_in :: nat
  ar_user :: user_response

definition login :: "'r sign_env \<Rightarrow> int \<Rightarrow> string \<Rightarrow> string \<Rightarrow> auth_response sign" where
  "login env now email password =
     hbind (sql_query env (\<lambda>s. find (\<lambda>a. usr_email a = email \<and> usable a) (db_accounts s))) (\<lambda>row.
     hbind (hsome_of row (Unauthorized ''Invalid email or password'')) (\<lambda>user.
     hbind (enforce_password_login_allowed (sx_down env) (usr_email user)) (\<lambda>_.
     hbind (throttle_account env now (usr_id user)) (\<lambda>_.
     hbind (hsome_of (usr_password_hash user) (Unauthorized
       (if usr_email_verified user then ''Please set your password using the link sent to your email.''
        else ''Please verify your email and set your password first.''))) (\<lambda>password_hash.
     hbind (hlift (tx_verify_password (sx_tokens env) password password_hash)) (\<lambda>matches.
     if \<not> matches then hfail (Unauthorized ''Invalid email or password'')
     else hbind (update_accounts env (usr_id user) (\<lambda>a. a\<lparr>usr_last_login_at := Some now\<rparr>)) (\<lambda>_.
          hbind (hlift (token_for env now user)) (\<lambda>token.
          hreturn \<lparr>ar_token = token, ar_token_type = ''Bearer'', ar_expires_in = sx_expiry_hours env * 3600,
                   ar_user = user_response_of (au_show (sx_auth env)) user\<rparr>))))))))"

definition me :: "'r sign_env \<Rightarrow> auth_user \<Rightarrow> user_response sign" where
  "me env auth =
     hmap_err (\<lambda>e. Database (sqlx_message e)) (hbind
       (fetch_one (sx_down env) (\<lambda>s. find (\<lambda>a. usr_id a = auth_user_id auth \<and> usr_deleted_at a = None) (db_accounts s)))
       (\<lambda>user. hreturn (user_response_of (au_show (sx_auth env)) user)))"

definition login_headers :: "'r sign_env \<Rightarrow> string \<Rightarrow> (string \<times> string) list" where
  "login_headers env token =
     [(''token'', token), (''authorization'', ''Token '' @ token),
      (''set-cookie'', ''MMAUTHTOKEN='' @ token @ ''; Path=/; Max-Age='' @ show_nat (min (sx_expiry_hours env * 3600) u64_max) @ ''; HttpOnly''
         @ (if sx_production env then ''; Secure'' else []) @ ''; SameSite=Lax'')]"

definition v4_login ::
  "'r sign_env \<Rightarrow> int \<Rightarrow> string option \<Rightarrow> string option \<Rightarrow> string \<Rightarrow> ((string \<times> string) list \<times> mm_user) sign" where
  "v4_login env now login_id email password =
     hbind (hsome_of (case login_id of Some l \<Rightarrow> Some l | None \<Rightarrow> email) (BadRequest ''Missing login_id'')) (\<lambda>login_id.
     hbind (sql_query env (\<lambda>s. find (\<lambda>a. (usr_email a = login_id \<or> usr_username a = login_id) \<and> usable a) (db_accounts s))) (\<lambda>row.
     hbind (hsome_of row (Unauthorized ''Invalid login credentials'')) (\<lambda>user.
     hbind (enforce_password_login_allowed (sx_down env) (usr_email user)) (\<lambda>_.
     hbind (throttle_account env now (usr_id user)) (\<lambda>_.
     hbind (hsome_of (usr_password_hash user) (Unauthorized ''Please use SSO to login'')) (\<lambda>password_hash.
     hbind (hlift (tx_verify_password (sx_tokens env) password password_hash)) (\<lambda>matches.
     if \<not> matches then hfail (Unauthorized ''Invalid login credentials'')
     else hbind (update_accounts env (usr_id user) (\<lambda>a. a\<lparr>usr_last_login_at := Some now\<rparr>)) (\<lambda>_.
          hbind (hlift (token_for env now user)) (\<lambda>token.
          hreturn (login_headers env token, mm_user_of (sx_codec env) (user.truncate user)))))))))))"

section \<open>Requests for mails and tokens\<close>

definition success_message :: "string \<Rightarrow> json" where
  "success_message msg = JObject [(''success'', JBool True), (''message'', JString msg)]"

definition verify_email :: "'r sign_env \<Rightarrow> int \<Rightarrow> string \<Rightarrow> json sign" where
  "verify_email env now token =
     hbind (verify_token (sx_tokens env) now token ''registration'') (\<lambda>user_id.
     hreturn (JObject [(''success'', JBool True), (''message'', JString ''Email verified successfully''),
       (''user_id'', JString (au_show (sx_auth env) user_id))]))"

definition resend_verification :: "'r sign_env \<Rightarrow> int \<Rightarrow> string \<Rightarrow> json sign" where
  "resend_verification env now email =
     hbind (sql_query env (\<lambda>s. find (\<lambda>a. usr_email a = email \<and> usable a) (db_accounts s))) (\<lambda>row.
     case row of
       None \<Rightarrow> hreturn (success_message ''If the email exists, a verification email has been sent'')
     | Some user \<Rightarrow>
         if usr_email_verified user then hreturn (success_message ''Email is already verified'')
         else hbind (query_site_url (sx_down env)) (\<lambda>site_url.
              hbind (htry (case site_url of
                  Some url \<Rightarrow> send_verification_email (sx_tokens env) now (usr_id user) (usr_username user) (usr_email user)
                                (url @ ''/verify-email'')
                | None \<Rightarrow> hreturn ())) (\<lambda>result.
              case result of
                Inr _ \<Rightarrow> hreturn (success_message ''Verification email sent'')
              | Inl _ \<Rightarrow> hreturn (success_message ''If the email exists, a verification email has been sent''))))"

definition v4_send_email_verification :: "'r sign_env \<Rightarrow> int \<Rightarrow> string \<Rightarrow> unit sign" where
  "v4_send_email_verification env now email =
     hbind (sql_query env (\<lambda>s. find (\<lambda>a. usr_email a = email \<and> usable a) (db_accounts s))) (\<lambda>row.
     case row of
       None \<Rightarrow> hreturn ()
     | Some user \<Rightarrow>
         if usr_email_verified user then hreturn ()
         else hbind (query_site_url (sx_down env)) (\<lambda>site_url.
              case site_url of
                None \<Rightarrow> hreturn ()
              | Some url \<Rightarrow> hbind (htry (send_verification_email (sx_tokens env) now (usr_id user) (usr_username user)
                    (usr_email user) (url @ ''/verify-email''))) (\<lambda>_. hreturn ())))"

text \<open>The first error code decides; the answer of the service, \<open>None\<close> without one, is a parameter, behind the circuit breaker.\<close>

definition turnstile_code :: "string \<Rightarrow> turnstile_error" where
  "turnstile_code why =
     (if why = ''bad-request'' then BadTurnstileRequest else if why = ''timeout-or-duplicate'' then TurnstileTimeout
      else if why = ''invalid-input-secret'' then InvalidSecretKey else InvalidToken)"

definition turnstile_verify ::
  "string \<Rightarrow> (string \<Rightarrow> string \<Rightarrow> string option \<Rightarrow> string option + (bool \<times> string list option)) \<Rightarrow> string \<Rightarrow> string option \<Rightarrow>
     turnstile_error + unit" where
  "turnstile_verify secret_key ask token remote_ip =
     (if secret_key = [] then Inl InvalidSecretKey
      else if token = [] then Inl InvalidToken
      else (case ask secret_key token remote_ip of
              Inl None \<Rightarrow> Inl TurnstileTimeout
            | Inl (Some _) \<Rightarrow> Inl TurnstileInternal
            | Inr (True, _) \<Rightarrow> Inr ()
            | Inr (False, codes) \<Rightarrow> Inl (case codes of Some (why # _) \<Rightarrow> turnstile_code why | _ \<Rightarrow> InvalidToken)))"

definition forgot_message :: json where
  "forgot_message = success_message ''If an account with that email exists, you will receive a password reset link''"

definition forgot_password :: "'r sign_env \<Rightarrow> int \<Rightarrow> string \<Rightarrow> string \<Rightarrow> string option \<Rightarrow> string option \<Rightarrow> json sign" where
  "forgot_password env now addr email turnstile_token honeypot =
     (if honeypot \<noteq> None \<and> honeypot \<noteq> Some [] then hreturn forgot_message
      else if (case sx_turnstile env of
                 None \<Rightarrow> False
               | Some (secret, ask) \<Rightarrow>
                   (case turnstile_token of
                      None \<Rightarrow> True
                    | Some token \<Rightarrow> token = [] \<or> turnstile_verify secret ask token (Some addr) \<noteq> Inr ()))
           then hreturn forgot_message
      else hbind (htry (request_password_reset (sx_tokens env) now email (Some addr) None)) (\<lambda>_.
           hreturn forgot_message))"

fun reset_failure :: "password_reset_error \<Rightarrow> app_error" where
  "reset_failure (InvalidPassword msg) = Validation msg"
| "reset_failure ResetsLimited = TooManyRequests ''Too many attempts. Please try again later.''"
| "reset_failure e = (if e \<in> {TokenNotFound, TokenExpired, TokenAlreadyUsed} then BadRequest ''Invalid or expired token''
     else Internal ''Failed to reset password'')"

definition reset_password_handler :: "'r sign_env \<Rightarrow> int \<Rightarrow> string \<Rightarrow> string \<Rightarrow> json sign" where
  "reset_password_handler env now token new_password =
     hbind (hmap_err reset_failure (reset_password (sx_tokens env) now token new_password)) (\<lambda>user_id.
     hreturn (JObject [(''success'', JBool True), (''message'', JString ''Password reset successful''),
       (''user_id'', JString (au_show (sx_auth env) user_id))]))"

definition validate_token_handler :: "'r sign_env \<Rightarrow> int \<Rightarrow> string \<Rightarrow> json sign" where
  "validate_token_handler env now token =
     hbind (htry (validate_reset_token (sx_tokens env) now token)) (\<lambda>r.
     case r of
       Inr (user_id, email) \<Rightarrow> hreturn (JObject [(''valid'', JBool True),
         (''user_id'', JString (au_show (sx_auth env) user_id)), (''email'', JString email)])
     | Inl e \<Rightarrow> if e \<in> {TokenNotFound, TokenExpired, TokenAlreadyUsed} then hreturn (JObject [(''valid'', JBool False)])
                else hfail (Internal ''Failed to validate token''))"

section \<open>Changing passwords and accounts\<close>

definition hash_for :: "'r sign_env \<Rightarrow> string \<Rightarrow> string sign" where
  "hash_for env password =
     hbind (hask (\<lambda>s. (tx_hash_password (sx_tokens env) (db_statements s) password, s))) hlift"

definition fetch_account :: "'r sign_env \<Rightarrow> uuid \<Rightarrow> account sign" where
  "fetch_account env user_id =
     hmap_err (\<lambda>e. Database (sqlx_message e))
       (fetch_one (sx_down env) (\<lambda>s. find (\<lambda>a. usr_id a = user_id) (db_accounts s)))"

definition put_password :: "'r sign_env \<Rightarrow> int \<Rightarrow> uuid \<Rightarrow> string \<Rightarrow> unit sign" where
  "put_password env now user_id hash =
     update_accounts env user_id (\<lambda>a. a\<lparr>usr_password_hash := Some hash, usr_updated_at := now\<rparr>)"

definition change_password :: "'r sign_env \<Rightarrow> int \<Rightarrow> auth_user \<Rightarrow> uuid \<Rightarrow> string \<Rightarrow> unit sign" where
  "change_password env now auth user_id new_password =
     hbind (hguard (\<lambda>_. auth_user_id auth = user_id) (Forbidden ''Cannot change password for another user'')) (\<lambda>_.
     hbind (fetch_account env user_id) (\<lambda>_.
     hbind (get_password_rules (sx_down env)) (\<lambda>config.
     hbind (hlift (validate_password new_password config)) (\<lambda>_.
     hbind (hash_for env new_password) (\<lambda>hash.
     put_password env now user_id hash)))))"

definition parse_user_id :: "'r sign_env \<Rightarrow> string \<Rightarrow> uuid option" where
  "parse_user_id env s = parse_mm_or_uuid (ic_parse_str (sx_codec env)) (ic_from_slice (sx_codec env)) s"

definition resolve_user_id :: "'r sign_env \<Rightarrow> string \<Rightarrow> auth_user \<Rightarrow> uuid api_result" where
  "resolve_user_id env s auth =
     (if s = ''me'' then Inr (auth_user_id auth)
      else (case parse_user_id env s of
              None \<Rightarrow> Inl (BadRequest ''Invalid user ID'')
            | Some user_id \<Rightarrow> (if can_access_owned auth user_id USER_MANAGE then Inr user_id
                              else Inl (Forbidden ''Cannot access another user's categories''))))"

definition v4_update_password ::
  "'r sign_env \<Rightarrow> int \<Rightarrow> auth_user \<Rightarrow> string \<Rightarrow> string option \<Rightarrow> string \<Rightarrow> unit sign" where
  "v4_update_password env now auth user current_password new_password =
     hbind (hlift (resolve_user_id env user auth)) (\<lambda>user_id.
     hbind (fetch_account env user_id) (\<lambda>a.
     hbind (if user_id \<noteq> auth_user_id auth
            then hguard (\<lambda>_. user_has_permission auth SYSTEM_MANAGE) (Forbidden ''Cannot change another user's password'')
            else hbind (hsome_of current_password (BadRequest ''current_password is required'')) (\<lambda>current.
                 hbind (hsome_of (usr_password_hash a) (BadRequest ''No existing password to change'')) (\<lambda>hash.
                 hbind (hlift (tx_verify_password (sx_tokens env) current hash)) (\<lambda>matches.
                 if matches then hreturn () else hfail (BadRequest ''Invalid current password''))))) (\<lambda>_.
     hbind (hash_for env new_password) (\<lambda>hash.
     put_password env now user_id hash))))"

definition managed_user :: "'r sign_env \<Rightarrow> bool \<Rightarrow> string \<Rightarrow> uuid sign" where
  "managed_user env allowed user =
     hbind (hguard (\<lambda>_. allowed) (Forbidden ''Insufficient permissions'')) (\<lambda>_.
     hsome_of (parse_user_id env user) (BadRequest ''Invalid user_id''))"

definition update_user_roles :: "'r sign_env \<Rightarrow> auth_user \<Rightarrow> string \<Rightarrow> string \<Rightarrow> unit sign" where
  "update_user_roles env auth user roles =
     hbind (managed_user env (user_has_permission auth SYSTEM_MANAGE) user) (\<lambda>user_id.
     update_accounts env user_id (\<lambda>a. a\<lparr>usr_role := (if contains_str ''system_admin'' roles then ''system_admin'' else ''member'')\<rparr>))"

definition update_user_active :: "'r sign_env \<Rightarrow> auth_user \<Rightarrow> string \<Rightarrow> bool \<Rightarrow> unit sign" where
  "update_user_active env auth user active =
     hbind (hsome_of (parse_user_id env user) (BadRequest ''Invalid user_id'')) (\<lambda>user_id.
     hbind (hguard (\<lambda>_. can_access_owned auth user_id USER_MANAGE) (Forbidden ''Insufficient permissions'')) (\<lambda>_.
     update_accounts env user_id (\<lambda>a. a\<lparr>usr_is_active := active\<rparr>)))"

definition demote_user :: "'r sign_env \<Rightarrow> auth_user \<Rightarrow> string \<Rightarrow> unit sign" where
  "demote_user env auth user =
     hbind (managed_user env (user_has_permission auth USER_MANAGE) user) (\<lambda>user_id.
     update_accounts env user_id (\<lambda>a. a\<lparr>usr_role := ''member''\<rparr>))"

definition promote_user :: "'r sign_env \<Rightarrow> auth_user \<Rightarrow> string \<Rightarrow> unit sign" where
  "promote_user env auth user =
     hbind (managed_user env (user_has_permission auth SYSTEM_MANAGE) user) (\<lambda>user_id.
     update_accounts env user_id (\<lambda>a. a\<lparr>usr_role := ''system_admin''\<rparr>))"

definition convert_user_to_bot :: "'r sign_env \<Rightarrow> auth_user \<Rightarrow> string \<Rightarrow> unit sign" where
  "convert_user_to_bot env auth user =
     hbind (managed_user env (user_has_permission auth USER_MANAGE) user) (\<lambda>user_id.
     update_accounts env user_id (\<lambda>a. a\<lparr>usr_is_bot := True\<rparr>))"

section \<open>Registering\<close>

definition preference_defaults :: "'r sign_env \<Rightarrow> (string \<times> string \<times> string) list" where
  "preference_defaults env =
     [(''theme'', [], sx_json_text env (JObject
        [(''type'', JString ''RustChat''), (''sidebarBg'', JString ''#1A1A18''), (''sidebarText'', JString ''#ffffff''),
         (''sidebarUnreadText'', JString ''#ffffff''), (''sidebarTextHoverBg'', JString ''#25262a''),
         (''sidebarTextActiveBorder'', JString ''#00FFC2''), (''sidebarTextActiveColor'', JString ''#ffffff''),
         (''sidebarHeaderBg'', JString ''#121213''), (''sidebarHeaderTextColor'', JString ''#ffffff''),
         (''sidebarTeamBarBg'', JString ''#121213''), (''onlineIndicator'', JString ''#00FFC2''),
         (''awayIndicator'', JString ''#ffbc1f''), (''dndIndicator'', JString ''#d24b4e''),
         (''mentionBg'', JString ''#ffffff''), (''mentionColor'', JString ''#1A1A18''),
         (''centerChannelBg'', JString ''#121213''), (''centerChannelColor'', JString ''#e3e4e8''),
         (''newMessageSeparator'', JString ''#00FFC2''), (''linkColor'', JString ''#00FFC2''),
         (''buttonBg'', JString ''#00FFC2''), (''buttonColor'', JString ''#121213''), (''errorTextColor'', JString ''#da6c6e''),
         (''mentionHighlightBg'', JString ''#0d6e6e''), (''mentionHighlightLink'', JString ''#a4f4f4''),
         (''codeTheme'', JString ''monokai'')])),
      (''display_settings'', ''use_military_time'', ''false''), (''display_settings'', ''timezone'', ''Auto''),
      (''display_settings'', ''collapsed_reply_threads'', ''on''),
      (''notifications'', ''desktop'', ''mention''), (''notifications'', ''push'', ''mention''), (''notifications'', ''email'', ''true''),
      (''sidebar_settings'', ''show_unread_section'', ''true'')]"

definition seed_default_preferences :: "'r sign_env \<Rightarrow> uuid \<Rightarrow> unit sign" where
  "seed_default_preferences env user_id =
     heach (\<lambda>(category, name, value). sql env (\<lambda>s. ((),
       if (user_id, category, name) \<in> fst ` set (tk_preferences s) then s
       else s\<lparr>tk_preferences := tk_preferences s @ [((user_id, category, name), value)]\<rparr>))) (preference_defaults env)"

record create_user =
  cu_username :: string
  cu_email :: string
  cu_password :: "string option"
  cu_display_name :: "string option"
  cu_org_id :: "uuid option"
  cu_turnstile_token :: "string option"
  cu_honeypot :: "string option"

datatype register_answer = SignedUp string string user_response | AwaitingPassword string string

definition register_body :: "(user_response \<Rightarrow> json) \<Rightarrow> register_answer \<Rightarrow> json" where
  "register_body user_json r =
     (case r of
        SignedUp msg token user \<Rightarrow> JObject [(''success'', JBool True), (''message'', JString msg),
          (''requires_password_setup'', JBool False), (''token'', JString token), (''user'', user_json user)]
      | AwaitingPassword msg email \<Rightarrow> JObject [(''success'', JBool True), (''message'', JString msg),
          (''requires_password_setup'', JBool True), (''email'', JString email)])"

text \<open>The checks before the row is written; the hash is \<open>None\<close> for an account that sets its password by mail.\<close>

definition check_registration :: "'r sign_env \<Rightarrow> string \<Rightarrow> create_user \<Rightarrow> (string option) sign" where
  "check_registration env addr input =
     hbind (get_password_rules (sx_down env)) (\<lambda>config.
     hbind (hguard (\<lambda>_. allow_registration config) (Forbidden ''Public registration is disabled'')) (\<lambda>_.
     hbind (hguard (\<lambda>_. cu_honeypot input \<in> {None, Some []}) (Validation ''Invalid request'')) (\<lambda>_.
     hbind (case sx_turnstile env of
              None \<Rightarrow> hreturn ()
            | Some (secret, ask) \<Rightarrow>
                hbind (hsome_of (cu_turnstile_token input) (Validation ''Verification required'')) (\<lambda>token.
                hguard (\<lambda>_. turnstile_verify secret ask token (Some addr) = Inr ())
                  (Validation ''Verification failed. Please try again.''))) (\<lambda>_.
     hbind (hguard (\<lambda>_. 3 \<le> str_len (cu_username input)) (Validation ''Username must be at least 3 characters'')) (\<lambda>_.
     hbind (hguard (\<lambda>_. CHR ''@'' \<in> set (cu_email input)) (Validation ''Invalid email format'')) (\<lambda>_.
     hbind (sql_query env (\<lambda>s. list_ex (\<lambda>a. usr_email a = cu_email input \<and> usr_deleted_at a = None) (db_accounts s))) (\<lambda>taken.
     hbind (hguard (\<lambda>_. \<not> taken) (Conflict ''Email already registered'')) (\<lambda>_.
     hbind (sql_query env (\<lambda>s. list_ex (\<lambda>a. usr_username a = cu_username input \<and> usr_deleted_at a = None) (db_accounts s))) (\<lambda>taken.
     hbind (hguard (\<lambda>_. \<not> taken) (Conflict ''Username already taken'')) (\<lambda>_.
     case cu_password input of
       Some (c # cs) \<Rightarrow>
         hbind (get_password_rules (sx_down env)) (\<lambda>config.
         hbind (hlift (validate_password (c # cs) config)) (\<lambda>_.
         hbind (hash_for env (c # cs)) (\<lambda>hash. hreturn (Some hash))))
     | _ \<Rightarrow> hreturn None))))))))))"

text \<open>The table's own constraints, one address per row and one name per organisation, count deleted accounts too.\<close>

definition violates_unique :: "create_user \<Rightarrow> account \<Rightarrow> bool" where
  "violates_unique input a \<longleftrightarrow> usr_email a = cu_email input
     \<or> usr_username a = cu_username input \<and> usr_org_id a = cu_org_id input \<and> cu_org_id input \<noteq> None"

definition new_account :: "'r sign_env \<Rightarrow> nat \<Rightarrow> create_user \<Rightarrow> string option \<Rightarrow> account" where
  "new_account env n input hash =
     (sx_row env n)\<lparr>usr_username := cu_username input, usr_email := cu_email input, usr_password_hash := hash,
       usr_display_name := cu_display_name input, usr_org_id := cu_org_id input, usr_role := ''member'',
       usr_is_active := hash \<noteq> None, usr_email_verified := False\<rparr>"

definition insert_account :: "'r sign_env \<Rightarrow> create_user \<Rightarrow> string option \<Rightarrow> account sign" where
  "insert_account env input hash =
     hbind (sql env (\<lambda>s.
       if list_ex (violates_unique input) (db_accounts s) then (None, s)
       else (let a = new_account env (db_statements s) input hash in (Some a, s\<lparr>db_accounts := db_accounts s @ [a]\<rparr>))))
       (\<lambda>row. hsome_of row (Database (sx_constraint env)))"

definition signed_up :: "'r sign_env \<Rightarrow> int \<Rightarrow> account \<Rightarrow> string \<Rightarrow> register_answer sign" where
  "signed_up env now user msg =
     hbind (hlift (token_for env now user)) (\<lambda>token.
     hreturn (SignedUp msg token (user_response_of (au_show (sx_auth env)) user)))"

text \<open>The membership policies write to tables that are not part of the state; only that statements were sent shows.\<close>

definition after_insert :: "'r sign_env \<Rightarrow> int \<Rightarrow> string option \<Rightarrow> account \<Rightarrow> register_answer sign" where
  "after_insert env now hash user =
     hbind (seed_default_preferences env (usr_id user)) (\<lambda>_.
     hbind (hdo (\<lambda>s. s\<lparr>db_statements := sx_after_membership env (db_statements s)\<rparr>)) (\<lambda>_.
     hbind (query_site_url (sx_down env)) (\<lambda>site_url.
     case (site_url, hash) of
       (Some url, Some _) \<Rightarrow>
         hbind (htry (send_verification_email (sx_tokens env) now (usr_id user) (usr_username user) (usr_email user)
           (url @ ''/verify-email''))) (\<lambda>_.
         signed_up env now user ''Registration successful. Please check your email to verify your account.'')
     | (Some url, None) \<Rightarrow>
         hbind (htry (send_password_setup_email (sx_tokens env) now (usr_id user) (usr_username user) (usr_email user) url)) (\<lambda>_.
         hreturn (AwaitingPassword ''Registration successful. Please check your email to set your password.'' (usr_email user)))
     | (None, Some _) \<Rightarrow> signed_up env now user ''Registration successful.''
     | (None, None) \<Rightarrow>
         hreturn (AwaitingPassword ''Registration successful. Please contact administrator to set your password.''
           (usr_email user)))))"

definition register_account :: "'r sign_env \<Rightarrow> int \<Rightarrow> string \<Rightarrow> create_user \<Rightarrow> register_answer sign" where
  "register_account env now addr input =
     hbind (check_registration env addr input) (\<lambda>hash.
     hbind (insert_account env input hash) (after_insert env now hash))"

end
