(* ===== verification/Account_Security.thy ===== *)
theory Account_Security
  imports Account_Tokens Machine
begin

text \<open>
  What the tokens of accounts guarantee over every sequence of requests, and where requests that overlap break it.
\<close>

section \<open>Comparing hashes\<close>

lemma byte_of_inj: "byte_of x = byte_of y \<longleftrightarrow> x = y"
proof
  have small: "code_point c < 256" for c by (simp add: code_point_def of_char_def char.case_eq_if) 
  assume "byte_of x = byte_of y"
  then have "unat (byte_of x) = unat (byte_of y)" by simp
  then have "code_point x = code_point y" using small by (simp add: byte_of_def unat_of_nat)
  then show "x = y" by (simp add: code_point_def)
qed simp

lemma compare_bytes_0:
  "length xs = length ys \<Longrightarrow> compare_bytes xs ys r = 0 \<longleftrightarrow> r = 0 \<and> xs = ys"
proof (induction xs ys arbitrary: r rule: list_induct2)
  case (Cons x xs y ys)
  have "or r (xor (byte_of x) (byte_of y)) = 0 \<longleftrightarrow> r = 0 \<and> byte_of x = byte_of y"
    by (auto simp: or_eq_0_iff intro: bit_eqI) (metis xor_self_eq word_bw_lcs(3) xor.right_neutral)
  moreover have "byte_of x = byte_of y \<longleftrightarrow> x = y" by (rule byte_of_inj)
  ultimately show ?case using Cons by simp
qed simp

lemma constant_time_compare_eq: "constant_time_compare a b \<longleftrightarrow> a = b"
  by (auto simp: constant_time_compare_def compare_bytes_0)

section \<open>Queueing a mail leaves the accounts alone\<close>

lemma hoare_same:
  assumes "\<And>s. hoare (same_tables s) h (same_tables s)" and "\<And>s n. I s \<Longrightarrow> I (s\<lparr>db_statements := n\<rparr>)"
  shows "hoare I h I"
proof (rule hoareI)
  fix s assume "I s"
  moreover have "same_tables s (snd (h s))" using assms(1) [of s] by (simp add: hoare_def)
  ultimately show "I (snd (h s))" using assms(2) by (auto simp: same_tables_def)
qed

lemma hoare_enqueue:
  fixes I :: "'d mail_db_scheme \<Rightarrow> bool"
  assumes I: "\<And>s n. I s \<Longrightarrow> I (s\<lparr>db_statements := n\<rparr>)" and "\<And>s x. I s \<Longrightarrow> I (s\<lparr>ml_outbox := x\<rparr>)"
    and "\<And>s x. I s \<Longrightarrow> I (s\<lparr>ml_events := x\<rparr>)"
  shows "hoare I (enqueue_email env now key recipient user payload options) I"
proof -
  note checks = same_checks [THEN hoare_same [where I = I, OF _ I]]
  show ?thesis
    unfolding enqueue_email_def insert_mail_def record_event_def sql_execute_def Let_def
    by (intro keeping checks; simp add: keeps_def assms)
qed

section \<open>The machine\<close>

text \<open>
  Requests about accounts, one after another. Resetting a password is two steps, the check of the token and the
  transaction that uses it, so that two resets can overlap; \<open>as_checked n\<close> is what request \<open>n\<close> read.
\<close>

record account_system =
  as_db :: account_db
  as_checked :: "nat \<Rightarrow> (string \<times> uuid \<times> bool \<times> string) option"
  as_now :: int

datatype account_op =
    RequestReset string "string option" "string option"
  | RequestSetup uuid "string option" "string option"
  | SendSetup uuid string string string
  | CheckReset nat string string
  | CommitReset nat
  | VerifyAddress string
  | SendVerification uuid string string string
  | Elapse nat

definition check_reset :: "token_env \<Rightarrow> nat \<Rightarrow> string \<Rightarrow> string \<Rightarrow> account_system \<Rightarrow> account_system" where
  "check_reset env n token new_password st =
     (case reset_check env (as_now st) token new_password (as_db st) of
        (Inr checked, db) \<Rightarrow> st\<lparr>as_db := db, as_checked := (as_checked st)(n \<mapsto> (token, checked))\<rparr>
      | (Inl _, db) \<Rightarrow> st\<lparr>as_db := db, as_checked := (as_checked st)(n := None)\<rparr>)"

definition commit_reset :: "token_env \<Rightarrow> nat \<Rightarrow> account_system \<Rightarrow> account_system" where
  "commit_reset env n st =
     (case as_checked st n of
        None \<Rightarrow> st
      | Some (token, checked) \<Rightarrow>
          st\<lparr>as_db := snd (reset_commit env (as_now st) token checked (as_db st)), as_checked := (as_checked st)(n := None)\<rparr>)"

fun account_next :: "token_env \<Rightarrow> account_op \<Rightarrow> account_system \<Rightarrow> account_system" where
  "account_next env (RequestReset email ip agent) st =
     st\<lparr>as_db := snd (request_password_reset env (as_now st) email ip agent (as_db st))\<rparr>"
| "account_next env (RequestSetup user_id ip agent) st =
     st\<lparr>as_db := snd (request_password_setup env (as_now st) user_id ip agent (as_db st))\<rparr>"
| "account_next env (SendSetup user_id username email site_url) st =
     st\<lparr>as_db := snd (send_password_setup_email env (as_now st) user_id username email site_url (as_db st))\<rparr>"
| "account_next env (CheckReset n token new_password) st = check_reset env n token new_password st"
| "account_next env (CommitReset n) st = commit_reset env n st"
| "account_next env (VerifyAddress token) st =
     st\<lparr>as_db := snd (verify_token env (as_now st) token ''registration'' (as_db st))\<rparr>"
| "account_next env (SendVerification user_id username email url) st =
     st\<lparr>as_db := snd (send_verification_email env (as_now st) user_id username email url (as_db st))\<rparr>"
| "account_next env (Elapse d) st = st\<lparr>as_now := as_now st + int d\<rparr>"

definition account_step :: "token_env \<Rightarrow> account_system \<Rightarrow> account_op \<Rightarrow> account_system \<Rightarrow> bool" where
  "account_step env st e st' \<longleftrightarrow> st' = account_next env e st"

definition account_init :: "account_system \<Rightarrow> bool" where
  "account_init st \<longleftrightarrow> tk_resets (as_db st) = [] \<and> as_checked st = Map.empty"

section \<open>What requests do to the reset tokens\<close>

definition under_limits :: "int \<Rightarrow> reset_token list \<Rightarrow> string \<Rightarrow> string option \<Rightarrow> bool" where
  "under_limits now rows email ip \<longleftrightarrow>
     recent_tokens (now - 3600000) (\<lambda>t. prt_email t = email) rows < RATE_LIMIT_EMAIL_HOURLY \<and>
     (case ip of None \<Rightarrow> True
      | Some a \<Rightarrow> recent_tokens (now - 3600000) (\<lambda>t. prt_created_ip t = Some a) rows < RATE_LIMIT_IP_HOURLY)"

text \<open>At most one token was added, within the limits.\<close>

definition may_add :: "int \<Rightarrow> reset_token list \<Rightarrow> 'd account_db_scheme \<Rightarrow> bool" where
  "may_add now rows s \<longleftrightarrow> tk_resets s = rows \<or>
     (\<exists>t. tk_resets s = rows @ [t] \<and> prt_created_at t = now \<and> under_limits now rows (prt_email t) (prt_created_ip t))"

definition has_tokens :: "reset_token list \<Rightarrow> 'd account_db_scheme \<Rightarrow> bool" where
  "has_tokens rows s \<longleftrightarrow> tk_resets s = rows"

lemma token_inv [simp]:
  "may_add now rows (s\<lparr>db_statements := n\<rparr>) \<longleftrightarrow> may_add now rows s" "has_tokens rows (s\<lparr>db_statements := n\<rparr>) \<longleftrightarrow> has_tokens rows s"
  "may_add now rows (s\<lparr>ml_outbox := x\<rparr>) \<longleftrightarrow> may_add now rows s" "has_tokens rows (s\<lparr>ml_outbox := x\<rparr>) \<longleftrightarrow> has_tokens rows s"
  "may_add now rows (s\<lparr>ml_events := y\<rparr>) \<longleftrightarrow> may_add now rows s" "has_tokens rows (s\<lparr>ml_events := y\<rparr>) \<longleftrightarrow> has_tokens rows s"
  "may_add now rows (s\<lparr>db_accounts := z\<rparr>) \<longleftrightarrow> may_add now rows s" "has_tokens rows (s\<lparr>db_accounts := z\<rparr>) \<longleftrightarrow> has_tokens rows s"
  "has_tokens rows (s\<lparr>tk_verifications := v\<rparr>) \<longleftrightarrow> has_tokens rows s"
  by (simp_all add: may_add_def has_tokens_def)

lemma has_may_add: "has_tokens rows s \<Longrightarrow> may_add now rows s"
  by (simp add: may_add_def has_tokens_def)

text \<open>Statements and queries, with their failures.\<close>

lemma hoare_plain:
  assumes I: "\<And>s n. I (s\<lparr>db_statements := n\<rparr>) \<longleftrightarrow> I s"
  shows "hoare I (or_failed msg (fetch down q)) I" "hoare I (or_internal_error msg (fetch down q)) I"
    "hoare I (query_site_url down) I" "hoare I (new_token env) I" "hoare I (hask (\<lambda>s. (f s, s))) I"
    "hoare I (hmap_err g (get_password_rules down)) I"
  unfolding or_failed_def or_internal_error_def fetch_def query_site_url_def new_token_def get_password_rules_def fetch_one_def
  by (intro keeping; simp add: keeps_def I)+

lemma hoare_mail:
  "hoare (may_add now rows) (enqueue_email env n k r u p opts) (may_add now rows)"
  "hoare (has_tokens rows) (enqueue_email env n k r u p opts) (has_tokens rows)"
  by (rule hoare_enqueue; simp)+

lemma hoare_limits:
  fixes f :: "unit \<Rightarrow> ('a, 'd) reset"
  assumes "under_limits now rows email ip \<Longrightarrow> hoare (has_tokens rows) (f ()) (may_add now rows)"
  shows "hoare (has_tokens rows) (hbind (check_rate_limits env now email ip) f) (may_add now rows)"
proof (rule hoareI)
  fix s :: "'d account_db_scheme"
  assume s: "has_tokens rows s"
  have "hoare (has_tokens rows) (check_rate_limits env now email ip :: (unit, 'd) reset) (has_tokens rows)"
    unfolding check_rate_limits_def Let_def by (intro keeping hoare_plain) simp_all
  then have keep: "has_tokens rows (snd (check_rate_limits env now email ip s))" using s by (simp add: hoare_def)
  have ok: "under_limits now rows email ip" if "check_rate_limits env now email ip s = (Inr u, t)" for u t
    using that s
    by (auto simp: check_rate_limits_def Let_def or_failed_def handler_done fetch_done under_limits_def has_tokens_def
        split: if_splits option.splits)
  show "may_add now rows (snd (hbind (check_rate_limits env now email ip) f s))"
  proof (cases "check_rate_limits env now email ip s")
    case (Pair r t)
    show ?thesis
    proof (cases r)
      case (Inl e)
      then show ?thesis using keep Pair by (simp add: hbind_def has_may_add)
    next
      case (Inr u)
      then have "under_limits now rows email ip" using ok [of u t] by (simp add: Pair)
      from assms [OF this] show ?thesis using keep by (simp add: hbind_def Pair Inr hoare_def)
    qed
  qed
qed

lemma hoare_store:
  "under_limits now rows email ip \<Longrightarrow>
   hoare (has_tokens rows) (store_token env now msg token u email purpose ip agent) (may_add now rows)"
  by (auto simp: hoare_def store_token_def or_failed_def sql_execute_def statement_def hmap_err_def Let_def may_add_def
      has_tokens_def split: option.splits)

lemma hoare_setup_link: "hoare (may_add now rows) (mail_setup_link env n u name email link) (may_add now rows)"
  unfolding mail_setup_link_def by (intro keeping hoare_mail) (auto split: sum.splits intro!: keeping)

lemma hoare_pass:
  "hoare (has_tokens rows) h (has_tokens rows) \<Longrightarrow> (\<And>x. hoare (has_tokens rows) (f x) (may_add now rows)) \<Longrightarrow>
   hoare (has_tokens rows) (hbind h f) (may_add now rows)"
  by (rule hoare_seq) (simp_all add: has_may_add)

lemma request_adds: "hoare (has_tokens rows) (request_password_reset env now address ip agent) (may_add now rows)"
  unfolding request_password_reset_def Let_def
  by (rule hoare_limits hoare_pass [OF hoare_plain(1)] hoare_pass [OF hoare_plain(4)] hoare_enter hoare_store
      keeping hoare_mail hoare_plain | simp | assumption)+

lemma setup_adds: "hoare (has_tokens rows) (request_password_setup env now u ip agent) (may_add now rows)"
  unfolding request_password_setup_def
  by (rule hoare_pass [OF hoare_plain(1)] hoare_pass [OF hoare_more(3)] hoare_limits hoare_pass [OF hoare_plain(4)] hoare_enter
      hoare_store keeping hoare_setup_link hoare_plain | simp | assumption)+

lemma send_setup_adds: "hoare (has_tokens rows) (send_password_setup_email env now u name email url) (may_add now rows)"
  unfolding send_password_setup_email_def
  by (rule hoare_limits hoare_pass [OF hoare_plain(4)] hoare_enter hoare_store hoare_setup_link | simp | assumption)+

lemma others_keep_tokens:
  "hoare (has_tokens rows) (reset_check env now token pw) (has_tokens rows)"
  "hoare (has_tokens rows) (verify_token env now token purpose) (has_tokens rows)"
  "hoare (has_tokens rows) (send_verification_email env now u name email url) (has_tokens rows)"
proof -
  show "hoare (has_tokens rows) (reset_check env now token pw) (has_tokens rows)"
    unfolding reset_check_def find_token_def by (intro keeping hoare_plain) simp_all
  show "hoare (has_tokens rows) (verify_token env now token purpose) (has_tokens rows)"
    unfolding verify_token_def Let_def or_internal_error_def sql_execute_def fetch_def
    by (intro keeping) (simp_all add: keeps_def)
  show "hoare (has_tokens rows) (send_verification_email env now u name email url) (has_tokens rows)"
    unfolding send_verification_email_def create_verification_token_def or_internal_error_def sql_execute_def
    by (intro keeping hoare_mail) (auto simp: keeps_def split: sum.splits intro!: keeping)
qed

text \<open>The transaction marks all rows of the token or leaves the tables as they were.\<close>

lemma commit_cases:
  fixes s :: "'d account_db_scheme"
  shows "fst (reset_commit env now token (u, activate, h) s) = Inr u
    \<and> tk_resets (snd (reset_commit env now token (u, activate, h) s)) =
        update_where (\<lambda>t. prt_token_hash t = tx_sha256 env token) (\<lambda>t. t\<lparr>prt_used_at := Some now\<rparr>) (tk_resets s)
    \<and> db_accounts (snd (reset_commit env now token (u, activate, h) s)) =
        update_where (\<lambda>a. usr_id a = u) (set_password now activate h) (db_accounts s)
   \<or> (\<exists>e. fst (reset_commit env now token (u, activate, h) s) = Inl e)
    \<and> tk_resets (snd (reset_commit env now token (u, activate, h) s)) = tk_resets s
    \<and> db_accounts (snd (reset_commit env now token (u, activate, h) s)) = db_accounts s"
  by (simp add: reset_commit_def transaction_or_def or_failed_def sql_execute_def statement_def handler_defs Let_def
      use_token_def store_password_def split: option.splits)

definition tokens_next :: "int \<Rightarrow> reset_token list \<Rightarrow> reset_token list \<Rightarrow> bool" where
  "tokens_next now rows rows' \<longleftrightarrow> rows' = rows
     \<or> (\<exists>t. rows' = rows @ [t] \<and> prt_created_at t = now \<and> under_limits now rows (prt_email t) (prt_created_ip t))
     \<or> (\<exists>h. rows' = update_where (\<lambda>t. prt_token_hash t = h) (\<lambda>t. t\<lparr>prt_used_at := Some now\<rparr>) rows)"

lemma tokens_step:
  assumes "account_step env st e st'"
  shows "tokens_next (as_now st) (tk_resets (as_db st)) (tk_resets (as_db st'))" and "as_now st \<le> as_now st'"
proof -
  let ?s = "as_db st" and ?now = "as_now st"
  have add: "tokens_next ?now (tk_resets ?s) (tk_resets (snd (h ?s)))"
    if "hoare (has_tokens (tk_resets ?s)) h (may_add ?now (tk_resets ?s))" for h :: "('a, unit) reset"
    using that by (auto simp: hoare_def has_tokens_def may_add_def tokens_next_def)
  have keep: "tokens_next ?now (tk_resets ?s) (tk_resets (snd (h ?s)))"
    if "hoare (has_tokens (tk_resets ?s)) h (has_tokens (tk_resets ?s))" for h :: "('e, 'a, account_db) handler"
    using that by (auto simp: hoare_def has_tokens_def tokens_next_def)
  show "tokens_next ?now (tk_resets ?s) (tk_resets (as_db st'))"
  proof (cases e)
    case (CheckReset n token pw)
    then have "tk_resets (as_db st') = tk_resets (snd (reset_check env ?now token pw ?s))"
      using assms by (auto simp: account_step_def check_reset_def split: prod.splits sum.splits)
    then show ?thesis using keep [OF others_keep_tokens(1)] by simp
  next
    case (CommitReset n)
    show ?thesis
    proof (cases "as_checked st n")
      case None
      then show ?thesis using assms CommitReset by (simp add: account_step_def commit_reset_def tokens_next_def)
    next
      case (Some c)
      obtain token u activate h where c: "c = (token, u, activate, h)" by (cases c)
      show ?thesis using assms CommitReset Some commit_cases [of env ?now token u activate h ?s]
        by (auto simp: account_step_def commit_reset_def c tokens_next_def)
    qed
  qed (use assms add [OF request_adds] add [OF setup_adds] add [OF send_setup_adds] keep [OF others_keep_tokens(2)]
      keep [OF others_keep_tokens(3)] in \<open>simp_all add: account_step_def tokens_next_def\<close>)
  show "?now \<le> as_now st'"
    using assms by (cases e) (auto simp: account_step_def check_reset_def commit_reset_def split: prod.splits sum.splits option.splits)
qed

section \<open>How many tokens there can be\<close>

definition in_window :: "int \<Rightarrow> (reset_token \<Rightarrow> bool) \<Rightarrow> reset_token list \<Rightarrow> nat" where
  "in_window until P rows = length (filter (\<lambda>t. P t \<and> until - 3600000 < prt_created_at t \<and> prt_created_at t \<le> until) rows)"

definition tokens_inv :: "account_system \<Rightarrow> bool" where
  "tokens_inv st \<longleftrightarrow>
     (\<forall>t \<in> set (tk_resets (as_db st)). prt_created_at t \<le> as_now st) \<and>
     (\<forall>until email. in_window until (\<lambda>t. prt_email t = email) (tk_resets (as_db st)) \<le> RATE_LIMIT_EMAIL_HOURLY) \<and>
     (\<forall>until ip. in_window until (\<lambda>t. prt_created_ip t = Some ip) (tk_resets (as_db st)) \<le> RATE_LIMIT_IP_HOURLY)"

lemma in_window_used:
  assumes "\<And>t. P (t\<lparr>prt_used_at := u\<rparr>) \<longleftrightarrow> P t"
  shows "in_window until P (update_where Q (\<lambda>t. t\<lparr>prt_used_at := u\<rparr>) rows) = in_window until P rows"
  by (induction rows) (auto simp: in_window_def update_where_def assms)

lemma in_window_add:
  assumes rows: "\<forall>t \<in> set rows. prt_created_at t \<le> now" and bound: "in_window until P rows \<le> n"
    and t: "prt_created_at t = now" and recent: "P t \<Longrightarrow> recent_tokens (now - 3600000) P rows < n"
  shows "in_window until P (rows @ [t]) \<le> n"
proof (cases "P t \<and> until - 3600000 < now \<and> now \<le> until")
  case True
  have "in_window until P rows \<le> recent_tokens (now - 3600000) P rows"
    unfolding in_window_def recent_tokens_def using True by (induction rows) auto
  then show ?thesis using True recent t by (simp add: in_window_def)
qed (use bound t in \<open>auto simp: in_window_def\<close>)

lemma tokens_inv_step:
  assumes "tokens_inv st" and "account_step env st e st'"
  shows "tokens_inv st'"
  using tokens_step(1) [OF assms(2)] unfolding tokens_next_def
proof (elim disjE exE)
  assume "tk_resets (as_db st') = tk_resets (as_db st)"
  then show ?thesis using assms(1) tokens_step(2) [OF assms(2)] by (fastforce simp: tokens_inv_def)
next
  fix t
  assume t: "tk_resets (as_db st') = tk_resets (as_db st) @ [t] \<and> prt_created_at t = as_now st
    \<and> under_limits (as_now st) (tk_resets (as_db st)) (prt_email t) (prt_created_ip t)"
  then show ?thesis using assms(1) tokens_step(2) [OF assms(2)]
    by (fastforce simp: tokens_inv_def under_limits_def intro!: in_window_add [of _ "as_now st"])
next
  fix h
  assume "tk_resets (as_db st') = update_where (\<lambda>t. prt_token_hash t = h) (\<lambda>t. t\<lparr>prt_used_at := Some (as_now st)\<rparr>)
    (tk_resets (as_db st))"
  then show ?thesis using assms(1) tokens_step(2) [OF assms(2)]
    by (fastforce simp: tokens_inv_def in_window_used set_update_where)
qed

interpretation accounts: safe_machine account_init "account_step env" tokens_inv for env
proof
  show "account_init st \<Longrightarrow> tokens_inv st" for st
    by (simp add: account_init_def tokens_inv_def in_window_def)
qed (rule tokens_inv_step)

text \<open>C40. However requests for new passwords and first passwords follow each other, within any hour at most three tokens
  are created for one address and at most ten from one IP address. (Requests are taken one after another; the count
  and the insertion of a token are two statements, so that requests that overlap can exceed the bounds.)\<close>

theorem reset_tokens_bounded:
  assumes "reach account_init (account_step env) st"
  shows "in_window until (\<lambda>t. prt_email t = email) (tk_resets (as_db st)) \<le> 3
    \<and> in_window until (\<lambda>t. prt_created_ip t = Some ip) (tk_resets (as_db st)) \<le> 10"
  using accounts.reach_safe [OF assms] by (simp add: tokens_inv_def RATE_LIMIT_EMAIL_HOURLY_def RATE_LIMIT_IP_HOURLY_def)

section \<open>What a reset needs and does\<close>

lemma find_token_done:
  "find_token env hash s = (Inr (u, r), t) \<longleftrightarrow> fetch (tx_down env) (\<lambda>s. find (\<lambda>t. prt_token_hash t = hash) (tk_resets s)) s = (Inr (Some r), t)
     \<and> prt_user_id r = Some u"
  by (fastforce simp: find_token_def or_failed_def handler_done token_user_def split: option.splits)

lemma check_token_done:
  "check_token now hash r = Inr x \<longleftrightarrow> prt_token_hash r = hash \<and> prt_used_at r = None \<and> now \<le> prt_expires_at r"
  by (auto simp: check_token_def constant_time_compare_eq)

lemma check_done:
  assumes "reset_check env now token pw s = (Inr (u, activate, h), t)"
  obtains r config n where "find (\<lambda>t. prt_token_hash t = tx_sha256 env token) (tk_resets s) = Some r"
    "prt_user_id r = Some u" "prt_used_at r = None" "now \<le> prt_expires_at r" "activate = (prt_purpose r = ''password_setup'')"
    "db_authentication s = Some config" "validate_password pw config = Inr ()" "tx_hash_password env n pw = Inr h"
proof -
  obtain config s1 where config: "get_password_rules (tx_down env) s = (Inr config, s1)"
    and rules: "validate_password pw config = Inr ()"
    and rest: "hbind (find_token env (tx_sha256 env token)) (\<lambda>(user_id, t).
     hbind (hlift (check_token now (tx_sha256 env token) t)) (\<lambda>_.
     hbind (hask (\<lambda>s. (tx_hash_password env (db_statements s) pw, s))) (\<lambda>hash.
     hbind (hlift (case hash of Inl _ \<Rightarrow> Inl (ResetInternal ''Failed to hash password'') | Inr h \<Rightarrow> Inr h)) (\<lambda>password_hash.
     hreturn (user_id, prt_purpose t = ''password_setup'', password_hash))))) s1 = (Inr (u, activate, h), t)"
    using assms unfolding reset_check_def
    by (elim hbindE) (auto simp: handler_done split: sum.splits app_error.splits)
  have s1: "db_authentication s = Some config" "tk_resets s1 = tk_resets s"
    using config by (auto simp: get_password_rules_def db_done)
  from rest obtain r s2 where r: "find_token env (tx_sha256 env token) s1 = (Inr (u, r), s2)"
    "check_token now (tx_sha256 env token) r = Inr ()" "activate = (prt_purpose r = ''password_setup'')"
    "tx_hash_password env (db_statements s2) pw = Inr h"
    by (elim hbindE) (auto simp: handler_done hask_def split: sum.splits)
  show ?thesis
    using r s1 rules by (intro that [of r config "db_statements s2"]) (auto simp: find_token_done check_token_done fetch_done)
qed

lemma reset_exact_aux:
  fixes s :: "'d account_db_scheme"
  shows "case reset_password env now token pw s of
      (Inr u, t) \<Rightarrow> \<exists>r config n h. find (\<lambda>t. prt_token_hash t = tx_sha256 env token) (tk_resets s) = Some r
          \<and> prt_user_id r = Some u \<and> prt_used_at r = None \<and> now \<le> prt_expires_at r
          \<and> db_authentication s = Some config \<and> validate_password pw config = Inr () \<and> tx_hash_password env n pw = Inr h
          \<and> db_accounts t = update_where (\<lambda>a. usr_id a = u) (set_password now (prt_purpose r = ''password_setup'') h) (db_accounts s)
          \<and> tk_resets t = update_where (\<lambda>t. prt_token_hash t = tx_sha256 env token) (\<lambda>t. t\<lparr>prt_used_at := Some now\<rparr>) (tk_resets s)
    | (Inl _, t) \<Rightarrow> db_accounts t = db_accounts s \<and> tk_resets t = tk_resets s"
proof (cases "reset_check env now token pw s")
  case (Pair r t)
  have "hoare (same_tables s) (reset_check env now token pw) (same_tables s)"
    unfolding reset_check_def find_token_def or_failed_def by (intro keeping) (simp add: keeps_def)
  then have "same_tables s t" using Pair by (rule same_step)
  then have same: "db_accounts t = db_accounts s" "tk_resets t = tk_resets s"
    by (auto simp: same_tables_def)
  show ?thesis
  proof (cases r)
    case (Inl e)
    then show ?thesis using same by (simp add: reset_password_def hbind_def Pair)
  next
    case (Inr c)
    obtain u activate h where c: "c = (u, activate, h)" by (cases c)
    obtain q v where commit: "reset_commit env now token (u, activate, h) t = (q, v)" by fastforce
    have whole: "reset_password env now token pw s = (q, v)"
      by (simp add: reset_password_def hbind_def Pair Inr c commit)
    show ?thesis
    proof (cases q)
      case (Inl e)
      then show ?thesis using commit_cases [of env now token u activate h t] same by (simp add: whole commit)
    next
      case Inr2: (Inr u')
      obtain r config n where r: "find (\<lambda>t. prt_token_hash t = tx_sha256 env token) (tk_resets s) = Some r"
        "prt_user_id r = Some u" "prt_used_at r = None" "now \<le> prt_expires_at r" "activate = (prt_purpose r = ''password_setup'')"
        "db_authentication s = Some config" "validate_password pw config = Inr ()" "tx_hash_password env n pw = Inr h"
        using check_done [OF Pair [unfolded Inr c]] .
      have "u' = u" "db_accounts v = update_where (\<lambda>a. usr_id a = u) (set_password now activate h) (db_accounts s)"
        "tk_resets v = update_where (\<lambda>t. prt_token_hash t = tx_sha256 env token) (\<lambda>t. t\<lparr>prt_used_at := Some now\<rparr>) (tk_resets s)"
        using commit_cases [of env now token u activate h t] same by (simp_all add: commit Inr2)
      then show ?thesis using r by (simp add: whole Inr2) blast
    qed
  qed
qed

text \<open>C16. A password is reset only with a token that was issued, has not been used and has not expired, and only to one
  that satisfies the password rules. The reset then changes the password of the account the token was issued for and
  of no other, declares its address verified, activates it only if the token was for a first password, and marks the
  token as used. If anything fails, accounts and tokens stay as they were.\<close>

theorem reset_password_exact:
  fixes s :: "'d account_db_scheme"
  shows "case reset_password env now token pw s of
      (Inr u, t) \<Rightarrow> \<exists>r config n h. find (\<lambda>t. prt_token_hash t = tx_sha256 env token) (tk_resets s) = Some r
          \<and> prt_user_id r = Some u \<and> prt_used_at r = None \<and> now \<le> prt_expires_at r
          \<and> db_authentication s = Some config \<and> validate_password pw config = Inr () \<and> tx_hash_password env n pw = Inr h
          \<and> db_accounts t = update_where (\<lambda>a. usr_id a = u) (set_password now (prt_purpose r = ''password_setup'') h) (db_accounts s)
          \<and> tk_resets t = update_where (\<lambda>t. prt_token_hash t = tx_sha256 env token) (\<lambda>t. t\<lparr>prt_used_at := Some now\<rparr>) (tk_resets s)
    | (Inl _, t) \<Rightarrow> db_accounts t = db_accounts s \<and> tk_resets t = tk_resets s"
  by (rule reset_exact_aux)

section \<open>How often a token can be used\<close>

definition spent :: "token_env \<Rightarrow> string \<Rightarrow> 'd account_db_scheme \<Rightarrow> bool" where
  "spent env token s \<longleftrightarrow> (\<exists>r. find (\<lambda>t. prt_token_hash t = tx_sha256 env token) (tk_resets s) = Some r \<and> prt_used_at r \<noteq> None)"

lemma find_append: "find P (xs @ ys) = (case find P xs of None \<Rightarrow> find P ys | r \<Rightarrow> r)"
  by (induction xs) auto

lemma find_update_where:
  "(\<And>t. P (f t) \<longleftrightarrow> P t) \<Longrightarrow> find P (update_where Q f rows) = map_option (\<lambda>t. if Q t then f t else t) (find P rows)"
  by (induction rows) (auto simp: update_where_def)

lemma spent_step: "account_step env' st e st' \<Longrightarrow> spent env token (as_db st) \<Longrightarrow> spent env token (as_db st')"
  using tokens_step(1) [of env' st e st']
  by (auto simp: tokens_next_def spent_def find_append find_update_where split: option.splits)

lemma spent_steps: "steps (account_step env') st ops st' \<Longrightarrow> spent env token (as_db st) \<Longrightarrow> spent env token (as_db st')"
  by (induction rule: steps.induct) (auto intro: spent_step)

lemma spent_check: "spent env token s \<Longrightarrow> fst (reset_check env now token pw s) \<noteq> Inr c"
  by (cases "reset_check env now token pw s"; cases c) (auto simp: spent_def elim!: check_done)

text \<open>C14. A token works once: after a reset with it succeeded, no later reset with it does, whatever requests there are
  in between and whatever the new password.\<close>

theorem reset_single_use:
  assumes "fst (reset_password env now token pw (as_db st)) = Inr u"
    and "steps (account_step env) (st\<lparr>as_db := snd (reset_password env now token pw (as_db st))\<rparr>) ops st'"
  shows "\<exists>e. fst (reset_password env now' token pw' (as_db st')) = Inl e"
proof -
  let ?t = "snd (reset_password env now token pw (as_db st))"
  obtain r where "find (\<lambda>t. prt_token_hash t = tx_sha256 env token) (tk_resets (as_db st)) = Some r"
    "tk_resets ?t = update_where (\<lambda>t. prt_token_hash t = tx_sha256 env token) (\<lambda>t. t\<lparr>prt_used_at := Some now\<rparr>) (tk_resets (as_db st))"
    using assms(1) reset_exact_aux [where env = env and now = now and token = token and pw = pw and s = "as_db st"] by (auto split: prod.splits)
  then have "spent env token ?t"
    by (auto simp: spent_def find_update_where dest: find_Some_iff [THEN iffD1])
  then have "spent env token (as_db st')" using spent_steps [OF assms(2)] by simp
  then have "fst (reset_check env now' token pw' (as_db st')) \<noteq> Inr c" for c by (rule spent_check)
  then show ?thesis
    by (cases "reset_check env now' token pw' (as_db st')") (auto simp: reset_password_def hbind_def split: sum.splits)
qed

text \<open>Two resets with one token that overlap both succeed: if both read the token before either uses it, each
  transaction sets its own password, the second one although the token is used by then. The lock of the query
  (\<^verbatim>\<open>FOR UPDATE\<close>) ends with the query, which runs outside the transaction.\<close>

theorem overlapping_resets_both_succeed:
  assumes "tx_down env = no_failure" and "a \<noteq> b"
    and "as_checked st a = Some (token, u, activate1, hash1)" and "as_checked st b = Some (token, u, activate2, hash2)"
    and "\<exists>r \<in> set (tk_resets (as_db st)). prt_token_hash r = tx_sha256 env token"
  shows "spent env token (as_db (commit_reset env a st))
    \<and> db_accounts (as_db (commit_reset env a st)) =
        update_where (\<lambda>x. usr_id x = u) (set_password (as_now st) activate1 hash1) (db_accounts (as_db st))
    \<and> db_accounts (as_db (commit_reset env b (commit_reset env a st))) =
        update_where (\<lambda>x. usr_id x = u) (set_password (as_now st) activate2 hash2) (db_accounts (as_db (commit_reset env a st)))"
proof -
  have commit: "tk_resets (as_db (commit_reset env n s)) =
        update_where (\<lambda>t. prt_token_hash t = tx_sha256 env token) (\<lambda>t. t\<lparr>prt_used_at := Some (as_now s)\<rparr>) (tk_resets (as_db s))
      \<and> db_accounts (as_db (commit_reset env n s)) = update_where (\<lambda>x. usr_id x = u) (set_password (as_now s) activate h) (db_accounts (as_db s))"
    if "as_checked s n = Some (token, u, activate, h)" for s n activate h
    using that by (simp add: commit_reset_def reset_commit_def transaction_or_def or_failed_def sql_execute_def statement_def
        handler_defs use_token_def store_password_def assms(1) no_failure_def)
  have later: "as_checked (commit_reset env a st) b = Some (token, u, activate2, hash2)" "as_now (commit_reset env a st) = as_now st"
    using assms(2-4) by (auto simp: commit_reset_def)
  obtain r where "find (\<lambda>t. prt_token_hash t = tx_sha256 env token) (tk_resets (as_db st)) = Some r"
    using assms(5) by (cases "find (\<lambda>t. prt_token_hash t = tx_sha256 env token) (tk_resets (as_db st))") (auto simp: find_None_iff)
  then have "spent env token (as_db (commit_reset env a st))"
    using commit [OF assms(3)] by (auto simp: spent_def find_update_where dest: find_Some_iff [THEN iffD1])
  then show ?thesis using commit [OF assms(3)] commit [OF later(1)] later(2) by simp
qed

section \<open>Witnesses\<close>

definition demo_token_env :: token_env where
  "demo_token_env = \<lparr>tx_mail = demo_mail_env, tx_token = (\<lambda>_. ''t''), tx_sha256 = id, tx_hash_password = (\<lambda>_ pw. Inr pw),
     tx_verify_password = (\<lambda>pw h. Inr (pw = h))\<rparr>"

definition demo_accounts :: account_system where
  "demo_accounts = \<lparr>as_db = mail_db.extend demo_mail_db (account_db.fields [] [] []), as_checked = Map.empty, as_now = 0\<rparr>"

definition run_accounts :: "account_op list \<Rightarrow> account_system" where
  "run_accounts ops = fold (account_next demo_token_env) ops demo_accounts"

lemma run_accounts_reach: "reach account_init (account_step demo_token_env) (run_accounts ops)"
proof (induction ops rule: rev_induct)
  case Nil
  show ?case
    by (rule reach_init) (simp add: run_accounts_def account_init_def demo_accounts_def mail_db.defs account_db.defs)
next
  case (snoc e ops)
  moreover have "account_step demo_token_env (run_accounts ops) e (run_accounts (ops @ [e]))"
    by (simp add: run_accounts_def account_step_def)
  ultimately show ?case by (rule reach_step)
qed

definition ask_for_reset :: account_op where
  "ask_for_reset = RequestReset '' ANN@example.org'' (Some ''10.0.0.1'') None"

theorem reset_tokens_bounded_witness:
  "length (tk_resets (as_db (run_accounts [ask_for_reset, ask_for_reset, ask_for_reset, ask_for_reset]))) = 3
   \<and> in_window 0 (\<lambda>t. prt_email t = ''ann@example.org'')
       (tk_resets (as_db (run_accounts [ask_for_reset, ask_for_reset, ask_for_reset, ask_for_reset]))) \<le> 3"
proof -
  have "length (tk_resets (as_db (run_accounts [ask_for_reset, ask_for_reset, ask_for_reset, ask_for_reset]))) = 3"
    by code_simp
  then show ?thesis using reset_tokens_bounded [OF run_accounts_reach] by simp
qed

lemma demo_reset:
  "fst (reset_password demo_token_env 0 ''t'' ''Passw0rd'' (as_db (run_accounts [ask_for_reset]))) = Inr (Uuid 7)"
  by code_simp

theorem reset_single_use_witness:
  "fst (reset_password demo_token_env 0 ''t'' ''Passw0rd'' (as_db (run_accounts [ask_for_reset]))) = Inr (Uuid 7)
   \<and> (\<exists>e. fst (reset_password demo_token_env 0 ''t'' ''An0ther1''
        (snd (reset_password demo_token_env 0 ''t'' ''Passw0rd'' (as_db (run_accounts [ask_for_reset]))))) = Inl e)"
  using reset_single_use [OF demo_reset steps_Nil, of 0 "''An0ther1''"] demo_reset by simp

definition both_checked :: account_system where
  "both_checked = run_accounts [ask_for_reset, CheckReset 0 ''t'' ''Passw0rd'', CheckReset 1 ''t'' ''An0ther1'']"

theorem overlapping_resets_both_succeed_witness:
  "spent demo_token_env ''t'' (as_db (commit_reset demo_token_env 0 both_checked))
   \<and> map usr_password_hash (db_accounts (as_db (commit_reset demo_token_env 0 both_checked))) = [Some ''Passw0rd'']
   \<and> map usr_password_hash (db_accounts (as_db (commit_reset demo_token_env 1 (commit_reset demo_token_env 0 both_checked))))
       = [Some ''An0ther1'']"
proof -
  have "as_checked both_checked 0 = Some (''t'', Uuid 7, False, ''Passw0rd'')" by code_simp
  moreover have "as_checked both_checked 1 = Some (''t'', Uuid 7, False, ''An0ther1'')" by code_simp
  moreover have "\<exists>r \<in> set (tk_resets (as_db both_checked)). prt_token_hash r = tx_sha256 demo_token_env ''t''" by code_simp
  moreover have "map usr_id (db_accounts (as_db both_checked)) = [Uuid 7]" by code_simp
  moreover have "tx_down demo_token_env = no_failure" by (simp add: demo_token_env_def demo_mail_env_def)
  ultimately show ?thesis
    using overlapping_resets_both_succeed [of demo_token_env 0 1 both_checked "''t''" "Uuid 7" False "''Passw0rd''" False "''An0ther1''"]
    by (auto simp: update_where_def set_password_def map_eq_Cons_conv)
qed

end
