(* ===== verification/Account_Access.thy ===== *)
theory Account_Access
  imports Sign_In Account_Security
begin

text \<open>
  Who gets into an account: the limit on log-in attempts as a count of seconds, what a successful log-in and a
  registration establish, who may change an account, and an address that can never be reset.
\<close>

section \<open>The limit counts seconds\<close>

text \<open>The attempts that pass, newest first: the reference that the sorted set in Redis implements.\<close>

definition recent_seconds :: "int \<Rightarrow> uuid \<Rightarrow> (int \<times> uuid) list \<Rightarrow> int set" where
  "recent_seconds now user passed =
     {m. \<exists>t. (t, user) \<in> set passed \<and> m = t div 1000 \<and> now div 1000 - 60 < t div 1000}"

fun passed :: "nat \<Rightarrow> (int \<times> uuid) list \<Rightarrow> (int \<times> uuid) list" where
  "passed limit [] = []"
| "passed limit ((now, user) # older) =
     (if card (recent_seconds now user (passed limit older)) < limit then (now, user) # passed limit older
      else passed limit older)"

fun run_attempts :: "'r sign_env \<Rightarrow> (int \<times> uuid) list \<Rightarrow> sign_db \<Rightarrow> sign_db" where
  "run_attempts env [] s = s"
| "run_attempts env ((now, user) # older) s = snd (throttle_account env now user (run_attempts env older s))"

definition limiter_up :: "'r sign_env \<Rightarrow> bool" where
  "limiter_up env \<longleftrightarrow> sx_rate_limit_enabled env \<and> sx_redis_pool env = no_failure \<and> sx_redis env = no_failure
     \<and> inj (au_show (sx_auth env))"

fun clock_runs :: "int \<Rightarrow> (int \<times> uuid) list \<Rightarrow> bool" where
  "clock_runs now [] \<longleftrightarrow> 0 \<le> now"
| "clock_runs now ((t, _) # older) \<longleftrightarrow> t \<le> now \<and> clock_runs t older"

lemma clock_nonneg: "clock_runs t h \<Longrightarrow> 0 \<le> t"
  by (induction h arbitrary: t) fastforce+

definition members_of :: "'r sign_env \<Rightarrow> uuid \<Rightarrow> sign_db \<Rightarrow> int list" where
  "members_of env user s =
     (case hm_get (sg_zsets s) (''ratelimit:'' @ ''user:'' @ au_show (sx_auth env) user) of Some ms \<Rightarrow> ms | None \<Rightarrow> [])"

definition in_last_minute :: "int \<Rightarrow> int list \<Rightarrow> int list" where
  "in_last_minute now ms = filter (\<lambda>m. \<not> (0 \<le> m \<and> m \<le> now - 60)) ms"

lemma throttle_step:
  fixes now user s
  assumes "limiter_up env"
  defines "kept \<equiv> in_last_minute (now div 1000) (members_of env user s)"
  shows "fst (throttle_account env now user s) = Inr () \<longleftrightarrow> length kept < sx_rate_limit_auth_per_minute env"
    and "members_of env v (snd (throttle_account env now user s)) =
      (if v \<noteq> user then members_of env v s
       else if length kept < sx_rate_limit_auth_per_minute env \<and> now div 1000 \<notin> set kept then kept @ [now div 1000] else kept)"
proof -
  have inj: "au_show (sx_auth env) v = au_show (sx_auth env) user \<longleftrightarrow> v = user" for v
    using assms(1) by (auto simp: limiter_up_def inj_eq)
  show "fst (throttle_account env now user s) = Inr () \<longleftrightarrow> length kept < sx_rate_limit_auth_per_minute env"
    and "members_of env v (snd (throttle_account env now user s)) =
      (if v \<noteq> user then members_of env v s
       else if length kept < sx_rate_limit_auth_per_minute env \<and> now div 1000 \<notin> set kept then kept @ [now div 1000] else kept)"
    using assms(1)
    by (auto simp: limiter_up_def throttle_account_def check_login_limit_def redis_command_def statement_def no_failure_def
        handler_defs Let_def kept_def in_last_minute_def members_of_def inj split: if_splits)
qed

text \<open>What the members of one key say about the attempts so far.\<close>

definition tracks :: "int \<Rightarrow> int list \<Rightarrow> (int \<Rightarrow> int set) \<Rightarrow> bool" where
  "tracks now ms recent \<longleftrightarrow> distinct ms \<and> (\<forall>m \<in> set ms. 0 \<le> m \<and> m \<le> now div 1000)
     \<and> (\<forall>later \<ge> now. {m \<in> set ms. later div 1000 - 60 < m} = recent later)"

lemma tracks_count:
  assumes "tracks now ms recent" and "now \<le> later"
  shows "length (in_last_minute (later div 1000) ms) = card (recent later)"
proof -
  have bounds: "\<forall>m \<in> set ms. 0 \<le> m" using assms(1) by (simp add: tracks_def)
  have "set (in_last_minute (later div 1000) ms) = {m \<in> set ms. later div 1000 - 60 < m}"
    using bounds by (auto simp: in_last_minute_def)
  also have "\<dots> = recent later" using assms unfolding tracks_def by blast
  finally have "set (in_last_minute (later div 1000) ms) = recent later" .
  moreover have "distinct (in_last_minute (later div 1000) ms)"
    using assms by (simp add: tracks_def in_last_minute_def)
  ultimately show ?thesis by (metis distinct_card)
qed

lemma tracks_later: "tracks t0 ms recent \<Longrightarrow> t0 \<le> t \<Longrightarrow> tracks t ms recent"
  unfolding tracks_def by (meson order_trans zdiv_mono1 zero_less_numeral)

lemma tracks_forget:
  assumes "tracks t ms recent" shows "tracks t (in_last_minute (t div 1000) ms) recent"
proof -
  have "{m \<in> set (in_last_minute (t div 1000) ms). later div 1000 - 60 < m} = {m \<in> set ms. later div 1000 - 60 < m}"
    if "t \<le> later" for later
    using zdiv_mono1 [OF that, of 1000] by (auto simp: in_last_minute_def)
  with assms show ?thesis by (auto simp: tracks_def in_last_minute_def)
qed

lemma tracks_add:
  assumes "tracks t ms recent" and "0 \<le> t"
  shows "tracks t (if t div 1000 \<in> set ms then ms else ms @ [t div 1000])
    (\<lambda>later. if later div 1000 - 60 < t div 1000 then insert (t div 1000) (recent later) else recent later)"
proof -
  have new: "{m \<in> set (if t div 1000 \<in> set ms then ms else ms @ [t div 1000]). later div 1000 - 60 < m}
      = (if later div 1000 - 60 < t div 1000 then insert (t div 1000) {m \<in> set ms. later div 1000 - 60 < m}
         else {m \<in> set ms. later div 1000 - 60 < m})" for later
    by auto
  show ?thesis
    using assms unfolding tracks_def new by (auto simp: pos_imp_zdiv_nonneg_iff)
qed

lemma recent_seconds_Cons:
  "recent_seconds later u ((t, v) # h) =
     (if v = u \<and> later div 1000 - 60 < t div 1000 then insert (t div 1000) (recent_seconds later u h) else recent_seconds later u h)"
  by (auto simp: recent_seconds_def)

lemma run_tracks:
  assumes up: "limiter_up env" and empty: "sg_zsets s = []"
  defines "limit \<equiv> sx_rate_limit_auth_per_minute env"
  shows "clock_runs now h \<Longrightarrow>
    tracks now (members_of env u (run_attempts env h s)) (\<lambda>later. recent_seconds later u (passed limit h))"
proof (induction h arbitrary: now u)
  case Nil
  then show ?case by (simp add: tracks_def members_of_def empty recent_seconds_def)
next
  case (Cons a h)
  obtain t v where a: "a = (t, v)" by fastforce
  have time: "t \<le> now" "clock_runs t h" "0 \<le> t"
    using Cons.prems clock_nonneg [of t h] by (auto simp: a)
  define ms where "ms = members_of env v (run_attempts env h s)"
  have old: "tracks t (members_of env u (run_attempts env h s)) (\<lambda>later. recent_seconds later u (passed limit h))" for u
    by (rule Cons.IH [OF time(2)])
  have count: "length (in_last_minute (t div 1000) ms) = card (recent_seconds t v (passed limit h))"
    using tracks_count [OF old [of v] order_refl] by (simp add: ms_def)
  have kept: "tracks t (in_last_minute (t div 1000) ms) (\<lambda>later. recent_seconds later v (passed limit h))"
    unfolding ms_def by (rule tracks_forget [OF old])
  have "tracks t (members_of env u (run_attempts env (a # h) s)) (\<lambda>later. recent_seconds later u (passed limit (a # h)))"
  proof (cases "u = v")
    case False
    then show ?thesis using old [of u] by (simp add: a throttle_step(2) [OF up] recent_seconds_Cons)
  next
    case True
    with kept tracks_add [OF kept time(3)] count show ?thesis
      by (cases "card (recent_seconds t v (passed limit h)) < limit")
        (simp_all add: a throttle_step(2) [OF up] recent_seconds_Cons if_distrib [of "tracks t"] if_distribR
          cong: if_cong flip: limit_def ms_def split: if_splits)
  qed
  with time(1) show ?case by (blast intro: tracks_later)
qed

text \<open>C17. An account's log-in attempts are limited by the seconds in which an attempt passed, in any order of attempts on
  any accounts: the next one passes exactly if fewer than the configured number of the last 60 seconds saw a passing
  attempt on this account. The sorted set in Redis, trimmed and counted at each attempt, implements this reference.\<close>

theorem login_limit_exact:
  assumes "limiter_up env" and "sg_zsets s = []" and "clock_runs now h"
  shows "fst (throttle_account env now user (run_attempts env h s)) = Inr () \<longleftrightarrow>
    card (recent_seconds now user (passed (sx_rate_limit_auth_per_minute env) h)) < sx_rate_limit_auth_per_minute env"
  using tracks_count [OF run_tracks [OF assms] order_refl] throttle_step(1) [OF assms(1)] by simp

lemma seconds_of_h: "recent_seconds now user (passed limit h) \<subseteq> (\<lambda>(t, _). t div 1000) ` {a \<in> set h. snd a = user}"
proof -
  have "set (passed limit h) \<subseteq> set h" by (induction limit h rule: passed.induct) auto
  then show ?thesis by (force simp: recent_seconds_def)
qed

text \<open>Within one second the limit does not count: if it allows two attempts a minute, any number of attempts on an account
  passes as long as they fall into the same second.\<close>

theorem same_second_unlimited:
  assumes "limiter_up env" and "sg_zsets s = []" and "clock_runs now h" and "2 \<le> sx_rate_limit_auth_per_minute env"
    and "\<forall>(t, u) \<in> set h. u = user \<longrightarrow> t div 1000 = now div 1000"
  shows "fst (throttle_account env now user (run_attempts env h s)) = Inr ()"
proof -
  let ?limit = "sx_rate_limit_auth_per_minute env"
  have "recent_seconds now user (passed ?limit h) \<subseteq> {now div 1000}"
    using seconds_of_h [of now user ?limit h] assms(5) by fastforce
  from card_mono [OF _ this] have "card (recent_seconds now user (passed ?limit h)) < ?limit" using assms(4) by simp
  then show ?thesis
    using tracks_count [OF run_tracks [OF assms(1-3)] order_refl] throttle_step(1) [OF assms(1)] by simp
qed

section \<open>Witnesses\<close>

definition demo_sign :: "(string \<Rightarrow> nat) sign_env" where
  "demo_sign = \<lparr>sx_tokens = demo_token_env, sx_auth = demo_auth\<lparr>au_show := (\<lambda>u. replicate (unat (uuid_bits u)) (CHR ''x''))\<rparr>,
     sx_codec = demo_codec, sx_expiry_hours = 24, sx_production = False, sx_rate_limit_enabled = True,
     sx_rate_limit_auth_per_minute = 2, sx_redis_pool = no_failure, sx_redis = no_failure, sx_turnstile = None,
     sx_row = (\<lambda>_. demo_account), sx_constraint = ''duplicate key'', sx_after_membership = Suc, sx_json_text = (\<lambda>_. [])\<rparr>"

definition demo_sign_db :: sign_db where
  "demo_sign_db = account_db.extend (mail_db.extend demo_mail_db (account_db.fields [] [] [])) (sign_db.fields [])"

lemma demo_limiter: "limiter_up demo_sign" "sg_zsets demo_sign_db = []" "sx_rate_limit_auth_per_minute demo_sign = 2"
proof -
  have "inj (\<lambda>u. replicate (unat (uuid_bits u)) (CHR ''x''))"
  proof (rule injI)
    fix u v assume "replicate (unat (uuid_bits u)) (CHR ''x'') = replicate (unat (uuid_bits v)) (CHR ''x'')"
    then have "unat (uuid_bits u) = unat (uuid_bits v)" by (metis length_replicate)
    then show "u = v" by (cases u; cases v) (simp add: word_unat_eq_iff)
  qed
  then show "limiter_up demo_sign" by (simp add: limiter_up_def demo_sign_def)
  show "sg_zsets demo_sign_db = []" "sx_rate_limit_auth_per_minute demo_sign = 2"
    by (simp_all add: demo_sign_db_def account_db.defs sign_db.defs mail_db.defs demo_sign_def)
qed

theorem login_limit_exact_witness:
  "fst (throttle_account demo_sign 2000 (Uuid 7) (run_attempts demo_sign [(1000, Uuid 7), (0, Uuid 7)] demo_sign_db)) \<noteq> Inr ()"
proof -
  have "recent_seconds 1000 (Uuid 7) [(0, Uuid 7)] = {0}" "recent_seconds 2000 (Uuid 7) [(1000, Uuid 7), (0, Uuid 7)] = {0, 1}"
    "recent_seconds 0 (Uuid 7) [] = {}"
    by (auto simp: recent_seconds_def)
  then show ?thesis
    using login_limit_exact [OF demo_limiter(1,2), of 2000 "[(1000, Uuid 7), (0, Uuid 7)]" "Uuid 7"]
    by (simp add: demo_limiter(3))
qed

theorem same_second_unlimited_witness:
  "fst (throttle_account demo_sign 999 (Uuid 7)
     (run_attempts demo_sign [(998, Uuid 7), (3, Uuid 7), (2, Uuid 7), (1, Uuid 7)] demo_sign_db)) = Inr ()"
  using same_second_unlimited [OF demo_limiter(1,2), of 999 "[(998, Uuid 7), (3, Uuid 7), (2, Uuid 7), (1, Uuid 7)]" "Uuid 7"]
  by (simp add: demo_limiter(3))

end
