(* ===== verification/Account_Entry.thy ===== *)
theory Account_Entry
  imports Account_Access
begin

text \<open>Logging in.\<close>

section \<open>Logging in\<close>

text \<open>Statements of a handler leave what they do not write.\<close>

lemma hoare_statements [keeping]:
  assumes "\<And>s. I s \<Longrightarrow> I (s\<lparr>db_statements := Suc (db_statements s)\<rparr>)"
  shows "keeps I (\<lambda>s. snd (f s)) \<Longrightarrow> hoare I (sql env f) I" "hoare I (sql_query env q) I"
    "keeps I (\<lambda>s. snd (f s)) \<Longrightarrow> hoare I (redis_command env f) I"
  unfolding sql_query_def sql_def redis_command_def using assms by (intro keeping; simp add: keeps_def)+

definition accounts_are :: "account list \<Rightarrow> auth_config option \<Rightarrow> sign_db \<Rightarrow> bool" where
  "accounts_are rows config s \<longleftrightarrow> db_accounts s = rows \<and> db_authentication s = config"

lemma accounts_are_simps [simp]:
  "accounts_are rows config (s\<lparr>db_statements := n\<rparr>) = accounts_are rows config s"
  "accounts_are rows config (s\<lparr>sg_zsets := z\<rparr>) = accounts_are rows config s"
  by (simp_all add: accounts_are_def)

lemma throttle_keeps: "hoare (accounts_are rows config) (throttle_account env now user) (accounts_are rows config)"
  unfolding throttle_account_def check_login_limit_def Let_def by (intro keeping) (simp_all add: keeps_def)

definition sso_allows :: "auth_config \<Rightarrow> string \<Rightarrow> bool" where
  "sso_allows config email \<longleftrightarrow> \<not> require_sso config
     \<or> list_ex (\<lambda>e. eq_ignore_ascii_case (trim e) (to_ascii_lowercase (trim email))) (sso_break_glass_emails config)"

lemma enforce_done:
  assumes "enforce_password_login_allowed down email s = (Inr u, t)"
  shows "same_tables s t" and "\<exists>config. db_authentication s = Some config \<and> sso_allows config email"
proof -
  from assms obtain config where config: "get_password_rules down s = (Inr config, t)" and ok: "sso_allows config email"
    by (auto simp: enforce_password_login_allowed_def sso_allows_def elim!: hbindE split: if_splits)
      (auto simp: handler_done)
  show "same_tables s t" using same_password_rules [THEN same_step] config by blast
  then show "\<exists>config. db_authentication s = Some config \<and> sso_allows config email"
    using config ok by (auto simp: get_password_rules_def db_done dest: same_tables_db)
qed

lemma throttle_done:
  "throttle_account env now user s = (r, t) \<Longrightarrow> db_accounts t = db_accounts s \<and> db_authentication t = db_authentication s"
  using hoareD [OF throttle_keeps, of "db_accounts s" "db_authentication s" s env now user] by (simp add: accounts_are_def)

text \<open>A password was accepted for an account, and what is left is the time of the log-in and a token.\<close>

definition entered :: "'r sign_env \<Rightarrow> int \<Rightarrow> string \<Rightarrow> account \<Rightarrow> string \<Rightarrow> sign_db \<Rightarrow> sign_db \<Rightarrow> bool" where
  "entered env now password a token s t \<longleftrightarrow>
     a \<in> set (db_accounts s) \<and> usable a
     \<and> (\<exists>config. db_authentication s = Some config \<and> sso_allows config (usr_email a))
     \<and> (\<exists>u. fst (throttle_account env now (usr_id a) u) = Inr () \<and> same_tables s u)
     \<and> (\<exists>hash. usr_password_hash a = Some hash \<and> tx_verify_password (sx_tokens env) password hash = Inr True)
     \<and> token_for env now a = Inr token
     \<and> db_accounts t = update_where (\<lambda>x. usr_id x = usr_id a) (\<lambda>x. x\<lparr>usr_last_login_at := Some now\<rparr>) (db_accounts s)"

lemma sql_query_done: "sql_query env q s = (Inr x, t) \<longleftrightarrow> fetch (sx_down env) q s = (Inr x, t)"
  by (simp add: sql_query_def sql_def fetch_def handler_done)

lemma fetch_same: "fetch down q s = (Inr x, t) \<Longrightarrow> same_tables s t \<and> x = q t"
  using same_tables_counter [OF same_tables_refl] by (auto simp: fetch_done)

lemma enteredI:
  assumes row: "sql_query env (\<lambda>s. find P (db_accounts s)) s = (Inr (Some a), s1)" and "\<And>a. P a \<Longrightarrow> usable a"
    and sso: "enforce_password_login_allowed (sx_down env) (usr_email a) s1 = (Inr u2, s2)"
    and limit: "throttle_account env now (usr_id a) s2 = (Inr u3, s3)"
    and hash: "usr_password_hash a = Some hash" "tx_verify_password (sx_tokens env) password hash = Inr True"
    and login: "update_accounts env (usr_id a) (\<lambda>x. x\<lparr>usr_last_login_at := Some now\<rparr>) s3 = (Inr u4, t)"
    and token: "token_for env now a = Inr token"
  shows "entered env now password a token s t \<and> P a"
proof -
  have s1: "same_tables s s1" "find P (db_accounts s1) = Some a" using row by (auto simp: sql_query_done dest!: fetch_same)
  have a: "a \<in> set (db_accounts s1)" "P a" using s1(2) by (auto simp: find_Some_iff)
  note s2 = enforce_done [OF sso] and s3 = throttle_done [OF limit]
  have "same_tables s s2" using s1(1) s2(1) by (rule same_tables_trans)
  with s1 have db: "db_accounts s1 = db_accounts s" "db_accounts s3 = db_accounts s" "db_authentication s1 = db_authentication s"
    using s3 same_tables_db by metis+
  have "db_accounts t = update_where (\<lambda>x. usr_id x = usr_id a) (\<lambda>x. x\<lparr>usr_last_login_at := Some now\<rparr>) (db_accounts s3)"
    using login by (auto simp: update_accounts_def sql_def db_done)
  moreover have "fst (throttle_account env now (usr_id a) s2) = Inr ()" using limit by simp
  ultimately show ?thesis
    unfolding entered_def using a s2(2) hash token \<open>same_tables s s2\<close> assms(2) [OF a(2)] unfolding db by blast
qed

lemma v4_entered:
  assumes "v4_login env now login_id email password s = (Inr (headers, mm), t)"
  shows "\<exists>a token. entered env now password a token s t \<and> headers = login_headers env token
    \<and> mm = mm_user_of (sx_codec env) (user.truncate a)
    \<and> (case login_id of None \<Rightarrow> email | l \<Rightarrow> l) \<in> {Some (usr_email a), Some (usr_username a)}"
  using assms unfolding v4_login_def
  by (elim hbindE) (fastforce simp: hbasic_done split: if_splits elim!: hbindE dest!: enteredI)

lemma login_entered:
  assumes "login env now address password s = (Inr r, t)"
  shows "\<exists>a. entered env now password a (ar_token r) s t \<and> usr_email a = address
    \<and> ar_user r = user_response_of (au_show (sx_auth env)) a"
  using assms unfolding login_def
  by (elim hbindE) (auto simp: hbasic_done split: if_splits elim!: hbindE dest!: enteredI)

lemma accounts_keep:
  fixes I :: "account list \<Rightarrow> bool"
  defines "J \<equiv> \<lambda>s :: sign_db. I (db_accounts s)"
  shows "hoare J (enforce_password_login_allowed down email) J" "hoare J (throttle_account env now u) J"
    "(\<And>rows. I rows \<Longrightarrow> I (update_where (\<lambda>a. usr_id a = u) f rows)) \<Longrightarrow> hoare J (update_accounts env u f) J"
proof -
  have "hoare (same_tables s) (enforce_password_login_allowed down email) (same_tables s)" for s :: sign_db
    unfolding enforce_password_login_allowed_def by (intro keeping)
  then show "hoare J (enforce_password_login_allowed down email) J" by (rule hoare_same) (simp add: J_def)
  show "hoare J (throttle_account env now u) J"
    by (rule hoareI) (metis J_def throttle_done prod.collapse)
  show "hoare J (update_accounts env u f) J" if "\<And>rows. I rows \<Longrightarrow> I (update_where (\<lambda>a. usr_id a = u) f rows)"
    unfolding update_accounts_def J_def by (intro keeping) (auto simp: keeps_def that)
qed


end
