(* ===== verification/Account_Management.thy ===== *)
theory Account_Management
  imports Account_Entry
begin

text \<open>Who may change an account, and what a registration makes of the data it is given.\<close>

section \<open>Changing accounts\<close>

datatype manage_op =
    ChangePassword uuid string
  | V4Password string "string option" string
  | SetRoles string string
  | SetActive string bool
  | Demote string
  | Promote string
  | ToBot string

fun manage :: "'r sign_env \<Rightarrow> int \<Rightarrow> auth_user \<Rightarrow> manage_op \<Rightarrow> unit sign" where
  "manage env now auth (ChangePassword user pw) = change_password env now auth user pw"
| "manage env now auth (V4Password user current pw) = v4_update_password env now auth user current pw"
| "manage env now auth (SetRoles user roles) = update_user_roles env auth user roles"
| "manage env now auth (SetActive user active) = update_user_active env auth user active"
| "manage env now auth (Demote user) = demote_user env auth user"
| "manage env now auth (Promote user) = promote_user env auth user"
| "manage env now auth (ToBot user) = convert_user_to_bot env auth user"

definition may_change :: "auth_user \<Rightarrow> account \<Rightarrow> account \<Rightarrow> bool" where
  "may_change auth a b \<longleftrightarrow>
     usr_id b = usr_id a \<and> usr_email b = usr_email a \<and> usr_username b = usr_username a \<and> usr_org_id b = usr_org_id a
     \<and> usr_deleted_at b = usr_deleted_at a
     \<and> (usr_password_hash b \<noteq> usr_password_hash a \<longrightarrow> auth_user_id auth = usr_id a \<or> user_has_permission auth SYSTEM_MANAGE)
     \<and> (usr_role b \<noteq> usr_role a \<longrightarrow> user_has_permission auth SYSTEM_MANAGE
          \<or> user_has_permission auth USER_MANAGE \<and> usr_role b = ''member'')
     \<and> (usr_is_active b \<noteq> usr_is_active a \<longrightarrow> can_access_owned auth (usr_id a) USER_MANAGE)
     \<and> (usr_is_bot b \<noteq> usr_is_bot a \<longrightarrow> user_has_permission auth USER_MANAGE)"

definition changed_by :: "auth_user \<Rightarrow> account list \<Rightarrow> sign_db \<Rightarrow> bool" where
  "changed_by auth rows s \<longleftrightarrow> list_all2 (may_change auth) rows (db_accounts s)"

lemma changed_by_counter [simp]: "changed_by auth rows (s\<lparr>db_statements := n\<rparr>) = changed_by auth rows s"
  by (simp add: changed_by_def)

lemma changed_update:
  assumes "\<And>a b. may_change auth a b \<Longrightarrow> usr_id b = u \<Longrightarrow> may_change auth a (f b)"
  shows "hoare (changed_by auth rows) (update_accounts env u f) (changed_by auth rows)"
proof -
  have "list_all2 (may_change auth) rows (update_where (\<lambda>a. usr_id a = u) f rows')" if "list_all2 (may_change auth) rows rows'" for rows'
    using that assms by (auto simp: update_where_def list_all2_conv_all_nth)
  then show ?thesis unfolding update_accounts_def by (intro keeping) (auto simp: keeps_def changed_by_def)
qed

lemma hoare_known:
  "(c \<Longrightarrow> hoare I (f ()) I) \<Longrightarrow> hoare I (hbind (hguard (\<lambda>_. c) e) f) I"
  "(\<And>x. r = Inr x \<Longrightarrow> hoare I (g x) I) \<Longrightarrow> hoare I (hbind (hlift r) g) I"
  "(c \<Longrightarrow> p \<Longrightarrow> hoare I (f ()) I) \<Longrightarrow> (\<not> c \<Longrightarrow> hoare I (hbind h f) I) \<Longrightarrow>
     hoare I (hbind (if c then hguard (\<lambda>_. p) e else h) f) I"
  by (auto simp: hoare_def handler_defs split: sum.splits)

lemma hoare_plain_sign [keeping]:
  assumes "\<And>s n. I (s\<lparr>db_statements := n\<rparr>) \<longleftrightarrow> I s"
  shows "hoare I (fetch_account env u) I" "hoare I (get_password_rules down) I" "hoare I (hash_for env pw) I"
  unfolding fetch_account_def fetch_one_def fetch_def get_password_rules_def hash_for_def
  by (intro keeping; simp add: keeps_def assms)+

lemma hoare_managed_user: "(\<And>u. c \<Longrightarrow> hoare I (f u) I) \<Longrightarrow> hoare I (hbind (managed_user env c user) f) I"
  by (auto simp: hoare_def managed_user_def handler_defs split: option.splits)


section \<open>Registering\<close>

lemma enqueue_accounts [keeping]:
  "hoare (\<lambda>s :: sign_db. I (db_accounts s)) (enqueue_email env n k r u p opts) (\<lambda>s. I (db_accounts s))"
  by (rule hoare_enqueue) simp_all

lemma rate_limits_accounts [keeping]:
  "hoare (\<lambda>s :: sign_db. I (db_accounts s)) (check_rate_limits env now email ip) (\<lambda>s. I (db_accounts s))"
  unfolding check_rate_limits_def Let_def or_failed_def fetch_def by (intro keeping; simp add: keeps_def)+

lemma mails_accounts [keeping]:
  "hoare (\<lambda>s :: sign_db. I (db_accounts s)) (send_verification_email env now u name email url) (\<lambda>s. I (db_accounts s))"
  "hoare (\<lambda>s :: sign_db. I (db_accounts s)) (send_password_setup_email env now u name email url) (\<lambda>s. I (db_accounts s))"
  "hoare (\<lambda>s :: sign_db. I (db_accounts s)) (query_site_url down) (\<lambda>s. I (db_accounts s))"
  unfolding send_verification_email_def create_verification_token_def or_internal_error_def send_password_setup_email_def
    store_token_def new_token_def mail_setup_link_def or_failed_def sql_execute_def query_site_url_def fetch_def
  by (auto intro!: keeping simp: keeps_def split: sum.splits)

lemma accounts_after:
  "hoare (\<lambda>s. I (db_accounts s)) (seed_default_preferences env u) (\<lambda>s. I (db_accounts s))"
  "hoare (\<lambda>s. I (db_accounts s)) (signed_up env now a msg) (\<lambda>s. I (db_accounts s))"
  "hoare (\<lambda>s. I (db_accounts s)) (check_registration env addr input) (\<lambda>s. I (db_accounts s))"
  unfolding seed_default_preferences_def signed_up_def check_registration_def
  by (auto intro!: keeping simp: keeps_def split: option.split list.split)

lemma query_step:
  "sql_query env q s = (Inr x, t) \<Longrightarrow> x = q t \<and> db_accounts t = db_accounts s \<and> db_authentication t = db_authentication s"
  using fetch_same same_tables_db by (fastforce simp: sql_query_done)

lemma rules_step:
  "get_password_rules down s = (Inr c, t) \<Longrightarrow> db_authentication s = Some c \<and> db_accounts t = db_accounts s
     \<and> db_authentication t = db_authentication s"
  using same_password_rules [THEN same_step] same_tables_db by (fastforce simp: get_password_rules_def db_done)

lemma hash_for_step:
  "hash_for env pw s = (Inr h, t) \<Longrightarrow> db_accounts t = db_accounts s"
  by (auto simp: hash_for_def hask_def handler_done)

lemma check_registration_done:
  assumes "check_registration env addr input s = (Inr hash, t)"
  shows "\<exists>config. db_authentication s = Some config \<and> allow_registration config
      \<and> (case cu_password input of Some (c # cs) \<Rightarrow> hash \<noteq> None \<and> validate_password (c # cs) config = Inr () | _ \<Rightarrow> hash = None)"
    and "3 \<le> str_len (cu_username input)" and "CHR ''@'' \<in> set (cu_email input)"
    and "\<forall>a \<in> set (db_accounts s). usr_deleted_at a = None \<longrightarrow> usr_email a \<noteq> cu_email input \<and> usr_username a \<noteq> cu_username input"
proof -
  have "(\<exists>config. db_authentication s = Some config \<and> allow_registration config
      \<and> (case cu_password input of Some (c # cs) \<Rightarrow> hash \<noteq> None \<and> validate_password (c # cs) config = Inr () | _ \<Rightarrow> hash = None))
    \<and> 3 \<le> str_len (cu_username input) \<and> CHR ''@'' \<in> set (cu_email input)
    \<and> (\<forall>a \<in> set (db_accounts s). usr_deleted_at a = None \<longrightarrow> usr_email a \<noteq> cu_email input \<and> usr_username a \<noteq> cu_username input)"
    using assms unfolding check_registration_def
    by (elim hbindE) (auto simp: hbasic_done list_ex_iff dest!: query_step rules_step hash_for_step
        split: option.splits list.splits elim!: hbindE)
  then show "\<exists>config. db_authentication s = Some config \<and> allow_registration config
      \<and> (case cu_password input of Some (c # cs) \<Rightarrow> hash \<noteq> None \<and> validate_password (c # cs) config = Inr () | _ \<Rightarrow> hash = None)"
    and "3 \<le> str_len (cu_username input)" and "CHR ''@'' \<in> set (cu_email input)"
    and "\<forall>a \<in> set (db_accounts s). usr_deleted_at a = None \<longrightarrow> usr_email a \<noteq> cu_email input \<and> usr_username a \<noteq> cu_username input"
    by auto
qed

text \<open>The checks that the data of a registration and the accounts so far must pass.\<close>

definition may_register :: "auth_config \<Rightarrow> account list \<Rightarrow> create_user \<Rightarrow> string option \<Rightarrow> bool" where
  "may_register config rows input hash \<longleftrightarrow>
     allow_registration config \<and> 3 \<le> str_len (cu_username input) \<and> CHR ''@'' \<in> set (cu_email input)
     \<and> (case cu_password input of Some (c # cs) \<Rightarrow> hash \<noteq> None \<and> validate_password (c # cs) config = Inr () | _ \<Rightarrow> hash = None)
     \<and> list_all (\<lambda>a. \<not> violates_unique input a \<and> (usr_deleted_at a = None \<longrightarrow> usr_username a \<noteq> cu_username input)) rows"

lemma insert_account_done:
  assumes "insert_account env input hash s = (r, t)"
  shows "case r of
      Inr a \<Rightarrow> db_accounts t = db_accounts s @ [a] \<and> (\<exists>n. a = new_account env n input hash)
        \<and> list_all (\<lambda>a. \<not> violates_unique input a) (db_accounts s)
    | Inl e \<Rightarrow> db_accounts t = db_accounts s"
  using assms
  by (auto simp: insert_account_def sql_def statement_def handler_defs Let_def list_ex_iff list_all_iff
      split: option.splits if_splits sum.splits prod.splits)

lemma after_insert_accounts: "hoare (\<lambda>s. I (db_accounts s)) (after_insert env now hash user) (\<lambda>s. I (db_accounts s))"
  unfolding after_insert_def by (intro keeping accounts_after) (auto simp: keeps_def split: option.split intro!: keeping accounts_after)

lemma after_insert_answer:
  assumes "after_insert env now hash user s = (Inr r, t)"
  shows "case r of
      SignedUp msg token u \<Rightarrow> hash \<noteq> None \<and> token_for env now user = Inr token \<and> u = user_response_of (au_show (sx_auth env)) user
    | AwaitingPassword msg email \<Rightarrow> hash = None \<and> email = usr_email user"
  using assms unfolding after_insert_def
  by (elim hbindE) (auto simp: hbasic_done signed_up_def split: option.splits elim!: hbindE)


section \<open>Addresses that cannot be reset\<close>

lemma to_lowercase_idem: "to_lowercase (to_lowercase s) = to_lowercase s"
proof -
  have "lower_char (lower_char c) = lower_char c" for c
    by (auto simp: lower_char_def Let_def code_point_def)
  then show ?thesis by (simp add: to_lowercase_def)
qed

lemma hoare_fetched:
  assumes "\<And>s n. I (s\<lparr>db_statements := n\<rparr>) \<longleftrightarrow> I s" and "\<And>s. I s \<Longrightarrow> hoare I (f (q s)) I"
  shows "hoare I (hbind (or_failed msg (fetch down q)) f) I"
  using assms by (auto simp: hoare_def or_failed_def fetch_def statement_def handler_defs Let_def split: option.splits)

text \<open>Registration keeps an address as it was typed, a request for a reset lowers it: no request, for whatever address,
  makes a token for an account whose address has a capital letter. Its owner cannot reset the password.\<close>

theorem mixed_case_never_reset:
  fixes s :: "'d account_db_scheme"
  assumes "to_lowercase e \<noteq> e" and "\<forall>a \<in> set (db_accounts s). usr_id a = u \<longrightarrow> usr_email a = e"
  shows "Some u \<notin> prt_user_id ` (set (tk_resets (snd (request_password_reset env now address ip agent s))) - set (tk_resets s))"
proof -
  define I :: "'d account_db_scheme \<Rightarrow> bool" where
    "I = (\<lambda>t. db_accounts t = db_accounts s \<and> Some u \<notin> prt_user_id ` (set (tk_resets t) - set (tk_resets s)))"
  have I: "I (t\<lparr>db_statements := n\<rparr>) \<longleftrightarrow> I t" "I (t\<lparr>ml_outbox := x\<rparr>) \<longleftrightarrow> I t" "I (t\<lparr>ml_events := y\<rparr>) \<longleftrightarrow> I t" for t n x y
    by (simp_all add: I_def)
  have none: "map_option usr_id (find (\<lambda>a. usr_email a = to_lowercase (trim address) \<and> usable a) (db_accounts t)) \<noteq> Some u"
    if "I t" for t
    using that assms to_lowercase_idem [of "trim address"] by (auto simp: I_def find_Some_iff)
  have mail: "hoare I (enqueue_email env n k r v p opts) I" for env n k r v p opts
    by (rule hoare_enqueue) (simp_all add: I)
  have store: "hoare I (store_token env now msg token v email purpose ip agent) I" if "v \<noteq> Some u" for msg token v email purpose
    using that unfolding store_token_def or_failed_def sql_execute_def
    by (intro keeping) (auto simp: I_def keeps_def)
  have "hoare I (request_password_reset env now address ip agent) I"
    unfolding request_password_reset_def Let_def check_rate_limits_def
    by (intro keeping hoare_fetched store mail hoare_plain I none | assumption)+
  from hoareD [OF this, of s] show ?thesis by (simp add: I_def)
qed

text \<open>The two ways to change one's own password disagree on what a password must be: the one of the Mattermost clients never
  reads the rules.\<close>

lemma v4_skips_password_rules:
  "fst (v4_update_password env now auth user current pw (s\<lparr>db_authentication := c\<rparr>))
    = fst (v4_update_password env now auth user current pw s)"
  by (simp add: v4_update_password_def fetch_account_def fetch_one_def fetch_def hash_for_def put_password_def
      update_accounts_def sql_def statement_def handler_defs Let_def split: sum.split option.split)

text \<open>A name may be somebody's address: if the query for a Mattermost log-in meets an account of that name first, the owner
  of the address is measured against the other account's password.\<close>

lemma username_shadows_email:
  assumes "find (\<lambda>a. (usr_email a = address \<or> usr_username a = address) \<and> usable a) (db_accounts s) = Some b"
    and "usr_password_hash b = Some hash" and "tx_verify_password (sx_tokens env) password hash = Inr False"
  shows "\<exists>e. fst (v4_login env now (Some address) email password s) = Inl e"
proof (cases "v4_login env now (Some address) email password s")
  case (Pair r t)
  show ?thesis
  proof (cases r)
    case (Inr x)
    with Pair obtain u1 row s1 where "sql_query env (\<lambda>s. find (\<lambda>a. (usr_email a = address \<or> usr_username a = address) \<and> usable a)
        (db_accounts s)) s = (Inr row, s1)"
      and *: "\<exists>a. row = Some a \<and> (\<exists>hash. usr_password_hash a = Some hash \<and> tx_verify_password (sx_tokens env) password hash = Inr True)"
      by (auto simp: v4_login_def hbasic_done split: if_splits elim!: hbindE)
    then have "row = Some b" using assms(1) by (auto dest!: query_step)
    with * assms show ?thesis by simp
  qed (simp add: Pair)
qed

theorem mixed_case_never_reset_witness:
  "Some (Uuid 7) \<notin> prt_user_id `
     (set (tk_resets (snd (request_password_reset demo_token_env 0 ''Ann@example.org'' None None
        (demo_sign_db\<lparr>db_accounts := [demo_account\<lparr>usr_email := ''Ann@example.org''\<rparr>]\<rparr>)))) - {})"
proof -
  let ?s = "demo_sign_db\<lparr>db_accounts := [demo_account\<lparr>usr_email := ''Ann@example.org''\<rparr>]\<rparr>"
  have "to_lowercase ''Ann@example.org'' \<noteq> ''Ann@example.org''" by code_simp
  moreover have "tk_resets ?s = []" by (simp add: demo_sign_db_def account_db.defs sign_db.defs mail_db.defs)
  ultimately show ?thesis
    using mixed_case_never_reset [of "''Ann@example.org''" ?s "Uuid 7" demo_token_env 0 "''Ann@example.org''" None None] by simp
qed

end
