(* ===== verification/Sso_Exchange.thy ===== *)
theory Sso_Exchange
  imports Account_Management Machine
begin

text \<open>
  One-time codes (\<^verbatim>\<open>services/oauth_token_exchange.rs\<close>): what a client gets after signing on with a provider and trades for a
  token, with the proof of possession that a mobile client may have asked for. Also the handlers that trade them,
  \<^verbatim>\<open>exchange_token\<close> of \<^verbatim>\<open>api/oauth.rs\<close> and \<^verbatim>\<open>login_sso_code_exchange\<close> of \<^verbatim>\<open>api/v4/users/auth.rs\<close>.

  A key in Redis is kept with the time at which it ends; its value is the payload, whose JSON text decodes to itself.
\<close>

section \<open>State and environment\<close>

record sso_config =
  sc_id :: uuid
  sc_org_id :: uuid
  sc_provider :: string
  sc_provider_key :: string
  sc_provider_type :: string
  sc_display_name :: "string option"
  sc_issuer_url :: "string option"
  sc_client_id :: "string option"
  sc_client_secret_encrypted :: "string option"
  sc_scopes :: "string list"
  sc_is_active :: bool
  sc_auto_provision :: bool
  sc_default_role :: "string option"
  sc_allow_domains :: "(string list) option"
  sc_github_org :: "string option"
  sc_github_team :: "string option"
  sc_groups_claim :: "string option"
  sc_role_mappings :: "json option"
  sc_created_at :: int
  sc_updated_at :: int

record exchange_code_payload =
  xp_user_id :: uuid
  xp_email :: string
  xp_role :: string
  xp_org_id :: "uuid option"
  xp_created_at :: int
  xp_expected_state :: "string option"
  xp_code_challenge :: "string option"
  xp_code_challenge_method :: "string option"

record sso_exchange_challenge =
  sec_expected_state :: string
  sec_code_challenge :: string
  sec_code_challenge_method :: string

record oauth_state_payload =
  os_provider_key :: string
  os_redirect_after :: string
  os_created_at :: int
  os_nonce :: "string option"
  os_code_verifier :: "string option"
  os_code_challenge_method :: "string option"
  os_is_mobile :: bool
  os_mobile_sso_state :: "string option"
  os_mobile_sso_code_challenge :: "string option"
  os_mobile_sso_code_challenge_method :: "string option"
  os_mobile_redirect_to :: "string option"

record sso_db = sign_db +
  so_configs :: "sso_config list"
  so_states :: "(string, oauth_state_payload \<times> int) hm"
  so_codes :: "(string, exchange_code_payload \<times> int) hm"
  so_groups :: "(uuid \<times> string \<times> string \<times> string \<times> string) list"
  so_group_members :: "(uuid \<times> uuid) list"

text \<open>\<open>so_challenge\<close> is the unpadded URL-safe base64 text of the SHA-256 hash.\<close>

record 'r code_env =
  ce_sign :: "'r sign_env"
  ce_code :: "nat \<Rightarrow> string"
  ce_challenge :: "string \<Rightarrow> string"

type_synonym 'a sso = "(app_error, 'a, sso_db) handler"

datatype exchange_error =
    InvalidCode
  | CodeExpired
  | SsoVerificationRequired
  | StateMismatch
  | ChallengeMismatch
  | UnsupportedChallengeMethod
  | ExchangeInternal string

fun exchange_error_message :: "exchange_error \<Rightarrow> string" where
  "exchange_error_message InvalidCode = ''Invalid or used exchange code''"
| "exchange_error_message CodeExpired = ''Exchange code has expired''"
| "exchange_error_message SsoVerificationRequired = ''Exchange code requires state and code_verifier''"
| "exchange_error_message StateMismatch = ''SSO state mismatch''"
| "exchange_error_message ChallengeMismatch = ''SSO challenge mismatch''"
| "exchange_error_message UnsupportedChallengeMethod = ''Unsupported SSO challenge method''"
| "exchange_error_message (ExchangeInternal msg) = ''Internal error: '' @ msg"

definition OAUTH_CODE_PREFIX :: string where "OAUTH_CODE_PREFIX = ''rustchat:oauth:code:''"
definition OAUTH_CODE_TTL_SECONDS :: int where "OAUTH_CODE_TTL_SECONDS = 60"

text \<open>Taking a connection from the pool, and a command whose failure is reported with a text of its own.\<close>

definition redis_get :: "'r sign_env \<Rightarrow> (string \<Rightarrow> 'e) \<Rightarrow> ('e, unit, sso_db) handler" where
  "redis_get env err =
     hmap_err (\<lambda>e. err (''Redis connection failed: '' @ sqlx_message e)) (statement (sx_redis_pool env) (\<lambda>s. ((), s)))"

definition redis_run :: "'r sign_env \<Rightarrow> (string \<Rightarrow> 'e) \<Rightarrow> string \<Rightarrow> (sso_db \<Rightarrow> 'a \<times> sso_db) \<Rightarrow> ('e, 'a, sso_db) handler" where
  "redis_run env err text f = hmap_err (\<lambda>e. err (text @ sqlx_message e)) (statement (sx_redis env) f)"

definition live :: "int \<Rightarrow> ('v \<times> int) option \<Rightarrow> 'v option" where
  "live now entry = (case entry of Some (v, ends) \<Rightarrow> if now < ends then Some v else None | None \<Rightarrow> None)"

section \<open>Codes\<close>

definition create_exchange_code_with_sso ::
  "'r code_env \<Rightarrow> int \<Rightarrow> uuid \<Rightarrow> string \<Rightarrow> string \<Rightarrow> uuid option \<Rightarrow> sso_exchange_challenge option \<Rightarrow> string sso" where
  "create_exchange_code_with_sso env now user_id email role org_id sso_challenge =
     hbind (hask (\<lambda>s. (ce_code env (db_statements s), s))) (\<lambda>code_text.
     hbind (redis_get (ce_sign env) Internal) (\<lambda>_.
     hbind (redis_run (ce_sign env) Internal ''Failed to store exchange code: '' (\<lambda>s. ((), s\<lparr>so_codes :=
         hm_insert (OAUTH_CODE_PREFIX @ code_text)
           (\<lparr>xp_user_id = user_id, xp_email = email, xp_role = role, xp_org_id = org_id, xp_created_at = now div 1000,
             xp_expected_state = map_option sec_expected_state sso_challenge,
             xp_code_challenge = map_option sec_code_challenge sso_challenge,
             xp_code_challenge_method = map_option sec_code_challenge_method sso_challenge\<rparr>,
            now + OAUTH_CODE_TTL_SECONDS * 1000) (so_codes s)\<rparr>))) (\<lambda>_.
     hreturn code_text)))"

definition create_exchange_code ::
  "'r code_env \<Rightarrow> int \<Rightarrow> uuid \<Rightarrow> string \<Rightarrow> string \<Rightarrow> uuid option \<Rightarrow> string sso" where
  "create_exchange_code env now user_id email role org_id = create_exchange_code_with_sso env now user_id email role org_id None"

definition to_ascii_uppercase :: "string \<Rightarrow> string" where
  "to_ascii_uppercase = map (\<lambda>c. let n = code_point c in if 97 \<le> n \<and> n \<le> 122 then char_of (n - 32) else c)"

definition verify_sso_metadata ::
  "(string \<Rightarrow> string) \<Rightarrow> exchange_code_payload \<Rightarrow> (string \<times> string) option \<Rightarrow> exchange_error + unit" where
  "verify_sso_metadata challenge payload verification =
     (if xp_expected_state payload = None \<and> xp_code_challenge payload = None \<and> xp_code_challenge_method payload = None
      then Inr ()
      else case xp_expected_state payload of None \<Rightarrow> Inl InvalidCode | Some expected_state \<Rightarrow>
        (case xp_code_challenge payload of None \<Rightarrow> Inl InvalidCode | Some code_challenge \<Rightarrow>
        (case verification of None \<Rightarrow> Inl SsoVerificationRequired | Some (code_verifier, state) \<Rightarrow>
           if state \<noteq> expected_state then Inl StateMismatch
           else (let verb = to_ascii_uppercase (case xp_code_challenge_method payload of Some m \<Rightarrow> m | None \<Rightarrow> ''S256'')
                 in if verb \<noteq> ''S256'' \<and> verb \<noteq> [] then Inl UnsupportedChallengeMethod
                    else if (if verb = ''S256'' then challenge code_verifier else code_verifier) \<noteq> code_challenge
                    then Inl ChallengeMismatch else Inr ()))))"

text \<open>Reading and deleting the key is one script.\<close>

definition exchange_code_internal ::
  "'r code_env \<Rightarrow> int \<Rightarrow> string \<Rightarrow> (string \<times> string) option \<Rightarrow> (exchange_error, exchange_code_payload, sso_db) handler" where
  "exchange_code_internal env now code_text verification =
     (let key = OAUTH_CODE_PREFIX @ code_text
      in hbind (redis_get (ce_sign env) ExchangeInternal) (\<lambda>_.
         hbind (redis_run (ce_sign env) ExchangeInternal ''Redis error: ''
           (\<lambda>s. (live now (hm_get (so_codes s) key), s\<lparr>so_codes := hm_remove key (so_codes s)\<rparr>))) (\<lambda>stored.
         hbind (hsome_of stored InvalidCode) (\<lambda>payload.
         if OAUTH_CODE_TTL_SECONDS < now div 1000 - xp_created_at payload then hfail CodeExpired
         else hbind (hlift (verify_sso_metadata (ce_challenge env) payload verification)) (\<lambda>_. hreturn payload)))))"

definition exchange_code :: "'r code_env \<Rightarrow> int \<Rightarrow> string \<Rightarrow> (exchange_error, exchange_code_payload, sso_db) handler" where
  "exchange_code env now code_text = exchange_code_internal env now code_text None"

definition exchange_code_with_sso_verification ::
  "'r code_env \<Rightarrow> int \<Rightarrow> string \<Rightarrow> string \<Rightarrow> string \<Rightarrow> (exchange_error, exchange_code_payload, sso_db) handler" where
  "exchange_code_with_sso_verification env now code_text code_verifier state =
     exchange_code_internal env now code_text (Some (code_verifier, state))"

section \<open>Trading a code\<close>

fun exchange_failure :: "string \<Rightarrow> exchange_error \<Rightarrow> app_error" where
  "exchange_failure required InvalidCode = BadRequest ''Invalid or already used exchange code''"
| "exchange_failure required CodeExpired = BadRequest ''Exchange code has expired''"
| "exchange_failure required SsoVerificationRequired = BadRequest required"
| "exchange_failure required StateMismatch = BadRequest ''SSO state mismatch''"
| "exchange_failure required ChallengeMismatch = BadRequest ''SSO challenge mismatch''"
| "exchange_failure required UnsupportedChallengeMethod = BadRequest ''Unsupported SSO challenge method''"
| "exchange_failure required (ExchangeInternal msg) = Internal ''Failed to process exchange code''"

definition payload_token :: "'r code_env \<Rightarrow> int \<Rightarrow> exchange_code_payload \<Rightarrow> string api_result" where
  "payload_token env now payload =
     (let x = ce_sign env in create_token_with_policy (sx_auth x) (now div 1000) (xp_user_id payload) (xp_email payload)
       (xp_role payload) (xp_org_id payload) (au_jwt_secret (sx_auth x)) (au_jwt_issuer (sx_auth x))
       (au_jwt_audience (sx_auth x)) (sx_expiry_hours x))"

definition given :: "string option \<Rightarrow> string option" where
  "given v = (case map_option trim v of Some (c # cs) \<Rightarrow> Some (c # cs) | _ \<Rightarrow> None)"

definition login_sso_code_exchange ::
  "'r code_env \<Rightarrow> bool \<Rightarrow> int \<Rightarrow> string option \<Rightarrow> string option \<Rightarrow> string option \<Rightarrow> json sso" where
  "login_sso_code_exchange env enabled now login_code code_verifier state =
     (if \<not> enabled then hfail (BadRequest ''Mobile SSO code exchange is disabled'')
      else hbind (hsome_of (given login_code) (BadRequest ''Missing login_code'')) (\<lambda>code_text.
           hbind (hsome_of (given code_verifier) (BadRequest ''Missing code_verifier'')) (\<lambda>code_verifier.
           hbind (hsome_of (given state) (BadRequest ''Missing state'')) (\<lambda>exchange_state.
           hbind (hmap_err (exchange_failure ''Exchange code is missing SSO verification metadata'')
             (exchange_code_with_sso_verification env now code_text code_verifier exchange_state)) (\<lambda>payload.
           hbind (hlift (payload_token env now payload)) (\<lambda>token.
           hreturn (JObject [(''token'', JString token), (''csrf'', JString [])])))))))"

definition OAUTH_EXCHANGE_COOKIE :: string where "OAUTH_EXCHANGE_COOKIE = ''RCOAUTHCODE''"

text \<open>\<^verbatim>\<open>splitn(2, '=')\<close> on each part of the header; \<open>find_map\<close> takes the first part that yields a value.\<close>

definition cookie_pair :: "string \<Rightarrow> string \<Rightarrow> string option" where
  "cookie_pair name pair =
     (case split_once ''='' (trim pair) of
        None \<Rightarrow> None
      | Some (key, value) \<Rightarrow> if trim key = name \<and> trim value \<noteq> [] then Some (trim value) else None)"

definition read_cookie_value :: "headers \<Rightarrow> string \<Rightarrow> string option" where
  "read_cookie_value headers name =
     (case headers ''cookie'' of
        Some (Some header) \<Rightarrow>
          (case List.map_filter (cookie_pair name) (split_on (\<lambda>c. c = CHR '';'') header) of [] \<Rightarrow> None | v # _ \<Rightarrow> Some v)
      | _ \<Rightarrow> None)"

definition clear_exchange_code_cookie :: "bool \<Rightarrow> string" where
  "clear_exchange_code_cookie secure =
     OAUTH_EXCHANGE_COOKIE @ ''=; Path=/; Max-Age=0; HttpOnly; SameSite=Lax'' @ (if secure then ''; Secure'' else [])"

record exchange_response =
  er_token :: string
  er_token_type :: string
  er_expires_in :: nat

definition exchange_token ::
  "'r code_env \<Rightarrow> int \<Rightarrow> headers \<Rightarrow> string option \<Rightarrow> (string \<times> exchange_response) sso" where
  "exchange_token env now headers input =
     hbind (hsome_of (case given input of Some c \<Rightarrow> Some c | None \<Rightarrow> read_cookie_value headers OAUTH_EXCHANGE_COOKIE)
       (BadRequest ''Missing exchange code'')) (\<lambda>code_text.
     hbind (hguard (\<lambda>_. 10 \<le> str_len code_text) (BadRequest ''Invalid exchange code'')) (\<lambda>_.
     hbind (hmap_err (exchange_failure ''Exchange code requires additional SSO verification'')
       (exchange_code env now code_text)) (\<lambda>payload.
     hbind (hmap_err (\<lambda>e. Internal (''Failed to create token: '' @ app_error_message e)) (hlift (payload_token env now payload))) (\<lambda>token.
     hreturn (clear_exchange_code_cookie (sx_production (ce_sign env)),
       \<lparr>er_token = token, er_token_type = ''Bearer'', er_expires_in = sx_expiry_hours (ce_sign env) * 3600\<rparr>)))))"

end
