(* ===== verification/Sso.thy ===== *)
theory Sso
  imports Sso_Exchange
begin

text \<open>
  Single sign-on (\<^verbatim>\<open>api/oauth.rs\<close>): the redirect to a provider, its callback, the account that an identity of the provider
  gets, and the code that the client trades for a token. The provider is a record of functions: each HTTP call, after
  its retries, gives an error or a status, the text of the body and its decoding. Discovery and the check of an ID
  token's signature, audience and issuer (\<^verbatim>\<open>services/oidc_discovery.rs\<close>, \<^verbatim>\<open>jsonwebtoken\<close>) are such functions as well.
\<close>

section \<open>What providers say\<close>

record token_response =
  tr_access_token :: string
  tr_id_token :: "string option"

record userinfo_response =
  uir_sub :: string
  uir_email :: "string option"
  uir_email_verified :: "bool option"
  uir_name :: "string option"
  uir_preferred_username :: "string option"
  uir_extra :: json

record id_token_claims =
  itc_sub :: string
  itc_exp :: int
  itc_nonce :: "string option"
  itc_email :: "string option"
  itc_email_verified :: "bool option"
  itc_name :: "string option"
  itc_preferred_username :: "string option"
  itc_groups :: "(string list) option"
  itc_extra :: json

record github_user =
  gu_id :: int
  gu_login :: string
  gu_name :: "string option"
  gu_email :: "string option"

record github_email =
  ge_email :: string
  ge_primary :: bool
  ge_verified :: bool

record sso_user_info =
  ui_email :: string
  ui_name :: "string option"
  ui_preferred_username :: "string option"
  ui_groups :: "string list"
  ui_external_id :: "string option"

record discovery_result =
  dr_authorization_endpoint :: string
  dr_token_endpoint :: string
  dr_userinfo_endpoint :: "string option"
  dr_jwks_uri :: string

type_synonym 'a http = "app_error + (nat \<times> string \<times> (string + 'a))"

record provider_env =
  pv_github_token :: "(string \<times> string) list \<Rightarrow> token_response http"
  pv_github_user :: "string \<Rightarrow> github_user http"
  pv_github_emails :: "string \<Rightarrow> (github_email list) http"
  pv_github_member :: "string \<Rightarrow> string \<Rightarrow> string \<Rightarrow> unit http"
  pv_github_teams :: "string \<Rightarrow> string \<Rightarrow> (json list) http"
  pv_github_team_member :: "string \<Rightarrow> int \<Rightarrow> string \<Rightarrow> unit http"
  pv_discover :: "string \<Rightarrow> string + discovery_result"
  pv_oidc_token :: "string \<Rightarrow> (string \<times> string) list \<Rightarrow> token_response http"
  pv_userinfo :: "string \<Rightarrow> string \<Rightarrow> userinfo_response http"
  pv_decode_id_token :: "string \<Rightarrow> string \<Rightarrow> string \<Rightarrow> string \<Rightarrow> id_token_claims api_result"
  pv_status_text :: "nat \<Rightarrow> string"

record url =
  url_host :: "string option"
  url_path :: string
  url_query :: "string option"
  url_fragment :: "string option"

record 'r sso_env =
  se_codes :: "'r code_env"
  se_provider :: provider_env
  se_uuid :: "nat \<Rightarrow> uuid"
  se_verifier :: "nat \<Rightarrow> string"
  se_parse_url :: "string \<Rightarrow> url option"
  se_urlencode :: "string \<Rightarrow> string"
  se_decrypt :: "string \<Rightarrow> string + string"
  se_env_site_url :: "string option"
  se_custom_schemes :: "json \<Rightarrow> (string list) option"
  se_keycloak_provider_key :: string
  se_uuid_prefix :: "nat \<Rightarrow> string"

abbreviation se_sign :: "'r sso_env \<Rightarrow> 'r sign_env" where
  "se_sign env \<equiv> ce_sign (se_codes env)"

definition sso_sql :: "'r sso_env \<Rightarrow> (sso_db \<Rightarrow> 'a \<times> sso_db) \<Rightarrow> 'a sso" where
  "sso_sql env f = hmap_err (\<lambda>e. Database (sqlx_message e)) (statement (sx_down (se_sign env)) f)"

definition sso_query :: "'r sso_env \<Rightarrow> (sso_db \<Rightarrow> 'a) \<Rightarrow> 'a sso" where
  "sso_query env q = sso_sql env (\<lambda>s. (q s, s))"

definition read_json :: "(nat \<Rightarrow> string \<Rightarrow> app_error) \<Rightarrow> (string \<Rightarrow> app_error) \<Rightarrow> 'a http \<Rightarrow> 'a api_result" where
  "read_json refused unreadable r =
     (case r of
        Inl e \<Rightarrow> Inl e
      | Inr (status, body, parsed) \<Rightarrow>
          if \<not> (200 \<le> status \<and> status < 300) then Inl (refused status body)
          else (case parsed of Inl e \<Rightarrow> Inl (unreadable e) | Inr x \<Rightarrow> Inr x))"

definition quoted_name :: "string \<Rightarrow> string" where
  "quoted_name s = [CHR 0x27] @ s @ [CHR 0x27]"

section \<open>GitHub\<close>

definition check_github_membership :: "provider_env \<Rightarrow> sso_config \<Rightarrow> string \<Rightarrow> string \<Rightarrow> unit sso" where
  "check_github_membership pv config access_token login_name =
     (case sc_github_org config of
        None \<Rightarrow> hreturn ()
      | Some org \<Rightarrow>
          hbind (hlift (pv_github_member pv access_token org login_name)) (\<lambda>(status, _, _).
          if status \<noteq> 204 then hfail (Forbidden (''User is not a member of required GitHub organization: '' @ org))
          else (case sc_github_team config of
                  None \<Rightarrow> hreturn ()
                | Some team \<Rightarrow>
                    hbind (hlift (read_json (\<lambda>_ _. Internal ''Failed to fetch GitHub teams'')
                      (\<lambda>e. Internal (''Failed to parse GitHub teams: '' @ e)) (pv_github_teams pv access_token org))) (\<lambda>teams.
                    hbind (hsome_of (Option.bind
                        (find (\<lambda>t. Option.bind (json_get ''slug'' t) json_as_str = Some team) teams)
                        (\<lambda>t. case json_get ''id'' t of Some (JNumber n) \<Rightarrow> if i64_min \<le> n \<and> n \<le> i64_max then Some n else None | _ \<Rightarrow> None))
                      (Internal (''GitHub team '' @ quoted_name team @ '' not found in org '' @ quoted_name org))) (\<lambda>team_id.
                    hbind (hlift (pv_github_team_member pv access_token team_id login_name)) (\<lambda>(status, _, _).
                    if 200 \<le> status \<and> status < 300 then hreturn ()
                    else hfail (Forbidden (''User is not a member of required GitHub team: '' @ team))))))))"

definition exchange_github_token ::
  "provider_env \<Rightarrow> string \<Rightarrow> string \<Rightarrow> string \<Rightarrow> string \<Rightarrow> sso_config \<Rightarrow> (string \<times> sso_user_info) sso" where
  "exchange_github_token pv auth_code client_id client_secret redirect_uri config =
     hbind (hlift (read_json (\<lambda>st body. Internal (''GitHub token exchange failed: '' @ pv_status_text pv st @ '' - '' @ body))
         (\<lambda>e. Internal (''Failed to parse GitHub token: '' @ e))
         (pv_github_token pv [(''grant_type'', ''authorization_code''), (''code'', auth_code), (''redirect_uri'', redirect_uri),
            (''client_id'', client_id), (''client_secret'', client_secret)]))) (\<lambda>tokens.
     hbind (hlift (read_json (\<lambda>_ _. Internal ''Failed to fetch GitHub user info'')
         (\<lambda>e. Internal (''Failed to parse GitHub user: '' @ e)) (pv_github_user pv (tr_access_token tokens)))) (\<lambda>github_user.
     hbind (case gu_email github_user of
              Some email \<Rightarrow> hreturn email
            | None \<Rightarrow>
                hbind (hlift (read_json (\<lambda>_ _. Internal ''Failed to fetch GitHub emails'')
                  (\<lambda>e. Internal (''Failed to parse GitHub emails: '' @ e)) (pv_github_emails pv (tr_access_token tokens)))) (\<lambda>emails.
                hbind (hsome_of (case find (\<lambda>e. ge_primary e \<and> ge_verified e) emails of Some e \<Rightarrow> Some e | None \<Rightarrow> find ge_verified emails)
                  (BadRequest ''No verified email found for GitHub account'')) (\<lambda>primary_email.
                hreturn (ge_email primary_email)))) (\<lambda>email.
     hbind (check_github_membership pv config (tr_access_token tokens) (gu_login github_user)) (\<lambda>_.
     hreturn (email, \<lparr>ui_email = email, ui_name = gu_name github_user, ui_preferred_username = Some (gu_login github_user),
       ui_groups = [], ui_external_id = Some (show_int (gu_id github_user))\<rparr>)))))"

section \<open>OpenID Connect\<close>

fun json_strings :: "json \<Rightarrow> string list" where
  "json_strings (JArray vs) = List.map_filter json_as_str vs"
| "json_strings _ = []"

definition groups_in :: "json \<Rightarrow> string option \<Rightarrow> string list" where
  "groups_in extra groups_claim =
     (case json_get (case groups_claim of Some c \<Rightarrow> c | None \<Rightarrow> ''groups'') extra of Some v \<Rightarrow> json_strings v | None \<Rightarrow> [])"

definition extract_groups :: "id_token_claims \<Rightarrow> string option \<Rightarrow> string list" where
  "extract_groups claims groups_claim =
     (case itc_groups claims of Some groups \<Rightarrow> groups | None \<Rightarrow> groups_in (itc_extra claims) groups_claim)"

definition extract_groups_from_userinfo :: "userinfo_response \<Rightarrow> string option \<Rightarrow> string list" where
  "extract_groups_from_userinfo userinfo groups_claim = groups_in (uir_extra userinfo) groups_claim"

definition validate_id_token ::
  "provider_env \<Rightarrow> int \<Rightarrow> string \<Rightarrow> string \<Rightarrow> string \<Rightarrow> string \<Rightarrow> string option \<Rightarrow> id_token_claims api_result" where
  "validate_id_token pv now id_token jwks_uri client_id expected_issuer expected_nonce =
     (case pv_decode_id_token pv id_token jwks_uri client_id expected_issuer of
        Inl e \<Rightarrow> Inl e
      | Inr claims \<Rightarrow>
          if expected_nonce \<noteq> None \<and> (case itc_nonce claims of Some n \<Rightarrow> n | None \<Rightarrow> []) \<noteq> the expected_nonce
          then Inl (Internal ''ID token nonce mismatch'')
          else if itc_exp claims < now div 1000 then Inl (Internal ''ID token expired'')
          else Inr claims)"

definition check_domain :: "sso_config \<Rightarrow> string \<Rightarrow> unit api_result" where
  "check_domain config email =
     (if sc_provider_type config \<noteq> ''google'' then Inr ()
      else case sc_allow_domains config of
             None \<Rightarrow> Inr ()
           | Some allowed_domains \<Rightarrow>
               if allowed_domains = [] then Inr ()
               else (case split_on (\<lambda>c. c = CHR 0x40) email of
                       _ # email_domain # _ \<Rightarrow>
                         if email_domain \<in> set allowed_domains then Inr ()
                         else Inl (Forbidden (''Email domain '' @ quoted_name email_domain @ '' not allowed''))
                     | _ \<Rightarrow> Inl (BadRequest ''Invalid email format'')))"

definition or_empty :: "string option \<Rightarrow> string" where
  "or_empty v = (case v of Some s \<Rightarrow> s | None \<Rightarrow> [])"

definition exchange_oidc_token ::
  "provider_env \<Rightarrow> int \<Rightarrow> string \<Rightarrow> string \<Rightarrow> string \<Rightarrow> string \<Rightarrow> string \<Rightarrow> string option \<Rightarrow> string option \<Rightarrow> sso_config \<Rightarrow>
     (string \<times> sso_user_info) sso" where
  "exchange_oidc_token pv now auth_code client_id client_secret redirect_uri issuer code_verifier expected_nonce config =
     hbind (hlift (case pv_discover pv issuer of Inl e \<Rightarrow> Inl (Internal (''OIDC discovery failed: '' @ e)) | Inr d \<Rightarrow> Inr d)) (\<lambda>discovery.
     hbind (hlift (read_json (\<lambda>st body. Internal (''OIDC token exchange failed: '' @ pv_status_text pv st @ '' - '' @ body))
         (\<lambda>e. Internal (''Failed to parse OIDC token: '' @ e))
         (pv_oidc_token pv (dr_token_endpoint discovery)
           ([(''grant_type'', ''authorization_code''), (''code'', auth_code), (''redirect_uri'', redirect_uri),
             (''client_id'', client_id), (''client_secret'', client_secret)]
            @ (case code_verifier of Some v \<Rightarrow> [(''code_verifier'', v)] | None \<Rightarrow> []))))) (\<lambda>tokens.
     hbind (case tr_id_token tokens of
              None \<Rightarrow> hreturn None
            | Some id_token \<Rightarrow>
                hbind (hlift (validate_id_token pv now id_token (dr_jwks_uri discovery) client_id issuer expected_nonce)) (\<lambda>c.
                hreturn (Some c))) (\<lambda>claims.
     hbind (case claims of
              Some c \<Rightarrow> hreturn \<lparr>ui_email = or_empty (itc_email c), ui_name = itc_name c,
                ui_preferred_username = itc_preferred_username c, ui_groups = extract_groups c (sc_groups_claim config),
                ui_external_id = Some (itc_sub c)\<rparr>
            | None \<Rightarrow>
                hbind (hsome_of (dr_userinfo_endpoint discovery) (Internal ''No ID token or UserInfo endpoint available'')) (\<lambda>userinfo_url.
                hbind (hlift (read_json (\<lambda>_ _. Internal ''Failed to fetch UserInfo'')
                  (\<lambda>e. Internal (''Failed to parse UserInfo: '' @ e)) (pv_userinfo pv userinfo_url (tr_access_token tokens)))) (\<lambda>u.
                hreturn \<lparr>ui_email = or_empty (uir_email u), ui_name = uir_name u, ui_preferred_username = uir_preferred_username u,
                  ui_groups = extract_groups_from_userinfo u (sc_groups_claim config), ui_external_id = Some (uir_sub u)\<rparr>))) (\<lambda>user_info.
     hbind (hguard (\<lambda>_. Option.bind claims itc_email_verified \<noteq> Some False) (Forbidden ''Email not verified with OAuth provider'')) (\<lambda>_.
     hbind (hlift (check_domain config (ui_email user_info))) (\<lambda>_.
     hreturn (ui_email user_info, user_info)))))))"

section \<open>Accounts for identities\<close>

definition determine_user_role :: "sso_config \<Rightarrow> sso_user_info \<Rightarrow> string" where
  "determine_user_role config user_info =
     (let mapped = (\<lambda>group. Option.bind (Option.bind (sc_role_mappings config) (json_get group)) json_as_str)
      in case List.map_filter mapped (ui_groups user_info) of
           role # _ \<Rightarrow> role
         | [] \<Rightarrow> (case sc_default_role config of Some r \<Rightarrow> r | None \<Rightarrow> ''member''))"

definition name_char :: "char \<Rightarrow> bool" where
  "name_char c \<longleftrightarrow> is_alphanumeric c \<or> c = CHR ''_'' \<or> c = CHR ''-''"

definition wanted_username :: "string \<Rightarrow> sso_user_info \<Rightarrow> string" where
  "wanted_username email user_info =
     (case ui_preferred_username user_info of
        Some name \<Rightarrow> name
      | None \<Rightarrow>
          (case ui_name user_info of
             Some n \<Rightarrow> filter name_char (map (\<lambda>c. if c = CHR '' '' then CHR ''_'' else c) (to_lowercase n))
           | None \<Rightarrow> filter name_char (to_lowercase (hd (split_on (\<lambda>c. c = CHR 0x40) email)))))"

text \<open>The name itself, then the name with the numbers below 1000.\<close>

definition username_candidate :: "string \<Rightarrow> nat \<Rightarrow> string" where
  "username_candidate base_username i = (if i = 0 then base_username else base_username @ show_nat i)"

function first_free :: "'r sso_env \<Rightarrow> string \<Rightarrow> nat \<Rightarrow> (string option) sso" where
  "first_free env base_username i =
     (if 1000 \<le> i then hreturn None
      else hbind (sso_query env (\<lambda>s. list_ex (\<lambda>a. usr_username a = username_candidate base_username i) (db_accounts s))) (\<lambda>exists.
           if exists then first_free env base_username (Suc i) else hreturn (Some (username_candidate base_username i))))"
  by pat_completeness auto
termination by (relation "measure (\<lambda>(_, _, i). 1000 - i)") auto

declare first_free.simps [simp del]

definition generate_unique_username :: "'r sso_env \<Rightarrow> string \<Rightarrow> string sso" where
  "generate_unique_username env base_username =
     hbind (first_free env base_username 0) (\<lambda>free.
     case free of
       Some name \<Rightarrow> hreturn name
     | None \<Rightarrow> hask (\<lambda>s. (base_username @ ''_'' @ se_uuid_prefix env (db_statements s), s)))"

text \<open>\<^verbatim>\<open>UPDATE users .. WHERE id = $1 RETURNING *\<close>.\<close>

definition update_returning :: "'r sso_env \<Rightarrow> uuid \<Rightarrow> (account \<Rightarrow> account) \<Rightarrow> account sso" where
  "update_returning env user_id f =
     hbind (sso_sql env (\<lambda>s.
       (let rows = update_where (\<lambda>a. usr_id a = user_id) f (db_accounts s)
        in (find (\<lambda>a. usr_id a = user_id) rows, s\<lparr>db_accounts := rows\<rparr>)))) (\<lambda>row.
     hsome_of row (Database (sqlx_message RowNotFound)))"

definition signed_on :: "int \<Rightarrow> string option \<Rightarrow> account \<Rightarrow> account" where
  "signed_on now role a =
     a\<lparr>usr_last_login_at := Some now, usr_updated_at := now, usr_role := (case role of Some r \<Rightarrow> r | None \<Rightarrow> usr_role a)\<rparr>"

definition synced_role :: "sso_config \<Rightarrow> string \<Rightarrow> string option" where
  "synced_role config desired_role =
     (if sc_provider_type config = ''oidc'' \<and> desired_role \<noteq> [] then Some desired_role else None)"

definition sso_account :: "account \<Rightarrow> string \<Rightarrow> string \<Rightarrow> sso_user_info \<Rightarrow> string \<Rightarrow> string \<Rightarrow> string option \<Rightarrow> uuid \<Rightarrow> account" where
  "sso_account row username email user_info role provider_key external_id org_id =
     row\<lparr>usr_username := username, usr_email := email, usr_password_hash := None, usr_deleted_at := None,
       usr_display_name := ui_name user_info, usr_role := role, usr_is_active := True,
       acc_auth_provider := Some provider_key, acc_auth_provider_id := external_id, usr_org_id := Some org_id\<rparr>"

definition create_sso_user ::
  "'r sso_env \<Rightarrow> string \<Rightarrow> sso_user_info \<Rightarrow> sso_config \<Rightarrow> string \<Rightarrow> string \<Rightarrow> string option \<Rightarrow> account sso" where
  "create_sso_user env email user_info config provider_key role external_id =
     hbind (generate_unique_username env (wanted_username email user_info)) (\<lambda>unique_username.
     hbind (hmap_err (\<lambda>e. Internal (''Failed to create user: '' @ sqlx_message e)) (statement (sx_down (se_sign env)) (\<lambda>s.
       if list_ex (\<lambda>a. usr_email a = email \<or> usr_username a = unique_username \<and> usr_org_id a = Some (sc_org_id config)) (db_accounts s)
       then (None, s)
       else (let a = sso_account (sx_row (se_sign env) (db_statements s)) unique_username email user_info role provider_key
                       external_id (sc_org_id config)
             in (Some a, s\<lparr>db_accounts := db_accounts s @ [a]\<rparr>))))) (\<lambda>row.
     hsome_of row (Internal (''Failed to create user: '' @ sx_constraint (se_sign env)))))"

text \<open>The account that an identity is linked to, and the account with its address.\<close>

definition has_identity :: "string \<Rightarrow> string \<Rightarrow> account \<Rightarrow> bool" where
  "has_identity provider_key ext_id a \<longleftrightarrow>
     acc_auth_provider a = Some provider_key \<and> acc_auth_provider_id a = Some ext_id \<and> usr_deleted_at a = None"

definition has_address :: "string \<Rightarrow> account \<Rightarrow> bool" where
  "has_address email a \<longleftrightarrow> to_lowercase (usr_email a) = to_lowercase email \<and> usr_deleted_at a = None"

definition link_to :: "string \<Rightarrow> string option \<Rightarrow> account \<Rightarrow> account" where
  "link_to provider_key external_id a = a\<lparr>acc_auth_provider := Some provider_key, acc_auth_provider_id := external_id\<rparr>"

definition sign_on_by_address ::
  "'r sso_env \<Rightarrow> int \<Rightarrow> string \<Rightarrow> string option \<Rightarrow> string option \<Rightarrow> account \<Rightarrow> account sso" where
  "sign_on_by_address env now provider_key external_id role user =
     hbind (hmap_err (\<lambda>e. Database (sqlx_message e)) (fetch_one (sx_down (se_sign env))
       (\<lambda>s. map_option (\<lambda>a. (acc_auth_provider a, acc_auth_provider_id a)) (find (\<lambda>a. usr_id a = usr_id user) (db_accounts s)))))
       (\<lambda>(provider, linked).
     hbind (hguard (\<lambda>_. linked = None \<or> provider = Some provider_key \<and> external_id = linked)
       (Conflict ''Account is already linked to a different SSO identity'')) (\<lambda>_.
     update_returning env (usr_id user)
       (\<lambda>a. signed_on now role (if external_id \<noteq> None \<and> linked = None then link_to provider_key external_id a else a))))"

definition find_or_create_user ::
  "'r sso_env \<Rightarrow> int \<Rightarrow> string \<Rightarrow> sso_user_info \<Rightarrow> sso_config \<Rightarrow> string \<Rightarrow> account sso" where
  "find_or_create_user env now email user_info config provider_key =
     (let desired_role = determine_user_role config user_info;
          external_id = given (ui_external_id user_info);
          role = synced_role config desired_role
      in hbind (case external_id of
                  None \<Rightarrow> hreturn None
                | Some ext_id \<Rightarrow> sso_query env (\<lambda>s. find (has_identity provider_key ext_id) (db_accounts s))) (\<lambda>by_external.
         case by_external of
           Some user \<Rightarrow> update_returning env (usr_id user) (signed_on now role)
         | None \<Rightarrow>
             hbind (sso_query env (\<lambda>s. find (has_address email) (db_accounts s))) (\<lambda>by_email.
             case by_email of
               Some user \<Rightarrow> sign_on_by_address env now provider_key external_id role user
             | None \<Rightarrow>
                 if \<not> sc_auto_provision config
                 then hfail (Forbidden ''Account does not exist and auto-provisioning is disabled'')
                 else create_sso_user env email user_info config provider_key
                        (if desired_role = [] then (case sc_default_role config of Some r \<Rightarrow> r | None \<Rightarrow> ''member'') else desired_role)
                        external_id)))"

text \<open>Groups of the provider become groups of the server, by provider and lowered name.\<close>

definition put_group :: "uuid \<Rightarrow> string \<Rightarrow> string \<Rightarrow> string \<Rightarrow> sso_db \<Rightarrow> uuid \<times> sso_db" where
  "put_group new_id name display_name source s =
     (let same = (\<lambda>(_, _, _, src, remote). src = source \<and> remote = name)
      in case find same (so_groups s) of
           Some (g, _) \<Rightarrow> (g, s\<lparr>so_groups := update_where same (\<lambda>(g, n, _, src, remote). (g, n, display_name, src, remote)) (so_groups s)\<rparr>)
         | None \<Rightarrow> (new_id, s\<lparr>so_groups := so_groups s @ [(new_id, name, display_name, source, name)]\<rparr>))"

definition sync_oidc_groups :: "'r sso_env \<Rightarrow> uuid \<Rightarrow> string \<Rightarrow> string list \<Rightarrow> unit sso" where
  "sync_oidc_groups env user_id auth_provider groups =
     transaction_or (sx_down (se_sign env)) (Database [])
       (heach (\<lambda>group.
          let group_name = trim group;
              normalized_name = map (\<lambda>c. if c = CHR '' '' then CHR ''_'' else c) (to_lowercase group_name)
          in if group_name = [] then hreturn ()
             else hbind (sso_sql env (\<lambda>s. put_group (se_uuid env (db_statements s)) normalized_name group_name (''oidc:'' @ auth_provider) s)) (\<lambda>group_id.
                  sso_sql env (\<lambda>s. ((), if (group_id, user_id) \<in> set (so_group_members s) then s
                    else s\<lparr>so_group_members := so_group_members s @ [(group_id, user_id)]\<rparr>)))) groups)"

section \<open>Redirects\<close>

definition OAUTH_STATE_PREFIX :: string where "OAUTH_STATE_PREFIX = ''rustchat:oauth:state:''"
definition OAUTH_STATE_TTL_SECONDS :: int where "OAUTH_STATE_TTL_SECONDS = 300"
definition OAUTH_EXCHANGE_COOKIE_MAX_AGE_SECONDS :: nat where "OAUTH_EXCHANGE_COOKIE_MAX_AGE_SECONDS = 120"
definition DEFAULT_APP_CUSTOM_URL_SCHEMES :: "string list" where
  "DEFAULT_APP_CUSTOM_URL_SCHEMES = [''mmauth://'', ''mmauthbeta://'']"

definition oauth_state_key :: "string \<Rightarrow> string" where
  "oauth_state_key state = OAUTH_STATE_PREFIX @ state"

definition sanitize_redirect_path :: "string option \<Rightarrow> string" where
  "sanitize_redirect_path redirect_uri =
     (case redirect_uri of
        Some path \<Rightarrow>
          if strip_prefix ''/'' path \<noteq> None \<and> strip_prefix ''//'' path = None \<and> \<not> contains_str ''..'' path \<and> CHR 0x00 \<notin> set path
          then path else ''/''
      | None \<Rightarrow> ''/'')"

definition append_query_param :: "'r sso_env \<Rightarrow> string \<Rightarrow> string \<Rightarrow> string \<Rightarrow> string" where
  "append_query_param env path key value =
     path @ (if CHR ''?'' \<in> set path then ''&'' else ''?'') @ key @ ''='' @ se_urlencode env value"

definition build_exchange_code_cookie :: "string \<Rightarrow> bool \<Rightarrow> string" where
  "build_exchange_code_cookie code_text secure =
     OAUTH_EXCHANGE_COOKIE @ ''='' @ code_text @ ''; Path=/; Max-Age='' @ show_nat OAUTH_EXCHANGE_COOKIE_MAX_AGE_SECONDS
       @ ''; HttpOnly; SameSite=Lax'' @ (if secure then ''; Secure'' else [])"

definition validate_mobile_redirect_to :: "'r sso_env \<Rightarrow> string \<Rightarrow> string list \<Rightarrow> string api_result" where
  "validate_mobile_redirect_to env redirect_to allowed_schemes =
     (let trimmed = trim redirect_to;
          effective_schemes = (if allowed_schemes = [] then DEFAULT_APP_CUSTOM_URL_SCHEMES else allowed_schemes)
      in if trimmed = [] then Inl (BadRequest ''Invalid mobile redirect URL'')
         else (case se_parse_url env trimmed of
                 None \<Rightarrow> Inl (BadRequest ''Invalid mobile redirect URL'')
               | Some parsed \<Rightarrow>
                   if \<not> list_ex (\<lambda>value. value \<noteq> [] \<and> strip_prefix (to_ascii_lowercase value) (to_ascii_lowercase trimmed) \<noteq> None)
                          (map trim effective_schemes)
                   then Inl (BadRequest ''Invalid mobile redirect URL scheme'')
                   else if or_empty (url_host parsed) \<noteq> ''callback'' \<or> url_path parsed \<noteq> [] \<or> url_query parsed \<noteq> None \<or> url_fragment parsed \<noteq> None
                   then Inl (BadRequest ''Invalid mobile redirect callback host'')
                   else Inr trimmed))"

definition get_mobile_custom_url_schemes :: "'r sso_env \<Rightarrow> (string list) sso" where
  "get_mobile_custom_url_schemes env =
     hbind (htry (fetch (sx_down (se_sign env)) db_site)) (\<lambda>row.
     hreturn (case row of
       Inr (Some site) \<Rightarrow>
         (case se_custom_schemes env site of Some (x # xs) \<Rightarrow> x # xs | _ \<Rightarrow> DEFAULT_APP_CUSTOM_URL_SCHEMES)
     | _ \<Rightarrow> DEFAULT_APP_CUSTOM_URL_SCHEMES))"

definition get_site_url :: "'r sso_env \<Rightarrow> string sso" where
  "get_site_url env =
     hbind (htry (fetch (sx_down (se_sign env)) db_site)) (\<lambda>row.
     hreturn (case row of
       Inr (Some site) \<Rightarrow>
         (case Option.bind (json_get ''site_url'' site) json_as_str of
            Some (c # cs) \<Rightarrow> c # cs
          | _ \<Rightarrow> (case se_env_site_url env of Some u \<Rightarrow> u | None \<Rightarrow> ''http://localhost:8080''))
     | _ \<Rightarrow> (case se_env_site_url env of Some u \<Rightarrow> u | None \<Rightarrow> ''http://localhost:8080'')))"

section \<open>Going to the provider\<close>

datatype sso_provider_type = GitHub | Google | Oidc | Saml

definition sso_provider_type_of :: "string \<Rightarrow> sso_provider_type option" where
  "sso_provider_type_of s =
     (if s = ''github'' then Some GitHub else if s = ''google'' then Some Google else if s = ''oidc'' then Some Oidc
      else if s = ''saml'' then Some Saml else None)"

definition default_scopes :: "sso_provider_type \<Rightarrow> string list" where
  "default_scopes p = (if p = GitHub then [''read:user'', ''user:email''] else [''openid'', ''profile'', ''email''])"

definition provider_config :: "'r sso_env \<Rightarrow> string \<Rightarrow> string \<Rightarrow> sso_config sso" where
  "provider_config env provider_key missing =
     hbind (sso_query env (\<lambda>s. find (\<lambda>c. sc_provider_key c = provider_key \<and> sc_is_active c) (so_configs s))) (\<lambda>row.
     hsome_of row (NotFound (''OAuth provider '' @ quoted_name provider_key @ missing)))"

record oauth_login_query =
  olq_redirect_uri :: "string option"
  olq_redirect_to :: "string option"
  olq_mobile :: "bool option"
  olq_state :: "string option"
  olq_code_challenge :: "string option"
  olq_code_challenge_method :: "string option"

definition client_id_of :: "sso_config \<Rightarrow> string sso" where
  "client_id_of config = hsome_of (sc_client_id config) (BadRequest ''OAuth provider client_id not configured'')"

definition type_of_provider :: "sso_config \<Rightarrow> sso_provider_type sso" where
  "type_of_provider config =
     hsome_of (sso_provider_type_of (sc_provider_type config)) (Internal (''Unknown provider type: '' @ sc_provider_type config))"

definition mobile_redirect :: "'r sso_env \<Rightarrow> oauth_login_query \<Rightarrow> (string option) sso" where
  "mobile_redirect env q =
     (if olq_mobile q \<noteq> Some True then hreturn None
      else hbind (get_mobile_custom_url_schemes env) (\<lambda>app_custom_url_schemes.
           case (case olq_redirect_to q of Some r \<Rightarrow> Some r | None \<Rightarrow> olq_redirect_uri q) of
             None \<Rightarrow> hreturn None
           | Some redirect_to \<Rightarrow> hbind (hlift (validate_mobile_redirect_to env redirect_to app_custom_url_schemes)) (\<lambda>r. hreturn (Some r))))"

text \<open>The verifier of PKCE and the nonce, which GitHub gets neither of.\<close>

definition new_proof :: "'r sso_env \<Rightarrow> sso_provider_type \<Rightarrow> ((string \<times> string \<times> string) option) sso" where
  "new_proof env provider_type =
     (if provider_type = GitHub then hreturn None
      else hask (\<lambda>s. (let verifier = se_verifier env (db_statements s)
                      in Some (verifier, ce_challenge (se_codes env) verifier,
                           au_show (sx_auth (se_sign env)) (se_uuid env (Suc (db_statements s)))), s)))"

definition authorization_url ::
  "'r sso_env \<Rightarrow> sso_config \<Rightarrow> sso_provider_type \<Rightarrow> string \<Rightarrow> string \<Rightarrow> string \<Rightarrow> string \<Rightarrow> (string \<times> string \<times> string) option \<Rightarrow>
     string api_result" where
  "authorization_url env config provider_type client_id callback_url scope_str oauth_state proof_of =
     (let enc = se_urlencode env;
          query = (\<lambda>endpoint. endpoint @ ''?client_id='' @ enc client_id @ ''&redirect_uri='' @ enc callback_url
             @ ''&response_type=code&scope='' @ enc scope_str @ ''&state='' @ oauth_state)
      in case provider_type of
           GitHub \<Rightarrow> Inr (query ''https://github.com/login/oauth/authorize'')
         | Saml \<Rightarrow> Inl (BadRequest ''SAML is not supported via OAuth endpoints'')
         | _ \<Rightarrow>
             (case sc_issuer_url config of
                None \<Rightarrow> Inl (BadRequest ''OIDC provider issuer_url not configured'')
              | Some issuer \<Rightarrow>
                  (case pv_discover (se_provider env) issuer of
                     Inl e \<Rightarrow> Inl (Internal (''OIDC discovery failed for '' @ quoted_name issuer @ '': '' @ e))
                   | Inr d \<Rightarrow> Inr (query (dr_authorization_endpoint d)
                       @ (case proof_of of
                            None \<Rightarrow> []
                          | Some (_, challenge, nonce) \<Rightarrow> ''&code_challenge='' @ enc challenge @ ''&code_challenge_method=S256''
                              @ ''&nonce='' @ enc nonce)))))"

fun joined :: "string \<Rightarrow> string list \<Rightarrow> string" where
  "joined sep [] = []"
| "joined sep [x] = x"
| "joined sep (x # y # ys) = x @ sep @ joined sep (y # ys)"

definition oauth_login :: "'r sso_env \<Rightarrow> int \<Rightarrow> string \<Rightarrow> oauth_login_query \<Rightarrow> string sso" where
  "oauth_login env now provider_key q =
     hbind (provider_config env provider_key '' not found or disabled'') (\<lambda>config.
     hbind (client_id_of config) (\<lambda>client_id.
     hbind (type_of_provider config) (\<lambda>provider_type.
     hbind (hask (\<lambda>s. (au_show (sx_auth (se_sign env)) (se_uuid env (db_statements s)), s))) (\<lambda>oauth_state.
     hbind (mobile_redirect env q) (\<lambda>mobile_redirect_to.
     hbind (new_proof env provider_type) (\<lambda>proof_of.
     let state_payload = \<lparr>os_provider_key = provider_key, os_redirect_after = sanitize_redirect_path (olq_redirect_uri q),
           os_created_at = now div 1000, os_nonce = map_option (\<lambda>(_, _, n). n) proof_of,
           os_code_verifier = map_option fst proof_of, os_code_challenge_method = map_option (\<lambda>_. ''S256'') proof_of,
           os_is_mobile = (olq_mobile q = Some True), os_mobile_sso_state = given (olq_state q),
           os_mobile_sso_code_challenge = given (olq_code_challenge q),
           os_mobile_sso_code_challenge_method = map_option to_ascii_uppercase (given (olq_code_challenge_method q)),
           os_mobile_redirect_to = mobile_redirect_to\<rparr>
     in hbind (redis_get (se_sign env) Internal) (\<lambda>_.
        hbind (redis_run (se_sign env) Internal ''Failed to store OAuth state: '' (\<lambda>s. ((), s\<lparr>so_states :=
          hm_insert (oauth_state_key oauth_state) (state_payload, now + OAUTH_STATE_TTL_SECONDS * 1000) (so_states s)\<rparr>))) (\<lambda>_.
        hbind (get_site_url env) (\<lambda>site_url.
        hlift (authorization_url env config provider_type client_id (site_url @ ''/api/v1/oauth2/'' @ provider_key @ ''/callback'')
          (joined '' '' (if sc_scopes config = [] then default_scopes provider_type else sc_scopes config)) oauth_state proof_of))))))))))"

section \<open>Coming back\<close>

record oauth_callback_query =
  ocq_code :: "string option"
  ocq_state :: "string option"
  ocq_error :: "string option"
  ocq_error_description :: "string option"

text \<open>Reading the state and deleting it are two commands.\<close>

definition take_state :: "'r sso_env \<Rightarrow> int \<Rightarrow> string \<Rightarrow> string \<Rightarrow> oauth_state_payload sso" where
  "take_state env now provider_key oauth_state =
     (let state_key = oauth_state_key oauth_state
      in hbind (redis_get (se_sign env) Internal) (\<lambda>_.
         hbind (redis_run (se_sign env) Internal ''Failed to read OAuth state: '' (\<lambda>s. (live now (hm_get (so_states s) state_key), s))) (\<lambda>stored.
         hbind (redis_run (se_sign env) Internal ''Failed to delete OAuth state: '' (\<lambda>s. ((), s\<lparr>so_states := hm_remove state_key (so_states s)\<rparr>))) (\<lambda>_.
         hbind (hsome_of stored (BadRequest ''Invalid or expired OAuth state'')) (\<lambda>st.
         if os_provider_key st \<noteq> provider_key then hfail (BadRequest ''OAuth state provider mismatch'')
         else if OAUTH_STATE_TTL_SECONDS < now div 1000 - os_created_at st then hfail (BadRequest ''OAuth state expired'')
         else hreturn st)))))"

definition client_secret_of :: "'r sso_env \<Rightarrow> sso_config \<Rightarrow> string sso" where
  "client_secret_of env config =
     hbind (hsome_of (sc_client_secret_encrypted config) (BadRequest ''OAuth provider client_secret not configured'')) (\<lambda>secret_raw.
     case se_decrypt env secret_raw of
       Inr secret \<Rightarrow> hreturn secret
     | Inl _ \<Rightarrow> if sx_production (se_sign env) then hfail (Internal ''Failed to decrypt OAuth client secret'') else hreturn secret_raw)"

definition ask_provider ::
  "'r sso_env \<Rightarrow> int \<Rightarrow> sso_provider_type \<Rightarrow> string \<Rightarrow> string \<Rightarrow> string \<Rightarrow> string \<Rightarrow> oauth_state_payload \<Rightarrow> sso_config \<Rightarrow>
     (string \<times> sso_user_info) sso" where
  "ask_provider env now provider_type auth_code client_id client_secret callback_url st config =
     (case provider_type of
        GitHub \<Rightarrow> exchange_github_token (se_provider env) auth_code client_id client_secret callback_url config
      | Saml \<Rightarrow> hfail (BadRequest ''SAML not supported'')
      | _ \<Rightarrow> hbind (hsome_of (sc_issuer_url config) (BadRequest ''OIDC provider issuer_url not configured'')) (\<lambda>issuer.
               exchange_oidc_token (se_provider env) now auth_code client_id client_secret callback_url issuer
                 (os_code_verifier st) (os_nonce st) config))"

definition mobile_challenge :: "oauth_state_payload \<Rightarrow> sso_exchange_challenge option" where
  "mobile_challenge st =
     (if \<not> os_is_mobile st then None
      else (case (os_mobile_sso_state st, os_mobile_sso_code_challenge st) of
              (Some expected_state, Some code_challenge) \<Rightarrow>
                Some \<lparr>sec_expected_state = expected_state, sec_code_challenge = code_challenge,
                  sec_code_challenge_method = (case os_mobile_sso_code_challenge_method st of Some verb \<Rightarrow> verb | None \<Rightarrow> ''S256'')\<rparr>
            | _ \<Rightarrow> None))"

definition create_code_for :: "'r sso_env \<Rightarrow> int \<Rightarrow> account \<Rightarrow> sso_exchange_challenge option \<Rightarrow> string sso" where
  "create_code_for env now user sso_challenge =
     (if sso_challenge \<noteq> None
      then create_exchange_code_with_sso (se_codes env) now (usr_id user) (usr_email user) (usr_role user) (usr_org_id user) sso_challenge
      else create_exchange_code (se_codes env) now (usr_id user) (usr_email user) (usr_role user) (usr_org_id user))"

text \<open>The answer is the address to go to and the cookie to set.\<close>

definition oauth_callback :: "'r sso_env \<Rightarrow> int \<Rightarrow> string \<Rightarrow> oauth_callback_query \<Rightarrow> (string \<times> string option) sso" where
  "oauth_callback env now provider_key q =
     (case ocq_error q of
        Some err \<Rightarrow>
          hreturn (''/login?error='' @ se_urlencode env (case ocq_error_description q of Some d \<Rightarrow> d | None \<Rightarrow> err), None)
      | None \<Rightarrow>
          hbind (hsome_of (ocq_code q) (BadRequest ''Missing authorization code'')) (\<lambda>auth_code.
          hbind (hsome_of (ocq_state q) (BadRequest ''Missing OAuth state parameter'')) (\<lambda>oauth_state.
          hbind (take_state env now provider_key oauth_state) (\<lambda>st.
          hbind (provider_config env provider_key '' not found'') (\<lambda>config.
          hbind (type_of_provider config) (\<lambda>provider_type.
          hbind (client_id_of config) (\<lambda>client_id.
          hbind (client_secret_of env config) (\<lambda>client_secret.
          hbind (get_site_url env) (\<lambda>site_url.
          hbind (ask_provider env now provider_type auth_code client_id client_secret
            (site_url @ ''/api/v1/oauth2/'' @ provider_key @ ''/callback'') st config) (\<lambda>(email, user_info).
          hbind (find_or_create_user env now email user_info config provider_key) (\<lambda>user.
          hbind (htry (if ui_groups user_info = [] then hreturn () else sync_oidc_groups env (usr_id user) provider_key (ui_groups user_info))) (\<lambda>_.
          hbind (hdo (\<lambda>s. s\<lparr>db_statements := sx_after_membership (se_sign env) (db_statements s)\<rparr>)) (\<lambda>_.
          hbind (create_code_for env now user (mobile_challenge st)) (\<lambda>code_text.
          hbind (get_site_url env) (\<lambda>site_url.
          if os_is_mobile st
          then hreturn (append_query_param env (append_query_param env (append_query_param env
                 (case os_mobile_redirect_to st of Some r \<Rightarrow> r | None \<Rightarrow> ''rustchat://callback'') ''login_code'' code_text)
                   ''code'' code_text) ''srv'' site_url, None)
          else hreturn (append_query_param env (os_redirect_after st) ''oauth'' ''1'',
                 Some (build_exchange_code_cookie code_text (sx_production (se_sign env)))))))))))))))))))"

section \<open>Old addresses, and the list of providers\<close>

definition resolve_legacy_service_provider_key :: "'r sso_env \<Rightarrow> string \<Rightarrow> string sso" where
  "resolve_legacy_service_provider_key env service =
     (let normalized = to_ascii_lowercase (trim service);
          mapped = (if normalized = ''google'' then Some ''google'' else if normalized = ''github'' then Some ''github''
            else if normalized \<in> {''gitlab'', ''office365'', ''openid''} then Some ''oidc'' else None)
      in if normalized = [] then hfail (BadRequest ''Invalid OAuth service'')
         else hbind (sso_query env (\<lambda>s. sort_key (\<lambda>c. - sc_updated_at c) (sort_key (\<lambda>c. - sc_created_at c) (filter sc_is_active (so_configs s))))) (\<lambda>providers.
              hbind (hsome_of
                (case find (\<lambda>c. eq_ignore_ascii_case (sc_provider_key c) normalized \<or> eq_ignore_ascii_case (sc_provider c) normalized) providers of
                   Some exact \<Rightarrow> Some exact
                 | None \<Rightarrow>
                     (case mapped of
                        None \<Rightarrow> None
                      | Some provider_type \<Rightarrow>
                          (case (if provider_type = ''oidc''
                                 then find (\<lambda>c. sc_provider_type c = ''oidc'' \<and> sc_provider_key c = se_keycloak_provider_key env) providers
                                 else None) of
                             Some preferred \<Rightarrow> Some preferred
                           | None \<Rightarrow> find (\<lambda>c. sc_provider_type c = provider_type) providers)))
                (NotFound (''OAuth provider '' @ quoted_name service @ '' not found or disabled''))) (\<lambda>c.
              hreturn (sc_provider_key c))))"

definition legacy_oauth_login :: "'r sso_env \<Rightarrow> string \<Rightarrow> string option \<Rightarrow> string sso" where
  "legacy_oauth_login env service redirect_to =
     hbind (resolve_legacy_service_provider_key env service) (\<lambda>provider_key.
     hreturn (''/api/v1/oauth2/'' @ provider_key @ ''/login''
       @ (case given redirect_to of Some r \<Rightarrow> ''?redirect_uri='' @ se_urlencode env r | None \<Rightarrow> [])))"

definition legacy_param :: "'r sso_env \<Rightarrow> string \<Rightarrow> string option \<Rightarrow> string list" where
  "legacy_param env name value = (case given value of Some v \<Rightarrow> [name @ ''='' @ se_urlencode env v] | None \<Rightarrow> [])"

definition legacy_oauth_mobile_login ::
  "'r sso_env \<Rightarrow> string \<Rightarrow> string option \<Rightarrow> string option \<Rightarrow> string option \<Rightarrow> string option \<Rightarrow> string sso" where
  "legacy_oauth_mobile_login env service redirect_to state code_challenge code_challenge_method =
     hbind (resolve_legacy_service_provider_key env service) (\<lambda>provider_key.
     hbind (get_mobile_custom_url_schemes env) (\<lambda>app_custom_url_schemes.
     hbind (case redirect_to of
              None \<Rightarrow> hreturn []
            | Some r \<Rightarrow> hbind (hlift (validate_mobile_redirect_to env r app_custom_url_schemes)) (\<lambda>validated.
                hreturn [''redirect_to='' @ se_urlencode env validated])) (\<lambda>redirect_param.
     hreturn (''/api/v1/oauth2/'' @ provider_key @ ''/login?'' @ joined ''&'' ([''mobile=true''] @ redirect_param
       @ legacy_param env ''state'' state @ legacy_param env ''code_challenge'' code_challenge
       @ legacy_param env ''code_challenge_method'' code_challenge_method)))))"

record oauth_provider_info =
  opi_id :: string
  opi_provider_key :: string
  opi_provider_type :: string
  opi_display_name :: string
  opi_login_url :: string

definition provider_info :: "'r sso_env \<Rightarrow> string \<Rightarrow> sso_config \<Rightarrow> oauth_provider_info" where
  "provider_info env site_url c =
     \<lparr>opi_id = au_show (sx_auth (se_sign env)) (sc_id c), opi_provider_key = sc_provider_key c, opi_provider_type = sc_provider_type c,
      opi_display_name = (case sc_display_name c of
          Some n \<Rightarrow> n
        | None \<Rightarrow> if sc_provider_type c = ''github'' then ''GitHub'' else if sc_provider_type c = ''google'' then ''Google''
                  else if sc_provider_type c = ''oidc'' then ''SSO'' else sc_provider_key c),
      opi_login_url = site_url @ ''/api/v1/oauth2/'' @ sc_provider_key c @ ''/login''\<rparr>"

definition list_providers :: "'r sso_env \<Rightarrow> (oauth_provider_info list) sso" where
  "list_providers env =
     hbind (sso_query env db_authentication) (\<lambda>row.
     if (case row of Some config \<Rightarrow> \<not> enable_sso config | None \<Rightarrow> True) then hreturn []
     else hbind (sso_query env (\<lambda>s. filter sc_is_active (so_configs s))) (\<lambda>configs.
          hbind (get_site_url env) (\<lambda>site_url. hreturn (map (provider_info env site_url) configs))))"

end
