(* ===== verification/Sso_Properties.thy ===== *)
theory Sso_Properties
  imports Sso
begin

text \<open>What one-time codes and the callback of a provider guarantee, and what they do not.\<close>

section \<open>Trading a code\<close>

abbreviation code_key :: "string \<Rightarrow> string" where
  "code_key c \<equiv> OAUTH_CODE_PREFIX @ c"

lemma redis_get_done: "redis_get x err s = (Inr u, t) \<longleftrightarrow> sx_redis_pool x (db_statements s) = None \<and> t = s\<lparr>db_statements := Suc (db_statements s)\<rparr>"
  by (auto simp: redis_get_def handler_done statement_done)

lemma redis_run_done:
  "redis_run x err text f s = (Inr y, t) \<longleftrightarrow>
     sx_redis x (db_statements s) = None \<and> f (s\<lparr>db_statements := Suc (db_statements s)\<rparr>) = (y, t)"
  by (auto simp: redis_run_def handler_done statement_done)

lemma exchange_cases:
  "case exchange_code_internal env now c v s of
     (Inr p, t) \<Rightarrow> (\<exists>ends. hm_get (so_codes s) (code_key c) = Some (p, ends) \<and> now < ends)
       \<and> now div 1000 - xp_created_at p \<le> 60 \<and> verify_sso_metadata (ce_challenge env) p v = Inr ()
       \<and> so_codes t = hm_remove (code_key c) (so_codes s) \<and> db_statements s < db_statements t
   | (Inl e, t) \<Rightarrow> so_codes t = hm_remove (code_key c) (so_codes s) \<or> so_codes t = so_codes s \<and> (\<exists>msg. e = ExchangeInternal msg)"
  by (auto simp: exchange_code_internal_def redis_get_def redis_run_def statement_def handler_defs Let_def live_def
      OAUTH_CODE_TTL_SECONDS_def split: option.splits sum.splits prod.splits if_splits)

text \<open>A code is traded only if it was stored, is not older than a minute and the proof it asks for is given; reading it
  deletes it, also when the proof fails, and only a failure of Redis leaves it.\<close>

theorem exchange_exact:
  "case exchange_code_internal env now c v s of
     (Inr p, t) \<Rightarrow> (\<exists>ends. hm_get (so_codes s) (code_key c) = Some (p, ends) \<and> now < ends)
       \<and> now div 1000 - xp_created_at p \<le> 60 \<and> verify_sso_metadata (ce_challenge env) p v = Inr ()
       \<and> so_codes t = hm_remove (code_key c) (so_codes s)
   | (Inl e, t) \<Rightarrow> so_codes t = hm_remove (code_key c) (so_codes s) \<or> so_codes t = so_codes s \<and> (\<exists>msg. e = ExchangeInternal msg)"
  using exchange_cases [where env = env and now = now and c = c and v = v and s = s] by (auto split: prod.splits sum.splits)

datatype code_op =
    IssueCode int uuid string string "uuid option" "sso_exchange_challenge option"
  | TradeCode int string "(string \<times> string) option"

fun code_next :: "'r code_env \<Rightarrow> code_op \<Rightarrow> sso_db \<Rightarrow> sso_db" where
  "code_next env (IssueCode now user_id email role org_id challenge) s =
     snd (create_exchange_code_with_sso env now user_id email role org_id challenge s)"
| "code_next env (TradeCode now c v) s = snd (exchange_code_internal env now c v s)"

definition code_step :: "'r code_env \<Rightarrow> sso_db \<Rightarrow> code_op \<Rightarrow> sso_db \<Rightarrow> bool" where
  "code_step env s e t \<longleftrightarrow> t = code_next env e s"

text \<open>The entry of the \<open>n\<close>-th code, once it was issued, is never replaced.\<close>

definition held :: "'r code_env \<Rightarrow> nat \<Rightarrow> (exchange_code_payload \<times> int) option \<Rightarrow> sso_db \<Rightarrow> bool" where
  "held env n entry s \<longleftrightarrow> n < db_statements s \<and> hm_get (so_codes s) (code_key (ce_code env n)) \<in> {None, entry}"

lemma held_step:
  assumes "inj (ce_code env)" and "held env n entry s"
  shows "held env n entry (code_next env e s)"
proof (cases e)
  case (IssueCode now u em r org ch)
  have "ce_code env (db_statements s) \<noteq> ce_code env n" using assms by (auto simp: held_def inj_eq)
  with assms(2) show ?thesis
    by (auto simp: IssueCode held_def create_exchange_code_with_sso_def redis_get_def redis_run_def statement_def handler_defs
        Let_def split: option.splits)
next
  case (TradeCode now c v)
  with assms(2) show ?thesis
    by (auto simp: held_def exchange_code_internal_def redis_get_def redis_run_def statement_def handler_defs Let_def
        split: option.splits sum.splits if_splits)
qed

lemma held_steps: "steps (code_step env) s ops t \<Longrightarrow> inj (ce_code env) \<Longrightarrow> held env n entry s \<Longrightarrow> held env n entry t"
  by (induction rule: steps.induct) (auto simp: code_step_def intro: held_step)

text \<open>C13. A code works once: after it was traded no later trade of it succeeds, whatever codes are issued and traded in
  between, as long as the generator does not repeat itself.\<close>

theorem code_single_use:
  assumes "inj (ce_code env)" and "n < db_statements s"
    and "fst (exchange_code_internal env now (ce_code env n) v s) = Inr p"
    and "steps (code_step env) (snd (exchange_code_internal env now (ce_code env n) v s)) ops t"
  shows "\<exists>e. fst (exchange_code_internal env now' (ce_code env n) v' t) = Inl e"
proof -
  let ?x = "exchange_code_internal env now (ce_code env n) v s"
  have "held env n None (snd ?x)"
    using assms(2,3) exchange_cases [where env = env and now = now and c = "ce_code env n" and v = v and s = s] by (auto simp: held_def split: prod.splits)
  then have "hm_get (so_codes t) (code_key (ce_code env n)) = None"
    using held_steps [OF assms(4,1)] by (auto simp: held_def)
  then show ?thesis
    using exchange_cases [where env = env and now = now' and c = "ce_code env n" and v = v' and s = t] by (auto split: prod.splits sum.splits)
qed

text \<open>C11. A code that was issued with a challenge is traded only for the state and the verifier that belong to it, within a
  minute, and for the account it was issued for, whatever other codes are issued and traded in between.\<close>

theorem bound_code_needs_proof:
  assumes "inj (ce_code env)"
    and "create_exchange_code_with_sso env now user_id email role org_id (Some ch) s = (Inr c, t)"
    and "steps (code_step env) t ops w" and "fst (exchange_code_internal env later c v w) = Inr p"
  shows "\<exists>verifier. v = Some (verifier, sec_expected_state ch) \<and> later < now + 60000 \<and> xp_user_id p = user_id \<and> xp_role p = role
    \<and> (if sec_code_challenge_method ch = [] then verifier else ce_challenge env verifier) = sec_code_challenge ch"
proof -
  let ?p = "\<lparr>xp_user_id = user_id, xp_email = email, xp_role = role, xp_org_id = org_id, xp_created_at = now div 1000,
      xp_expected_state = Some (sec_expected_state ch), xp_code_challenge = Some (sec_code_challenge ch),
      xp_code_challenge_method = Some (sec_code_challenge_method ch)\<rparr>"
  have c: "c = ce_code env (db_statements s)" and "held env (db_statements s) (Some (?p, now + 60000)) t"
    using assms(2) by (auto simp: create_exchange_code_with_sso_def hask_def handler_done redis_get_done redis_run_done
        held_def OAUTH_CODE_TTL_SECONDS_def)
  then have "hm_get (so_codes w) (code_key c) \<in> {None, Some (?p, now + 60000)}"
    using held_steps [OF assms(3,1)] by (simp add: held_def c)
  then have "p = ?p" "later < now + 60000" "verify_sso_metadata (ce_challenge env) ?p v = Inr ()"
    using assms(4) exchange_cases [where env = env and now = later and c = c and v = v and s = w] by (auto split: prod.splits)
  then show ?thesis
    by (auto simp: verify_sso_metadata_def Let_def to_ascii_uppercase_def split: option.splits if_splits prod.splits)
qed

text \<open>The proof is not mandatory: a code that was issued without a challenge is traded whatever verifier and state are given.
  A mobile client whose log-in leaves out one of them gets such a code.\<close>

lemma unbound_code_needs_nothing:
  assumes "sx_redis_pool (ce_sign env) = no_failure" and "sx_redis (ce_sign env) = no_failure"
    and "create_exchange_code env now user_id email role org_id s = (Inr c, t)"
  shows "\<exists>p. fst (exchange_code_with_sso_verification env now c verifier state t) = Inr p \<and> xp_user_id p = user_id"
  using assms by (auto simp: create_exchange_code_def create_exchange_code_with_sso_def hask_def handler_done redis_get_done
      redis_run_done exchange_code_with_sso_verification_def exchange_code_internal_def redis_get_def redis_run_def statement_def
      handler_defs Let_def live_def OAUTH_CODE_TTL_SECONDS_def verify_sso_metadata_def no_failure_def)

lemma incomplete_challenge_is_dropped:
  "os_mobile_sso_state st = None \<or> os_mobile_sso_code_challenge st = None \<Longrightarrow> mobile_challenge st = None"
  by (auto simp: mobile_challenge_def split: option.splits)

section \<open>The account of an identity\<close>

lemma find_filter: "find P xs = (case filter P xs of [] \<Rightarrow> None | b # _ \<Rightarrow> Some b)"
  by (induction xs) auto

lemma sso_query_step:
  "sso_query env q s = (Inr x, t) \<Longrightarrow> x = q t \<and> (\<exists>n. t = s\<lparr>db_statements := n\<rparr>)"
  by (auto simp: sso_query_def sso_sql_def handler_done statement_done)

lemma find_by_id: "distinct (map usr_id rows) \<Longrightarrow> b \<in> set rows \<Longrightarrow> find (\<lambda>a. usr_id a = usr_id b) rows = Some b"
  by (induction rows) auto

lemma find_update_id:
  assumes "distinct (map usr_id rows)" and "b \<in> set rows" and "\<And>a. usr_id (f a) = usr_id a"
  shows "find (\<lambda>a. usr_id a = usr_id b) (update_where (\<lambda>a. usr_id a = usr_id b) f rows) = Some (f b)"
  using assms(1,2) by (induction rows) (auto simp: update_where_def assms(3))

lemma update_returning_step:
  assumes "update_returning env u f s = (Inr a, t)" and "distinct (map usr_id (db_accounts s))" and "b \<in> set (db_accounts s)"
    and "u = usr_id b" and "\<And>a. usr_id (f a) = usr_id a"
  shows "a = f b \<and> db_accounts t = update_where (\<lambda>x. usr_id x = u) f (db_accounts s)"
  using assms find_update_id [OF assms(2,3,5)]
  by (auto simp: update_returning_def sso_sql_def handler_done statement_done Let_def)

lemma signed_on_id [simp]: "usr_id (signed_on now r a) = usr_id a" "usr_id (link_to k x a) = usr_id a"
  by (simp_all add: signed_on_def link_to_def)

lemma first_free_accounts: "first_free env base i s = (Inr r, t) \<Longrightarrow> \<exists>n. t = s\<lparr>db_statements := n\<rparr>"
proof (induction env base i arbitrary: s rule: first_free.induct)
  case (1 env base i)
  show ?case
  proof (cases "1000 \<le> i")
    case True
    with 1 show ?thesis by (auto simp: first_free.simps [of env base i] hbasic_done intro: exI [of _ "db_statements s"])
  next
    case False
    with 1 obtain e u where u: "\<exists>n. u = s\<lparr>db_statements := n\<rparr>"
      "(if e then first_free env base (Suc i) else hreturn (Some (username_candidate base i))) u = (Inr r, t)"
      by (auto simp: first_free.simps [of env base i] dest!: sso_query_step elim!: hbindE)
    then show ?thesis using 1(1) [OF False, of e u] by (auto simp: hbasic_done split: if_splits)
  qed
qed

lemma generate_step: "generate_unique_username env base s = (Inr r, t) \<Longrightarrow> \<exists>n. t = s\<lparr>db_statements := n\<rparr>"
  by (auto simp: generate_unique_username_def hask_def handler_done
      dest!: first_free_accounts split: option.splits)

lemma create_sso_user_step:
  assumes "create_sso_user env email info config pk role ext s = (Inr a, t)"
  shows "db_accounts t = db_accounts s @ [a] \<and> (\<exists>row name. a = sso_account row name email info role pk ext (sc_org_id config))
    \<and> (\<forall>b \<in> set (db_accounts s). usr_email b \<noteq> email)"
  using assms
  by (auto simp: create_sso_user_def handler_done statement_done list_ex_iff Let_def dest!: generate_step
      split: option.splits if_splits)

lemma sign_on_step:
  assumes "sign_on_by_address env now pk ext role b s = (Inr a, t)" and "distinct (map usr_id (db_accounts s))"
    and "b \<in> set (db_accounts s)"
  defines "f \<equiv> \<lambda>x. signed_on now role ((if ext \<noteq> None \<and> acc_auth_provider_id b = None then link_to pk ext else id) x)"
  shows "(acc_auth_provider_id b = None \<or> acc_auth_provider b = Some pk \<and> acc_auth_provider_id b = ext) \<and> a = f b
    \<and> db_accounts t = update_where (\<lambda>x. usr_id x = usr_id b) f (db_accounts s)"
proof -
  have find: "find (\<lambda>a. usr_id a = usr_id b) (db_accounts s) = Some b"
    by (rule find_by_id [OF assms(2,3)])
  have f_eq: "f = (\<lambda>x. signed_on now role (if ext \<noteq> None \<and> acc_auth_provider_id b = None then link_to pk ext x else x))"
    by (simp add: f_def fun_eq_iff)
  obtain u where ok: "acc_auth_provider_id b = None \<or> acc_auth_provider b = Some pk \<and> ext = acc_auth_provider_id b"
    and u: "db_accounts u = db_accounts s"
    and upd: "update_returning env (usr_id b) f u = (Inr a, t)"
    by (rule that [of "s\<lparr>db_statements := Suc (db_statements s)\<rparr>"])
      (use assms(1) find in \<open>auto simp: sign_on_by_address_def handler_done fetch_one_done f_eq\<close>)
  have "usr_id (f x) = usr_id x" for x by (simp add: f_def)
  with ok u show ?thesis using update_returning_step [where b = b, OF upd _ _ refl] assms(2,3) by auto
qed

text \<open>C12. Which account an identity gets: the one linked to it; without such a one the live account with its address, which
  must not be linked to another identity and is linked to this one if to none; without either, and only if the provider
  may make accounts, a new one with the provider's organisation and the mapped role. Nothing else about accounts changes.\<close>

theorem find_or_create_exact:
  assumes "find_or_create_user env now email info config pk s = (Inr a, t)" and "distinct (map usr_id (db_accounts s))"
  defines "ext \<equiv> given (ui_external_id info)" and "role \<equiv> synced_role config (determine_user_role config info)"
    and "linked \<equiv> filter (\<lambda>b. \<exists>x. given (ui_external_id info) = Some x \<and> has_identity pk x b) (db_accounts s)"
    and "addressed_to \<equiv> filter (has_address email) (db_accounts s)"
  shows "if linked \<noteq> []
    then a = signed_on now role (hd linked) \<and> db_accounts t = update_where (\<lambda>x. usr_id x = usr_id a) (signed_on now role) (db_accounts s)
    else if addressed_to \<noteq> []
    then (let b = hd addressed_to; link = (if ext \<noteq> None \<and> acc_auth_provider_id b = None then link_to pk ext else id)
          in (acc_auth_provider_id b = None \<or> acc_auth_provider b = Some pk \<and> acc_auth_provider_id b = ext)
             \<and> a = signed_on now role (link b)
             \<and> db_accounts t = update_where (\<lambda>x. usr_id x = usr_id a) (\<lambda>x. signed_on now role (link x)) (db_accounts s))
    else sc_auto_provision config \<and> db_accounts t = db_accounts s @ [a]
      \<and> (\<exists>row name r. a = sso_account row name email info r pk ext (sc_org_id config)
           \<and> (determine_user_role config info \<noteq> [] \<longrightarrow> r = determine_user_role config info))"
proof -
  obtain by_ext s1 where q: "(case ext of None \<Rightarrow> hreturn None
        | Some x \<Rightarrow> sso_query env (\<lambda>s. find (has_identity pk x) (db_accounts s))) s = (Inr by_ext, s1)"
    and run: "(case by_ext of
           Some user \<Rightarrow> update_returning env (usr_id user) (signed_on now role)
         | None \<Rightarrow>
             hbind (sso_query env (\<lambda>s. find (has_address email) (db_accounts s))) (\<lambda>by_email.
             case by_email of
               Some user \<Rightarrow> sign_on_by_address env now pk ext role user
             | None \<Rightarrow>
                 if \<not> sc_auto_provision config
                 then hfail (Forbidden ''Account does not exist and auto-provisioning is disabled'')
                 else create_sso_user env email info config pk
                        (if determine_user_role config info = [] then (case sc_default_role config of Some r \<Rightarrow> r | None \<Rightarrow> ''member'')
                         else determine_user_role config info) ext)) s1 = (Inr a, t)"
    using assms(1) unfolding find_or_create_user_def Let_def ext_def role_def by (elim hbindE) blast
  have by_ext: "by_ext = (case linked of [] \<Rightarrow> None | b # _ \<Rightarrow> Some b)" and rows: "db_accounts s1 = db_accounts s"
    using q by (auto simp: linked_def find_filter ext_def [symmetric] hbasic_done dest!: sso_query_step split: option.splits)
  show ?thesis
  proof (cases linked)
    case (Cons b bs)
    then have "b \<in> set linked" by simp
    then have "b \<in> set (db_accounts s)" by (simp add: linked_def)
    moreover from run by_ext Cons have "update_returning env (usr_id b) (signed_on now role) s1 = (Inr a, t)" by simp
    ultimately have "a = signed_on now role b \<and> db_accounts t = update_where (\<lambda>x. usr_id x = usr_id b) (signed_on now role) (db_accounts s)"
      using update_returning_step [of env "usr_id b" "signed_on now role" s1 a t b] rows assms(2) by simp
    with Cons show ?thesis by simp
  next
    case Nil
    with run by_ext obtain by_email s2 where q2: "sso_query env (\<lambda>s. find (has_address email) (db_accounts s)) s1 = (Inr by_email, s2)"
      and run2: "(case by_email of
               Some user \<Rightarrow> sign_on_by_address env now pk ext role user
             | None \<Rightarrow>
                 if \<not> sc_auto_provision config
                 then hfail (Forbidden ''Account does not exist and auto-provisioning is disabled'')
                 else create_sso_user env email info config pk
                        (if determine_user_role config info = [] then (case sc_default_role config of Some r \<Rightarrow> r | None \<Rightarrow> ''member'')
                         else determine_user_role config info) ext) s2 = (Inr a, t)"
      by (auto elim: hbindE)
    have by_email: "by_email = (case addressed_to of [] \<Rightarrow> None | b # _ \<Rightarrow> Some b)" and rows2: "db_accounts s2 = db_accounts s"
      using q2 rows by (auto simp: addressed_to_def find_filter dest!: sso_query_step)
    show ?thesis
    proof (cases addressed_to)
      case Nil2: Nil
      then show ?thesis
        using run2 by_email rows2 Nil by (auto simp: hbasic_done split: if_splits dest!: create_sso_user_step)
    next
      case (Cons b bs)
      then have "b \<in> set addressed_to" by simp
      then have b: "b \<in> set (db_accounts s2)" by (simp add: addressed_to_def rows2)
      from Cons run2 by_email have sg: "sign_on_by_address env now pk ext role b s2 = (Inr a, t)" by simp
      from assms(2) have "distinct (map usr_id (db_accounts s2))" by (simp add: rows2)
      from sign_on_step [OF sg this b] show ?thesis
        using Nil Cons by (auto simp: Let_def rows2)
    qed
  qed
qed

text \<open>With an OpenID provider every sign-on of a known account sets its role to the mapped one, which is that of a member
  when nothing is configured: a role that was given by hand does not last.\<close>

lemma oidc_sign_on_resets_role:
  assumes "sc_provider_type config = ''oidc''" and "determine_user_role config info \<noteq> []"
  shows "usr_role (signed_on now (synced_role config (determine_user_role config info)) a) = determine_user_role config info"
    and "sc_role_mappings config = None \<Longrightarrow> sc_default_role config = None \<Longrightarrow> determine_user_role config info = ''member''"
proof -
  have "List.map_filter (\<lambda>_. None :: string option) xs = []" for xs :: "string list"
    by (induction xs) (simp_all add: List.map_filter_simps)
  then show "sc_role_mappings config = None \<Longrightarrow> sc_default_role config = None \<Longrightarrow> determine_user_role config info = ''member''"
    by (simp add: determine_user_role_def)
  show "usr_role (signed_on now (synced_role config (determine_user_role config info)) a) = determine_user_role config info"
    using assms by (simp add: signed_on_def synced_role_def)
qed

text \<open>Whether an address is verified is asked of ID tokens only, and there only an explicit denial counts: what the user info
  endpoint says about it is ignored, and the address then finds the account to sign on to.\<close>

lemma unverified_address_accepted:
  assumes "pv_discover pv issuer = Inr d" and "\<And>form. pv_oidc_token pv (dr_token_endpoint d) form = Inr (200, b, Inr tokens)"
    and "tr_id_token tokens = None" and "dr_userinfo_endpoint d = Some endpoint"
    and "pv_userinfo pv endpoint (tr_access_token tokens) = Inr (200, b', Inr u)"
    and "uir_email_verified u = Some False" and "sc_provider_type config \<noteq> ''google''"
  shows "\<exists>info. fst (exchange_oidc_token pv now c client_id secret uri issuer verifier nonce config s) = Inr (or_empty (uir_email u), info)"
  using assms by (simp add: exchange_oidc_token_def read_json_def check_domain_def handler_defs)

section \<open>The callback\<close>

lemma take_state_step:
  assumes "take_state env now pk state s = (Inr st, t)"
  shows "live now (hm_get (so_states s) (oauth_state_key state)) = Some st \<and> os_provider_key st = pk
    \<and> now div 1000 - os_created_at st \<le> 300
    \<and> (\<exists>n. t = s\<lparr>db_statements := n, so_states := hm_remove (oauth_state_key state) (so_states s)\<rparr>)"
  using assms by (auto simp: take_state_def Let_def handler_done redis_get_done redis_run_done OAUTH_STATE_TTL_SECONDS_def
      split: if_splits)

lemma found: "Some c = find P xs \<Longrightarrow> c \<in> set xs \<and> P c"
  using find_Some_iff [of P xs c] by auto

lemma provider_config_step:
  "provider_config env pk m s = (Inr c, t) \<Longrightarrow>
     c \<in> set (so_configs s) \<and> sc_provider_key c = pk \<and> sc_is_active c \<and> (\<exists>n. t = s\<lparr>db_statements := n\<rparr>)"
  by (auto simp: provider_config_def handler_done dest!: sso_query_step found)

lemma site_url_step: "get_site_url env s = (Inr x, t) \<Longrightarrow> \<exists>n. t = s\<lparr>db_statements := n\<rparr>"
  by (auto simp: get_site_url_def fetch_def statement_def handler_defs Let_def split: option.splits)

lemma pure_steps:
  "client_id_of config s = (r1, t) \<Longrightarrow> t = s" "type_of_provider config s = (r2, t) \<Longrightarrow> t = s"
  "client_secret_of env config s = (r3, t) \<Longrightarrow> t = s"
  by (auto simp: client_id_of_def type_of_provider_def client_secret_of_def handler_defs split: option.splits sum.splits if_splits)

definition stateless :: "'a sso \<Rightarrow> bool" where
  "stateless h \<longleftrightarrow> (\<forall>s. snd (h s) = s)"

named_theorems stateless_intros "handlers that leave the state alone"

lemma stateless_bind [stateless_intros]:
  assumes "stateless h" and "\<And>x. stateless (f x)"
  shows "stateless (hbind h f)"
  unfolding stateless_def
proof
  fix s
  show "snd (hbind h f s) = s"
    using assms by (cases "h s"; cases "fst (h s)") (auto simp: stateless_def hbind_def dest: spec [of _ s])
qed

lemma stateless_rules [stateless_intros]:
  "stateless (hreturn x)" "stateless (hfail e)" "stateless (hlift r)" "stateless (hguard P e)" "stateless (hsome_of y e)"
  by (auto simp: stateless_def handler_defs split: option.splits)

lemma stateless_cases [stateless_intros]:
  "stateless a \<Longrightarrow> (\<And>y. stateless (b y)) \<Longrightarrow> stateless (case x of None \<Rightarrow> a | Some y \<Rightarrow> b y)"
  "stateless c \<Longrightarrow> stateless d \<Longrightarrow> stateless (if q then c else d)"
  "(\<And>u v. stateless (f u v)) \<Longrightarrow> stateless (case z of (u, v) \<Rightarrow> f u v)"
  by (auto split: option.splits prod.splits)

lemma ask_provider_stateless: "stateless (ask_provider env now ptype c i sec url st config)"
  unfolding ask_provider_def exchange_github_token_def exchange_oidc_token_def check_github_membership_def
  by (cases ptype) (auto intro!: stateless_intros)

lemma stateless_step: "stateless h \<Longrightarrow> h s = (r, t) \<Longrightarrow> t = s"
  by (metis snd_conv stateless_def)

lemma htry_done: "htry h s = (Inr r, t) \<longleftrightarrow> h s = (r, t)"
  by (auto simp: htry_def split: prod.splits)

text \<open>States are not touched by what follows taking one.\<close>

lemma states_sql [keeping]:
  "keeps (\<lambda>s. I (so_states s)) (\<lambda>s. snd (f s)) \<Longrightarrow> hoare (\<lambda>s. I (so_states s)) (sso_sql env f) (\<lambda>s. I (so_states s))"
  unfolding sso_sql_def by (intro keeping) auto

lemma states_query [keeping]: "hoare (\<lambda>s. I (so_states s)) (sso_query env q) (\<lambda>s. I (so_states s))"
  unfolding sso_query_def by (intro keeping) (simp add: keeps_def)

lemma states_update [keeping]: "hoare (\<lambda>s. I (so_states s)) (update_returning env u g) (\<lambda>s. I (so_states s))"
  unfolding update_returning_def by (intro keeping) (simp add: keeps_def Let_def)

lemma states_first_free [keeping]: "hoare (\<lambda>s. I (so_states s)) (first_free env base i) (\<lambda>s. I (so_states s))"
  by (induction env base i rule: first_free.induct) (subst first_free.simps, auto intro!: keeping)

lemma find_or_create_states:
  "hoare (\<lambda>s. I (so_states s)) (find_or_create_user env now email info config pk) (\<lambda>s. I (so_states s))"
  unfolding find_or_create_user_def sign_on_by_address_def create_sso_user_def generate_unique_username_def fetch_one_def fetch_def Let_def
  by (auto intro!: keeping simp: keeps_def split: option.split)

lemma sync_states: "hoare (\<lambda>s. I (so_states s)) (sync_oidc_groups env u pk groups) (\<lambda>s. I (so_states s))"
proof (rule hoareI)
  fix s :: sso_db assume I: "I (so_states s)"
  let ?body = "heach (\<lambda>group.
      let group_name = trim group;
          normalized_name = map (\<lambda>c. if c = CHR '' '' then CHR ''_'' else c) (to_lowercase group_name)
      in if group_name = [] then hreturn ()
         else hbind (sso_sql env (\<lambda>s. put_group (se_uuid env (db_statements s)) normalized_name group_name (''oidc:'' @ pk) s)) (\<lambda>group_id.
              sso_sql env (\<lambda>s. ((), if (group_id, u) \<in> set (so_group_members s) then s
                else s\<lparr>so_group_members := so_group_members s @ [(group_id, u)]\<rparr>)))) groups"
  have put: "so_states (snd (put_group g n d src x)) = so_states x" for g n d src x
    by (auto simp: put_group_def Let_def split: option.splits)
  have body: "hoare (\<lambda>s. I (so_states s)) ?body (\<lambda>s. I (so_states s))"
    unfolding Let_def by (intro keeping) (auto simp: keeps_def put)
  have control: "hoare (\<lambda>s. I (so_states s)) (hmap_err (\<lambda>_. e) (sql_execute down id)) (\<lambda>s. I (so_states s))" for e :: app_error and down
    unfolding sql_execute_def by (intro keeping) (auto simp: keeps_def)
  have "hoare (\<lambda>s. I (so_states s)) (hbind (hmap_err (\<lambda>_. Database []) (sql_execute (sx_down (se_sign env)) id)) (\<lambda>_.
      hbind ?body (\<lambda>x. hbind (hmap_err (\<lambda>_. Database []) (sql_execute (sx_down (se_sign env)) id)) (\<lambda>_. hreturn x)))) (\<lambda>s. I (so_states s))"
    by (intro keeping control body)
  from hoareD [OF this, of s] I show "I (so_states (snd (sync_oidc_groups env u pk groups s)))"
    unfolding sync_oidc_groups_def transaction_or_def Let_def by (auto split: prod.splits sum.splits)
qed

definition payload_for :: "int \<Rightarrow> account \<Rightarrow> sso_exchange_challenge option \<Rightarrow> exchange_code_payload" where
  "payload_for now a challenge =
     \<lparr>xp_user_id = usr_id a, xp_email = usr_email a, xp_role = usr_role a, xp_org_id = usr_org_id a, xp_created_at = now div 1000,
      xp_expected_state = map_option sec_expected_state challenge, xp_code_challenge = map_option sec_code_challenge challenge,
      xp_code_challenge_method = map_option sec_code_challenge_method challenge\<rparr>"

lemma create_code_step:
  assumes "create_code_for env now a ch s = (Inr c, t)"
  shows "hm_get (so_codes t) (code_key c) = Some (payload_for now a ch, now + 60000) \<and> so_states t = so_states s"
  using assms by (auto simp: create_code_for_def create_exchange_code_def create_exchange_code_with_sso_def hask_def handler_done
      redis_get_done redis_run_done payload_for_def OAUTH_CODE_TTL_SECONDS_def split: if_splits)

text \<open>The provider answered with an address and an identity for the authorization code of a request.\<close>

definition vouched :: "'r sso_env \<Rightarrow> int \<Rightarrow> oauth_callback_query \<Rightarrow> oauth_state_payload \<Rightarrow> sso_config \<Rightarrow> string \<Rightarrow> sso_user_info \<Rightarrow> bool" where
  "vouched env now q st config email info \<longleftrightarrow>
     (\<exists>ptype auth_code client_id client_secret url u. sso_provider_type_of (sc_provider_type config) = Some ptype
        \<and> ocq_code q = Some auth_code \<and> sc_client_id config = Some client_id
        \<and> fst (ask_provider env now ptype auth_code client_id client_secret url st config u) = Inr (email, info))"


section \<open>Witnesses\<close>

definition demo_codes :: "(string \<Rightarrow> nat) code_env" where
  "demo_codes = \<lparr>ce_sign = demo_sign, ce_code = (\<lambda>n. replicate (n + 10) (CHR ''c'')), ce_challenge = (\<lambda>v. v @ ''!'')\<rparr>"

lemma demo_codes_inj: "inj (ce_code demo_codes)"
proof (rule injI)
  fix m n assume "ce_code demo_codes m = ce_code demo_codes n"
  then have "length (ce_code demo_codes m) = length (ce_code demo_codes n)" by simp
  then show "m = n" by (simp add: demo_codes_def)
qed

definition demo_sso_config :: sso_config where
  "demo_sso_config = \<lparr>sc_id = Uuid 60, sc_org_id = Uuid 61, sc_provider = ''github'', sc_provider_key = ''gh'', sc_provider_type = ''github'',
     sc_display_name = None, sc_issuer_url = None, sc_client_id = Some ''id'', sc_client_secret_encrypted = Some ''s'', sc_scopes = [],
     sc_is_active = True, sc_auto_provision = True, sc_default_role = None, sc_allow_domains = None, sc_github_org = None,
     sc_github_team = None, sc_groups_claim = None, sc_role_mappings = None, sc_created_at = 0, sc_updated_at = 0\<rparr>"

definition demo_provider :: provider_env where
  "demo_provider = \<lparr>pv_github_token = (\<lambda>_. Inr (200, [], Inr \<lparr>tr_access_token = ''a'', tr_id_token = None\<rparr>)),
     pv_github_user = (\<lambda>_. Inr (200, [], Inr \<lparr>gu_id = 5, gu_login = ''ann'', gu_name = None, gu_email = Some ''Ann@example.org''\<rparr>)),
     pv_github_emails = (\<lambda>_. Inr (200, [], Inr [])), pv_github_member = (\<lambda>_ _ _. Inr (204, [], Inr ())),
     pv_github_teams = (\<lambda>_ _. Inr (200, [], Inr [])), pv_github_team_member = (\<lambda>_ _ _. Inr (200, [], Inr ())),
     pv_discover = (\<lambda>_. Inl ''none''), pv_oidc_token = (\<lambda>_ _. Inl (Internal [])), pv_userinfo = (\<lambda>_ _. Inl (Internal [])),
     pv_decode_id_token = (\<lambda>_ _ _ _. Inl (Internal [])), pv_status_text = show_nat\<rparr>"

definition demo_sso :: "(string \<Rightarrow> nat) sso_env" where
  "demo_sso = \<lparr>se_codes = demo_codes, se_provider = demo_provider, se_uuid = (\<lambda>n. Uuid (word_of_nat n)),
     se_verifier = (\<lambda>_. ''v''), se_parse_url = (\<lambda>_. None), se_urlencode = id, se_decrypt = Inr, se_env_site_url = None,
     se_custom_schemes = (\<lambda>_. None), se_keycloak_provider_key = ''kc'', se_uuid_prefix = (\<lambda>_. ''0'')\<rparr>"

definition demo_sso_db :: sso_db where
  "demo_sso_db = sign_db.extend demo_sign_db (sso_db.fields [demo_sso_config] [] [] [] [])"

definition demo_visit :: oauth_login_query where
  "demo_visit = \<lparr>olq_redirect_uri = None, olq_redirect_to = None, olq_mobile = None, olq_state = None, olq_code_challenge = None,
     olq_code_challenge_method = None\<rparr>"

definition demo_return :: oauth_callback_query where
  "demo_return = \<lparr>ocq_code = Some ''x'', ocq_state = Some (au_show (sx_auth demo_sign) (Uuid 1)), ocq_error = None,
     ocq_error_description = None\<rparr>"

definition back_from_provider :: "(app_error + (string \<times> string option)) \<times> sso_db" where
  "back_from_provider = oauth_callback demo_sso 1000 ''gh'' demo_return (snd (oauth_login demo_sso 0 ''gh'' demo_visit demo_sso_db))"

lemma demo_returns: "fst back_from_provider = Inr (''/?oauth=1'', Some (build_exchange_code_cookie (replicate 24 (CHR ''c'')) False))"
  by code_simp


definition issued :: "sso_exchange_challenge option \<Rightarrow> sso_db" where
  "issued challenge = snd (create_exchange_code_with_sso demo_codes 0 (Uuid 7) ''a@b'' ''member'' None challenge demo_sso_db)"

lemma issued_traded:
  "0 < db_statements (issued None)"
  "fst (exchange_code_internal demo_codes 1000 (ce_code demo_codes 0) None (issued None)) =
     Inr (payload_for 0 (demo_account\<lparr>usr_email := ''a@b''\<rparr>) None)"
  by code_simp+

theorem code_single_use_witness:
  "\<exists>e. fst (exchange_code_internal demo_codes 2000 (ce_code demo_codes 0) None
     (snd (exchange_code_internal demo_codes 1000 (ce_code demo_codes 0) None (issued None)))) = Inl e"
  by (rule code_single_use [OF demo_codes_inj issued_traded steps_Nil])

definition demo_challenge :: sso_exchange_challenge where
  "demo_challenge = \<lparr>sec_expected_state = ''s'', sec_code_challenge = ''v!'', sec_code_challenge_method = ''S256''\<rparr>"

lemma bound_traded:
  "create_exchange_code_with_sso demo_codes 0 (Uuid 7) ''a@b'' ''member'' None (Some demo_challenge) demo_sso_db
     = (Inr (ce_code demo_codes 0), issued (Some demo_challenge))"
  "fst (exchange_code_internal demo_codes 1000 (ce_code demo_codes 0) (Some (''v'', ''s'')) (issued (Some demo_challenge))) =
     Inr (payload_for 0 (demo_account\<lparr>usr_email := ''a@b''\<rparr>) (Some demo_challenge))"
  by (simp_all add: issued_def prod_eq_iff) code_simp+

theorem bound_code_needs_proof_witness:
  "\<exists>verifier. (''v'', ''s'') = (verifier, sec_expected_state demo_challenge) \<and> ce_challenge demo_codes verifier = ''v!''"
  using bound_code_needs_proof [OF demo_codes_inj bound_traded(1) steps_Nil bound_traded(2)] by (simp add: demo_challenge_def)

definition ann_signs_on :: "(app_error + account) \<times> sso_db" where
  "ann_signs_on = find_or_create_user demo_sso 1000 ''Ann@example.org'' \<lparr>ui_email = ''Ann@example.org'', ui_name = None,
     ui_preferred_username = None, ui_groups = [], ui_external_id = Some ''5''\<rparr> demo_sso_config ''gh'' demo_sso_db"

lemma ann_known: "fst ann_signs_on = Inr (signed_on 1000 None (link_to ''gh'' (Some ''5'') demo_account))"
  by code_simp

theorem find_or_create_exact_witness:
  "db_accounts (snd ann_signs_on) = [signed_on 1000 None (link_to ''gh'' (Some ''5'') demo_account)]"
proof -
  have rows: "db_accounts demo_sso_db = [demo_account]" by code_simp
  have "ann_signs_on = (Inr (signed_on 1000 None (link_to ''gh'' (Some ''5'') demo_account)), snd ann_signs_on)"
    using ann_known by (metis prod.collapse)
  moreover have "filter (\<lambda>b. \<exists>x. given (Some ''5'') = Some x \<and> has_identity ''gh'' x b) [demo_account] = []"
    "filter (has_address ''Ann@example.org'') [demo_account] = [demo_account]" "given (Some ''5'') = Some ''5''"
    "synced_role demo_sso_config r = None" for r
    by (simp_all add: has_identity_def synced_role_def demo_sso_config_def) code_simp+
  ultimately show ?thesis
    using find_or_create_exact [of demo_sso 1000 "''Ann@example.org''" _ demo_sso_config "''gh''" demo_sso_db] rows
    unfolding ann_signs_on_def by (fastforce simp: update_where_def)
qed

end
